(* ===== verification/Faultcore_Prelude.thy ===== *)
theory Faultcore_Prelude
  imports Main "HOL-Library.Word"
begin

text \<open>
  Shared vocabulary of the development: names for the machine integers of the Rust
  sources, the saturating operations of \<open>core::num\<close> on them, and the generic lemmas
  on words, options, lists and maps that the component theories use.

  Conventions. A Rust \<open>u8/u16/u32/u64\<close> is a word of that width, so \<open>+\<close> and \<open>*\<close>
  wrap exactly as \<open>wrapping_add\<close> and \<open>wrapping_mul\<close> do. A \<open>usize\<close> that only
  counts or indexes is a \<open>nat\<close>; where the code computes with its 64 bits
  it is a \<open>u64\<close>. File descriptors (\<open>c_int\<close>) are \<open>int\<close>: the code only compares them and
  uses them as keys. Byte buffers are lists of \<open>u8\<close>.
\<close>

unbundle bit_operations_syntax

type_synonym u8 = "8 word"
type_synonym u16 = "16 word"
type_synonym u32 = "32 word"
type_synonym u64 = "64 word"
type_synonym bytes = "u8 list"
type_synonym fd = int

named_theorems sat_simps \<open>the saturating operations, read as natural numbers\<close>
named_theorems directive_simps \<open>the decision tables of the interceptor runtime\<close>

section \<open>Saturating arithmetic\<close>

definition saturating_add :: "'a::len word \<Rightarrow> 'a word \<Rightarrow> 'a word" where
  "saturating_add a b = (if unat a + unat b < 2 ^ LENGTH('a) then a + b else - 1)"

definition saturating_sub :: "'a::len word \<Rightarrow> 'a word \<Rightarrow> 'a word" where
  "saturating_sub a b = (if b \<le> a then a - b else 0)"

definition saturating_mul :: "'a::len word \<Rightarrow> 'a word \<Rightarrow> 'a word" where
  "saturating_mul a b = (if unat a * unat b < 2 ^ LENGTH('a) then a * b else - 1)"

lemma unat_minus_one_max: "unat (- 1 :: 'a::len word) = 2 ^ LENGTH('a) - 1"
  by (simp add: unsigned_minus_1_eq_mask mask_eq_exp_minus_1)

lemma unat_bound: "unat (a :: 'a::len word) < 2 ^ LENGTH('a)"
  by (rule unsigned_less)

lemma unat_saturating_add [sat_simps]:
  "unat (saturating_add a b) = min (unat a + unat b) (2 ^ LENGTH('a) - 1)"
  for a b :: "'a::len word"
proof (cases "unat a + unat b < 2 ^ LENGTH('a)")
  case True
  then show ?thesis by (simp add: saturating_add_def unat_word_ariths)
next
  case False
  then show ?thesis by (simp add: saturating_add_def unat_minus_one_max)
qed

lemma unat_saturating_sub [sat_simps]:
  "unat (saturating_sub a b) = unat a - unat b"
  by (simp add: saturating_sub_def unat_sub_if' word_le_nat_alt)

lemma unat_saturating_mul [sat_simps]:
  "unat (saturating_mul a b) = min (unat a * unat b) (2 ^ LENGTH('a) - 1)"
  for a b :: "'a::len word"
proof (cases "unat a * unat b < 2 ^ LENGTH('a)")
  case True
  then show ?thesis by (simp add: saturating_mul_def unat_word_ariths)
next
  case False
  then show ?thesis by (simp add: saturating_mul_def unat_minus_one_max)
qed

lemma saturating_add_0 [simp]: "saturating_add a 0 = a" "saturating_add 0 a = a"
  by (simp_all add: saturating_add_def)

lemma saturating_sub_0 [simp]: "saturating_sub a 0 = a" "saturating_sub 0 a = 0"
  by (auto simp: saturating_sub_def)

lemma saturating_add_ge [simp]: "a \<le> saturating_add a b" "b \<le> saturating_add a b"
  for a b :: "'a::len word"
  using unat_bound [of a] unat_bound [of b]
  unfolding word_le_nat_alt unat_saturating_add by linarith+

lemma saturating_add_commute: "saturating_add a b = saturating_add b a"
  by (simp add: word_unat_eq_iff sat_simps add.commute)

lemma saturating_add_assoc:
  "saturating_add (saturating_add a b) c = saturating_add a (saturating_add b c)"
  for a b c :: "'a::len word"
proof -
  define M :: nat where "M = 2 ^ LENGTH('a) - 1"
  have "min (min (x + y) M + z) M = min (x + min (y + z) M) M" for x y z
    by linarith
  then show ?thesis by (simp add: word_unat_eq_iff sat_simps M_def)
qed

lemma saturating_sub_le [simp]: "saturating_sub a b \<le> a"
  by (simp add: word_le_nat_alt sat_simps)

section \<open>Words, naturals and lists\<close>

definition u64_of :: "nat \<Rightarrow> u64" where
  "u64_of n = word_of_nat n"

lemma unat_u64_of: "n < 2 ^ 64 \<Longrightarrow> unat (u64_of n) = n"
  by (simp add: u64_of_def unat_of_nat)

lemma unat_of_nat_u64: "n < 2 ^ 64 \<Longrightarrow> unat (of_nat n :: u64) = n"
  by (simp add: unat_of_nat)

lemma nat_div_ceil: "(x + 99) div 100 = (if 0 < x mod 100 then x div 100 + 1 else x div (100::nat))"
proof -
  have "x mod 100 < 100" by simp
  then have "(x mod 100 + 99) div 100 = (if 0 < x mod 100 then 1 else 0)"
    by (auto intro: div_nat_eqI)
  then show ?thesis using div_add1_eq [of x 99 100] by simp
qed

lemma word_gt_0_iff_neq [simp]: "(0 < (w :: 'a::len word)) = (w \<noteq> 0)"
  by (rule word_neq_0_conv [symmetric])

lemma xor_left_cancel: "a XOR i = a XOR j \<longleftrightarrow> i = j" for a i j :: "'a::len word"
proof
  assume "a XOR i = a XOR j"
  then have "a XOR (a XOR i) = a XOR (a XOR j)" by simp
  then show "i = j" by (simp add: xor.assoc [symmetric])
qed simp

lemma take_eq_imp_take_eq: "take n xs = take n ys \<Longrightarrow> m \<le> n \<Longrightarrow> take m xs = take m ys"
  by (metis min.absorb1 take_take)

lemma take_min_length: "take (min n (length xs)) xs = take n xs" "take (min (length xs) n) xs = take n xs"
  by (simp_all add: min_def)

lemma dropWhile_eq_NilD: "dropWhile P xs = [] \<Longrightarrow> x \<in> set xs \<Longrightarrow> P x"
  by simp

lemma all_less_add_iff: "(\<forall>i<a + (k::nat). P i) \<longleftrightarrow> (\<forall>i<a. P i) \<and> (\<forall>j<k. P (a + j))"
proof (intro iffI conjI allI impI)
  fix i assume h: "(\<forall>i<a. P i) \<and> (\<forall>j<k. P (a + j))" and i: "i < a + k"
  show "P i"
  proof (cases "i < a")
    case False
    then have "i - a < k" "a + (i - a) = i" using i by auto
    with h show ?thesis by metis
  qed (use h in simp)
qed auto

lemma word_mod_add_self:
  fixes e p :: u64
  assumes "unat e + unat p < 2 ^ 64"
  shows "(e + p) mod p = e mod p"
  using assms by (simp add: word_unat_eq_iff unat_mod_distrib unat_word_ariths)

section \<open>The first maximum of a list\<close>

text \<open>A scan that keeps the first of the largest keys seen so far, entries without a key skipped, and
  what it computes.\<close>

fun first_max :: "nat \<Rightarrow> 'k::linorder option list \<Rightarrow> (nat \<times> 'k) option \<Rightarrow> (nat \<times> 'k) option" where
  "first_max i [] sel = sel"
| "first_max i (None # ks) sel = first_max (i + 1) ks sel"
| "first_max i (Some k # ks) sel =
     first_max (i + 1) ks (case sel of None \<Rightarrow> Some (i, k) | Some (j, m) \<Rightarrow> if m < k then Some (i, k) else sel)"

definition is_first_max :: "'k::linorder option list \<Rightarrow> nat \<Rightarrow> 'k \<Rightarrow> bool" where
  "is_first_max ks i m \<longleftrightarrow> i < length ks \<and> ks ! i = Some m \<and>
     (\<forall>j < length ks. \<forall>k. ks ! j = Some k \<longrightarrow> k < m \<or> k = m \<and> i \<le> j)"

definition first_max_ok :: "'k::linorder option list \<Rightarrow> (nat \<times> 'k) option \<Rightarrow> bool" where
  "first_max_ok ks sel \<longleftrightarrow>
     (case sel of None \<Rightarrow> \<forall>k \<in> set ks. k = None | Some (i, m) \<Rightarrow> is_first_max ks i m)"

lemma first_max_ok_None: "first_max_ok ks sel \<Longrightarrow> first_max_ok (ks @ [None]) sel"
  by (auto simp: first_max_ok_def is_first_max_def nth_append less_Suc_eq split: option.splits)

lemma first_max_ok_Some:
  assumes "first_max_ok ks sel"
  shows "first_max_ok (ks @ [Some k])
    (case sel of None \<Rightarrow> Some (length ks, k) | Some (j, m) \<Rightarrow> if m < k then Some (length ks, k) else sel)"
proof (cases sel)
  case None
  with assms have "ks ! j = None" if "j < length ks" for j
    using that by (simp add: first_max_ok_def)
  with None show ?thesis by (auto simp: first_max_ok_def is_first_max_def nth_append less_Suc_eq)
next
  case (Some e)
  then obtain j m where e: "sel = Some (j, m)" by (cases e) simp
  with assms have "is_first_max ks j m" by (simp add: first_max_ok_def)
  with e show ?thesis
    by (auto simp: first_max_ok_def is_first_max_def nth_append less_Suc_eq not_less order_le_less
        dest: order_less_trans)
qed

lemma first_max_scan: "first_max_ok before sel \<Longrightarrow> first_max_ok (before @ ks) (first_max (length before) ks sel)"
proof (induction ks arbitrary: before sel)
  case (Cons k ks)
  show ?case
  proof (cases k)
    case None
    with Cons.IH [OF first_max_ok_None [OF Cons.prems]] show ?thesis by simp
  next
    case (Some v)
    with Cons.IH [OF first_max_ok_Some [OF Cons.prems, of v]] show ?thesis by simp
  qed
qed simp

lemma is_first_max_unique: "is_first_max ks i m \<Longrightarrow> is_first_max ks j k \<Longrightarrow> i = j \<and> m = k"
  unfolding is_first_max_def by (metis le_antisym order_less_asym option.inject)

lemma first_max_correct:
  "first_max 0 ks None = Some (i, m) \<longleftrightarrow> is_first_max ks i m"
  "first_max 0 ks None = None \<longleftrightarrow> (\<forall>k \<in> set ks. k = None)"
proof -
  have ok: "first_max_ok ks (first_max 0 ks None)"
    using first_max_scan [of "[]" None ks] by (simp add: first_max_ok_def)
  have no: "\<not> (\<forall>k \<in> set ks. k = None)" if "is_first_max ks i m" for i m
    using that nth_mem [of i ks] by (auto simp: is_first_max_def)
  show "first_max 0 ks None = None \<longleftrightarrow> (\<forall>k \<in> set ks. k = None)"
    using ok no by (auto simp: first_max_ok_def split: option.splits)
  show "first_max 0 ks None = Some (i, m) \<longleftrightarrow> is_first_max ks i m"
    using ok no is_first_max_unique [of ks] by (fastforce simp: first_max_ok_def split: option.splits)
qed

end
