(* ===== verification/F64_Rounding.thy ===== *)
theory F64_Rounding
  imports Complex_Main "HOL-Library.Log_Nat" Faultcore_Prelude
begin

text \<open>
  The sources compute ramp factors, token counts and delays in \<open>f64\<close>. Every operand
  there is non-negative and lies far inside the normal range of binary64 (the operands are
  converted \<open>u64\<close> values, quotients of two of them and products below $2^{160}$), so the
  only effect of the format is rounding to a 53-bit significand, to nearest with ties to
  even. \<open>fl\<close> is that rounding, exact on rationals; each arithmetic operation of the code
  is the rational operation followed by \<open>fl\<close>.

  The locale \<open>f64_rounding\<close> names the two laws that the client code relies on
  (monotonicity and exactness on integers up to $2^{53}$); \<open>binary64\<close> interprets it on \<open>fl\<close>.
\<close>

section \<open>Rounding to 53 bits\<close>

definition rat_exponent :: "rat \<Rightarrow> int" where
  "rat_exponent x =
     (let (p, q) = quotient_of x; d = bitlen p - bitlen q
      in if 2 powi d \<le> x then d else d - 1)"

definition round_half_even :: "rat \<Rightarrow> int" where
  "round_half_even y =
     (let f = \<lfloor>y\<rfloor>; r = y - of_int f
      in if r < 1/2 then f else if r > 1/2 then f + 1 else if even f then f else f + 1)"

definition fl :: "rat \<Rightarrow> rat" where
  "fl x =
     (if x \<le> 0 then 0
      else let e = rat_exponent x - 52 in of_int (round_half_even (x / 2 powi e)) * 2 powi e)"

definition f64_of_u64 :: "u64 \<Rightarrow> rat" where
  "f64_of_u64 w = fl (of_nat (unat w))"

text \<open>\<open>f64::round\<close> rounds halves away from zero; \<open>as u64\<close> truncates and saturates.\<close>

definition f64_round :: "rat \<Rightarrow> rat" where
  "f64_round y = of_int \<lfloor>y + 1/2\<rfloor>"

definition f64_as_u64 :: "rat \<Rightarrow> u64" where
  "f64_as_u64 y = (if y < 0 then 0 else if 2 ^ 64 - 1 \<le> y then - 1 else word_of_int \<lfloor>y\<rfloor>)"

section \<open>The exponent\<close>

lemma quotient_of_pos:
  assumes "0 < x" "quotient_of x = (p, q)"
  shows "0 < p" "0 < q" "x = of_int p / of_int q"
proof -
  show q: "0 < q" using assms(2) quotient_of_denom_pos by blast
  show x: "x = of_int p / of_int q" using assms(2) by (rule quotient_of_div)
  show "0 < p" using assms(1) q x by (simp add: zero_less_divide_iff)
qed

lemma bitlen_powi_bounds:
  assumes "0 < (p::int)"
  shows "2 powi (bitlen p - 1) \<le> (of_int p :: rat)" "(of_int p :: rat) < 2 powi bitlen p"
proof -
  from bitlen_bounds [OF assms] have b: "2 ^ nat (bitlen p - 1) \<le> p" "p < 2 ^ nat (bitlen p)"
    by auto
  have pos: "1 \<le> bitlen p" using assms bitlen_ge_iff_power [of 1 p] by simp
  have "(2::rat) powi (bitlen p - 1) = of_int (2 ^ nat (bitlen p - 1))"
    using pos by (simp add: power_int_def)
  then show "2 powi (bitlen p - 1) \<le> (of_int p :: rat)"
    using b(1) by (simp only: of_int_le_iff)
  have "(2::rat) powi (bitlen p) = of_int (2 ^ nat (bitlen p))"
    using pos by (simp add: power_int_def)
  then show "(of_int p :: rat) < 2 powi bitlen p"
    using b(2) by (simp only: of_int_less_iff)
qed

lemma rat_exponent_bounds:
  assumes "0 < x"
  shows "2 powi rat_exponent x \<le> x" "x < 2 powi (rat_exponent x + 1)"
proof -
  obtain p q where pq: "quotient_of x = (p, q)" by fastforce
  note pos = quotient_of_pos [OF assms pq]
  define d where "d = bitlen p - bitlen q"
  note bp = bitlen_powi_bounds [OF pos(1)] and bq = bitlen_powi_bounds [OF pos(2)]
  have q0: "(0::rat) < of_int q" using pos(2) by simp
  have "2 powi (d - 1) * of_int q < (2::rat) powi (d - 1) * 2 powi bitlen q"
    using bq(2) by simp
  also have "\<dots> = 2 powi (bitlen p - 1)"
    by (simp add: power_int_add [symmetric] d_def)
  also have "\<dots> \<le> of_int p" by (rule bp(1))
  finally have lo: "2 powi (d - 1) \<le> x"
    using q0 pos(3) by (simp add: pos_le_divide_eq)
  have "of_int p < (2::rat) powi bitlen p" by (rule bp(2))
  also have "\<dots> = 2 powi (d + 1) * 2 powi (bitlen q - 1)"
    by (simp add: power_int_add [symmetric] d_def)
  also have "\<dots> \<le> 2 powi (d + 1) * of_int q"
    using bq(1) by simp
  finally have hi: "x < 2 powi (d + 1)"
    using q0 pos(3) by (simp add: pos_divide_less_eq)
  have e: "rat_exponent x = (if 2 powi d \<le> x then d else d - 1)"
    by (simp add: rat_exponent_def pq d_def)
  show "2 powi rat_exponent x \<le> x" using lo by (simp add: e)
  show "x < 2 powi (rat_exponent x + 1)" using hi by (simp add: e)
qed

lemma powi2_le_iff: "(2::rat) powi i \<le> 2 powi j \<longleftrightarrow> i \<le> j"
  by (meson linorder_not_less order_less_imp_le one_less_numeral_iff power_int_increasing
      power_int_strict_increasing semiring_norm(76))

lemma rat_exponent_mono:
  assumes "0 < x" "x \<le> y"
  shows "rat_exponent x \<le> rat_exponent y"
proof -
  have "2 powi rat_exponent x < (2::rat) powi (rat_exponent y + 1)"
    using rat_exponent_bounds [OF assms(1)] rat_exponent_bounds [of y] assms by linarith
  then show ?thesis using powi2_le_iff [of "rat_exponent y + 1" "rat_exponent x"] by linarith
qed

section \<open>Rounding to an integer\<close>

lemma round_half_even_of_int [simp]: "round_half_even (of_int n) = n"
  by (simp add: round_half_even_def)

lemma round_half_even_between: "\<lfloor>y\<rfloor> \<le> round_half_even y" "round_half_even y \<le> \<lfloor>y\<rfloor> + 1"
  by (auto simp: round_half_even_def Let_def)

lemma round_half_even_mono:
  assumes "y \<le> z"
  shows "round_half_even y \<le> round_half_even z"
proof (cases "\<lfloor>y\<rfloor> = \<lfloor>z\<rfloor>")
  case True
  with assms show ?thesis by (auto simp: round_half_even_def Let_def)
next
  case False
  with floor_mono [OF assms] have "\<lfloor>y\<rfloor> + 1 \<le> \<lfloor>z\<rfloor>" by linarith
  with round_half_even_between [of y] round_half_even_between [of z] show ?thesis by linarith
qed

lemma round_half_even_ge_int: "of_int n \<le> y \<Longrightarrow> n \<le> round_half_even y"
  using round_half_even_mono [of "of_int n" y] by simp

lemma round_half_even_le_int: "y \<le> of_int n \<Longrightarrow> round_half_even y \<le> n"
  using round_half_even_mono [of y "of_int n"] by simp

section \<open>Laws of \<open>fl\<close>\<close>

text \<open>Within a binade \<open>fl x\<close> stays between the two powers of two that enclose it.\<close>

lemma fl_binade:
  assumes "0 < x"
  shows "2 powi rat_exponent x \<le> fl x" "fl x \<le> 2 powi (rat_exponent x + 1)"
proof -
  define e where "e = rat_exponent x - 52"
  have p: "(0::rat) < 2 powi e" by simp
  have s: "(2::rat) powi rat_exponent x = of_int (2 ^ 52) * 2 powi e"
    "(2::rat) powi (rat_exponent x + 1) = of_int (2 ^ 53) * 2 powi e"
    by (simp_all add: e_def power_int_diff power_int_add)
  note b = rat_exponent_bounds [OF assms]
  have "of_int (2 ^ 52) \<le> x / 2 powi e" using b(1) p by (simp add: s pos_le_divide_eq)
  then have lo: "2 ^ 52 \<le> round_half_even (x / 2 powi e)" by (rule round_half_even_ge_int)
  have "x / 2 powi e \<le> of_int (2 ^ 53)" using b(2) p by (simp add: s pos_divide_le_eq)
  then have hi: "round_half_even (x / 2 powi e) \<le> 2 ^ 53" by (rule round_half_even_le_int)
  have f: "fl x = of_int (round_half_even (x / 2 powi e)) * 2 powi e"
    using assms by (simp add: fl_def e_def Let_def)
  show "2 powi rat_exponent x \<le> fl x"
    unfolding f s using lo p by (intro mult_right_mono) (simp_all only: of_int_le_iff less_imp_le)
  show "fl x \<le> 2 powi (rat_exponent x + 1)"
    unfolding f s using hi p by (intro mult_right_mono) (simp_all only: of_int_le_iff less_imp_le)
qed

lemma fl_nonneg [simp]: "0 \<le> fl x"
proof (cases "0 < x")
  case True
  have "(0::rat) \<le> 2 powi rat_exponent x" by simp
  with fl_binade(1) [OF True] show ?thesis by linarith
qed (simp add: fl_def)

lemma fl_0 [simp]: "fl 0 = 0"
  by (simp add: fl_def)

lemma fl_mono:
  assumes "x \<le> y"
  shows "fl x \<le> fl y"
proof (cases "0 < x")
  case False
  then have "fl x = 0" by (simp add: fl_def)
  then show ?thesis by simp
next
  case True
  then have y: "0 < y" using assms by simp
  consider "rat_exponent x = rat_exponent y" | "rat_exponent x + 1 \<le> rat_exponent y"
    using rat_exponent_mono [OF True assms] by linarith
  then show ?thesis
  proof cases
    case 1
    have "x / 2 powi e \<le> y / 2 powi e" for e :: int
      using assms by (simp add: divide_right_mono)
    then have "round_half_even (x / 2 powi e) \<le> round_half_even (y / 2 powi e)" for e :: int
      by (rule round_half_even_mono)
    then show ?thesis using True y 1 by (simp add: fl_def Let_def)
  next
    case 2
    have "fl x \<le> 2 powi (rat_exponent x + 1)" by (rule fl_binade(2) [OF True])
    also have "\<dots> \<le> 2 powi rat_exponent y" using 2 by (simp only: powi2_le_iff)
    also have "\<dots> \<le> fl y" by (rule fl_binade(1) [OF y])
    finally show ?thesis .
  qed
qed

text \<open>Integers of at most 53 bits are represented exactly.\<close>

lemma fl_exact:
  assumes "n \<le> 2 ^ 53"
  shows "fl (of_nat n) = of_nat n"
proof (cases "n = 0 \<or> n = 2 ^ 53")
  case True
  then show ?thesis
  proof
    assume n: "n = 2 ^ 53"
    have "rat_exponent (of_nat n) = 53"
    proof -
      have "2 powi rat_exponent (of_nat n) \<le> (2::rat) powi 53" "(2::rat) powi 53 < 2 powi (rat_exponent (of_nat n) + 1)"
        using rat_exponent_bounds [of "of_nat n"] n by (simp_all add: power_int_def)
      then show ?thesis
        unfolding powi2_le_iff not_le [symmetric] by linarith
    qed
    then have "fl (of_nat n) = of_int (round_half_even (of_nat n / 2)) * 2"
      using n by (simp add: fl_def)
    also have "(of_nat n / 2 :: rat) = of_int (2 ^ 52)" using n by simp
    finally show ?thesis using n by (simp only: round_half_even_of_int) simp
  qed simp
next
  case False
  then have n: "0 < n" "n < 2 ^ 53" using assms by auto
  define x :: rat where "x = of_nat n"
  have x: "0 < x" using n by (simp add: x_def)
  have "x < of_nat (2 ^ 53)" unfolding x_def by (simp only: of_nat_less_iff n)
  then have "x < 2 powi 53" by (simp add: power_int_def)
  with rat_exponent_bounds(1) [OF x] have "(2::rat) powi rat_exponent x < 2 powi 53" by linarith
  then have e: "rat_exponent x \<le> 52" using powi2_le_iff [of 53 "rat_exponent x"] by linarith
  define k where "k = nat (52 - rat_exponent x)"
  have k: "(2::rat) powi (rat_exponent x - 52) = 1 / 2 ^ k"
  proof -
    have "rat_exponent x - 52 = - int k" using e by (simp add: k_def)
    then show ?thesis by (simp only: power_int_minus_divide power_int_of_nat)
  qed
  have "x / (1 / 2 ^ k) = of_int (int n * 2 ^ k)" by (simp add: x_def)
  then have "fl x = of_int (int n * 2 ^ k) * (1 / 2 ^ k)"
    using x by (simp only: fl_def Let_def k round_half_even_of_int not_le [symmetric] if_False)
  then show ?thesis by (simp add: x_def)
qed

section \<open>What the clients rely on\<close>

locale f64_rounding =
  fixes rnd :: "rat \<Rightarrow> rat"
  assumes rnd_mono: "x \<le> y \<Longrightarrow> rnd x \<le> rnd y"
    and rnd_exact: "n \<le> 2 ^ 53 \<Longrightarrow> rnd (of_nat n) = of_nat n"
begin

lemma rnd_le_nat: "x \<le> of_nat n \<Longrightarrow> n \<le> 2 ^ 53 \<Longrightarrow> rnd x \<le> of_nat n"
  using rnd_mono [of x "of_nat n"] rnd_exact [of n] by simp

lemma rnd_ge_nat: "of_nat n \<le> x \<Longrightarrow> n \<le> 2 ^ 53 \<Longrightarrow> of_nat n \<le> rnd x"
  using rnd_mono [of "of_nat n" x] rnd_exact [of n] by simp

text \<open>A factor of at most one never amplifies an exactly represented value.\<close>

lemma rnd_scale_le:
  assumes "c \<le> 1" "0 \<le> c" "v \<le> 2 ^ 53"
  shows "rnd (rnd (of_nat v) * c) \<le> of_nat v"
proof -
  have "rnd (of_nat v) * c \<le> of_nat v"
    using assms by (simp add: rnd_exact mult_left_le)
  then show ?thesis using assms(3) by (rule rnd_le_nat)
qed

lemma rnd_ratio_le_1: "a \<le> b \<Longrightarrow> rnd (rnd (of_nat a) / rnd (of_nat b)) \<le> 1"
proof -
  assume ab: "a \<le> b"
  have "rnd (of_nat a) \<le> rnd (of_nat b)" using ab by (intro rnd_mono) simp
  moreover have "(0::rat) \<le> rnd (of_nat a)" using rnd_ge_nat [of 0 "of_nat a"] by simp
  ultimately have "rnd (of_nat a) / rnd (of_nat b) \<le> of_nat 1"
    by (cases "rnd (of_nat b) = 0") (auto simp: divide_le_eq_1)
  then have "rnd (rnd (of_nat a) / rnd (of_nat b)) \<le> of_nat 1" by (rule rnd_le_nat) simp
  then show ?thesis by simp
qed

lemma rnd_nonneg: "0 \<le> x \<Longrightarrow> 0 \<le> rnd x"
  using rnd_ge_nat [of 0 x] by simp

end

interpretation binary64: f64_rounding fl
  by unfold_locales (rule fl_mono, assumption, rule fl_exact, assumption)

section \<open>Casts\<close>

lemma unat_f64_as_u64:
  assumes "0 \<le> y"
  shows "unat (f64_as_u64 y) = (if 2 ^ 64 - 1 \<le> y then 2 ^ 64 - 1 else nat \<lfloor>y\<rfloor>)"
proof (cases "2 ^ 64 - 1 \<le> y")
  case True
  with assms show ?thesis by (simp add: f64_as_u64_def unat_minus_one_max)
next
  case False
  have f: "0 \<le> \<lfloor>y\<rfloor>" "\<lfloor>y\<rfloor> < 2 ^ 64"
    using assms False by (auto simp: floor_less_iff)
  have "f64_as_u64 y = word_of_int \<lfloor>y\<rfloor>" using assms False by (simp add: f64_as_u64_def)
  then have "uint (f64_as_u64 y) = \<lfloor>y\<rfloor>" using f by (simp add: uint_word_of_int)
  then show ?thesis using False by (simp only: unat_eq_nat_uint if_False)
qed

lemma of_nat_f64_as_u64_le:
  assumes "0 \<le> y"
  shows "(of_nat (unat (f64_as_u64 y)) :: rat) \<le> y"
proof (cases "2 ^ 64 - 1 \<le> y")
  case True
  then have "unat (f64_as_u64 y) = 2 ^ 64 - 1" using assms by (simp only: unat_f64_as_u64 if_True)
  with True show ?thesis by simp
next
  case False
  then have u: "unat (f64_as_u64 y) = nat \<lfloor>y\<rfloor>" using assms by (simp only: unat_f64_as_u64 if_False)
  show ?thesis unfolding u using assms by (simp add: of_nat_nat)
qed

lemma f64_as_u64_le:
  assumes "0 \<le> y" "y \<le> of_nat n" "n < 2 ^ 64"
  shows "unat (f64_as_u64 y) \<le> n"
proof (cases "2 ^ 64 - 1 \<le> y")
  case True
  then have "(of_nat (2 ^ 64 - 1) :: rat) \<le> of_nat n" using assms(2) by simp
  then have "2 ^ 64 - 1 \<le> n" by (simp only: of_nat_le_iff)
  with True assms(1) show ?thesis by (simp add: unat_f64_as_u64)
next
  case False
  have "\<lfloor>y\<rfloor> \<le> int n" using assms(2) by (simp add: floor_le_iff le_less_trans)
  with False assms(1) show ?thesis by (simp add: unat_f64_as_u64)
qed

lemma f64_as_u64_ge:
  assumes "0 \<le> y" "of_nat n \<le> y" "n < 2 ^ 64"
  shows "n \<le> unat (f64_as_u64 y)"
proof (cases "2 ^ 64 - 1 \<le> y")
  case True
  with assms show ?thesis by (simp add: unat_f64_as_u64)
next
  case False
  have "int n \<le> \<lfloor>y\<rfloor>" using assms(2) by (simp add: le_floor_iff)
  with False assms(1) show ?thesis by (simp add: unat_f64_as_u64)
qed

lemma f64_round_le: "y \<le> of_nat n \<Longrightarrow> f64_round y \<le> of_nat n"
proof -
  assume "y \<le> of_nat n"
  then have "\<lfloor>y + 1/2\<rfloor> \<le> int n" by (simp add: floor_le_iff)
  then have "(of_int \<lfloor>y + 1/2\<rfloor> :: rat) \<le> of_int (int n)" by (simp only: of_int_le_iff)
  then show ?thesis by (simp add: f64_round_def)
qed

lemma f64_round_nonneg: "0 \<le> y \<Longrightarrow> 0 \<le> f64_round y"
  by (simp add: f64_round_def)

end
