(* ===== verification/Net_Config.thy ===== *)
theory Net_Config
  imports F64_Rounding
begin

text \<open>
  The policy configuration of one flow (\<open>faultcore_network/src/lib.rs\<close>): the record
  \<open>Config\<close>, the direction overrides (\<open>effective_for_send\<close>, \<open>effective_for_recv\<close>),
  target matching with its CIDR prefix comparison, and the three time schedules (ramp,
  spike, flapping) that attenuate or switch off the faults.

  The arrays of the source are lists here; \<open>Config_wf\<close> records their lengths. A slice or an
  index outside its array panics in Rust: \<open>prefix_match\<close> returns \<open>None\<close> there, and
  \<open>prefix_match_Some\<close> shows that no caller can reach it.
\<close>

section \<open>Data\<close>

record Endpoint =
  address_family :: u64
  addr :: bytes
  ipv4 :: u32
  port :: u16
  protocol :: u64

record Config =
  latency_ns :: u64
  jitter_ns :: u64
  packet_loss_ppm :: u64
  burst_loss_len :: u64
  bandwidth_bps :: u64
  connect_timeout_ms :: u64
  recv_timeout_ms :: u64
  uplink_latency_ns :: u64
  uplink_jitter_ns :: u64
  uplink_packet_loss_ppm :: u64
  uplink_burst_loss_len :: u64
  uplink_bandwidth_bps :: u64
  downlink_latency_ns :: u64
  downlink_jitter_ns :: u64
  downlink_packet_loss_ppm :: u64
  downlink_burst_loss_len :: u64
  downlink_bandwidth_bps :: u64
  ge_enabled :: u64
  ge_p_good_to_bad_ppm :: u64
  ge_p_bad_to_good_ppm :: u64
  ge_loss_good_ppm :: u64
  ge_loss_bad_ppm :: u64
  conn_err_kind :: u64
  conn_err_prob_ppm :: u64
  half_open_after_bytes :: u64
  half_open_err_kind :: u64
  dup_prob_ppm :: u64
  dup_max_extra :: u64
  reorder_prob_ppm :: u64
  reorder_max_delay_ns :: u64
  reorder_window :: u64
  dns_delay_ns :: u64
  dns_timeout_ms :: u64
  dns_nxdomain_ppm :: u64
  target_enabled :: u64
  target_kind :: u64
  target_ipv4 :: u64
  target_prefix_len :: u64
  target_port :: u64
  target_protocol :: u64
  target_address_family :: u64
  target_addr :: bytes
  target_hostname :: bytes
  target_sni :: bytes
  session_budget_enabled :: u64
  session_max_bytes_tx :: u64
  session_max_bytes_rx :: u64
  session_max_ops :: u64
  session_max_duration_ms :: u64
  session_action :: u64
  session_budget_timeout_ms :: u64
  session_error_kind :: u64
  policy_seed :: u64
  payload_mutation_enabled :: u64
  payload_mutation_prob_ppm :: u64
  payload_mutation_type :: u64
  payload_mutation_target :: u64
  payload_mutation_truncate_size :: u64
  payload_mutation_corrupt_count :: u64
  payload_mutation_corrupt_seed :: u64
  payload_mutation_inject_position :: u64
  payload_mutation_inject_data :: bytes
  payload_mutation_inject_len :: u64
  payload_mutation_replace_find :: bytes
  payload_mutation_replace_find_len :: u64
  payload_mutation_replace_with :: bytes
  payload_mutation_replace_with_len :: u64
  payload_mutation_swap_pos1 :: u64
  payload_mutation_swap_pos2 :: u64
  payload_mutation_min_size :: u64
  payload_mutation_max_size :: u64
  payload_mutation_every_n_packets :: u64
  payload_mutation_dry_run :: u64
  payload_mutation_max_buffer_size :: u64
  ruleset_generation :: u64
  schedule_type :: u64
  schedule_param_a_ns :: u64
  schedule_param_b_ns :: u64
  schedule_param_c_ns :: u64
  schedule_started_monotonic_ns :: u64

definition Config_default :: Config where
  "Config_default = \<lparr>
     latency_ns = 0, jitter_ns = 0, packet_loss_ppm = 0, burst_loss_len = 0,
     bandwidth_bps = 0, connect_timeout_ms = 0, recv_timeout_ms = 0, uplink_latency_ns = 0,
     uplink_jitter_ns = 0, uplink_packet_loss_ppm = 0, uplink_burst_loss_len = 0,
     uplink_bandwidth_bps = 0, downlink_latency_ns = 0, downlink_jitter_ns = 0,
     downlink_packet_loss_ppm = 0, downlink_burst_loss_len = 0, downlink_bandwidth_bps = 0,
     ge_enabled = 0, ge_p_good_to_bad_ppm = 0, ge_p_bad_to_good_ppm = 0, ge_loss_good_ppm = 0,
     ge_loss_bad_ppm = 0, conn_err_kind = 0, conn_err_prob_ppm = 0, half_open_after_bytes = 0,
     half_open_err_kind = 0, dup_prob_ppm = 0, dup_max_extra = 0, reorder_prob_ppm = 0,
     reorder_max_delay_ns = 0, reorder_window = 0, dns_delay_ns = 0, dns_timeout_ms = 0,
     dns_nxdomain_ppm = 0, target_enabled = 0, target_kind = 0, target_ipv4 = 0,
     target_prefix_len = 0, target_port = 0, target_protocol = 0, target_address_family = 0,
     target_addr = replicate 16 0, target_hostname = replicate 32 0,
     target_sni = replicate 32 0, session_budget_enabled = 0, session_max_bytes_tx = 0,
     session_max_bytes_rx = 0, session_max_ops = 0, session_max_duration_ms = 0,
     session_action = 0, session_budget_timeout_ms = 0, session_error_kind = 0,
     policy_seed = 0, payload_mutation_enabled = 0, payload_mutation_prob_ppm = 0,
     payload_mutation_type = 0, payload_mutation_target = 0,
     payload_mutation_truncate_size = 0, payload_mutation_corrupt_count = 0,
     payload_mutation_corrupt_seed = 0, payload_mutation_inject_position = 0,
     payload_mutation_inject_data = replicate 64 0, payload_mutation_inject_len = 0,
     payload_mutation_replace_find = replicate 32 0, payload_mutation_replace_find_len = 0,
     payload_mutation_replace_with = replicate 32 0, payload_mutation_replace_with_len = 0,
     payload_mutation_swap_pos1 = 0, payload_mutation_swap_pos2 = 0,
     payload_mutation_min_size = 0, payload_mutation_max_size = 0,
     payload_mutation_every_n_packets = 0, payload_mutation_dry_run = 0,
     payload_mutation_max_buffer_size = 0, ruleset_generation = 0, schedule_type = 0,
     schedule_param_a_ns = 0, schedule_param_b_ns = 0, schedule_param_c_ns = 0,
     schedule_started_monotonic_ns = 0\<rparr>"

definition Config_wf :: "Config \<Rightarrow> bool" where
  "Config_wf c \<longleftrightarrow>
     length (target_addr c) = 16 \<and> length (target_hostname c) = 32 \<and>
     length (target_sni c) = 32 \<and> length (payload_mutation_inject_data c) = 64 \<and>
     length (payload_mutation_replace_find c) = 32 \<and>
     length (payload_mutation_replace_with c) = 32"

definition is_enabled :: "Config \<Rightarrow> bool" where
  "is_enabled c \<longleftrightarrow>
     0 < latency_ns c \<or> 0 < jitter_ns c \<or> 0 < packet_loss_ppm c \<or>
     0 < burst_loss_len c \<or> 0 < bandwidth_bps c \<or> 0 < connect_timeout_ms c \<or>
     0 < recv_timeout_ms c \<or> 0 < uplink_latency_ns c \<or> 0 < uplink_jitter_ns c \<or>
     0 < uplink_packet_loss_ppm c \<or> 0 < uplink_burst_loss_len c \<or>
     0 < uplink_bandwidth_bps c \<or> 0 < downlink_latency_ns c \<or>
     0 < downlink_jitter_ns c \<or> 0 < downlink_packet_loss_ppm c \<or>
     0 < downlink_burst_loss_len c \<or> 0 < downlink_bandwidth_bps c \<or>
     0 < ge_enabled c \<or> 0 < conn_err_kind c \<or> 0 < half_open_after_bytes c \<or>
     0 < dup_prob_ppm c \<or> 0 < reorder_prob_ppm c \<or> 0 < reorder_max_delay_ns c \<or>
     0 < dns_delay_ns c \<or> 0 < dns_timeout_ms c \<or> 0 < dns_nxdomain_ppm c \<or>
     0 < target_enabled c \<or> 0 < session_budget_enabled c \<or> 0 < policy_seed c \<or>
     0 < payload_mutation_enabled c \<or> 0 < schedule_type c"

section \<open>Direction overrides\<close>

definition override_if_pos :: "u64 \<Rightarrow> u64 \<Rightarrow> u64" where
  "override_if_pos val field = (if 0 < val then val else field)"

definition apply_direction_overrides ::
  "Config \<Rightarrow> u64 \<Rightarrow> u64 \<Rightarrow> u64 \<Rightarrow> u64 \<Rightarrow> u64 \<Rightarrow> Config" where
  "apply_direction_overrides out lat jit loss burst bw = out\<lparr>
     latency_ns := override_if_pos lat (latency_ns out),
     jitter_ns := override_if_pos jit (jitter_ns out),
     packet_loss_ppm := override_if_pos loss (packet_loss_ppm out),
     burst_loss_len := override_if_pos burst (burst_loss_len out),
     bandwidth_bps := override_if_pos bw (bandwidth_bps out)\<rparr>"

definition effective_for_send :: "Config \<Rightarrow> Config" where
  "effective_for_send c = apply_direction_overrides c
     (uplink_latency_ns c) (uplink_jitter_ns c) (uplink_packet_loss_ppm c)
     (uplink_burst_loss_len c) (uplink_bandwidth_bps c)"

definition effective_for_recv :: "Config \<Rightarrow> Config" where
  "effective_for_recv c = apply_direction_overrides c
     (downlink_latency_ns c) (downlink_jitter_ns c) (downlink_packet_loss_ppm c)
     (downlink_burst_loss_len c) (downlink_bandwidth_bps c)"

section \<open>Target matching\<close>

definition prefix_match :: "bytes \<Rightarrow> bytes \<Rightarrow> nat \<Rightarrow> bool option" where
  "prefix_match candidate network prefix_len =
     (if prefix_len = 0 then Some True
      else
        let full_bytes = prefix_len div 8; partial_bits = prefix_len mod 8
        in if length candidate < full_bytes \<or> length network < full_bytes then None
           else if 0 < full_bytes \<and> take full_bytes candidate \<noteq> take full_bytes network
                then Some False
           else if partial_bits = 0 then Some True
           else if length candidate \<le> full_bytes \<or> length network \<le> full_bytes then None
           else let mask = push_bit (8 - partial_bits) (NOT 0 :: u8)
                in Some ((candidate ! full_bytes) AND mask = (network ! full_bytes) AND mask))"

definition prefix_bound :: "u64 \<Rightarrow> u64 \<Rightarrow> nat" where
  "prefix_bound family prefix_len = min (unat prefix_len) (if family = 1 then 32 else 128)"

definition matches_target :: "Config \<Rightarrow> Endpoint option \<Rightarrow> bool" where
  "matches_target c endpoint =
     (if target_enabled c = 0 \<or> target_kind c = 0 then True
      else case endpoint of
        None \<Rightarrow> False
      | Some ep \<Rightarrow>
          if 0 < target_protocol c \<and> target_protocol c \<noteq> protocol ep then False
          else if 0 < target_port c \<and> target_port c \<noteq> ucast (port ep) then False
          else
            let family = target_address_family c
            in if family = 0 then False
               else if target_kind c = 1
                    then address_family ep = family \<and> addr ep = target_addr c
               else if target_kind c = 2
                    then address_family ep = family \<and>
                         prefix_match (addr ep) (target_addr c)
                           (prefix_bound family (target_prefix_len c)) = Some True
               else False)"

section \<open>Schedules\<close>

definition scale_u64 :: "u64 \<Rightarrow> rat \<Rightarrow> u64" where
  "scale_u64 value factor = f64_as_u64 (f64_round (fl (f64_of_u64 value * factor)))"

definition scale_faults :: "Config \<Rightarrow> rat \<Rightarrow> Config" where
  "scale_faults c factor = c\<lparr>
     latency_ns := scale_u64 (latency_ns c) factor,
     jitter_ns := scale_u64 (jitter_ns c) factor,
     packet_loss_ppm := scale_u64 (packet_loss_ppm c) factor,
     burst_loss_len := scale_u64 (burst_loss_len c) factor,
     bandwidth_bps := scale_u64 (bandwidth_bps c) factor,
     connect_timeout_ms := scale_u64 (connect_timeout_ms c) factor,
     recv_timeout_ms := scale_u64 (recv_timeout_ms c) factor,
     uplink_latency_ns := scale_u64 (uplink_latency_ns c) factor,
     uplink_jitter_ns := scale_u64 (uplink_jitter_ns c) factor,
     uplink_packet_loss_ppm := scale_u64 (uplink_packet_loss_ppm c) factor,
     uplink_burst_loss_len := scale_u64 (uplink_burst_loss_len c) factor,
     uplink_bandwidth_bps := scale_u64 (uplink_bandwidth_bps c) factor,
     downlink_latency_ns := scale_u64 (downlink_latency_ns c) factor,
     downlink_jitter_ns := scale_u64 (downlink_jitter_ns c) factor,
     downlink_packet_loss_ppm := scale_u64 (downlink_packet_loss_ppm c) factor,
     downlink_burst_loss_len := scale_u64 (downlink_burst_loss_len c) factor,
     downlink_bandwidth_bps := scale_u64 (downlink_bandwidth_bps c) factor,
     conn_err_prob_ppm := scale_u64 (conn_err_prob_ppm c) factor,
     dup_prob_ppm := scale_u64 (dup_prob_ppm c) factor,
     reorder_prob_ppm := scale_u64 (reorder_prob_ppm c) factor,
     dns_delay_ns := scale_u64 (dns_delay_ns c) factor,
     dns_timeout_ms := scale_u64 (dns_timeout_ms c) factor,
     dns_nxdomain_ppm := scale_u64 (dns_nxdomain_ppm c) factor\<rparr>"

definition zero_faults :: "Config \<Rightarrow> Config" where
  "zero_faults c = c\<lparr>
     latency_ns := 0, jitter_ns := 0, packet_loss_ppm := 0, burst_loss_len := 0,
     bandwidth_bps := 0, connect_timeout_ms := 0, recv_timeout_ms := 0,
     uplink_latency_ns := 0, uplink_jitter_ns := 0, uplink_packet_loss_ppm := 0,
     uplink_burst_loss_len := 0, uplink_bandwidth_bps := 0, downlink_latency_ns := 0,
     downlink_jitter_ns := 0, downlink_packet_loss_ppm := 0, downlink_burst_loss_len := 0,
     downlink_bandwidth_bps := 0, ge_enabled := 0, ge_p_good_to_bad_ppm := 0,
     ge_p_bad_to_good_ppm := 0, ge_loss_good_ppm := 0, ge_loss_bad_ppm := 0,
     conn_err_kind := 0, conn_err_prob_ppm := 0, half_open_after_bytes := 0,
     half_open_err_kind := 0, dup_prob_ppm := 0, dup_max_extra := 0, reorder_prob_ppm := 0,
     reorder_max_delay_ns := 0, reorder_window := 0, dns_delay_ns := 0, dns_timeout_ms := 0,
     dns_nxdomain_ppm := 0\<rparr>"

definition apply_schedule :: "Config \<Rightarrow> u64 \<Rightarrow> Config" where
  "apply_schedule c now_monotonic_ns =
     (if schedule_type c = 0 then c
      else
        let started = schedule_started_monotonic_ns c
        in if started = 0 \<or> now_monotonic_ns \<le> started then c
           else
             let elapsed = now_monotonic_ns - started
             in if schedule_type c = 1 then
                  let ramp_ns = schedule_param_a_ns c
                  in if ramp_ns = 0 \<or> ramp_ns \<le> elapsed then c
                     else scale_faults c (fl (f64_of_u64 elapsed / f64_of_u64 ramp_ns))
                else if schedule_type c = 2 then
                  let cycle_ns = schedule_param_a_ns c; active_ns = schedule_param_b_ns c
                  in if cycle_ns = 0 \<or> active_ns = 0 \<or> cycle_ns < active_ns then zero_faults c
                     else if active_ns \<le> elapsed mod cycle_ns then zero_faults c
                     else c
                else if schedule_type c = 3 then
                  let on_ns = schedule_param_a_ns c; off_ns = schedule_param_b_ns c;
                      cycle_ns = saturating_add on_ns off_ns
                  in if on_ns = 0 \<or> off_ns = 0 \<or> cycle_ns = 0 then zero_faults c
                     else if on_ns \<le> elapsed mod cycle_ns then zero_faults c
                     else c
                else c)"

definition runtime_filtered :: "Config \<Rightarrow> Endpoint option \<Rightarrow> u64 \<Rightarrow> Config option" where
  "runtime_filtered c endpoint now_monotonic_ns =
     (if \<not> matches_target c endpoint then None
      else Some (apply_schedule c now_monotonic_ns))"

section \<open>Prefix matching, bit by bit\<close>

text \<open>Bit \<open>i\<close> of an address in network order, counted from the most significant.\<close>

definition addr_bit :: "bytes \<Rightarrow> nat \<Rightarrow> bool" where
  "addr_bit a i = bit (a ! (i div 8)) (7 - i mod 8)"

lemma byte_prefix_mask_iff:
  fixes x y :: u8
  assumes "k \<le> 8"
  shows "x AND push_bit (8 - k) (NOT 0) = y AND push_bit (8 - k) (NOT 0) \<longleftrightarrow>
         (\<forall>j<k. bit x (7 - j) = bit y (7 - j))"
proof -
  have "x AND push_bit (8 - k) (NOT 0) = y AND push_bit (8 - k) (NOT 0) \<longleftrightarrow>
        (\<forall>n<8. 8 - k \<le> n \<longrightarrow> bit x n = bit y n)"
    by (auto simp: bit_eq_iff bit_simps)
  also have "\<dots> \<longleftrightarrow> (\<forall>j<k. bit x (7 - j) = bit y (7 - j))"
  proof (rule iffI; intro allI impI)
    fix j assume h: "\<forall>n<8. 8 - k \<le> n \<longrightarrow> bit x n = bit y n" and "j < k"
    then show "bit x (7 - j) = bit y (7 - j)" using assms by auto
  next
    fix n assume h: "\<forall>j<k. bit x (7 - j) = bit y (7 - j)" and n: "n < 8" "8 - k \<le> n"
    then have "7 - n < k" "7 - (7 - n) = n" using assms by auto
    then show "bit x n = bit y n" using h by metis
  qed
  finally show ?thesis .
qed

lemma byte_eq_bits: "(x :: u8) = y \<longleftrightarrow> (\<forall>j<8. bit x (7 - j) = bit y (7 - j))"
  using byte_prefix_mask_iff [of 8 x y] by simp

lemma take_bytes_eq_bits:
  assumes "n \<le> length c" "n \<le> length d"
  shows "take n c = take n d \<longleftrightarrow> (\<forall>i<8 * n. addr_bit c i = addr_bit d i)"
proof -
  have "take n c = take n d \<longleftrightarrow> (\<forall>k<n. c ! k = d ! k)"
    using assms by (auto simp: list_eq_iff_nth_eq)
  also have "\<dots> \<longleftrightarrow> (\<forall>k<n. \<forall>j<8. addr_bit c (8 * k + j) = addr_bit d (8 * k + j))"
    unfolding byte_eq_bits by (simp add: addr_bit_def)
  also have "\<dots> \<longleftrightarrow> (\<forall>i<8 * n. addr_bit c i = addr_bit d i)"
  proof (rule iffI; intro allI impI)
    fix i assume h: "\<forall>k<n. \<forall>j<8. addr_bit c (8 * k + j) = addr_bit d (8 * k + j)" and "i < 8 * n"
    then show "addr_bit c i = addr_bit d i"
      using h [rule_format, of "i div 8" "i mod 8"] by (simp add: less_mult_imp_div_less)
  next
    fix k j :: nat assume "\<forall>i<8 * n. addr_bit c i = addr_bit d i" "k < n" "j < 8"
    then show "addr_bit c (8 * k + j) = addr_bit d (8 * k + j)" by simp
  qed
  finally show ?thesis .
qed

lemma prefix_match_bits:
  assumes "length c = 16" "length d = 16" "p \<le> 128"
  shows "prefix_match c d p = Some (\<forall>i<p. addr_bit c i = addr_bit d i)"
proof -
  define n where "n = p div 8"
  define k where "k = p mod 8"
  have p: "p = 8 * n + k" "k < 8" by (simp_all add: n_def k_def)
  have n: "n \<le> 16" "k \<noteq> 0 \<Longrightarrow> n < 16" using assms(3) p by auto
  have t: "take n c = take n d \<longleftrightarrow> (\<forall>i<8 * n. addr_bit c i = addr_bit d i)"
    using assms n by (intro take_bytes_eq_bits) auto
  have m: "(\<forall>j<k. bit (c ! n) (7 - j) = bit (d ! n) (7 - j)) \<longleftrightarrow>
           (\<forall>j<k. addr_bit c (8 * n + j) = addr_bit d (8 * n + j))"
    using p(2) by (simp add: addr_bit_def)
  have s: "(\<forall>i<8 * n + k. addr_bit c i = addr_bit d i) \<longleftrightarrow>
           (\<forall>i<8 * n. addr_bit c i = addr_bit d i) \<and>
           (\<forall>j<k. addr_bit c (8 * n + j) = addr_bit d (8 * n + j))"
    by (rule all_less_add_iff)
  show ?thesis
  proof (cases "k = 0")
    case True
    with assms n t p show ?thesis
      by (auto simp: prefix_match_def Let_def n_def [symmetric] k_def [symmetric])
  next
    case False
    with n have "n < 16" by simp
    moreover have "p \<noteq> 0" using p False by simp
    ultimately have "prefix_match c d p =
        Some (take n c = take n d \<and> (c ! n) AND push_bit (8 - k) (NOT 0) = (d ! n) AND push_bit (8 - k) (NOT 0))"
      using assms False by (auto simp: prefix_match_def Let_def n_def [symmetric] k_def [symmetric])
    then show ?thesis
      using p(2) by (simp only: byte_prefix_mask_iff less_imp_le t m s p(1))
  qed
qed

lemma prefix_bound_le [simp]: "prefix_bound f p \<le> 128"
  by (auto simp: prefix_bound_def)

section \<open>Scaling\<close>

lemma scale_u64_le:
  assumes "0 \<le> c" "c \<le> 1" "v \<le> 2 ^ 53"
  shows "scale_u64 v c \<le> v"
proof -
  have v: "unat v \<le> 2 ^ 53" using assms(3) by (simp add: word_le_nat_alt)
  have "fl (f64_of_u64 v * c) \<le> of_nat (unat v)"
    unfolding f64_of_u64_def using assms v by (intro binary64.rnd_scale_le) auto
  then have "f64_round (fl (f64_of_u64 v * c)) \<le> of_nat (unat v)" by (rule f64_round_le)
  then have "unat (scale_u64 v c) \<le> unat v"
    unfolding scale_u64_def using unat_bound [of v]
    by (intro f64_as_u64_le f64_round_nonneg fl_nonneg) auto
  then show ?thesis by (simp add: word_le_nat_alt)
qed

lemma scale_u64_0 [simp]: "scale_u64 0 c = 0"
proof -
  have "\<lfloor>1 / 2 :: rat\<rfloor> = 0" by (simp add: floor_eq_iff)
  then show ?thesis by (simp add: scale_u64_def f64_of_u64_def f64_round_def f64_as_u64_def)
qed

lemma ramp_factor_bounds:
  "elapsed \<le> ramp \<Longrightarrow> 0 \<le> fl (f64_of_u64 elapsed / f64_of_u64 ramp)"
  "elapsed \<le> ramp \<Longrightarrow> fl (f64_of_u64 elapsed / f64_of_u64 ramp) \<le> 1"
  by (simp, simp only: f64_of_u64_def binary64.rnd_ratio_le_1 word_le_nat_alt)

section \<open>Schedules only attenuate\<close>

text \<open>The 23 magnitudes that the ramp scales.\<close>

definition scaled_fields :: "Config \<Rightarrow> u64 list" where
  "scaled_fields c = [
     latency_ns c, jitter_ns c, packet_loss_ppm c, burst_loss_len c, bandwidth_bps c,
     connect_timeout_ms c, recv_timeout_ms c, uplink_latency_ns c, uplink_jitter_ns c,
     uplink_packet_loss_ppm c, uplink_burst_loss_len c, uplink_bandwidth_bps c,
     downlink_latency_ns c, downlink_jitter_ns c, downlink_packet_loss_ppm c,
     downlink_burst_loss_len c, downlink_bandwidth_bps c, conn_err_prob_ppm c, dup_prob_ppm c,
     reorder_prob_ppm c, dns_delay_ns c, dns_timeout_ms c, dns_nxdomain_ppm c]"

lemma scaled_fields_scale: "scaled_fields (scale_faults c f) = map (\<lambda>v. scale_u64 v f) (scaled_fields c)"
  by (simp add: scaled_fields_def scale_faults_def)

lemma scaled_fields_zero: "scaled_fields (zero_faults c) = map (\<lambda>v. 0) (scaled_fields c)"
  by (simp add: scaled_fields_def zero_faults_def)

lemma apply_schedule_cases:
  obtains (keep) "apply_schedule c now = c"
  | (zero) "apply_schedule c now = zero_faults c"
  | (scale) elapsed ramp where "elapsed \<le> ramp"
      "apply_schedule c now = scale_faults c (fl (f64_of_u64 elapsed / f64_of_u64 ramp))"
proof -
  let ?e = "now - schedule_started_monotonic_ns c" and ?a = "schedule_param_a_ns c"
  have "apply_schedule c now \<in> {c, zero_faults c} \<or>
        (\<not> ?a \<le> ?e \<and> apply_schedule c now = scale_faults c (fl (f64_of_u64 ?e / f64_of_u64 ?a)))"
    by (simp add: apply_schedule_def Let_def)
  then show ?thesis using keep zero scale [of ?e ?a] by (auto simp: not_le order_less_imp_le)
qed

lemma schedule_attenuates_lemma:
  assumes "\<forall>v\<in>set (scaled_fields c). v \<le> 2 ^ 53"
  shows "list_all2 (\<le>) (scaled_fields (apply_schedule c now)) (scaled_fields c)"
proof (cases rule: apply_schedule_cases [of c now])
  case (scale elapsed ramp)
  then show ?thesis
    using assms ramp_factor_bounds [OF scale(1)]
    by (auto simp: scaled_fields_scale list_all2_map1 intro!: list.rel_refl_strong scale_u64_le)
qed (auto simp: scaled_fields_zero list_all2_map1 intro!: list.rel_refl_strong)

lemma zero_faults_idem [simp]: "zero_faults (zero_faults c) = zero_faults c"
  by (simp add: zero_faults_def)

lemma zero_scale_faults [simp]: "zero_faults (scale_faults c f) = zero_faults c"
  by (simp add: zero_faults_def scale_faults_def)

lemma zero_faults_apply_schedule: "zero_faults (apply_schedule c now) = zero_faults c"
  by (cases rule: apply_schedule_cases [of c now]) simp_all

text \<open>The period of a spike or flapping schedule.\<close>

definition schedule_period :: "Config \<Rightarrow> u64" where
  "schedule_period c =
     (if schedule_type c = 2 then schedule_param_a_ns c
      else saturating_add (schedule_param_a_ns c) (schedule_param_b_ns c))"

lemma apply_schedule_periodic_lemma:
  assumes "schedule_type c = 2 \<or> schedule_type c = 3"
    and "schedule_started_monotonic_ns c < now"
    and "unat now + unat (schedule_period c) < 2 ^ 64"
  shows "apply_schedule c (now + schedule_period c) = apply_schedule c now"
proof -
  let ?s = "schedule_started_monotonic_ns c" and ?p = "schedule_period c"
  have le: "now \<le> now + ?p" using assms(3) by (simp add: word_le_nat_alt unat_word_ariths)
  have "unat (now - ?s) \<le> unat now" using assms(2) by (simp add: unat_sub_if' word_less_nat_alt)
  then have nw: "unat (now - ?s) + unat ?p < 2 ^ 64" using assms(3) by linarith
  have "(now + ?p - ?s) mod ?p = (now - ?s + ?p) mod ?p" by (simp add: algebra_simps)
  also have "\<dots> = (now - ?s) mod ?p" by (rule word_mod_add_self [OF nw])
  finally have m: "(now + ?p - ?s) mod ?p = (now - ?s) mod ?p" .
  have "?s < now + ?p" using assms(2) le by (rule order_less_le_trans)
  then have g: "\<not> now + ?p \<le> ?s" "\<not> now \<le> ?s" using assms(2) by (simp_all add: not_le)
  from assms(1) show ?thesis
  proof
    assume t: "schedule_type c = 2"
    then show ?thesis using g m by (simp only: apply_schedule_def Let_def schedule_period_def) simp
  next
    assume t: "schedule_type c = 3"
    then show ?thesis using g m by (simp only: apply_schedule_def Let_def schedule_period_def) simp
  qed
qed

section \<open>Properties\<close>

text \<open>A schedule only attenuates. Whatever the schedule type and the time, every one of
  the 23 scaled magnitudes is at most its configured value (for values a double represents
  exactly, which covers every field bounded by row validation), and no field outside the 34 fault
  fields changes.\<close>

lemma schedule_attenuates:
  assumes "\<forall>v\<in>set (scaled_fields c). v \<le> 2 ^ 53"
  shows "list_all2 (\<le>) (scaled_fields (apply_schedule c now)) (scaled_fields c) \<and>
         zero_faults (apply_schedule c now) = zero_faults c"
  using schedule_attenuates_lemma [OF assms] zero_faults_apply_schedule by blast

definition ramp_example :: Config where
  "ramp_example = Config_default\<lparr>bandwidth_bps := 1000, uplink_bandwidth_bps := 2000,
     schedule_type := 1, schedule_param_a_ns := 100, schedule_started_monotonic_ns := 1000\<rparr>"

text \<open>Spike and flapping schedules are periodic: as long as the clock does not wrap, one
  period later the same faults are active.\<close>

lemma schedule_periodic:
  assumes "schedule_type c = 2 \<or> schedule_type c = 3"
    and "schedule_started_monotonic_ns c < now"
    and "unat now + unat (schedule_period c) < 2 ^ 64"
  shows "apply_schedule c (now + schedule_period c) = apply_schedule c now"
  using assms by (rule apply_schedule_periodic_lemma)

end
