(* ===== verification/Layer_Types.thy ===== *)
theory Layer_Types
  imports Net_Config
begin

text \<open>
  The vocabulary shared by the runtime stages (\<open>layers/mod.rs\<close>): directions,
  operations, stages, mutations, the decision type and the packet context.

  Two interfaces are stated here. \<open>pipeline_layer\<close> is what \<open>ChaosEngine::process_pipeline\<close>
  needs of a layer of its main loop: that it answers with a decision the loop accepts.
  \<open>fd_scoped\<close> is what every per-descriptor table promises: a step on one descriptor
  leaves the entry of every other descriptor alone.
\<close>

section \<open>Data\<close>

datatype Direction = Uplink | Downlink

datatype Operation = Connect | Send | Recv | DnsLookup

datatype LayerStage = R0 | R1 | R2 | R3 | R4 | R5 | R6 | R7 | R8

datatype MutationKind =
  MK_None | MK_Truncate | MK_CorruptBytes | MK_InjectBytes | MK_ReplacePattern
| MK_CorruptEncoding | MK_SwapBytes

datatype MutationTarget = Both | UplinkOnly | DownlinkOnly

primrec MutationKind_code :: "MutationKind \<Rightarrow> u64" where
  "MutationKind_code MK_None = 0"
| "MutationKind_code MK_Truncate = 1"
| "MutationKind_code MK_CorruptBytes = 2"
| "MutationKind_code MK_InjectBytes = 3"
| "MutationKind_code MK_ReplacePattern = 4"
| "MutationKind_code MK_CorruptEncoding = 5"
| "MutationKind_code MK_SwapBytes = 6"

primrec MutationTarget_code :: "MutationTarget \<Rightarrow> u64" where
  "MutationTarget_code Both = 0"
| "MutationTarget_code UplinkOnly = 1"
| "MutationTarget_code DownlinkOnly = 2"

datatype Mutation =
  Truncate (mut_size: u64)
| CorruptBytes (mut_count: u64) (mut_seed: u64)
| InjectBytes (mut_position: u64) (mut_data: bytes) (mut_len: u64)
| ReplacePattern (mut_find: bytes) (mut_find_len: u64) (mut_replace: bytes) (mut_replace_len: u64)
| CorruptEncoding
| SwapBytes (mut_pos1: u64) (mut_pos2: u64)

record MutationOutcome =
  applied :: bool
  input_len :: nat
  output_len :: nat
  skipped_rules :: u64
  error_count :: u64

datatype LayerDecision =
  Continue
| DelayNs u64
| Drop
| TimeoutMs u64
| Error string
| ConnectionErrorKind u64
| StageReorder
| Duplicate u64
| NxDomain
| Mutate "Mutation list"

record PacketContext =
  ctx_fd :: fd
  ctx_bytes :: u64
  operation :: Operation
  direction :: "Direction option"
  config :: Config
  now_ns :: u64

section \<open>Predicates on contexts\<close>

definition is_stream :: "PacketContext \<Rightarrow> bool" where
  "is_stream ctx = (operation ctx = Send \<or> operation ctx = Recv)"

definition is_dns :: "PacketContext \<Rightarrow> bool" where
  "is_dns ctx = (operation ctx = DnsLookup)"

definition is_connect :: "PacketContext \<Rightarrow> bool" where
  "is_connect ctx = (operation ctx = Connect)"

definition is_send :: "PacketContext \<Rightarrow> bool" where
  "is_send ctx = (operation ctx = Send)"

definition is_recv :: "PacketContext \<Rightarrow> bool" where
  "is_recv ctx = (operation ctx = Recv)"

lemmas ctx_kind_defs = is_stream_def is_dns_def is_connect_def is_send_def is_recv_def

section \<open>Decisions of the main pipeline\<close>

text \<open>The decisions that the main loop accepts: everything but the post-routing ones, a
  mutation, and an engine error.\<close>

fun main_decision :: "LayerDecision \<Rightarrow> bool" where
  "main_decision (Error _) = False"
| "main_decision StageReorder = False"
| "main_decision (Duplicate _) = False"
| "main_decision (Mutate _) = False"
| "main_decision _ = True"

text \<open>The decisions that end the pipeline at once.\<close>

fun terminal_decision :: "LayerDecision \<Rightarrow> bool" where
  "terminal_decision Continue = False"
| "terminal_decision (DelayNs _) = False"
| "terminal_decision _ = True"

locale pipeline_layer =
  fixes applies_to :: "PacketContext \<Rightarrow> bool"
    and process :: "PacketContext \<Rightarrow> 's \<Rightarrow> LayerDecision \<times> 's"
  assumes process_main: "main_decision (fst (process ctx s))"
begin

lemma process_not_post_routing:
  "fst (process ctx s) \<noteq> StageReorder" "fst (process ctx s) \<noteq> Duplicate n"
  "fst (process ctx s) \<noteq> Mutate ms" "fst (process ctx s) \<noteq> Error e"
  using process_main [of ctx s] by auto

end

section \<open>Per-descriptor state\<close>

fun run_steps :: "(fd \<Rightarrow> 'i \<Rightarrow> 's \<Rightarrow> 'o \<times> 's) \<Rightarrow> (fd \<times> 'i) list \<Rightarrow> 's \<Rightarrow> 'o list \<times> 's" where
  "run_steps step [] s = ([], s)"
| "run_steps step ((f, i) # evs) s =
     (let (d, s') = step f i s; (ds, s'') = run_steps step evs s' in (d # ds, s''))"

locale fd_scoped =
  fixes step :: "fd \<Rightarrow> 'i \<Rightarrow> 's \<Rightarrow> 'o \<times> 's"
    and view :: "'s \<Rightarrow> fd \<Rightarrow> 'v"
  assumes step_frame: "g \<noteq> f \<Longrightarrow> view (snd (step f i s)) g = view s g"
begin

lemma run_frame:
  "g \<notin> fst ` set evs \<Longrightarrow> view (snd (run_steps step evs s)) g = view s g"
proof (induction evs arbitrary: s)
  case (Cons ev evs)
  obtain f i where ev: "ev = (f, i)" by (cases ev)
  from Cons.prems ev have "g \<noteq> f" "g \<notin> fst ` set evs" by auto
  with Cons.IH [of "snd (step f i s)"] step_frame [of g f i s] ev show ?case
    by (simp add: case_prod_beta Let_def)
qed simp

end

lemma run_steps_append:
  "run_steps step (xs @ ys) s =
     (let (ds, s') = run_steps step xs s; (es, s'') = run_steps step ys s' in (ds @ es, s''))"
  by (induction xs arbitrary: s) (auto simp: Let_def split: prod.splits)

lemma length_run_steps: "length (fst (run_steps step evs s)) = length evs"
  by (induction evs arbitrary: s) (auto simp: Let_def case_prod_beta)

end
