(* ===== verification/R1_Session_Guard.thy ===== *)
theory R1_Session_Guard
  imports Layer_Types
begin

text \<open>
  Stage R1 (\<open>layers/r1_session_guard.rs\<close>): per-descriptor budgets on bytes sent, bytes
  received, operations and session duration, checked before the fault pipeline. The mutex
  makes each \<open>precheck\<close> atomic, so the table is explicit state.
\<close>

record SessionState =
  started_monotonic_ns :: u64
  tx_bytes :: u64
  rx_bytes :: u64
  ops :: u64

type_synonym R1SessionGuard = "fd \<rightharpoonup> SessionState"

definition R1_new :: R1SessionGuard where
  "R1_new = Map.empty"

definition action_decision :: "Config \<Rightarrow> LayerDecision" where
  "action_decision c =
     (if session_action c = 1 then Drop
      else if session_action c = 2 then TimeoutMs (max (session_budget_timeout_ms c) 1)
      else if session_action c = 3 then
        ConnectionErrorKind (if session_error_kind c = 0 then 1 else session_error_kind c)
      else Continue)"

definition fresh_session :: "u64 \<Rightarrow> SessionState" where
  "fresh_session now = \<lparr>started_monotonic_ns = now, tx_bytes = 0, rx_bytes = 0, ops = 0\<rparr>"

definition session_entry :: "fd \<Rightarrow> u64 \<Rightarrow> R1SessionGuard \<Rightarrow> SessionState" where
  "session_entry f now m = (case m f of Some st \<Rightarrow> st | None \<Rightarrow> fresh_session now)"

definition session_exceeded :: "Config \<Rightarrow> SessionState \<Rightarrow> u64 \<Rightarrow> Direction \<Rightarrow> u64 \<Rightarrow> bool" where
  "session_exceeded c st nbytes dir now =
     ((0 < session_max_duration_ms c \<and>
       saturating_mul (session_max_duration_ms c) 1000000
         \<le> saturating_sub now (started_monotonic_ns st)) \<or>
      (0 < session_max_ops c \<and> session_max_ops c \<le> ops st) \<or>
      (case dir of
         Uplink \<Rightarrow> 0 < session_max_bytes_tx c \<and>
                   session_max_bytes_tx c < saturating_add (tx_bytes st) nbytes
       | Downlink \<Rightarrow> 0 < session_max_bytes_rx c \<and>
                   session_max_bytes_rx c < saturating_add (rx_bytes st) nbytes))"

definition session_charge :: "SessionState \<Rightarrow> u64 \<Rightarrow> Direction \<Rightarrow> SessionState" where
  "session_charge st nbytes dir =
     (let st = st\<lparr>ops := saturating_add (ops st) 1\<rparr>
      in case dir of
           Uplink \<Rightarrow> st\<lparr>tx_bytes := saturating_add (tx_bytes st) nbytes\<rparr>
         | Downlink \<Rightarrow> st\<lparr>rx_bytes := saturating_add (rx_bytes st) nbytes\<rparr>)"

definition precheck ::
  "fd \<Rightarrow> u64 \<Rightarrow> Direction \<Rightarrow> Config \<Rightarrow> u64 \<Rightarrow> R1SessionGuard \<Rightarrow> LayerDecision \<times> R1SessionGuard" where
  "precheck f nbytes dir c now m =
     (if f < 0 \<or> session_budget_enabled c = 0 \<or> session_action c = 0 then (Continue, m)
      else
        let st = session_entry f now m;
            m' = m(f \<mapsto> st)
        in if session_exceeded c st nbytes dir now then (action_decision c, m')
           else (Continue, m'(f \<mapsto> session_charge st nbytes dir)))"

definition R1_clear_fd_state :: "fd \<Rightarrow> R1SessionGuard \<Rightarrow> R1SessionGuard" where
  "R1_clear_fd_state f m = (if f < 0 then m else m(f := None))"

definition R1_process :: "PacketContext \<Rightarrow> R1SessionGuard \<Rightarrow> LayerDecision \<times> R1SessionGuard" where
  "R1_process ctx m =
     (case direction ctx of
        None \<Rightarrow> (Continue, m)
      | Some dir \<Rightarrow> precheck (ctx_fd ctx) (ctx_bytes ctx) dir (config ctx) (now_ns ctx) m)"

definition R1_name :: string where
  "R1_name = ''R1_SessionGuard''"

section \<open>The budget is never exceeded\<close>

text \<open>The part of a session that a policy bounds.\<close>

definition session_within :: "Config \<Rightarrow> SessionState \<Rightarrow> bool" where
  "session_within c st \<longleftrightarrow>
     (0 < session_max_ops c \<longrightarrow> ops st \<le> session_max_ops c) \<and>
     (0 < session_max_bytes_tx c \<longrightarrow> tx_bytes st \<le> session_max_bytes_tx c) \<and>
     (0 < session_max_bytes_rx c \<longrightarrow> rx_bytes st \<le> session_max_bytes_rx c)"

definition R1_inv :: "Config \<Rightarrow> fd \<Rightarrow> R1SessionGuard \<Rightarrow> bool" where
  "R1_inv c f m \<longleftrightarrow> (\<forall>st. m f = Some st \<longrightarrow> session_within c st)"

lemma session_within_fresh: "session_within c (fresh_session now)"
  by (simp add: session_within_def fresh_session_def)

lemma saturating_add_1_le: "(a :: u64) < b \<Longrightarrow> saturating_add a 1 \<le> b"
  by (simp add: word_le_nat_alt word_less_nat_alt sat_simps)

lemma session_charge_within:
  assumes "session_within c st" "\<not> session_exceeded c st n dir now"
  shows "session_within c (session_charge st n dir)"
  using assms
  by (cases dir)
     (auto simp: session_within_def session_charge_def session_exceeded_def Let_def not_le not_less
           intro: saturating_add_1_le)

lemma precheck_inv: "R1_inv c f m \<Longrightarrow> R1_inv c f (snd (precheck f n dir c now m))"
  by (auto simp: R1_inv_def precheck_def session_entry_def Let_def session_within_fresh
           intro: session_charge_within split: option.splits)

lemma precheck_frame: "g \<noteq> f \<Longrightarrow> snd (precheck f n dir c now m) g = m g"
  by (simp add: precheck_def Let_def)

interpretation r1: fd_scoped
  "\<lambda>f (n, dir, c, now) m. precheck f n dir c now m" "\<lambda>m :: R1SessionGuard. m"
  by unfold_locales (auto simp: precheck_frame)

text \<open>A run of prechecks on one descriptor under one policy.\<close>

fun precheck_run :: "fd \<Rightarrow> Config \<Rightarrow> (u64 \<times> Direction \<times> u64) list \<Rightarrow> R1SessionGuard
    \<Rightarrow> LayerDecision list \<times> R1SessionGuard" where
  "precheck_run f c [] m = ([], m)"
| "precheck_run f c ((n, dir, now) # evs) m =
     (let (d, m') = precheck f n dir c now m; (ds, m'') = precheck_run f c evs m'
      in (d # ds, m''))"

lemma precheck_run_inv: "R1_inv c f m \<Longrightarrow> R1_inv c f (snd (precheck_run f c evs m))"
proof (induction evs arbitrary: m)
  case (Cons ev evs)
  obtain n dir now where ev: "ev = (n, dir, now)" by (cases ev)
  from Cons.IH [OF precheck_inv [OF Cons.prems]] ev show ?case
    by (simp add: Let_def case_prod_beta)
qed simp

text \<open>The bytes that a run admits in one direction.\<close>

fun admitted :: "Direction \<Rightarrow> (u64 \<times> Direction \<times> u64) list \<Rightarrow> LayerDecision list \<Rightarrow> nat" where
  "admitted dir [] ds = 0"
| "admitted dir (ev # evs) [] = 0"
| "admitted dir ((n, dir', now) # evs) (d # ds) =
     (if d = Continue \<and> dir' = dir then unat n else 0) + admitted dir evs ds"

definition session_bytes :: "Direction \<Rightarrow> SessionState \<Rightarrow> u64" where
  "session_bytes dir st = (case dir of Uplink \<Rightarrow> tx_bytes st | Downlink \<Rightarrow> rx_bytes st)"

definition session_limit :: "Direction \<Rightarrow> Config \<Rightarrow> u64" where
  "session_limit dir c =
     (case dir of Uplink \<Rightarrow> session_max_bytes_tx c | Downlink \<Rightarrow> session_max_bytes_rx c)"

definition bytes_of :: "Direction \<Rightarrow> fd \<Rightarrow> R1SessionGuard \<Rightarrow> nat" where
  "bytes_of dir f m = (case m f of None \<Rightarrow> 0 | Some st \<Rightarrow> unat (session_bytes dir st))"

lemma action_decision_not_Continue:
  "session_action c \<in> {1, 2, 3} \<Longrightarrow> action_decision c \<noteq> Continue"
  by (auto simp: action_decision_def)

lemma session_charge_bytes:
  assumes "\<not> session_exceeded c st n dir now" "0 < session_limit dir c" "session_limit dir c < - 1"
  shows "unat (session_bytes dir (session_charge st n dir)) = unat (session_bytes dir st) + unat n"
proof -
  have "saturating_add (session_bytes dir st) n \<le> session_limit dir c"
    using assms(1,2) by (cases dir) (auto simp: session_exceeded_def session_bytes_def session_limit_def not_less)
  then have "saturating_add (session_bytes dir st) n < - 1" using assms(3) by simp
  then have "unat (saturating_add (session_bytes dir st) n) < 2 ^ 64 - 1"
    by (simp add: word_less_nat_alt unat_minus_one_max)
  then have "unat (saturating_add (session_bytes dir st) n) = unat (session_bytes dir st) + unat n"
    by (simp add: sat_simps min_def split: if_splits)
  then show ?thesis by (cases dir) (simp_all add: session_charge_def session_bytes_def Let_def)
qed

text \<open>A policy that really guards descriptor \<open>f\<close>: enabled, with a terminal action.\<close>

definition guards :: "Config \<Rightarrow> fd \<Rightarrow> bool" where
  "guards c f \<longleftrightarrow> 0 \<le> f \<and> session_budget_enabled c \<noteq> 0 \<and> session_action c \<in> {1, 2, 3}"

lemma precheck_guarded:
  assumes "guards c f"
  shows "fst (precheck f n dir c now m) = Continue \<longleftrightarrow>
      \<not> session_exceeded c (session_entry f now m) n dir now"
    and "snd (precheck f n dir c now m) f =
      Some (if session_exceeded c (session_entry f now m) n dir now then session_entry f now m
            else session_charge (session_entry f now m) n dir)"
  using assms action_decision_not_Continue [of c]
  by (auto simp: guards_def precheck_def Let_def)

lemma session_charge_other: "dir' \<noteq> dir \<Longrightarrow> session_bytes dir (session_charge st n dir') = session_bytes dir st"
  by (cases dir; cases dir') (simp_all add: session_charge_def session_bytes_def)

lemma precheck_bytes:
  assumes "guards c f" "0 < session_limit dir c" "session_limit dir c < - 1"
  shows "bytes_of dir f (snd (precheck f n dir' c now m)) =
         bytes_of dir f m + (if fst (precheck f n dir' c now m) = Continue \<and> dir' = dir then unat n else 0)"
proof -
  let ?st = "session_entry f now m"
  have b: "unat (session_bytes dir ?st) = bytes_of dir f m"
    by (cases dir)
       (auto simp: session_entry_def bytes_of_def session_bytes_def fresh_session_def split: option.splits)
  show ?thesis
    using b session_charge_bytes [of c ?st n dir now] session_charge_other [of dir' dir ?st n] assms(2,3)
    by (auto simp: bytes_of_def [of dir f "snd _"] precheck_guarded [OF assms(1)])
qed

lemma precheck_run_bytes:
  assumes "guards c f" "0 < session_limit dir c" "session_limit dir c < - 1"
  shows "bytes_of dir f (snd (precheck_run f c evs m)) =
         bytes_of dir f m + admitted dir evs (fst (precheck_run f c evs m))"
proof (induction evs arbitrary: m)
  case (Cons ev evs)
  obtain n dir' now where ev: "ev = (n, dir', now)" by (cases ev)
  show ?case
    using Cons.IH [of "snd (precheck f n dir' c now m)"]
      precheck_bytes [OF assms, of n dir' now m]
    by (simp add: ev Let_def case_prod_beta)
qed simp

lemma bytes_of_le_limit: "R1_inv c f m \<Longrightarrow> 0 < session_limit dir c \<Longrightarrow> bytes_of dir f m \<le> unat (session_limit dir c)"
  by (cases dir) (auto simp: R1_inv_def session_within_def session_limit_def bytes_of_def
       session_bytes_def word_le_nat_alt split: option.splits)

lemma R1_inv_new: "R1_inv c f R1_new"
  by (simp add: R1_inv_def R1_new_def)

section \<open>Properties\<close>

text \<open>C14. Session byte budgets hold over every run: from a fresh table, however the operations on a
  descriptor interleave, the bytes admitted in a direction never add up to more than that
  direction's budget.\<close>

theorem session_byte_budget_respected:
  assumes "guards c f" "0 < session_limit dir c" "session_limit dir c < - 1"
  shows "admitted dir evs (fst (precheck_run f c evs R1_new)) \<le> unat (session_limit dir c)"
proof -
  have "bytes_of dir f (snd (precheck_run f c evs R1_new)) \<le> unat (session_limit dir c)"
    using R1_inv_new assms(2) by (intro bytes_of_le_limit precheck_run_inv)
  with precheck_run_bytes [OF assms, of evs R1_new] show ?thesis by simp
qed

definition budget_example :: Config where
  "budget_example = Config_default\<lparr>session_budget_enabled := 1, session_action := 2,
     session_budget_timeout_ms := 55, session_max_bytes_tx := 3\<rparr>"

theorem session_byte_budget_respected_witness:
  "admitted Uplink [(2, Uplink, 1000), (2, Uplink, 1001), (1, Uplink, 1002)]
     (fst (precheck_run 11 budget_example
        [(2, Uplink, 1000), (2, Uplink, 1001), (1, Uplink, 1002)] R1_new)) \<le> 3 \<and>
   fst (precheck_run 11 budget_example
        [(2, Uplink, 1000), (2, Uplink, 1001), (1, Uplink, 1002)] R1_new) =
     [Continue, TimeoutMs 55, Continue]"
proof -
  have h: "guards budget_example 11" "0 < session_limit Uplink budget_example"
    "session_limit Uplink budget_example < - 1" "unat (session_limit Uplink budget_example) = 3"
    by (simp_all add: guards_def budget_example_def session_limit_def Config_default_def)
  have d: "fst (precheck_run 11 budget_example
        [(2, Uplink, 1000), (2, Uplink, 1001), (1, Uplink, 1002)] R1_new) =
     [Continue, TimeoutMs 55, Continue]"
    by (simp add: precheck_def session_entry_def R1_new_def budget_example_def Config_default_def fresh_session_def
        session_exceeded_def session_charge_def action_decision_def saturating_add_def Let_def max_def word_le_nat_alt)
  show ?thesis using session_byte_budget_respected [OF h(1-3), of "[(2, Uplink, 1000), (2, Uplink, 1001), (1, Uplink, 1002)]"]
    unfolding h(4) d by simp
qed

text \<open>Budgets are per descriptor: no sequence of prechecks on other descriptors changes what
  the guard has recorded for \<open>g\<close>.\<close>

lemma session_budget_isolated:
  assumes "g \<notin> fst ` set evs"
  shows "snd (run_steps (\<lambda>f (n, dir, c, now) m. precheck f n dir c now m) evs m) g = m g"
  using assms by (rule r1.run_frame)

end
