(* ===== verification/Layer_Rng.thy ===== *)
theory Layer_Rng
  imports Layer_Types "HOL-Library.Stream"
begin

text \<open>
  The random draws of layers R2, R4, R5 and R6. Each layer carries the same three-way
  source: with a positive \<open>policy_seed\<close> a draw is a \<open>splitmix64\<close> hash of the seed, a
  per-layer salt and a per-layer counter; otherwise it comes from the seeded generator (if
  \<open>FAULTCORE_SEED\<close> parsed) or from the thread's generator.

  The generators belong to the crate \<open>rand\<close>. A generator is the infinite stream of the
  values it will return, so \<open>next_u32\<close> takes the head. The function \<open>std_rng\<close> that gives the
  stream of \<open>StdRng::seed_from_u64\<close> is an argument of the constructor, and the stream of the thread's
  generator is part of the state; both are arbitrary in every theorem.
\<close>

section \<open>Environment and seed parsing\<close>

fun parse_digits :: "nat \<Rightarrow> string \<Rightarrow> u64 option" where
  "parse_digits acc [] = Some (u64_of acc)"
| "parse_digits acc (ch # cs) =
     (let d = of_char ch :: nat
      in if d < 48 \<or> 57 < d then None
         else let acc' = acc * 10 + (d - 48)
              in if 2 ^ 64 \<le> acc' then None else parse_digits acc' cs)"

definition parse_u64 :: "string \<Rightarrow> u64 option" where
  "parse_u64 s =
     (case s of
        [] \<Rightarrow> None
      | [ch] \<Rightarrow> if ch = CHR ''+'' \<or> ch = CHR ''-'' then None else parse_digits 0 s
      | ch # cs \<Rightarrow> if ch = CHR ''+'' then parse_digits 0 cs else parse_digits 0 s)"

section \<open>State\<close>

record layer_rng =
  seeded_rng :: "u32 stream option"
  thread_rng :: "u32 stream"
  policy_counter :: u64

definition rng_with_seed :: "(u64 \<Rightarrow> u32 stream) \<Rightarrow> u32 stream \<Rightarrow> u64 \<Rightarrow> layer_rng" where
  "rng_with_seed std_rng thread seed =
     \<lparr>seeded_rng = Some (std_rng seed), thread_rng = thread, policy_counter = 0\<rparr>"

definition rng_new ::
  "(u64 \<Rightarrow> u32 stream) \<Rightarrow> (string \<Rightarrow> string option) \<Rightarrow> u32 stream \<Rightarrow> layer_rng" where
  "rng_new std_rng env thread =
     \<lparr>seeded_rng = map_option std_rng (Option.bind (env ''FAULTCORE_SEED'') parse_u64),
      thread_rng = thread, policy_counter = 0\<rparr>"

section \<open>Draws\<close>

definition splitmix64 :: "u64 \<Rightarrow> u64" where
  "splitmix64 x0 =
     (let x = x0 + 0x9E3779B97F4A7C15;
          z1 = (x XOR drop_bit 30 x) * 0xBF58476D1CE4E5B9;
          z2 = (z1 XOR drop_bit 27 z1) * 0x94D049BB133111EB
      in z2 XOR drop_bit 31 z2)"

definition random_u32 :: "u64 \<Rightarrow> u64 \<Rightarrow> layer_rng \<Rightarrow> u32 \<times> layer_rng" where
  "random_u32 salt seed r =
     (if 0 < seed then
        let step = policy_counter r;
            mixed = splitmix64 (seed XOR salt XOR step)
        in (ucast (mixed AND 0xFFFFFFFF), r\<lparr>policy_counter := step + 1\<rparr>)
      else case seeded_rng r of
        Some st \<Rightarrow> (shd st, r\<lparr>seeded_rng := Some (stl st)\<rparr>)
      | None \<Rightarrow> (shd (thread_rng r), r\<lparr>thread_rng := stl (thread_rng r)\<rparr>))"

definition event_happens :: "u64 \<Rightarrow> u64 \<Rightarrow> u64 \<Rightarrow> layer_rng \<Rightarrow> bool \<times> layer_rng" where
  "event_happens salt probability_ppm seed r =
     (if probability_ppm = 0 then (False, r)
      else if 1000000 \<le> probability_ppm then (True, r)
      else let (v, r') = random_u32 salt seed r
           in (v mod 1000000 < ucast probability_ppm, r'))"

section \<open>Certain and impossible events draw nothing\<close>

lemma event_happens_0 [simp]: "event_happens salt 0 seed r = (False, r)"
  by (simp add: event_happens_def)

lemma event_happens_certain: "1000000 \<le> p \<Longrightarrow> event_happens salt p seed r = (True, r)"
  by (auto simp: event_happens_def)

section \<open>Policy-seeded draws ignore the generators\<close>

definition rng_agree :: "layer_rng \<Rightarrow> layer_rng \<Rightarrow> bool" where
  "rng_agree r r' = (policy_counter r = policy_counter r')"

lemma random_u32_policy:
  assumes "0 < seed" "rng_agree r r'"
  shows "fst (random_u32 salt seed r) = fst (random_u32 salt seed r')"
    and "rng_agree (snd (random_u32 salt seed r)) (snd (random_u32 salt seed r'))"
  using assms by (auto simp: random_u32_def rng_agree_def Let_def)

lemma event_happens_policy:
  assumes "0 < seed" "rng_agree r r'"
  shows "fst (event_happens salt p seed r) = fst (event_happens salt p seed r')"
    and "rng_agree (snd (event_happens salt p seed r)) (snd (event_happens salt p seed r'))"
  using random_u32_policy [OF assms, of salt] assms(2)
  by (auto simp: event_happens_def split: prod.splits)

section \<open>The hash is a permutation\<close>

lemma xorshift_inj:
  assumes "0 < k"
  shows "inj (\<lambda>z :: 'a::len word. z XOR drop_bit k z)"
proof (rule injI)
  fix x y :: "'a word"
  assume eq: "x XOR drop_bit k x = y XOR drop_bit k y"
  have bits: "bit x i = bit y i" if "i < LENGTH('a)" for i
    using that
  proof (induction "LENGTH('a) - i" arbitrary: i rule: less_induct)
    case less
    have "bit (x XOR drop_bit k x) i = bit (y XOR drop_bit k y) i" by (simp only: eq)
    then have e: "(bit x i \<noteq> bit x (k + i)) = (bit y i \<noteq> bit y (k + i))"
      by (simp add: bit_simps)
    have "bit x (k + i) = bit y (k + i)"
    proof (cases "k + i < LENGTH('a)")
      case True
      with assms less.hyps [of "k + i"] show ?thesis by simp
    next
      case False
      then show ?thesis by (simp add: impossible_bit)
    qed
    with e show ?case by blast
  qed
  then show "x = y" by (auto simp: bit_eq_iff)
qed

lemma mult_inj_of_inverse:
  fixes c d :: "'a::len word"
  assumes "c * d = 1"
  shows "inj (\<lambda>z. z * c)"
proof (rule injI)
  fix x y assume "x * c = y * c"
  then have "x * (c * d) = y * (c * d)" by (simp only: mult.assoc [symmetric])
  with assms show "x = y" by simp
qed

lemma splitmix64_inj: "inj splitmix64"
proof -
  have eq: "splitmix64 = (\<lambda>z. z XOR drop_bit 31 z) \<circ> (\<lambda>z. z * 0x94D049BB133111EB) \<circ>
      (\<lambda>z. z XOR drop_bit 27 z) \<circ> (\<lambda>z. z * 0xBF58476D1CE4E5B9) \<circ>
      (\<lambda>z. z XOR drop_bit 30 z) \<circ> (\<lambda>x. x + 0x9E3779B97F4A7C15)"
    by (simp add: splitmix64_def Let_def fun_eq_iff)
  have m1: "inj (\<lambda>z :: u64. z * 0xBF58476D1CE4E5B9)"
    by (rule mult_inj_of_inverse [where d = "0x96DE1B173F119089"]) simp
  have m2: "inj (\<lambda>z :: u64. z * 0x94D049BB133111EB)"
    by (rule mult_inj_of_inverse [where d = "0x319642B2D24D8EC3"]) simp
  have a: "inj (\<lambda>x :: u64. x + 0x9E3779B97F4A7C15)"
    by (simp add: inj_def)
  show ?thesis unfolding eq by (intro inj_compose xorshift_inj m1 m2 a) simp_all
qed

section \<open>Properties\<close>

text \<open>The mixing function behind policy-seeded draws is a permutation of the 64-bit words,
  so for one seed and salt two different counter values never give the same 64-bit state:
  a policy-seeded layer visits all \<open>2 ^ 64\<close> states before it repeats one.\<close>

lemma policy_states_distinct:
  "splitmix64 (seed XOR salt XOR i) = splitmix64 (seed XOR salt XOR j) \<longleftrightarrow> i = j"
proof -
  have "splitmix64 (seed XOR salt XOR i) = splitmix64 (seed XOR salt XOR j) \<longleftrightarrow>
        seed XOR salt XOR i = seed XOR salt XOR j"
    by (rule inj_eq [OF splitmix64_inj])
  also have "\<dots> \<longleftrightarrow> i = j" by (simp only: xor_left_cancel)
  finally show ?thesis .
qed

end
