(* ===== verification/R2_Chaos_Base.thy ===== *)
theory R2_Chaos_Base
  imports Layer_Rng
begin

text \<open>
  Stage R2 (\<open>layers/r2_chaos_base.rs\<close>): packet loss, burst loss, Gilbert-Elliott correlated
  loss, base latency, and the reorder and duplicate triggers.
\<close>

record R2ChaosBase =
  r2_rng :: layer_rng
  burst_remaining_by_fd :: "fd \<rightharpoonup> u64"
  ge_state_by_fd :: "fd \<rightharpoonup> u8"

definition R2_new ::
  "(u64 \<Rightarrow> u32 stream) \<Rightarrow> (string \<Rightarrow> string option) \<Rightarrow> u32 stream \<Rightarrow> R2ChaosBase" where
  "R2_new std_rng env thread =
     \<lparr>r2_rng = rng_new std_rng env thread, burst_remaining_by_fd = Map.empty,
      ge_state_by_fd = Map.empty\<rparr>"

definition R2_with_seed :: "(u64 \<Rightarrow> u32 stream) \<Rightarrow> u32 stream \<Rightarrow> u64 \<Rightarrow> R2ChaosBase" where
  "R2_with_seed std_rng thread seed =
     \<lparr>r2_rng = rng_with_seed std_rng thread seed, burst_remaining_by_fd = Map.empty,
      ge_state_by_fd = Map.empty\<rparr>"

definition R2_event_happens :: "u64 \<Rightarrow> Config \<Rightarrow> R2ChaosBase \<Rightarrow> bool \<times> R2ChaosBase" where
  "R2_event_happens ppm c s =
     (let (b, r) = event_happens 0x4C31DA05 ppm (policy_seed c) (r2_rng s)
      in (b, s\<lparr>r2_rng := r\<rparr>))"

definition correlated_loss_ppm :: "fd \<Rightarrow> Config \<Rightarrow> R2ChaosBase \<Rightarrow> u64 option \<times> R2ChaosBase" where
  "correlated_loss_ppm f c s =
     (if ge_enabled c = 0 then (None, s)
      else
        let current_state = (case ge_state_by_fd s f of Some v \<Rightarrow> v | None \<Rightarrow> 0);
            (next_state, s) =
              (if current_state = 0 then
                 let (b, s) = R2_event_happens (ge_p_good_to_bad_ppm c) c s
                 in (if b then 1 else current_state, s)
               else
                 let (b, s) = R2_event_happens (ge_p_bad_to_good_ppm c) c s
                 in (if b then 0 else current_state, s))
        in if next_state = 0 then
             (Some (ge_loss_good_ppm c), s\<lparr>ge_state_by_fd := (ge_state_by_fd s)(f := None)\<rparr>)
           else
             (Some (ge_loss_bad_ppm c), s\<lparr>ge_state_by_fd := (ge_state_by_fd s)(f \<mapsto> 1)\<rparr>))"

fun duplicate_loop :: "nat \<Rightarrow> Config \<Rightarrow> u64 \<Rightarrow> R2ChaosBase \<Rightarrow> u64 \<times> R2ChaosBase" where
  "duplicate_loop 0 c count s = (count, s)"
| "duplicate_loop (Suc n) c count s =
     (let (b, s') = R2_event_happens (dup_prob_ppm c) c s
      in duplicate_loop n c (if b then count + 1 else count) s')"

definition dup_limit :: "Config \<Rightarrow> u64" where
  "dup_limit c = (if dup_max_extra c = 0 then 1 else dup_max_extra c)"

definition duplicate_extra :: "Config \<Rightarrow> R2ChaosBase \<Rightarrow> u64 \<times> R2ChaosBase" where
  "duplicate_extra c s =
     (if dup_prob_ppm c = 0 then (0, s) else duplicate_loop (unat (dup_limit c)) c 0 s)"

definition should_reorder :: "Config \<Rightarrow> R2ChaosBase \<Rightarrow> bool \<times> R2ChaosBase" where
  "should_reorder c s = R2_event_happens (reorder_prob_ppm c) c s"

definition duplicate_decision :: "Config \<Rightarrow> R2ChaosBase \<Rightarrow> LayerDecision \<times> R2ChaosBase" where
  "duplicate_decision c s =
     (let (count, s') = duplicate_extra c s
      in (if 0 < count then Duplicate count else Continue, s'))"

definition reorder_decision :: "Config \<Rightarrow> R2ChaosBase \<Rightarrow> LayerDecision \<times> R2ChaosBase" where
  "reorder_decision c s =
     (let (b, s') = should_reorder c s in (if b then StageReorder else Continue, s'))"

definition R2_applies_to :: "PacketContext \<Rightarrow> bool" where
  "R2_applies_to ctx = (\<not> is_dns ctx)"

definition burst_step :: "fd \<Rightarrow> R2ChaosBase \<Rightarrow> R2ChaosBase option" where
  "burst_step f s =
     (case burst_remaining_by_fd s f of
        Some current \<Rightarrow>
          if 0 < current then
            Some (s\<lparr>burst_remaining_by_fd :=
                     (burst_remaining_by_fd s)
                       (f := if current - 1 = 0 then None else Some (current - 1))\<rparr>)
          else None
      | None \<Rightarrow> None)"

definition R2_process :: "PacketContext \<Rightarrow> R2ChaosBase \<Rightarrow> LayerDecision \<times> R2ChaosBase" where
  "R2_process ctx s =
     (let c = config ctx in
      case burst_step (ctx_fd ctx) s of
        Some s' \<Rightarrow> (Drop, s')
      | None \<Rightarrow>
          let (loss, s1) = correlated_loss_ppm (ctx_fd ctx) c s;
              effective_loss = (case loss of Some p \<Rightarrow> p | None \<Rightarrow> packet_loss_ppm c);
              (lost, s2) = R2_event_happens effective_loss c s1
          in if lost then
               (Drop,
                if 0 < burst_loss_len c
                then s2\<lparr>burst_remaining_by_fd :=
                       (burst_remaining_by_fd s2)
                         (ctx_fd ctx \<mapsto> saturating_sub (burst_loss_len c) 1)\<rparr>
                else s2)
             else if 0 < latency_ns c then (DelayNs (latency_ns c), s2)
             else (Continue, s2))"

definition R2_name :: string where
  "R2_name = ''R2_ChaosBase''"

section \<open>What a draw leaves alone\<close>

lemma R2_event_happens_frame [simp]:
  "burst_remaining_by_fd (snd (R2_event_happens p c s)) = burst_remaining_by_fd s"
  "ge_state_by_fd (snd (R2_event_happens p c s)) = ge_state_by_fd s"
  by (simp_all add: R2_event_happens_def case_prod_beta Let_def)

lemma R2_event_happens_0 [simp]: "R2_event_happens 0 c s = (False, s)"
  by (simp add: R2_event_happens_def)

lemma R2_event_happens_certain: "1000000 \<le> p \<Longrightarrow> R2_event_happens p c s = (True, s)"
  by (simp add: R2_event_happens_def event_happens_certain)

lemma correlated_loss_frame [simp]:
  "burst_remaining_by_fd (snd (correlated_loss_ppm f c s)) = burst_remaining_by_fd s"
  "g \<noteq> f \<Longrightarrow> ge_state_by_fd (snd (correlated_loss_ppm f c s)) g = ge_state_by_fd s g"
  by (simp_all add: correlated_loss_ppm_def case_prod_beta Let_def)

lemma burst_step_frame:
  "burst_step f s = Some s' \<Longrightarrow> ge_state_by_fd s' = ge_state_by_fd s"
  "burst_step f s = Some s' \<Longrightarrow> g \<noteq> f \<Longrightarrow> burst_remaining_by_fd s' g = burst_remaining_by_fd s g"
  by (auto simp: burst_step_def split: option.splits if_splits)

lemma R2_process_frame:
  assumes "g \<noteq> ctx_fd ctx"
  shows "burst_remaining_by_fd (snd (R2_process ctx s)) g = burst_remaining_by_fd s g"
    and "ge_state_by_fd (snd (R2_process ctx s)) g = ge_state_by_fd s g"
  using assms burst_step_frame [of "ctx_fd ctx" s]
  by (simp_all add: R2_process_def Let_def case_prod_beta split: option.split)

lemma R2_process_main: "main_decision (fst (R2_process ctx s))"
  by (simp add: R2_process_def Let_def case_prod_beta split: option.split)

interpretation r2: pipeline_layer R2_applies_to R2_process
  by unfold_locales (rule R2_process_main)

definition R2_step :: "fd \<Rightarrow> PacketContext \<Rightarrow> R2ChaosBase \<Rightarrow> LayerDecision \<times> R2ChaosBase" where
  "R2_step f ctx s = R2_process (ctx\<lparr>ctx_fd := f\<rparr>) s"

interpretation r2_fd: fd_scoped R2_step
  "\<lambda>s f. (burst_remaining_by_fd s f, ge_state_by_fd s f)"
  by unfold_locales (simp add: R2_step_def R2_process_frame)

section \<open>Bursts\<close>

definition burst_left :: "fd \<Rightarrow> R2ChaosBase \<Rightarrow> nat" where
  "burst_left f s = (case burst_remaining_by_fd s f of None \<Rightarrow> 0 | Some n \<Rightarrow> unat n)"

lemma burst_step_None: "burst_step f s = None \<longleftrightarrow> burst_left f s = 0"
  by (auto simp: burst_step_def burst_left_def unat_eq_0 split: option.splits)

lemma burst_step_Some: "burst_step f s = Some s' \<Longrightarrow> burst_left f s = Suc (burst_left f s')"
  by (auto simp: burst_step_def burst_left_def unat_minus_one split: option.splits if_splits)
     (simp add: unat_eq_0 [symmetric] unat_minus_one)

lemma R2_process_in_burst:
  assumes "burst_left (ctx_fd ctx) s = Suc n"
  obtains s' where "R2_process ctx s = (Drop, s')" "burst_left (ctx_fd ctx) s' = n"
proof -
  from assms have "burst_step (ctx_fd ctx) s \<noteq> None" by (simp add: burst_step_None)
  then obtain s' where s': "burst_step (ctx_fd ctx) s = Some s'" by blast
  with assms burst_step_Some [OF s'] show ?thesis by (intro that) (simp_all add: R2_process_def)
qed

lemma burst_drains:
  assumes "burst_left f s = length ctxs"
  shows "fst (run_steps R2_step (map (Pair f) ctxs) s) = replicate (length ctxs) Drop \<and>
         burst_left f (snd (run_steps R2_step (map (Pair f) ctxs) s)) = 0"
  using assms
proof (induction ctxs arbitrary: s)
  case (Cons ctx ctxs)
  from Cons.prems have "burst_left (ctx_fd (ctx\<lparr>ctx_fd := f\<rparr>)) s = Suc (length ctxs)" by simp
  then obtain s' where s': "R2_process (ctx\<lparr>ctx_fd := f\<rparr>) s = (Drop, s')" "burst_left f s' = length ctxs"
    by (rule R2_process_in_burst) simp
  with Cons.IH [of s'] show ?case by (simp add: R2_step_def Let_def case_prod_beta)
qed simp

lemma R2_process_starts_burst:
  assumes "burst_left (ctx_fd ctx) s = 0" "R2_process ctx s = (Drop, s')"
    and "0 < burst_loss_len (config ctx)"
  shows "Suc (burst_left (ctx_fd ctx) s') = unat (burst_loss_len (config ctx))"
proof -
  have "burst_step (ctx_fd ctx) s = None" using assms(1) by (simp add: burst_step_None)
  then have "burst_left (ctx_fd ctx) s' = unat (saturating_sub (burst_loss_len (config ctx)) 1)"
    using assms(2,3)
    by (auto simp: R2_process_def Let_def case_prod_beta burst_left_def split: if_splits)
  then show ?thesis using assms(3) by (simp add: sat_simps unat_gt_0)
qed

section \<open>Duplicates\<close>

lemma duplicate_loop_bound:
  assumes "unat count + n < 2 ^ 64"
  shows "unat (fst (duplicate_loop n c count s)) \<le> unat count + n"
  using assms
proof (induction n arbitrary: count s)
  case (Suc n)
  let ?b = "fst (R2_event_happens (dup_prob_ppm c) c s)" and ?s = "snd (R2_event_happens (dup_prob_ppm c) c s)"
  have u: "unat (count + 1) = unat count + 1" using Suc.prems by (simp add: unat_word_ariths)
  show ?case
    using Suc.IH [of "if ?b then count + 1 else count" ?s] Suc.prems u
    by (cases ?b) (simp_all add: Let_def case_prod_beta)
qed simp

lemma duplicate_extra_bound: "fst (duplicate_extra c s) \<le> dup_limit c"
  using duplicate_loop_bound [of 0 "unat (dup_limit c)" c s] unat_bound [of "dup_limit c"]
  by (simp add: duplicate_extra_def word_le_nat_alt)

lemma duplicate_loop_certain:
  "1000000 \<le> dup_prob_ppm c \<Longrightarrow> duplicate_loop n c count s = (count + word_of_nat n, s)"
  by (induction n arbitrary: count) (simp_all add: R2_event_happens_certain algebra_simps)

section \<open>Determinism under a policy seed\<close>

definition R2_agree :: "R2ChaosBase \<Rightarrow> R2ChaosBase \<Rightarrow> bool" where
  "R2_agree s t \<longleftrightarrow> rng_agree (r2_rng s) (r2_rng t) \<and>
     burst_remaining_by_fd s = burst_remaining_by_fd t \<and> ge_state_by_fd s = ge_state_by_fd t"

lemma R2_event_happens_agree:
  assumes "0 < policy_seed c" "R2_agree s t"
  shows "fst (R2_event_happens p c s) = fst (R2_event_happens p c t)"
    and "R2_agree (snd (R2_event_happens p c s)) (snd (R2_event_happens p c t))"
  using assms event_happens_policy [of "policy_seed c" "r2_rng s" "r2_rng t"]
  by (auto simp: R2_agree_def R2_event_happens_def Let_def case_prod_beta)

lemma correlated_loss_agree:
  assumes "0 < policy_seed c" "R2_agree s t"
  shows "fst (correlated_loss_ppm f c s) = fst (correlated_loss_ppm f c t)"
    and "R2_agree (snd (correlated_loss_ppm f c s)) (snd (correlated_loss_ppm f c t))"
proof -
  have ge: "ge_state_by_fd s = ge_state_by_fd t" using assms(2) by (simp add: R2_agree_def)
  show "fst (correlated_loss_ppm f c s) = fst (correlated_loss_ppm f c t)"
    using R2_event_happens_agree(1) [OF assms]
    by (simp add: correlated_loss_ppm_def ge Let_def case_prod_beta)
  show "R2_agree (snd (correlated_loss_ppm f c s)) (snd (correlated_loss_ppm f c t))"
    using R2_event_happens_agree [OF assms] assms(2)
    by (simp add: correlated_loss_ppm_def ge Let_def case_prod_beta) (simp add: R2_agree_def)
qed

lemma burst_step_agree:
  assumes "R2_agree s t"
  shows "rel_option R2_agree (burst_step f s) (burst_step f t)"
  using assms by (auto simp: burst_step_def R2_agree_def split: option.splits)

lemma R2_process_agree:
  assumes "0 < policy_seed (config ctx)" "R2_agree s t"
  shows "fst (R2_process ctx s) = fst (R2_process ctx t) \<and>
         R2_agree (snd (R2_process ctx s)) (snd (R2_process ctx t))"
proof (cases "burst_step (ctx_fd ctx) s")
  case (Some s')
  with burst_step_agree [OF assms(2), of "ctx_fd ctx"] obtain t' where
    "burst_step (ctx_fd ctx) t = Some t'" "R2_agree s' t'" by (auto simp: option_rel_Some1)
  with Some show ?thesis by (simp add: R2_process_def)
next
  case None
  with burst_step_agree [OF assms(2), of "ctx_fd ctx"] have t: "burst_step (ctx_fd ctx) t = None"
    by simp
  note l = correlated_loss_agree [OF assms, of "ctx_fd ctx"]
  note e = R2_event_happens_agree [OF assms(1) l(2)]
  show ?thesis
    using e l(1) by (simp add: R2_process_def None t Let_def case_prod_beta) (simp add: R2_agree_def)
qed

lemma R2_run_agree:
  assumes "\<forall>(f, ctx)\<in>set evs. 0 < policy_seed (config ctx)" "R2_agree s t"
  shows "fst (run_steps R2_step evs s) = fst (run_steps R2_step evs t)"
  using assms
proof (induction evs arbitrary: s t)
  case (Cons ev evs)
  obtain f ctx where ev: "ev = (f, ctx)" by (cases ev)
  have "0 < policy_seed (config (ctx\<lparr>ctx_fd := f\<rparr>))" using Cons.prems(1) ev by simp
  note a = R2_process_agree [OF this Cons.prems(2)]
  with Cons.IH [of "snd (R2_step f ctx s)" "snd (R2_step f ctx t)"] Cons.prems(1) ev show ?case
    by (simp add: R2_step_def Let_def case_prod_beta)
qed simp

section \<open>Properties\<close>


definition r2_ctx :: "fd \<Rightarrow> Config \<Rightarrow> PacketContext" where
  "r2_ctx f c = \<lparr>ctx_fd = f, ctx_bytes = 1, operation = Recv, direction = None, config = c, now_ns = 0\<rparr>"

definition r2_start :: R2ChaosBase where
  "r2_start = R2_with_seed (\<lambda>seed. sconst 0) (sconst 0) 1"

definition burst_config :: Config where
  "burst_config = Config_default\<lparr>packet_loss_ppm := 1000000, burst_loss_len := 3\<rparr>"


text \<open>A policy seed makes loss reproducible: two engines that agree on the
  counter and the per-descriptor tables, whatever their generators hold, take the same decisions on
  every sequence of packets whose policies carry a seed.\<close>

lemma policy_seed_reproducible:
  assumes "\<forall>(f, ctx)\<in>set evs. 0 < policy_seed (config ctx)"
  shows "fst (run_steps R2_step evs (R2_new std_rng env thread)) =
         fst (run_steps R2_step evs (R2_new std_rng' env' thread'))"
  using assms by (rule R2_run_agree) (simp add: R2_agree_def R2_new_def rng_new_def rng_agree_def)

text \<open>Duplication is bounded: a duplicate decision asks for at least one extra copy and at most
  \<open>dup_max_extra\<close> (one when unset), and with certain probability for exactly that many.\<close>

lemma duplicate_decision_bounded:
  "(case fst (duplicate_decision c s) of
      Duplicate n \<Rightarrow> 0 < n \<and> n \<le> dup_limit c
    | d \<Rightarrow> d = Continue) \<and>
   (1000000 \<le> dup_prob_ppm c \<longrightarrow> fst (duplicate_decision c s) = Duplicate (dup_limit c))"
proof (intro conjI impI)
  show "case fst (duplicate_decision c s) of Duplicate n \<Rightarrow> 0 < n \<and> n \<le> dup_limit c | d \<Rightarrow> d = Continue"
    using duplicate_extra_bound [of c s] by (simp add: duplicate_decision_def Let_def case_prod_beta)
  assume h: "1000000 \<le> dup_prob_ppm c"
  then have "dup_prob_ppm c \<noteq> 0" by (auto simp: word_le_nat_alt)
  moreover have "0 < dup_limit c" by (simp add: dup_limit_def)
  ultimately show "fst (duplicate_decision c s) = Duplicate (dup_limit c)"
    using duplicate_loop_certain [OF h] by (simp add: duplicate_decision_def duplicate_extra_def)
qed

end
