(* ===== verification/R3_Flow_Control.thy ===== *)
theory R3_Flow_Control
  imports Layer_Types
begin

text \<open>
  Stage R3 (\<open>layers/r3_flow_control.rs\<close>): a token bucket in bits. The bucket is one atomic
  counter; \<open>try_acquire\<close> retries its compare-and-swap until it succeeds or the tokens are short, so
  a call that runs alone is the atomic step modelled here. An \<open>Instant\<close> is a reading of the
  monotonic clock in nanoseconds; \<open>refill\<close> reads it twice (\<open>elapsed\<close>, then \<open>Instant::now\<close>),
  hence the two readings \<open>t1\<close> and \<open>t2\<close>.
\<close>

type_synonym instant = nat

record R3FlowControl =
  rate_bps :: u64
  capacity_tokens :: rat
  tokens :: u64
  last_refill :: instant

definition R3_new :: "u64 \<Rightarrow> rat \<Rightarrow> instant \<Rightarrow> R3FlowControl" where
  "R3_new rate cap now =
     \<lparr>rate_bps = rate, capacity_tokens = cap, tokens = f64_as_u64 cap, last_refill = now\<rparr>"

definition R3_with_rate :: "u64 \<Rightarrow> instant \<Rightarrow> R3FlowControl" where
  "R3_with_rate rate now = R3_new rate (fl (f64_of_u64 rate * 2)) now"

text \<open>\<open>Duration::as_secs_f64\<close> of a duration in nanoseconds.\<close>

definition as_secs_f64 :: "nat \<Rightarrow> rat" where
  "as_secs_f64 d =
     fl (fl (of_nat (d div 1000000000)) + fl (fl (of_nat (d mod 1000000000)) / 1000000000))"

definition refill :: "u64 \<Rightarrow> rat \<Rightarrow> instant \<Rightarrow> instant \<Rightarrow> R3FlowControl \<Rightarrow> R3FlowControl" where
  "refill rate cap t1 t2 s =
     (if rate = 0 then s
      else
        let elapsed = as_secs_f64 (t1 - last_refill s)
        in if elapsed \<le> 0 then s
           else
             let new_tokens = fl (elapsed * f64_of_u64 rate);
                 current = tokens s;
                 new_value = f64_as_u64 (min (fl (f64_of_u64 current + new_tokens)) cap)
             in s\<lparr>last_refill := t2, tokens := new_value\<rparr>)"

definition try_acquire ::
  "u64 \<Rightarrow> u64 \<Rightarrow> rat \<Rightarrow> instant \<Rightarrow> instant \<Rightarrow> R3FlowControl \<Rightarrow> bool \<times> R3FlowControl" where
  "try_acquire tokens_needed rate cap t1 t2 s =
     (let s = refill rate cap t1 t2 s; current = tokens s
      in if tokens_needed \<le> current then (True, s\<lparr>tokens := current - tokens_needed\<rparr>)
         else (False, s))"

definition deficit_delay_ns :: "u64 \<Rightarrow> u64 \<Rightarrow> u64" where
  "deficit_delay_ns deficit rate =
     f64_as_u64 (fl (fl (f64_of_u64 deficit / f64_of_u64 rate) * 1000000000))"

definition effective_rate :: "Config \<Rightarrow> R3FlowControl \<Rightarrow> u64" where
  "effective_rate c s = (if 0 < bandwidth_bps c then bandwidth_bps c else rate_bps s)"

definition effective_capacity :: "Config \<Rightarrow> R3FlowControl \<Rightarrow> rat" where
  "effective_capacity c s =
     (if 0 < bandwidth_bps c then fl (f64_of_u64 (bandwidth_bps c) * 2) else capacity_tokens s)"

definition process_with_bytes ::
  "u64 \<Rightarrow> Config \<Rightarrow> instant \<Rightarrow> instant \<Rightarrow> R3FlowControl \<Rightarrow> LayerDecision \<times> R3FlowControl" where
  "process_with_bytes nbytes c t1 t2 s =
     (let rate = effective_rate c s
      in if rate = 0 then (Continue, s)
         else
           let bits_needed = saturating_mul nbytes 8;
               (granted, s') = try_acquire bits_needed rate (effective_capacity c s) t1 t2 s
           in if granted then (Continue, s')
              else
                let deficit = saturating_sub bits_needed (tokens s');
                    delay_ns = deficit_delay_ns deficit rate
                in (if 0 < delay_ns then DelayNs delay_ns else Continue, s'))"

definition R3_applies_to :: "PacketContext \<Rightarrow> bool" where
  "R3_applies_to ctx = is_stream ctx"

definition R3_process ::
  "instant \<times> instant \<Rightarrow> PacketContext \<Rightarrow> R3FlowControl \<Rightarrow> LayerDecision \<times> R3FlowControl" where
  "R3_process clk ctx s = process_with_bytes (ctx_bytes ctx) (config ctx) (fst clk) (snd clk) s"

definition R3_name :: string where
  "R3_name = ''R3_FlowControl''"

section \<open>The bucket\<close>

lemma R3_process_main: "main_decision (fst (R3_process clk ctx s))"
  by (simp add: R3_process_def process_with_bytes_def Let_def case_prod_beta)

interpretation r3: pipeline_layer R3_applies_to "R3_process clk" for clk
  by unfold_locales (rule R3_process_main)

lemma refill_capacity:
  assumes "0 \<le> cap"
  shows "refill rate cap t1 t2 s = s \<or> of_nat (unat (tokens (refill rate cap t1 t2 s))) \<le> cap"
proof -
  have "of_nat (unat (f64_as_u64 (min (fl x) cap))) \<le> cap" for x
  proof -
    have "0 \<le> min (fl x) cap" using assms by simp
    then have "of_nat (unat (f64_as_u64 (min (fl x) cap))) \<le> min (fl x) cap" by (rule of_nat_f64_as_u64_le)
    also have "\<dots> \<le> cap" by simp
    finally show ?thesis .
  qed
  then show ?thesis by (simp only: refill_def Let_def) simp
qed

text \<open>A short bucket is delayed by the time its deficit takes at the rate, to whole seconds.\<close>

lemma deficit_delay_brackets:
  assumes "0 < rate" "unat rate \<le> 2 ^ 53" "unat deficit \<le> 2 ^ 53" "k < 9007199"
    and "k * unat rate \<le> unat deficit" "unat deficit \<le> Suc k * unat rate"
  shows "k * 1000000000 \<le> unat (deficit_delay_ns deficit rate)"
    and "unat (deficit_delay_ns deficit rate) \<le> Suc k * 1000000000"
proof -
  have "0 < unat rate" using assms(1) by (simp add: unat_gt_0)
  then have r0: "(0::rat) < of_nat (unat rate)" by (simp only: of_nat_0_less_iff)
  have ex: "f64_of_u64 deficit = of_nat (unat deficit)" "f64_of_u64 rate = of_nat (unat rate)"
    unfolding f64_of_u64_def using assms(2,3) by (simp_all only: fl_exact)
  let ?q = "f64_of_u64 deficit / f64_of_u64 rate"
  have lo: "of_nat k \<le> ?q"
  proof -
    have "(of_nat (k * unat rate) :: rat) \<le> of_nat (unat deficit)" using assms(5) by (simp only: of_nat_le_iff)
    then show ?thesis unfolding ex using r0 by (simp only: of_nat_mult pos_le_divide_eq)
  qed
  have hi: "?q \<le> of_nat (Suc k)"
  proof -
    have "(of_nat (unat deficit) :: rat) \<le> of_nat (Suc k * unat rate)" using assms(6) by (simp only: of_nat_le_iff)
    then show ?thesis unfolding ex using r0 by (simp only: of_nat_mult pos_divide_le_eq)
  qed
  have lo': "of_nat k \<le> fl ?q" using lo by (rule binary64.rnd_ge_nat) (use assms(4) in simp)
  have hi': "fl ?q \<le> of_nat (Suc k)" using hi by (rule binary64.rnd_le_nat) (use assms(4) in simp)
  have "of_nat (k * 1000000000) \<le> fl ?q * 1000000000" using lo' by simp
  then have l: "of_nat (k * 1000000000) \<le> fl (fl ?q * 1000000000)"
    by (rule binary64.rnd_ge_nat) (use assms(4) in simp)
  have "fl ?q * 1000000000 \<le> of_nat (Suc k * 1000000000)" using hi' by simp
  then have h: "fl (fl ?q * 1000000000) \<le> of_nat (Suc k * 1000000000)"
    by (rule binary64.rnd_le_nat) (use assms(4) in simp)
  have f: "deficit_delay_ns deficit rate = f64_as_u64 (fl (fl ?q * 1000000000))"
    by (simp only: deficit_delay_ns_def)
  show "unat (deficit_delay_ns deficit rate) \<le> Suc k * 1000000000"
    unfolding f using h by (rule f64_as_u64_le [OF fl_nonneg]) (use assms(4) in simp)
  show "k * 1000000000 \<le> unat (deficit_delay_ns deficit rate)"
    unfolding f using l by (rule f64_as_u64_ge [OF fl_nonneg]) (use assms(4) in simp)
qed

section \<open>Properties\<close>


definition bucket_example :: R3FlowControl where
  "bucket_example = \<lparr>rate_bps = 80, capacity_tokens = 160, tokens = 12, last_refill = 5\<rparr>"


text \<open>The delay is the time the deficit takes at the configured rate: if the deficit is worth
  between \<open>k\<close> and \<open>k + 1\<close> seconds of traffic, the delay lies between \<open>k\<close> and \<open>k + 1\<close> seconds,
  in spite of three roundings of the floating-point computation.\<close>

lemma deficit_delay_matches_rate:
  assumes "0 < rate" "unat rate \<le> 2 ^ 53" "unat deficit \<le> 2 ^ 53" "k < 9007199"
    and "k * unat rate \<le> unat deficit" "unat deficit \<le> Suc k * unat rate"
  shows "k * 1000000000 \<le> unat (deficit_delay_ns deficit rate) \<and>
         unat (deficit_delay_ns deficit rate) \<le> Suc k * 1000000000"
  using deficit_delay_brackets [OF assms] by blast

end
