(* ===== verification/R4_Timing_Variation.thy ===== *)
theory R4_Timing_Variation
  imports Layer_Rng
begin

text \<open>
  Stage R4 (\<open>layers/r4_timing_variation.rs\<close>): jitter. The bound is turned into a modulus by
  \<open>upper_inclusive + 1\<close>, which overflows for \<open>u64::MAX\<close>; the remainder by zero that follows is a
  panic. \<open>R4_panics\<close> is that case.
\<close>

type_synonym R4TimingVariation = layer_rng

definition R4_new ::
  "(u64 \<Rightarrow> u32 stream) \<Rightarrow> (string \<Rightarrow> string option) \<Rightarrow> u32 stream \<Rightarrow> R4TimingVariation" where
  "R4_new std_rng env thread = rng_new std_rng env thread"

definition R4_with_seed :: "(u64 \<Rightarrow> u32 stream) \<Rightarrow> u32 stream \<Rightarrow> u64 \<Rightarrow> R4TimingVariation" where
  "R4_with_seed std_rng thread seed = rng_with_seed std_rng thread seed"

definition R4_random_u32 :: "u64 \<Rightarrow> R4TimingVariation \<Rightarrow> u32 \<times> R4TimingVariation" where
  "R4_random_u32 seed r = random_u32 0x4C330A05 seed r"

definition random_u64_bounded :: "u64 \<Rightarrow> u64 \<Rightarrow> R4TimingVariation \<Rightarrow> u64 \<times> R4TimingVariation" where
  "random_u64_bounded upper_inclusive seed r =
     (if upper_inclusive = 0 then (0, r)
      else let (v, r') = R4_random_u32 seed r
           in (ucast v mod (upper_inclusive + 1), r'))"

definition R4_applies_to :: "PacketContext \<Rightarrow> bool" where
  "R4_applies_to ctx = (\<not> is_dns ctx)"

definition R4_process :: "PacketContext \<Rightarrow> R4TimingVariation \<Rightarrow> LayerDecision \<times> R4TimingVariation" where
  "R4_process ctx r =
     (if 0 < jitter_ns (config ctx) then
        let (d, r') = random_u64_bounded (jitter_ns (config ctx)) (policy_seed (config ctx)) r
        in (DelayNs d, r')
      else (Continue, r))"

definition R4_panics :: "PacketContext \<Rightarrow> bool" where
  "R4_panics ctx = (jitter_ns (config ctx) = - 1)"

definition R4_name :: string where
  "R4_name = ''R4_TimingVariation''"

lemma R4_process_main: "main_decision (fst (R4_process ctx s))"
  by (simp add: R4_process_def Let_def case_prod_beta)

interpretation r4: pipeline_layer R4_applies_to R4_process
  by unfold_locales (rule R4_process_main)

lemma unat_ucast_u32: "unat (ucast (v :: u32) :: u64) = unat v"
  by (simp add: unsigned_ucast_eq take_bit_nat_eq_self unat_bound order_less_trans [OF unat_bound])

lemma random_u64_bounded_le:
  assumes "upper \<noteq> - 1"
  shows "fst (random_u64_bounded upper seed r) \<le> upper"
    and "unat (fst (random_u64_bounded upper seed r)) < 2 ^ 32"
proof -
  have "unat upper \<noteq> 2 ^ 64 - 1" using assms unat_minus_one_max [where 'a = 64] by (auto simp: word_unat_eq_iff)
  then have u: "unat (upper + 1) = Suc (unat upper)"
    using unat_bound [of upper] by (simp add: unat_word_ariths)
  let ?v = "fst (R4_random_u32 seed r)"
  have v: "unat (ucast ?v mod (upper + 1)) = unat ?v mod Suc (unat upper)"
    by (simp add: unat_mod_distrib u unat_ucast_u32)
  show "fst (random_u64_bounded upper seed r) \<le> upper"
    by (simp add: random_u64_bounded_def case_prod_beta Let_def word_le_nat_alt v less_Suc_eq_le [symmetric])
  have "unat ?v mod Suc (unat upper) \<le> unat ?v" by (rule mod_less_eq_dividend)
  also have "\<dots> < 2 ^ 32" using unat_bound [of ?v] by simp
  finally show "unat (fst (random_u64_bounded upper seed r)) < 2 ^ 32"
    by (simp add: random_u64_bounded_def case_prod_beta Let_def v)
qed

text \<open>Jitter is bounded: unless the bound is \<open>u64::MAX\<close> (where the code panics), the delay
  is at most the configured jitter. It is also below \<open>2 ^ 32\<close> nanoseconds, whatever the
  configuration: the draw is a \<open>u32\<close>, so jitter beyond 4.3 seconds is never produced.\<close>

lemma jitter_bounded:
  assumes "\<not> R4_panics ctx"
  shows "(jitter_ns (config ctx) = 0 \<and> fst (R4_process ctx r) = Continue) \<or>
         (\<exists>d. fst (R4_process ctx r) = DelayNs d \<and> d \<le> jitter_ns (config ctx) \<and> unat d < 2 ^ 32)"
  using assms random_u64_bounded_le
  by (simp add: R4_process_def R4_panics_def Let_def case_prod_beta)

end
