(* ===== verification/R5_Transport_Faults.thy ===== *)
theory R5_Transport_Faults
  imports Layer_Rng
begin

text \<open>
  Stage R5 (\<open>layers/r5_transport_faults.rs\<close>): connection errors, half-open connections (an
  error once a number of bytes has crossed the descriptor), connect and receive timeouts.
\<close>

record R5TransportFaults =
  r5_rng :: layer_rng
  stream_bytes :: "fd \<rightharpoonup> u64"

definition R5_new ::
  "(u64 \<Rightarrow> u32 stream) \<Rightarrow> (string \<Rightarrow> string option) \<Rightarrow> u32 stream \<Rightarrow> R5TransportFaults" where
  "R5_new std_rng env thread =
     \<lparr>r5_rng = rng_new std_rng env thread, stream_bytes = Map.empty\<rparr>"

definition R5_event_happens :: "u64 \<Rightarrow> Config \<Rightarrow> R5TransportFaults \<Rightarrow> bool \<times> R5TransportFaults" where
  "R5_event_happens ppm c s =
     (let (b, r) = event_happens 0x4C340A05 ppm (policy_seed c) (r5_rng s)
      in (b, s\<lparr>r5_rng := r\<rparr>))"

definition R5_record_stream_bytes :: "fd \<Rightarrow> u64 \<Rightarrow> R5TransportFaults \<Rightarrow> R5TransportFaults" where
  "R5_record_stream_bytes f nbytes s =
     (if nbytes = 0 \<or> f < 0 then s
      else s\<lparr>stream_bytes := (stream_bytes s)(f \<mapsto>
             (case stream_bytes s f of
                Some seen \<Rightarrow> saturating_add seen nbytes
              | None \<Rightarrow> nbytes))\<rparr>)"

definition R5_clear_fd_state :: "fd \<Rightarrow> R5TransportFaults \<Rightarrow> R5TransportFaults" where
  "R5_clear_fd_state f s =
     (if f < 0 then s else s\<lparr>stream_bytes := (stream_bytes s)(f := None)\<rparr>)"

definition seen_bytes :: "fd \<Rightarrow> R5TransportFaults \<Rightarrow> u64" where
  "seen_bytes f s = (case stream_bytes s f of Some n \<Rightarrow> n | None \<Rightarrow> 0)"

definition connection_error_kind ::
  "fd \<Rightarrow> Config \<Rightarrow> bool \<Rightarrow> R5TransportFaults \<Rightarrow> u64 option \<times> R5TransportFaults" where
  "connection_error_kind f c connecting s =
     (if \<not> connecting \<and> 0 < half_open_after_bytes c \<and> half_open_after_bytes c \<le> seen_bytes f s
      then (Some (max (half_open_err_kind c) 1), s)
      else if 0 < conn_err_kind c then
        let (b, s') = R5_event_happens (conn_err_prob_ppm c) c s
        in (if b then Some (conn_err_kind c) else None, s')
      else (None, s))"

definition R5_applies_to :: "PacketContext \<Rightarrow> bool" where
  "R5_applies_to ctx = (\<not> is_dns ctx)"

definition R5_process :: "PacketContext \<Rightarrow> R5TransportFaults \<Rightarrow> LayerDecision \<times> R5TransportFaults" where
  "R5_process ctx s =
     (let c = config ctx;
          (kind, s') = connection_error_kind (ctx_fd ctx) c (operation ctx = Connect) s
      in (case kind of
            Some k \<Rightarrow> ConnectionErrorKind k
          | None \<Rightarrow>
              (case operation ctx of
                 Connect \<Rightarrow> if 0 < connect_timeout_ms c then TimeoutMs (connect_timeout_ms c) else Continue
               | Recv \<Rightarrow> if 0 < recv_timeout_ms c then TimeoutMs (recv_timeout_ms c) else Continue
               | _ \<Rightarrow> Continue), s'))"

definition R5_name :: string where
  "R5_name = ''R5_TransportFaults''"

lemma R5_process_main: "main_decision (fst (R5_process ctx s))"
  by (simp add: R5_process_def Let_def case_prod_beta split: option.split Operation.split)

interpretation r5: pipeline_layer R5_applies_to R5_process
  by unfold_locales (rule R5_process_main)

interpretation r5_fd: fd_scoped "\<lambda>f n s. ((), R5_record_stream_bytes f n s)" stream_bytes
  by unfold_locales (simp add: R5_record_stream_bytes_def)

lemma R5_process_stream_bytes: "stream_bytes (snd (R5_process ctx s)) = stream_bytes s"
  by (simp add: R5_process_def connection_error_kind_def R5_event_happens_def Let_def case_prod_beta)

section \<open>Half-open connections\<close>

lemma seen_bytes_record:
  "0 \<le> f \<Longrightarrow> seen_bytes f (R5_record_stream_bytes f n s) = saturating_add (seen_bytes f s) n"
  by (simp add: seen_bytes_def R5_record_stream_bytes_def split: option.split)

lemma seen_bytes_fold:
  assumes "0 \<le> f"
  shows "seen_bytes f (fold (R5_record_stream_bytes f) ns s) = fold (\<lambda>n acc. saturating_add acc n) ns (seen_bytes f s)"
  by (induction ns arbitrary: s) (simp_all add: seen_bytes_record assms)

lemma unat_fold_saturating_add:
  "unat (fold (\<lambda>n acc. saturating_add acc n) ns a) = min (unat a + sum_list (map unat ns)) (2 ^ 64 - 1)"
  for a :: u64
proof (induction ns arbitrary: a)
  case Nil
  show ?case using unat_bound [of a] by simp
next
  case (Cons n ns)
  show ?case by (simp add: Cons.IH sat_simps)
qed

lemma half_open_lemma:
  assumes "0 \<le> f" "0 < half_open_after_bytes c" "unat (half_open_after_bytes c) < 2 ^ 64 - 1"
  shows "half_open_after_bytes c \<le> seen_bytes f (fold (R5_record_stream_bytes f) ns (R5_new std_rng env thread))
     \<longleftrightarrow> unat (half_open_after_bytes c) \<le> sum_list (map unat ns)"
  using assms(3)
  by (simp add: word_le_nat_alt seen_bytes_fold [OF assms(1)] unat_fold_saturating_add)
     (simp add: seen_bytes_def R5_new_def)

text \<open>C33. Half-open connections trip exactly at their threshold. On a descriptor whose
  transfers are recorded from the start, and without random connection errors, a stream
  operation fails with the half-open error (kind 1 when unset) if and only if at least
  \<open>half_open_after_bytes\<close> bytes have crossed it; below the threshold only the receive timeout applies.\<close>

theorem half_open_exact:
  fixes ns :: "u64 list" and std_rng :: "u64 \<Rightarrow> u32 stream" and env :: "string \<Rightarrow> string option"
    and thread :: "u32 stream" and ctx :: PacketContext
  assumes "0 \<le> ctx_fd ctx" "is_stream ctx" "conn_err_kind (config ctx) = 0"
    and "0 < half_open_after_bytes (config ctx)"
    and "unat (half_open_after_bytes (config ctx)) < 2 ^ 64 - 1"
  defines "s \<equiv> fold (R5_record_stream_bytes (ctx_fd ctx)) ns (R5_new std_rng env thread)"
  shows "fst (R5_process ctx s) =
    (if unat (half_open_after_bytes (config ctx)) \<le> sum_list (map unat ns)
     then ConnectionErrorKind (max (half_open_err_kind (config ctx)) 1)
     else if operation ctx = Recv \<and> 0 < recv_timeout_ms (config ctx)
     then TimeoutMs (recv_timeout_ms (config ctx)) else Continue)"
proof -
  have "half_open_after_bytes (config ctx) \<le> seen_bytes (ctx_fd ctx) s \<longleftrightarrow>
        unat (half_open_after_bytes (config ctx)) \<le> sum_list (map unat ns)"
    unfolding s_def by (rule half_open_lemma [OF assms(1,4,5)])
  then show ?thesis
    using assms(2-4)
    by (cases "operation ctx") (simp_all add: R5_process_def connection_error_kind_def is_stream_def)
qed

theorem half_open_exact_witness:
  "fst (R5_process \<lparr>ctx_fd = 4, ctx_bytes = 1, operation = Send, direction = Some Uplink,
        config = Config_default\<lparr>half_open_after_bytes := 10\<rparr>, now_ns = 0\<rparr>
      (fold (R5_record_stream_bytes 4) [6, 3, 2] (R5_new (\<lambda>_. sconst 0) (\<lambda>_. None) (sconst 3)))) =
   ConnectionErrorKind 1"
  using half_open_exact [of "\<lparr>ctx_fd = 4, ctx_bytes = 1, operation = Send, direction = Some Uplink,
        config = Config_default\<lparr>half_open_after_bytes := 10\<rparr>, now_ns = 0\<rparr>"
        "[6, 3, 2]" "\<lambda>_. sconst 0" "\<lambda>_. None" "sconst 3"]
  by (simp add: is_stream_def Config_default_def max_def)

end
