(* ===== verification/R6_Resolver_Faults.thy ===== *)
theory R6_Resolver_Faults
  imports Layer_Rng
begin

text \<open>
  Stage R6 (\<open>layers/r6_resolver_faults.rs\<close>): DNS timeout, NXDOMAIN and delay, in that order
  of precedence.
\<close>

type_synonym R6ResolverFaults = layer_rng

definition R6_new ::
  "(u64 \<Rightarrow> u32 stream) \<Rightarrow> (string \<Rightarrow> string option) \<Rightarrow> u32 stream \<Rightarrow> R6ResolverFaults" where
  "R6_new std_rng env thread = rng_new std_rng env thread"

definition R6_event_happens :: "u64 \<Rightarrow> u64 \<Rightarrow> R6ResolverFaults \<Rightarrow> bool \<times> R6ResolverFaults" where
  "R6_event_happens ppm seed r = event_happens 0x4C370A05 ppm seed r"

definition R6_applies_to :: "PacketContext \<Rightarrow> bool" where
  "R6_applies_to ctx = is_dns ctx"

definition R6_process :: "PacketContext \<Rightarrow> R6ResolverFaults \<Rightarrow> LayerDecision \<times> R6ResolverFaults" where
  "R6_process ctx r =
     (if 0 < dns_timeout_ms (config ctx) then (TimeoutMs (dns_timeout_ms (config ctx)), r)
      else
        let (b, r') = R6_event_happens (dns_nxdomain_ppm (config ctx)) (policy_seed (config ctx)) r
        in (if b then NxDomain
            else if 0 < dns_delay_ns (config ctx) then DelayNs (dns_delay_ns (config ctx))
            else Continue, r'))"

definition R6_name :: string where
  "R6_name = ''R6_ResolverFaults''"

lemma R6_process_main: "main_decision (fst (R6_process ctx s))"
  by (simp add: R6_process_def Let_def case_prod_beta)

interpretation r6: pipeline_layer R6_applies_to R6_process
  by unfold_locales (rule R6_process_main)

end
