(* ===== verification/R7_Payload_Transform.thy ===== *)
theory R7_Payload_Transform
  imports Layer_Rng "HOL-Library.Multiset"
begin

unbundle bit_operations_syntax

text \<open>
  Stage R7, the payload transformation (\<open>layers/r7_payload_transform.rs\<close>): the gates that
  decide whether a buffer is mutated, the six mutations, and the two final checks every
  mutated buffer has to pass (it fits the buffer limit and it differs from the input).

  The lemmas give the exact shape of every mutated buffer, that byte corruption and swapping
  are involutions, and that a dry run is a faithful preview of the real run.
\<close>

section \<open>The mutations\<close>

definition lcg64 :: "u64 \<Rightarrow> u64" where
  "lcg64 s = s * 6364136223846793005 + 1"

text \<open>The body of \<open>for _ in 0..*count\<close>: one byte is exclusive-ored per round.\<close>

fun corrupt_loop :: "nat \<Rightarrow> u64 \<Rightarrow> bytes \<Rightarrow> bytes" where
  "corrupt_loop 0 state out = out"
| "corrupt_loop (Suc n) state out =
     (let state1 = lcg64 state;
          idx = unat state1 mod length out;
          state2 = lcg64 state1
      in corrupt_loop n state2 (out[idx := out ! idx XOR ucast (state2 AND 0xFF)]))"

text \<open>\<open>out.windows(n).position(|w| w == needle)\<close> for a needle of length \<open>n > 0\<close>.\<close>

fun find_window :: "bytes \<Rightarrow> bytes \<Rightarrow> nat option" where
  "find_window needle [] = (if needle = [] then Some 0 else None)"
| "find_window needle (b # hay) =
     (if length (b # hay) < length needle then None
      else if take (length needle) (b # hay) = needle then Some 0
      else map_option Suc (find_window needle hay))"

definition usize_saturating_add :: "nat \<Rightarrow> nat \<Rightarrow> nat" where
  "usize_saturating_add a b = min (2 ^ 64 - 1) (a + b)"

text \<open>The branch of \<open>apply_mutation\<close> for each mutation; \<^const>\<open>None\<close> is the early return.\<close>

fun mutate_bytes :: "bytes \<Rightarrow> Mutation \<Rightarrow> nat \<Rightarrow> bytes option" where
  "mutate_bytes out (Truncate sz) max_buffer =
     (if unat sz \<ge> length out then None else Some (take (unat sz) out))"
| "mutate_bytes out (CorruptBytes cnt seed) max_buffer =
     (if out = [] \<or> cnt = 0 then None
      else Some (corrupt_loop (unat cnt) (lcg64 seed) out))"
| "mutate_bytes out (InjectBytes pos data len) max_buffer =
     (let position = unat pos; n = min (unat len) (length data) in
      if position > length out \<or> n = 0 then None
      else if usize_saturating_add (length out) n > max_buffer then None
      else Some (take position out @ take n data @ drop position out))"
| "mutate_bytes out (ReplacePattern pat pl replace rl) max_buffer =
     (let find_len = min (unat pl) (length pat);
          replace_len = min (unat rl) (length replace)
      in if find_len = 0 then None
         else case find_window (take find_len pat) out of
           Some pos \<Rightarrow>
             (let nxt = take pos out @ take replace_len replace @ drop (pos + find_len) out
              in if length nxt > max_buffer then None else Some nxt)
         | None \<Rightarrow> None)"
| "mutate_bytes out CorruptEncoding max_buffer =
     (if out = [] then None else Some (out[0 := 0xFF]))"
| "mutate_bytes out (SwapBytes p1 p2) max_buffer =
     (let pos1 = unat p1; pos2 = unat p2 in
      if pos1 \<ge> length out \<or> pos2 \<ge> length out \<or> pos1 = pos2 then None
      else Some (out[pos1 := out ! pos2, pos2 := out ! pos1]))"

definition apply_mutation :: "bytes \<Rightarrow> Mutation \<Rightarrow> nat \<Rightarrow> bytes option" where
  "apply_mutation buffer mutation max_buffer =
     (case mutate_bytes buffer mutation max_buffer of
        None \<Rightarrow> None
      | Some out \<Rightarrow>
          if length out > max_buffer then None
          else if out = buffer then None
          else Some out)"

section \<open>The stage\<close>

definition applies_direction :: "u64 \<Rightarrow> Direction option \<Rightarrow> bool" where
  "applies_direction target dir =
     (target = MutationTarget_code Both
      \<or> (dir = Some Uplink \<and> target = MutationTarget_code UplinkOnly)
      \<or> (dir = Some Downlink \<and> target = MutationTarget_code DownlinkOnly))"

definition mutation_probe :: "PacketContext \<Rightarrow> u64" where
  "mutation_probe ctx =
     lcg64 (policy_seed (config ctx) XOR payload_mutation_corrupt_seed (config ctx)
            XOR now_ns ctx XOR ctx_bytes ctx) mod 1000000"

definition config_mutation :: "Config \<Rightarrow> Mutation option" where
  "config_mutation c =
     (let kind = payload_mutation_type c in
      if kind = MutationKind_code MK_Truncate then
        Some (Truncate (payload_mutation_truncate_size c))
      else if kind = MutationKind_code MK_CorruptBytes then
        Some (CorruptBytes (payload_mutation_corrupt_count c) (payload_mutation_corrupt_seed c))
      else if kind = MutationKind_code MK_InjectBytes then
        Some (InjectBytes (payload_mutation_inject_position c) (payload_mutation_inject_data c)
                (payload_mutation_inject_len c))
      else if kind = MutationKind_code MK_ReplacePattern then
        Some (ReplacePattern (payload_mutation_replace_find c) (payload_mutation_replace_find_len c)
                (payload_mutation_replace_with c) (payload_mutation_replace_with_len c))
      else if kind = MutationKind_code MK_CorruptEncoding then Some CorruptEncoding
      else if kind = MutationKind_code MK_SwapBytes then
        Some (SwapBytes (payload_mutation_swap_pos1 c) (payload_mutation_swap_pos2 c))
      else None)"

definition R7_process :: "PacketContext \<Rightarrow> LayerDecision" where
  "R7_process ctx = Continue"

definition R7_process_with_buffer :: "PacketContext \<Rightarrow> bytes \<Rightarrow> LayerDecision \<times> bytes option" where
  "R7_process_with_buffer ctx buffer =
     (let c = config ctx; sz = of_nat (length buffer) :: u64;
          every_n = payload_mutation_every_n_packets c;
          min_size = payload_mutation_min_size c;
          max_size = payload_mutation_max_size c
      in if buffer = [] \<or> is_connect ctx \<or> is_dns ctx then (Continue, None)
         else if payload_mutation_enabled c = 0 then (Continue, None)
         else if \<not> applies_direction (payload_mutation_target c) (direction ctx) then (Continue, None)
         else if every_n > 1 \<and> now_ns ctx mod every_n \<noteq> 0 then (Continue, None)
         else if (min_size > 0 \<and> sz < min_size) \<or> (max_size > 0 \<and> sz > max_size) then
           (Continue, None)
         else if payload_mutation_prob_ppm c < 1000000
                 \<and> mutation_probe ctx \<ge> payload_mutation_prob_ppm c then (Continue, None)
         else case config_mutation c of
           None \<Rightarrow> (Continue, None)
         | Some mutation \<Rightarrow>
             if payload_mutation_dry_run c > 0 then (Mutate [mutation], None)
             else (Mutate [mutation],
                   apply_mutation buffer mutation (unat (payload_mutation_max_buffer_size c))))"

definition R7_name :: string where
  "R7_name = ''R7_PayloadTransform''"

section \<open>Byte corruption\<close>

lemma length_corrupt_loop [simp]: "length (corrupt_loop n s out) = length out"
  by (induction n s out rule: corrupt_loop.induct) (simp_all add: Let_def)

lemma corrupt_loop_Nil_iff [simp]: "corrupt_loop n s out = [] \<longleftrightarrow> out = []"
  using length_corrupt_loop [of n s out] by (metis length_0_conv)

text \<open>The rounds commute with an exclusive-or at any fixed position, because the positions
  and masks depend on the seed and the length alone.\<close>

definition xor_at :: "nat \<Rightarrow> u8 \<Rightarrow> bytes \<Rightarrow> bytes" where
  "xor_at i a out = out[i := out ! i XOR a]"

lemma length_xor_at [simp]: "length (xor_at i a out) = length out"
  by (simp add: xor_at_def)

lemma xor_at_commute: "xor_at i a (xor_at j b out) = xor_at j b (xor_at i a out)"
  by (cases "i < length out"; cases "j < length out"; cases "i = j")
     (simp_all add: xor_at_def list_update_swap list_update_beyond ac_simps)

lemma xor_at_involutive [simp]: "xor_at i a (xor_at i a out) = out"
  by (cases "i < length out") (simp_all add: xor_at_def xor.assoc list_update_beyond)

lemma corrupt_loop_Suc:
  "corrupt_loop (Suc n) s out =
     corrupt_loop n (lcg64 (lcg64 s))
       (xor_at (unat (lcg64 s) mod length out) (ucast (lcg64 (lcg64 s) AND 0xFF)) out)"
  by (simp add: Let_def xor_at_def)

lemma corrupt_loop_numeral:
  "corrupt_loop (numeral k) s out =
     corrupt_loop (pred_numeral k) (lcg64 (lcg64 s))
       (xor_at (unat (lcg64 s) mod length out) (ucast (lcg64 (lcg64 s) AND 0xFF)) out)"
  by (simp only: corrupt_loop_Suc numeral_eq_Suc)

lemma corrupt_loop_xor_at:
  "corrupt_loop n s (xor_at i a out) = xor_at i a (corrupt_loop n s out)"
proof (induction n arbitrary: s out)
  case (Suc n)
  show ?case by (simp only: corrupt_loop_Suc length_xor_at xor_at_commute [of _ _ i] Suc)
qed simp

lemma corrupt_loop_involutive: "corrupt_loop n s (corrupt_loop n s out) = out"
proof (induction n arbitrary: s out)
  case (Suc n)
  show ?case
    by (simp only: corrupt_loop_Suc length_corrupt_loop length_xor_at corrupt_loop_xor_at
        xor_at_involutive Suc)
qed simp

section \<open>First occurrence\<close>

lemma find_window_Some:
  "find_window needle hay = Some p \<Longrightarrow>
     p + length needle \<le> length hay \<and> take (length needle) (drop p hay) = needle"
  by (induction needle hay arbitrary: p rule: find_window.induct) (auto split: if_splits)

lemma take_window_append: "take (length needle) (needle @ b) = needle"
  by simp

lemma find_window_first:
  "find_window needle hay = Some p \<Longrightarrow> hay = a @ needle @ b \<Longrightarrow> p \<le> length a"
proof (induction needle hay arbitrary: p a rule: find_window.induct)
  case (2 needle c hay)
  show ?case
  proof (cases a)
    case Nil
    with "2.prems" take_window_append [of needle b] show ?thesis
      by (metis find_window.simps(2) append_Nil list.size(3) not_less option.distinct(1)
          option.inject order_refl)
  next
    case (Cons x a')
    with 2 show ?thesis by (auto split: if_splits)
  qed
qed (auto split: if_splits)

lemma find_window_None:
  "find_window needle hay = None \<Longrightarrow> hay \<noteq> a @ needle @ b"
proof (induction needle hay arbitrary: a rule: find_window.induct)
  case (2 needle c hay)
  show ?case
  proof (cases a)
    case Nil
    have "length needle \<le> length (needle @ b)" by simp
    with "2.prems" take_window_append [of needle b] Nil show ?thesis
      by (metis find_window.simps(2) append_Nil not_less option.distinct(1))
  next
    case (Cons x a')
    with 2 show ?thesis by (auto split: if_splits)
  qed
qed (auto split: if_splits)


section \<open>Properties\<close>

lemma apply_mutation_Some:
  "apply_mutation buffer m mx = Some out \<longleftrightarrow>
     mutate_bytes buffer m mx = Some out \<and> length out \<le> mx \<and> out \<noteq> buffer"
  by (auto simp: apply_mutation_def split: option.splits)

text \<open>What each mutation may turn a buffer into.\<close>

fun mutation_shape :: "Mutation \<Rightarrow> bytes \<Rightarrow> bytes \<Rightarrow> bool" where
  "mutation_shape (Truncate n) buf out = (unat n < length buf \<and> out = take (unat n) buf)"
| "mutation_shape (CorruptBytes n seed) buf out = (length out = length buf)"
| "mutation_shape (InjectBytes p data n) buf out =
     (\<exists>a b. buf = a @ b \<and> length a = unat p \<and> out = a @ take (unat n) data @ b)"
| "mutation_shape (ReplacePattern pat pn rep rn) buf out =
     (\<exists>a b. buf = a @ take (unat pn) pat @ b \<and> out = a @ take (unat rn) rep @ b
        \<and> (\<forall>a' b'. buf = a' @ take (unat pn) pat @ b' \<longrightarrow> length a \<le> length a'))"
| "mutation_shape CorruptEncoding buf out = (out = 0xFF # tl buf)"
| "mutation_shape (SwapBytes p q) buf out =
     (mset out = mset buf \<and> out ! unat p = buf ! unat q \<and> out ! unat q = buf ! unat p)"

lemma mutate_replace_shape:
  assumes "mutate_bytes buf (ReplacePattern pat pn rep rn) mx = Some out"
  shows "mutation_shape (ReplacePattern pat pn rep rn) buf out"
proof -
  let ?n = "min (unat pn) (length pat)"
  from assms obtain p where p: "find_window (take ?n pat) buf = Some p"
    and out: "out = take p buf @ take (unat rn) rep @ drop (p + ?n) buf"
    by (auto simp: Let_def take_min_length split: option.splits if_splits)
  have n: "length (take ?n pat) = ?n" by simp
  from find_window_Some [OF p] n have w: "p + ?n \<le> length buf" "take ?n (drop p buf) = take ?n pat"
    by simp_all
  have buf: "buf = take p buf @ take (unat pn) pat @ drop (p + ?n) buf"
    using w(2) append_take_drop_id [of p buf] append_take_drop_id [of ?n "drop p buf"]
    by (simp add: take_min_length add.commute)
  have "length (take p buf) \<le> length a'" if "buf = a' @ take (unat pn) pat @ b'" for a' b'
    using find_window_first [OF p, of a' b'] that by (simp add: take_min_length)
  with buf out show ?thesis unfolding mutation_shape.simps by blast
qed

lemma mutate_bytes_shape:
  assumes "mutate_bytes buf m mx = Some out"
  shows "mutation_shape m buf out"
proof (cases m)
  case (InjectBytes p data n)
  with assms have "out = take (unat p) buf @ take (unat n) data @ drop (unat p) buf"
    and "unat p \<le> length buf"
    by (auto simp: Let_def take_min_length split: if_splits)
  moreover have "buf = take (unat p) buf @ drop (unat p) buf" by simp
  ultimately show ?thesis
    unfolding InjectBytes mutation_shape.simps by (metis length_take min_absorb2)
next
  case (ReplacePattern pat pn rep rn)
  with assms mutate_replace_shape show ?thesis by simp
next
  case CorruptEncoding
  with assms show ?thesis by (cases buf) (auto split: if_splits)
next
  case (SwapBytes p q)
  with assms show ?thesis
    by (auto simp: Let_def mset_swap nth_list_update split: if_splits)
qed (use assms in \<open>auto split: if_splits\<close>)

definition swap_at :: "nat \<Rightarrow> nat \<Rightarrow> bytes \<Rightarrow> bytes" where
  "swap_at i j out = out[i := out ! j, j := out ! i]"

lemma swap_at_involutive:
  "i < length out \<Longrightarrow> j < length out \<Longrightarrow> swap_at i j (swap_at i j out) = out"
  by (auto simp: swap_at_def nth_list_update intro!: nth_equalityI)

lemma mutate_swap:
  "mutate_bytes out (SwapBytes p q) mx =
     (if unat p \<ge> length out \<or> unat q \<ge> length out \<or> p = q then None
      else Some (swap_at (unat p) (unat q) out))"
  by (simp add: swap_at_def Let_def word_unat_eq_iff)

lemma length_swap_at [simp]: "length (swap_at i j out) = length out"
  by (simp add: swap_at_def)



text \<open>Byte corruption and byte swapping are involutions: applying the same mutation to the
  mutated buffer restores the original, so a corrupted capture can be recovered from the seed.\<close>

lemma corruption_reversible:
  assumes "apply_mutation buf m mx = Some out"
    and "m = CorruptBytes cnt seed \<or> m = SwapBytes p q"
  shows "apply_mutation out m mx = Some buf"
  using assms(2)
proof
  assume m: "m = CorruptBytes cnt seed"
  with assms(1) have "out = corrupt_loop (unat cnt) (lcg64 seed) buf" "cnt \<noteq> 0"
    by (auto simp: apply_mutation_Some split: if_splits)
  with assms(1) m show ?thesis
    by (auto simp: apply_mutation_Some corrupt_loop_involutive)
next
  assume m: "m = SwapBytes p q"
  with assms(1) have "unat p < length buf" "unat q < length buf" "p \<noteq> q"
    and "out = swap_at (unat p) (unat q) buf" "length buf \<le> mx" "out \<noteq> buf"
    by (auto simp: apply_mutation_Some Let_def swap_at_def split: if_splits)
  with m show ?thesis
    by (auto simp: apply_mutation_Some mutate_swap swap_at_involutive simp del: mutate_bytes.simps)
qed

definition as_dry_run :: "PacketContext \<Rightarrow> u64 \<Rightarrow> PacketContext" where
  "as_dry_run ctx v = ctx\<lparr>config := (config ctx)\<lparr>payload_mutation_dry_run := v\<rparr>\<rparr>"

lemma as_dry_run_sel [simp]:
  "ctx_bytes (as_dry_run ctx v) = ctx_bytes ctx" "now_ns (as_dry_run ctx v) = now_ns ctx"
  "direction (as_dry_run ctx v) = direction ctx" "operation (as_dry_run ctx v) = operation ctx"
  "config (as_dry_run ctx v) = (config ctx)\<lparr>payload_mutation_dry_run := v\<rparr>"
  by (simp_all add: as_dry_run_def)

lemma config_mutation_dry_run [simp]:
  "config_mutation (c\<lparr>payload_mutation_dry_run := v\<rparr>) = config_mutation c"
  by (simp add: config_mutation_def Let_def)

lemma mutation_probe_dry_run [simp]: "mutation_probe (as_dry_run ctx v) = mutation_probe ctx"
  by (simp add: mutation_probe_def)

text \<open>A dry run is a faithful preview: whatever the context, the buffer and the value the
  switch is set to, the decision is the one the real run takes, and a dry run never produces a
  buffer.\<close>

lemma dry_run_preview:
  "fst (R7_process_with_buffer (as_dry_run ctx v) buf) = fst (R7_process_with_buffer (as_dry_run ctx 0) buf)
   \<and> snd (R7_process_with_buffer (as_dry_run ctx (v OR 1)) buf) = None"
proof -
  have "v OR 1 \<noteq> 0" by (metis bit_or_iff bit_1_0 zero_neq_one word_not_simps(1) bit_0_eq bot_apply bot_bool_def)
  then show ?thesis
    by (simp add: R7_process_with_buffer_def Let_def ctx_kind_defs split: option.split)
qed

end
