(* ===== verification/Observability.thy ===== *)
theory Observability
  imports Layer_Types "HOL-Library.AList" "HOL-Library.Product_Lexorder" "HOL-Library.Multiset"
begin

text \<open>
  The fault metrics (\<open>observability.rs\<close>): the latency histogram with its percentiles, the
  fault counters, and the hit counts of the target rules with their top-N report.

  The process-wide \<open>ADVANCED_METRICS\<close> is a value of type \<open>AdvancedMetrics\<close> threaded through
  the operations; \<open>fetch_add\<close> is the wrapping \<open>+\<close> of words. The hash map of rule hits is an
  association list, its order standing for the unspecified iteration order; the report is
  proved independent of it.
\<close>

section \<open>State\<close>

definition LATENCY_BUCKET_UPPER_BOUNDS_NS :: "u64 list" where
  "LATENCY_BUCKET_UPPER_BOUNDS_NS =
     [1000000, 5000000, 10000000, 50000000, 100000000, 250000000, 500000000, 1000000000]"

definition LATENCY_BUCKET_COUNT :: nat where
  "LATENCY_BUCKET_COUNT = length LATENCY_BUCKET_UPPER_BOUNDS_NS + 1"

definition TARGET_RULE_TOP_N :: nat where
  "TARGET_RULE_TOP_N = 8"

record FaultCounters =
  f_delay_count :: u64
  f_drop_count :: u64
  f_timeout_count :: u64
  f_error_count :: u64
  f_connection_error_count :: u64
  f_reorder_count :: u64
  f_duplicate_count :: u64
  f_nxdomain_count :: u64
  f_mutate_count :: u64

definition FaultCounters_new :: FaultCounters where
  "FaultCounters_new = \<lparr>f_delay_count = 0, f_drop_count = 0, f_timeout_count = 0,
     f_error_count = 0, f_connection_error_count = 0, f_reorder_count = 0,
     f_duplicate_count = 0, f_nxdomain_count = 0, f_mutate_count = 0\<rparr>"

record AdvancedMetrics =
  latency_histogram :: "u64 list"
  latency_sample_count :: u64
  fault_counters :: FaultCounters
  target_rule_hits :: "(u64 \<times> u64) list"

definition AdvancedMetrics_new :: AdvancedMetrics where
  "AdvancedMetrics_new = \<lparr>latency_histogram = replicate LATENCY_BUCKET_COUNT 0,
     latency_sample_count = 0, fault_counters = FaultCounters_new, target_rule_hits = []\<rparr>"

section \<open>Recording\<close>

fun bound_position :: "u64 \<Rightarrow> u64 list \<Rightarrow> nat" where
  "bound_position ns [] = 0"
| "bound_position ns (b # bs) = (if ns \<le> b then 0 else Suc (bound_position ns bs))"

definition latency_bucket :: "u64 \<Rightarrow> nat" where
  "latency_bucket ns = bound_position ns LATENCY_BUCKET_UPPER_BOUNDS_NS"

definition record_delay_ns :: "u64 \<Rightarrow> AdvancedMetrics \<Rightarrow> AdvancedMetrics" where
  "record_delay_ns ns m =
     (let idx = latency_bucket ns; c = fault_counters m in
      m\<lparr>latency_histogram := (latency_histogram m)[idx := latency_histogram m ! idx + 1],
        latency_sample_count := latency_sample_count m + 1,
        fault_counters := c\<lparr>f_delay_count := f_delay_count c + 1\<rparr>\<rparr>)"

definition record_fault_decision :: "LayerDecision \<Rightarrow> AdvancedMetrics \<Rightarrow> AdvancedMetrics" where
  "record_fault_decision d m =
     (let c = fault_counters m in
      case d of
        Continue \<Rightarrow> m
      | DelayNs ns \<Rightarrow> record_delay_ns ns m
      | Drop \<Rightarrow> m\<lparr>fault_counters := c\<lparr>f_drop_count := f_drop_count c + 1\<rparr>\<rparr>
      | TimeoutMs _ \<Rightarrow> m\<lparr>fault_counters := c\<lparr>f_timeout_count := f_timeout_count c + 1\<rparr>\<rparr>
      | Error _ \<Rightarrow> m\<lparr>fault_counters := c\<lparr>f_error_count := f_error_count c + 1\<rparr>\<rparr>
      | ConnectionErrorKind _ \<Rightarrow>
          m\<lparr>fault_counters := c\<lparr>f_connection_error_count := f_connection_error_count c + 1\<rparr>\<rparr>
      | StageReorder \<Rightarrow> m\<lparr>fault_counters := c\<lparr>f_reorder_count := f_reorder_count c + 1\<rparr>\<rparr>
      | Duplicate _ \<Rightarrow> m\<lparr>fault_counters := c\<lparr>f_duplicate_count := f_duplicate_count c + 1\<rparr>\<rparr>
      | NxDomain \<Rightarrow> m\<lparr>fault_counters := c\<lparr>f_nxdomain_count := f_nxdomain_count c + 1\<rparr>\<rparr>
      | Mutate _ \<Rightarrow> m\<lparr>fault_counters := c\<lparr>f_mutate_count := f_mutate_count c + 1\<rparr>\<rparr>)"

definition record_target_rule_hit :: "u64 \<Rightarrow> AdvancedMetrics \<Rightarrow> AdvancedMetrics" where
  "record_target_rule_hit rule m =
     (let h = (case map_of (target_rule_hits m) rule of None \<Rightarrow> 0 | Some n \<Rightarrow> n) in
      m\<lparr>target_rule_hits := AList.update rule (saturating_add h 1) (target_rule_hits m)\<rparr>)"

definition FaultCounters_reset :: "FaultCounters \<Rightarrow> FaultCounters" where
  "FaultCounters_reset c = c\<lparr>f_delay_count := 0, f_drop_count := 0, f_timeout_count := 0, f_error_count := 0,
     f_connection_error_count := 0, f_reorder_count := 0, f_duplicate_count := 0, f_nxdomain_count := 0, f_mutate_count := 0\<rparr>"

lemma FaultCounters_reset_new [simp]: "FaultCounters_reset c = FaultCounters_new"
  by (simp add: FaultCounters_reset_def FaultCounters_new_def)

definition reset_advanced_metrics :: "AdvancedMetrics \<Rightarrow> AdvancedMetrics" where
  "reset_advanced_metrics m =
     m\<lparr>latency_histogram := map (\<lambda>_. 0) (latency_histogram m), latency_sample_count := 0,
       fault_counters := FaultCounters_reset (fault_counters m), target_rule_hits := []\<rparr>"

section \<open>Reporting\<close>

definition div_ceil :: "u64 \<Rightarrow> u64 \<Rightarrow> u64" where
  "div_ceil a b = (if a mod b > 0 then a div b + 1 else a div b)"

fun percentile_loop :: "u64 list \<Rightarrow> nat \<Rightarrow> u64 \<Rightarrow> u64 \<Rightarrow> u64" where
  "percentile_loop [] idx cumulative rank =
     LATENCY_BUCKET_UPPER_BOUNDS_NS ! (length LATENCY_BUCKET_UPPER_BOUNDS_NS - 1)"
| "percentile_loop (c # counts) idx cumulative rank =
     (let cumulative' = saturating_add cumulative c in
      if cumulative' \<ge> rank then
        (if idx < length LATENCY_BUCKET_UPPER_BOUNDS_NS then LATENCY_BUCKET_UPPER_BOUNDS_NS ! idx
         else LATENCY_BUCKET_UPPER_BOUNDS_NS ! (length LATENCY_BUCKET_UPPER_BOUNDS_NS - 1))
      else percentile_loop counts (Suc idx) cumulative' rank)"

definition percentile_from_histogram :: "u64 list \<Rightarrow> u64 \<Rightarrow> u64 \<Rightarrow> u64" where
  "percentile_from_histogram counts sample_count percentile =
     (if sample_count = 0 then 0
      else percentile_loop counts 0 0 (div_ceil (saturating_mul sample_count percentile) 100))"

text \<open>\<open>sort_unstable_by(|a, b| b.1.cmp(&a.1).then_with(|| a.0.cmp(&b.0)))\<close>: hits descending,
  rule id ascending; the complement turns descending into ascending.\<close>

definition rule_key :: "u64 \<times> u64 \<Rightarrow> u64 \<times> u64" where
  "rule_key e = (- 1 - snd e, fst e)"

definition sorted_rules :: "(u64 \<times> u64) list \<Rightarrow> (u64 \<times> u64) list" where
  "sorted_rules entries = sort_key rule_key entries"

record FaultOsiAdvancedMetricsSnapshot =
  latency_bucket_len :: u64
  latency_bucket_upper_bounds_ns :: "u64 list"
  latency_bucket_counts :: "u64 list"
  s_latency_sample_count :: u64
  latency_p50_ns :: u64
  latency_p95_ns :: u64
  latency_p99_ns :: u64
  s_fault_counters :: FaultCounters
  target_rule_top_len :: u64
  target_rule_top :: "(u64 \<times> u64) list"
  target_rule_other_count :: u64

definition FaultOsiAdvancedMetricsSnapshot_default :: FaultOsiAdvancedMetricsSnapshot where
  "FaultOsiAdvancedMetricsSnapshot_default =
     \<lparr>latency_bucket_len = of_nat LATENCY_BUCKET_COUNT,
      latency_bucket_upper_bounds_ns = LATENCY_BUCKET_UPPER_BOUNDS_NS,
      latency_bucket_counts = replicate LATENCY_BUCKET_COUNT 0,
      s_latency_sample_count = 0, latency_p50_ns = 0, latency_p95_ns = 0, latency_p99_ns = 0,
      s_fault_counters = FaultCounters_new,
      target_rule_top_len = 0, target_rule_top = replicate TARGET_RULE_TOP_N (0, 0),
      target_rule_other_count = 0\<rparr>"

definition advanced_metrics_snapshot :: "AdvancedMetrics \<Rightarrow> FaultOsiAdvancedMetricsSnapshot" where
  "advanced_metrics_snapshot m =
     (let counts = latency_histogram m; n = latency_sample_count m;
          entries = sorted_rules (target_rule_hits m);
          top_len = min (length entries) TARGET_RULE_TOP_N
      in \<lparr>latency_bucket_len = of_nat LATENCY_BUCKET_COUNT,
          latency_bucket_upper_bounds_ns = LATENCY_BUCKET_UPPER_BOUNDS_NS,
          latency_bucket_counts = counts,
          s_latency_sample_count = n,
          latency_p50_ns = percentile_from_histogram counts n 50,
          latency_p95_ns = percentile_from_histogram counts n 95,
          latency_p99_ns = percentile_from_histogram counts n 99,
          s_fault_counters = fault_counters m,
          target_rule_top_len = of_nat top_len,
          target_rule_top = take top_len entries @ replicate (TARGET_RULE_TOP_N - top_len) (0, 0),
          target_rule_other_count = fold (\<lambda>e acc. saturating_add acc (snd e)) (drop top_len entries) 0\<rparr>)"

text \<open>After a reset the report is the default one, whatever was recorded before.\<close>

lemma snapshot_after_reset:
  assumes "length (latency_histogram m) = LATENCY_BUCKET_COUNT"
  shows "advanced_metrics_snapshot (reset_advanced_metrics m) = FaultOsiAdvancedMetricsSnapshot_default"
  using assms
  by (simp add: advanced_metrics_snapshot_def reset_advanced_metrics_def FaultOsiAdvancedMetricsSnapshot_default_def sorted_rules_def
      percentile_from_histogram_def map_replicate_const)

section \<open>The histogram counts\<close>

lemma length_bounds: "length LATENCY_BUCKET_UPPER_BOUNDS_NS = 8" "LATENCY_BUCKET_COUNT = 9"
  by (simp_all add: LATENCY_BUCKET_UPPER_BOUNDS_NS_def LATENCY_BUCKET_COUNT_def)

lemma sorted_bounds: "sorted_wrt (<) LATENCY_BUCKET_UPPER_BOUNDS_NS"
  by (simp add: LATENCY_BUCKET_UPPER_BOUNDS_NS_def)

lemma bound_position_le: "bound_position ns bs \<le> length bs"
  by (induction bs) auto

lemma bound_position_le_iff:
  "sorted bs \<Longrightarrow> k < length bs \<Longrightarrow> bound_position ns bs \<le> k \<longleftrightarrow> ns \<le> bs ! k"
proof (induction bs arbitrary: k)
  case (Cons b bs)
  show ?case
  proof (cases k)
    case (Suc j)
    with Cons.prems have "b \<le> bs ! j" by simp
    with Cons Suc show ?thesis by (auto intro: order_trans)
  qed simp
qed simp

lemma latency_bucket_le_iff:
  "k < 8 \<Longrightarrow> latency_bucket ns \<le> k \<longleftrightarrow> ns \<le> LATENCY_BUCKET_UPPER_BOUNDS_NS ! k"
  unfolding latency_bucket_def using sorted_bounds length_bounds
  by (simp add: bound_position_le_iff strict_sorted_iff)

lemma latency_bucket_less: "latency_bucket ns < 9"
  using bound_position_le [of ns LATENCY_BUCKET_UPPER_BOUNDS_NS] length_bounds
  by (simp add: latency_bucket_def)

definition record_delays :: "u64 list \<Rightarrow> AdvancedMetrics" where
  "record_delays ds = fold record_delay_ns ds AdvancedMetrics_new"

definition samples_in :: "u64 list \<Rightarrow> nat \<Rightarrow> nat" where
  "samples_in ds i = length (filter (\<lambda>d. latency_bucket d = i) ds)"

lemma record_delay_ns_sel:
  "length (latency_histogram (record_delay_ns d m)) = length (latency_histogram m)"
  "latency_sample_count (record_delay_ns d m) = latency_sample_count m + 1"
  "i < length (latency_histogram m) \<Longrightarrow> latency_histogram (record_delay_ns d m) ! i =
     latency_histogram m ! i + (if latency_bucket d = i then 1 else 0)"
  by (auto simp: record_delay_ns_def Let_def)

lemma fold_record_delay:
  "length (latency_histogram (fold record_delay_ns ds m)) = length (latency_histogram m)
   \<and> latency_sample_count (fold record_delay_ns ds m) = latency_sample_count m + of_nat (length ds)
   \<and> (\<forall>i < length (latency_histogram m). latency_histogram (fold record_delay_ns ds m) ! i =
        latency_histogram m ! i + of_nat (samples_in ds i))"
  by (induction ds arbitrary: m) (simp_all add: record_delay_ns_sel samples_in_def)

lemma record_delays_histogram:
  "latency_histogram (record_delays ds) = map (\<lambda>i. of_nat (samples_in ds i)) [0..<9]"
  "latency_sample_count (record_delays ds) = of_nat (length ds)"
  using fold_record_delay [of ds AdvancedMetrics_new]
  by (auto simp: record_delays_def AdvancedMetrics_new_def length_bounds intro!: nth_equalityI)

lemma sum_samples_in:
  "(\<Sum>i<k. samples_in ds i) = length (filter (\<lambda>d. latency_bucket d < k) ds)"
proof (induction ds)
  case (Cons d ds)
  have "(\<Sum>i<k. samples_in (d # ds) i) =
        (\<Sum>i<k. (if latency_bucket d = i then 1 else 0) + samples_in ds i)"
    by (rule sum.cong) (simp_all add: samples_in_def)
  then show ?case using Cons by (simp add: sum.distrib)
qed (simp add: samples_in_def)


lemma sum_list_samples:
  assumes "length ds < 2 ^ 64" "k \<le> 9"
  shows "sum_list (map unat (take k (latency_histogram (record_delays ds)))) =
           length (filter (\<lambda>d. latency_bucket d < k) ds)"
proof -
  have le: "samples_in ds i < 2 ^ 64" for i
    unfolding samples_in_def by (rule le_less_trans [OF length_filter_le assms(1)])
  have "map unat (take k (latency_histogram (record_delays ds))) = map (samples_in ds) [0..<k]"
    using assms(2) le by (simp add: record_delays_histogram take_map unat_of_nat_u64 o_def)
  then show ?thesis by (simp add: sum_list_distinct_conv_sum_set atLeast0LessThan sum_samples_in)
qed

section \<open>Percentiles\<close>

lemma percentile_loop_stops:
  assumes "unat cum + sum_list (map unat cs) < 2 ^ 64"
    and "unat cum < unat rank" "unat rank \<le> unat cum + sum_list (map unat cs)"
  shows "\<exists>k < length cs. percentile_loop cs idx cum rank = LATENCY_BUCKET_UPPER_BOUNDS_NS ! min (idx + k) 7
    \<and> unat cum + sum_list (map unat (take k cs)) < unat rank
    \<and> unat rank \<le> unat cum + sum_list (map unat (take (Suc k) cs))"
  using assms
proof (induction cs arbitrary: idx cum)
  case (Cons c cs)
  have cum': "unat (saturating_add cum c) = unat cum + unat c"
    using Cons.prems(1) by (simp add: sat_simps)
  show ?case
  proof (cases "saturating_add cum c \<ge> rank")
    case True
    then have "unat rank \<le> unat cum + unat c" by (simp add: word_le_nat_alt cum')
    with True Cons.prems show ?thesis by (intro exI [of _ 0]) (auto simp: length_bounds min_def)
  next
    case False
    then have "unat cum + unat c < unat rank" by (simp add: word_le_nat_alt cum')
    with Cons.IH [of "saturating_add cum c" "Suc idx"] Cons.prems cum'
    obtain k where "k < length cs"
      "percentile_loop cs (Suc idx) (saturating_add cum c) rank = LATENCY_BUCKET_UPPER_BOUNDS_NS ! min (Suc idx + k) 7"
      "unat cum + unat c + sum_list (map unat (take k cs)) < unat rank"
      "unat rank \<le> unat cum + unat c + sum_list (map unat (take (Suc k) cs))"
      by auto
    with False show ?thesis by (intro exI [of _ "Suc k"]) simp
  qed
qed simp

lemma unat_div_ceil_100: "unat a = x \<Longrightarrow> unat (div_ceil a 100) = (x + 99) div 100"
proof -
  assume x: "unat a = x"
  have m: "unat (a mod 100) = x mod 100" "unat (a div 100) = x div 100"
    using x by (simp_all add: unat_mod_distrib unat_div_distrib)
  have z: "a mod 100 > 0 \<longleftrightarrow> 0 < x mod 100" using m(1) by (simp add: word_unat_eq_iff)
  have "x div 100 + 1 < 2 ^ 64" using x unat_bound [of a] by simp
  then show ?thesis unfolding nat_div_ceil div_ceil_def z
    by (simp add: unat_add_lem [THEN iffD1] m(2))
qed

definition samples_upto :: "u64 list \<Rightarrow> u64 \<Rightarrow> nat" where
  "samples_upto ds b = length (filter (\<lambda>d. d \<le> b) ds)"

lemma samples_upto_bound:
  "k < 8 \<Longrightarrow> samples_upto ds (LATENCY_BUCKET_UPPER_BOUNDS_NS ! k) =
     length (filter (\<lambda>d. latency_bucket d < Suc k) ds)"
  by (simp add: samples_upto_def latency_bucket_le_iff less_Suc_eq_le)

lemma samples_upto_mono: "a \<le> b \<Longrightarrow> samples_upto ds a \<le> samples_upto ds b"
  unfolding samples_upto_def by (induction ds) (auto intro: order_trans)

lemma bounds_less_index:
  "b \<in> set LATENCY_BUCKET_UPPER_BOUNDS_NS \<Longrightarrow> k < 8 \<Longrightarrow> b < LATENCY_BUCKET_UPPER_BOUNDS_NS ! k \<Longrightarrow>
     0 < k \<and> b \<le> LATENCY_BUCKET_UPPER_BOUNDS_NS ! (k - 1)"
proof -
  assume "b \<in> set LATENCY_BUCKET_UPPER_BOUNDS_NS" and k: "k < 8"
    and less: "b < LATENCY_BUCKET_UPPER_BOUNDS_NS ! k"
  then obtain j where j: "j < 8" "b = LATENCY_BUCKET_UPPER_BOUNDS_NS ! j"
    by (auto simp: in_set_conv_nth length_bounds)
  have s: "sorted LATENCY_BUCKET_UPPER_BOUNDS_NS" using sorted_bounds by (simp add: strict_sorted_iff)
  have "j < k"
    using sorted_nth_mono [OF s, of k j] j less k by (force simp: length_bounds not_less [symmetric])
  then show ?thesis using sorted_nth_mono [OF s, of j "k - 1"] j k by (auto simp: length_bounds)
qed

lemma percentile_position:
  assumes "ds \<noteq> []" "length ds * 100 < 2 ^ 64" "0 < p" "p \<le> 100"
  shows "\<exists>k < 9. percentile_from_histogram (latency_histogram (record_delays ds))
                 (latency_sample_count (record_delays ds)) (of_nat p) = LATENCY_BUCKET_UPPER_BOUNDS_NS ! min k 7
    \<and> 100 * length (filter (\<lambda>d. latency_bucket d < k) ds) < p * length ds
    \<and> p * length ds \<le> 100 * length (filter (\<lambda>d. latency_bucket d < Suc k) ds)"
proof -
  let ?h = "latency_histogram (record_delays ds)" and ?n = "length ds"
  let ?rank = "div_ceil (saturating_mul (of_nat ?n) (of_nat p)) 100"
  have n: "unat (of_nat ?n :: u64) = ?n" and up: "unat (of_nat p :: u64) = p"
    using assms(2-4) by (simp_all add: unat_of_nat_u64)
  have pn: "?n * p \<le> ?n * 100" using assms(4) by simp
  have r: "unat ?rank = (?n * p + 99) div 100"
    by (rule unat_div_ceil_100) (use le_less_trans [OF pn assms(2)] in \<open>simp add: unat_saturating_mul n up\<close>)
  have len: "length ?h = 9" by (simp add: record_delays_histogram)
  have all: "sum_list (map unat ?h) = ?n"
    using sum_list_samples [of ds 9] assms(2) len latency_bucket_less by simp
  have "0 < ?n * p" using assms(1,3) by simp
  then have "0 < unat ?rank" "unat ?rank \<le> ?n" unfolding r using pn by linarith+
  with percentile_loop_stops [of 0 ?h ?rank 0] all len assms(2)
  obtain k where k: "k < 9" "percentile_loop ?h 0 0 ?rank = LATENCY_BUCKET_UPPER_BOUNDS_NS ! min k 7"
    "sum_list (map unat (take k ?h)) < unat ?rank" "unat ?rank \<le> sum_list (map unat (take (Suc k) ?h))"
    by auto
  have "percentile_from_histogram ?h (latency_sample_count (record_delays ds)) (of_nat p) =
        LATENCY_BUCKET_UPPER_BOUNDS_NS ! min k 7"
    using assms(1) k(2) n by (auto simp: percentile_from_histogram_def record_delays_histogram(2)
        word_unat_eq_iff)
  moreover have "100 * length (filter (\<lambda>d. latency_bucket d < k) ds) < p * ?n"
    using k(1,3) sum_list_samples [of ds k] assms(2) unfolding r by (simp add: mult.commute)
  moreover have "p * ?n \<le> 100 * length (filter (\<lambda>d. latency_bucket d < Suc k) ds)"
    using k(1,4) sum_list_samples [of ds "Suc k"] assms(2) unfolding r by (simp add: mult.commute)
  ultimately show ?thesis using k(1) by blast
qed

text \<open>Reported percentiles are the bucketed percentiles of the recorded delays. After
  recording delays \<open>ds\<close>, the percentile \<open>p\<close> is the least bucket bound that at least \<open>p\<close> percent
  of the delays stay within: every smaller bound is exceeded by too many of them. Delays beyond
  the last bound are all reported as one second, whatever their size.\<close>

lemma percentile_is_quantile:
  assumes "ds \<noteq> []" "length ds * 100 < 2 ^ 64" "0 < p" "p \<le> 100"
  defines "B \<equiv> percentile_from_histogram (latency_histogram (record_delays ds))
                 (latency_sample_count (record_delays ds)) (of_nat p)"
  shows "B \<in> set LATENCY_BUCKET_UPPER_BOUNDS_NS
    \<and> (\<forall>b \<in> set LATENCY_BUCKET_UPPER_BOUNDS_NS. b < B \<longrightarrow> 100 * samples_upto ds b < p * length ds)
    \<and> (p * length ds \<le> 100 * samples_upto ds B \<or> B = 1000000000)"
proof -
  from percentile_position [OF assms(1-4)] obtain k where k: "k < 9"
    and B: "B = LATENCY_BUCKET_UPPER_BOUNDS_NS ! min k 7"
    and below: "100 * length (filter (\<lambda>d. latency_bucket d < k) ds) < p * length ds"
    and reach: "p * length ds \<le> 100 * length (filter (\<lambda>d. latency_bucket d < Suc k) ds)"
    unfolding B_def by blast
  have low: "100 * samples_upto ds b < p * length ds"
    if "b \<in> set LATENCY_BUCKET_UPPER_BOUNDS_NS" "b < B" for b
  proof -
    from bounds_less_index [OF that(1), of "min k 7"] that(2) B
    have j: "0 < min k 7" "b \<le> LATENCY_BUCKET_UPPER_BOUNDS_NS ! (min k 7 - 1)" by auto
    have "samples_upto ds b \<le> length (filter (\<lambda>d. latency_bucket d < min k 7) ds)"
      using samples_upto_mono [OF j(2), of ds] samples_upto_bound [of "min k 7 - 1" ds] j(1) by simp
    also have "\<dots> \<le> length (filter (\<lambda>d. latency_bucket d < k) ds)"
      by (induction ds) auto
    finally show ?thesis using below by linarith
  qed
  have "p * length ds \<le> 100 * samples_upto ds B \<or> B = 1000000000"
  proof (cases "k < 8")
    case True
    with reach B samples_upto_bound [of k ds] show ?thesis by (simp add: min_def)
  next
    case False
    then show ?thesis using B by (simp add: LATENCY_BUCKET_UPPER_BOUNDS_NS_def)
  qed
  moreover have "B \<in> set LATENCY_BUCKET_UPPER_BOUNDS_NS" using B by (simp add: length_bounds)
  ultimately show ?thesis using low by blast
qed

section \<open>Hit counts of the target rules\<close>

definition record_hits :: "u64 list \<Rightarrow> AdvancedMetrics" where
  "record_hits rs = fold record_target_rule_hit rs AdvancedMetrics_new"

lemma record_hits_snoc: "record_hits (rs @ [r]) = record_target_rule_hit r (record_hits rs)"
  by (simp add: record_hits_def)

lemma record_hits_inv:
  "length rs < 2 ^ 64 \<Longrightarrow> distinct (map fst (target_rule_hits (record_hits rs))) \<and>
     map_of (target_rule_hits (record_hits rs)) r =
       (if count_list rs r = 0 then None else Some (of_nat (count_list rs r)))"
proof (induction rs arbitrary: r rule: rev_induct)
  case Nil
  then show ?case by (simp add: record_hits_def AdvancedMetrics_new_def)
next
  case (snoc q rs)
  have "count_list rs q < 2 ^ 64 - 1" using count_le_length [of rs q] snoc.prems by simp
  then have "saturating_add (of_nat (count_list rs q)) 1 = (of_nat (Suc (count_list rs q)) :: u64)"
    by (simp add: saturating_add_def unat_of_nat_u64)
  with snoc.IH [of q] snoc.IH [of r] snoc.prems show ?case
    by (auto simp: record_hits_snoc record_target_rule_hit_def Let_def update_conv' distinct_update)
qed

lemma inj_rule_key: "inj rule_key"
  by (auto simp: inj_def rule_key_def)

text \<open>The order the hash map iterates in does not show: the key separates any two entries.\<close>

lemma sorted_rules_perm:
  assumes "mset xs = mset ys"
  shows "sorted_rules xs = sorted_rules ys"
proof -
  have "map rule_key (sort_key rule_key zs) = sort (map rule_key zs)" for zs :: "(u64 \<times> u64) list"
    by (rule properties_for_sort [symmetric]) simp_all
  moreover have "sort (map rule_key xs) = sort (map rule_key ys)"
    by (rule properties_for_sort) (simp_all add: assms)
  ultimately have "map rule_key (sorted_rules xs) = map rule_key (sorted_rules ys)"
    by (simp add: sorted_rules_def)
  then show ?thesis using inj_rule_key by (simp add: inj_map_eq_map)
qed

lemma complement_le_iff: "- 1 - a \<le> - 1 - b \<longleftrightarrow> b \<le> a" for a b :: u64
proof -
  have "unat (- 1 - c) = 2 ^ 64 - 1 - unat c" for c :: u64
    using unat_bound [of c] by (simp add: unat_sub_if' unat_minus_one_max)
  then show ?thesis using unat_bound [of a] unat_bound [of b] by (auto simp: word_le_nat_alt)
qed

lemma sorted_rules_hits:
  "sorted_wrt (\<lambda>a b. snd b \<le> snd a) (sorted_rules es)"
proof -
  have "sorted_wrt (\<lambda>a b. rule_key a \<le> rule_key b) (sorted_rules es)"
    using sorted_sort_key [of rule_key es] by (simp add: sorted_rules_def sorted_map)
  then show ?thesis
    by (rule sorted_wrt_mono_rel [rotated]) (auto simp: rule_key_def less_eq_prod_def complement_le_iff dest: less_imp_le)
qed


lemma set_sorted_rules [simp]: "set (sorted_rules es) = set es"
  and length_sorted_rules [simp]: "length (sorted_rules es) = length es"
  and mset_sorted_rules [simp]: "mset (sorted_rules es) = mset es"
  by (simp_all add: sorted_rules_def)

lemma hits_value:
  assumes "length rs < 2 ^ 64" "(r, h) \<in> set (target_rule_hits (record_hits rs))"
  shows "unat h = count_list rs r"
proof -
  have "map_of (target_rule_hits (record_hits rs)) r = Some h"
    using record_hits_inv [OF assms(1), THEN conjunct1] assms(2) by (rule map_of_is_SomeI)
  then have "h = of_nat (count_list rs r)"
    using record_hits_inv [OF assms(1), of r] by (simp split: if_splits)
  then show ?thesis using count_le_length [of rs r] assms(1) by (simp add: unat_of_nat_u64)
qed

lemma hits_member:
  assumes "length rs < 2 ^ 64" "count_list rs r \<noteq> 0"
  shows "(r, of_nat (count_list rs r)) \<in> set (target_rule_hits (record_hits rs))"
  using record_hits_inv [OF assms(1), of r] assms(2) by (simp add: map_of_SomeD)

lemma sum_hits: "length rs < 2 ^ 64 \<Longrightarrow>
  sum_list (map (unat \<circ> snd) (target_rule_hits (record_hits rs))) = length rs"
proof -
  assume len: "length rs < 2 ^ 64"
  let ?al = "target_rule_hits (record_hits rs)"
  have d: "distinct (map fst ?al)" using record_hits_inv [OF len] by blast
  have v: "unat (snd e) = count_list rs (fst e)" if "e \<in> set ?al" for e
    using hits_value [OF len, of "fst e" "snd e"] that by simp
  have "set rs \<subseteq> fst ` set ?al"
    using hits_member [OF len] by (force simp: count_list_0_iff)
  then have "sum (count_list rs) (fst ` set ?al) = length rs" by (simp add: sum_count_set)
  moreover have "sum_list (map (unat \<circ> snd) ?al) = sum_list (map (count_list rs) (map fst ?al))"
    using v by (simp add: o_def cong: map_cong)
  ultimately show ?thesis using d by (simp add: sum_list_distinct_conv_sum_set del: map_map)
qed

lemma fold_saturating_sum:
  "unat acc + sum_list (map (unat \<circ> snd) es) < 2 ^ 64 \<Longrightarrow>
     unat (fold (\<lambda>e acc. saturating_add acc (snd e)) es (acc :: u64)) =
       unat acc + sum_list (map (unat \<circ> snd) es)"
  by (induction es arbitrary: acc) (simp_all add: sat_simps)

definition top_rules :: "AdvancedMetrics \<Rightarrow> (u64 \<times> u64) list" where
  "top_rules m = (let s = advanced_metrics_snapshot m in take (unat (target_rule_top_len s)) (target_rule_top s))"

lemma top_rules_take: "top_rules m = take TARGET_RULE_TOP_N (sorted_rules (target_rule_hits m))"
proof -
  have "min (length (target_rule_hits m)) TARGET_RULE_TOP_N < 2 ^ 64" by (simp add: TARGET_RULE_TOP_N_def)
  then have "unat (of_nat (min (length (target_rule_hits m)) TARGET_RULE_TOP_N) :: u64) =
             min (length (target_rule_hits m)) TARGET_RULE_TOP_N"
    by (rule unat_of_nat_u64)
  then show ?thesis
    using take_min_length(1) [of TARGET_RULE_TOP_N "sorted_rules (target_rule_hits m)"]
    by (simp add: top_rules_def advanced_metrics_snapshot_def Let_def min.commute [of _ TARGET_RULE_TOP_N])
qed

lemma top_rules_dominate:
  assumes "length rs < 2 ^ 64" "(r, h) \<in> set (top_rules (record_hits rs))"
    and "r' \<notin> fst ` set (top_rules (record_hits rs))"
  shows "count_list rs r' \<le> unat h"
proof (cases "count_list rs r' = 0")
  case False
  let ?es = "sorted_rules (target_rule_hits (record_hits rs))" and ?N = TARGET_RULE_TOP_N
  let ?h' = "of_nat (count_list rs r') :: u64"
  have mem: "(r', ?h') \<in> set (target_rule_hits (record_hits rs))"
    by (rule hits_member [OF assms(1) False])
  then have "(r', ?h') \<in> set (take ?N ?es @ drop ?N ?es)" by (simp only: append_take_drop_id set_sorted_rules)
  moreover have "(r', ?h') \<notin> set (take ?N ?es)" using assms(3) by (force simp: top_rules_take)
  ultimately have "(r', ?h') \<in> set (drop ?N ?es)" unfolding set_append by blast
  moreover have "sorted_wrt (\<lambda>a b. snd b \<le> snd a) (take ?N ?es @ drop ?N ?es)"
    using sorted_rules_hits by simp
  ultimately have "?h' \<le> h"
    using assms(2) unfolding sorted_wrt_append top_rules_take by fastforce
  then show ?thesis using hits_value [OF assms(1) mem] by (simp add: word_le_nat_alt)
qed simp

lemma top_rules_sum:
  assumes "length rs < 2 ^ 64"
  shows "sum_list (map (unat \<circ> snd) (top_rules (record_hits rs)))
       + unat (target_rule_other_count (advanced_metrics_snapshot (record_hits rs))) = length rs"
proof -
  let ?al = "target_rule_hits (record_hits rs)"
  let ?es = "sorted_rules ?al" and ?N = TARGET_RULE_TOP_N
  have "mset (map (unat \<circ> snd) ?es) = mset (map (unat \<circ> snd) ?al)" by simp
  then have "sum_list (map (unat \<circ> snd) ?es) = length rs"
    using sum_hits [OF assms] by (metis sum_mset_sum_list)
  then have split: "sum_list (map (unat \<circ> snd) (take ?N ?es)) + sum_list (map (unat \<circ> snd) (drop ?N ?es)) = length rs"
    by (metis append_take_drop_id map_append sum_list_append)
  have d: "drop (min (length ?es) ?N) ?es = drop ?N ?es" by (simp add: min_def)
  have "unat (target_rule_other_count (advanced_metrics_snapshot (record_hits rs))) =
        sum_list (map (unat \<circ> snd) (drop ?N ?es))"
    using fold_saturating_sum [of 0 "drop ?N ?es"] split assms
    unfolding advanced_metrics_snapshot_def Let_def d by simp
  with split show ?thesis by (simp add: top_rules_take)
qed

text \<open>The target-rule report is exact. After any sequence \<open>rs\<close> of rule hits, each of the
  reported rules carries its true number of hits, no unreported rule has more hits than a reported
  one, at most eight rules are reported, and the reported hits and the remainder count add up to
  all the hits. The report does not depend on the iteration order of the hash map.\<close>

lemma top_rules_exact:
  assumes "length rs < 2 ^ 64"
  defines "m \<equiv> record_hits rs"
  shows "(\<forall>(r, h) \<in> set (top_rules m). unat h = count_list rs r \<and>
            (\<forall>r'. r' \<notin> fst ` set (top_rules m) \<longrightarrow> count_list rs r' \<le> unat h))
    \<and> length (top_rules m) \<le> 8
    \<and> sum_list (map (unat \<circ> snd) (top_rules m)) + unat (target_rule_other_count (advanced_metrics_snapshot m))
        = length rs
    \<and> (\<forall>al. mset al = mset (target_rule_hits m) \<longrightarrow>
         advanced_metrics_snapshot (m\<lparr>target_rule_hits := al\<rparr>) = advanced_metrics_snapshot m)"
proof (intro conjI allI impI)
  show "\<forall>(r, h) \<in> set (top_rules m). unat h = count_list rs r \<and>
            (\<forall>r'. r' \<notin> fst ` set (top_rules m) \<longrightarrow> count_list rs r' \<le> unat h)"
    using hits_value [OF assms(1)] top_rules_dominate [OF assms(1)]
    by (auto simp: m_def top_rules_take dest: in_set_takeD)
  show "length (top_rules m) \<le> 8" by (simp add: top_rules_take TARGET_RULE_TOP_N_def)
  show "sum_list (map (unat \<circ> snd) (top_rules m)) +
        unat (target_rule_other_count (advanced_metrics_snapshot m)) = length rs"
    unfolding m_def by (rule top_rules_sum [OF assms(1)])
next
  fix al assume "mset al = mset (target_rule_hits m)"
  from sorted_rules_perm [OF this]
  show "advanced_metrics_snapshot (m\<lparr>target_rule_hits := al\<rparr>) = advanced_metrics_snapshot m"
    by (simp add: advanced_metrics_snapshot_def)
qed

end
