(* ===== verification/Chaos_Engine.thy ===== *)
theory Chaos_Engine
  imports R1_Session_Guard R2_Chaos_Base R3_Flow_Control R4_Timing_Variation R5_Transport_Faults
    R6_Resolver_Faults R7_Payload_Transform Observability
begin

text \<open>
  The fault engine (\<open>chaos_engine.rs\<close>): the seven stages with their state, the decision counters
  of each stage, the main pipeline R2..R6, and the five evaluations the interceptor calls.

  The engine's state and the process-wide metrics are one record threaded through every call.
  Clock readings are arguments: \<open>now\<close> for \<open>monotonic_now_ns\<close> and a pair \<open>clk\<close> for the two
  readings R3 takes. R4's overflow panic (\<open>R4_panics\<close>) is the only way a call does not return;
  the definitions describe the runs without it.
\<close>

section \<open>Decision counters\<close>

record DecisionCounters =
  continue_count :: u64
  delay_count :: u64
  drop_count :: u64
  timeout_count :: u64
  d_error_count :: u64
  connection_error_count :: u64
  reorder_count :: u64
  duplicate_count :: u64
  nxdomain_count :: u64
  mutate_count :: u64
  skipped_count :: u64

datatype CounterType =
  CT_Continue | CT_Delay | CT_Drop | CT_Timeout | CT_Error | CT_ConnectionError | CT_Reorder
| CT_Duplicate | CT_NxDomain | CT_Mutate | CT_Skipped

primrec CounterType_index :: "CounterType \<Rightarrow> nat" where
  "CounterType_index CT_Continue = 0"
| "CounterType_index CT_Delay = 1"
| "CounterType_index CT_Drop = 2"
| "CounterType_index CT_Timeout = 3"
| "CounterType_index CT_Error = 4"
| "CounterType_index CT_ConnectionError = 5"
| "CounterType_index CT_Reorder = 6"
| "CounterType_index CT_Duplicate = 7"
| "CounterType_index CT_NxDomain = 8"
| "CounterType_index CT_Mutate = 9"
| "CounterType_index CT_Skipped = 10"

type_synonym LayerMetrics = "u64 list"

definition LayerMetrics_new :: LayerMetrics where
  "LayerMetrics_new = replicate 11 0"

primrec counter_type :: "LayerDecision \<Rightarrow> CounterType" where
  "counter_type Continue = CT_Continue"
| "counter_type (DelayNs _) = CT_Delay"
| "counter_type Drop = CT_Drop"
| "counter_type (TimeoutMs _) = CT_Timeout"
| "counter_type (Error _) = CT_Error"
| "counter_type (ConnectionErrorKind _) = CT_ConnectionError"
| "counter_type StageReorder = CT_Reorder"
| "counter_type (Duplicate _) = CT_Duplicate"
| "counter_type NxDomain = CT_NxDomain"
| "counter_type (Mutate _) = CT_Mutate"

definition bump_counter :: "CounterType \<Rightarrow> LayerMetrics \<Rightarrow> LayerMetrics" where
  "bump_counter ty m = m[CounterType_index ty := m ! CounterType_index ty + 1]"

definition record_decision :: "LayerDecision \<Rightarrow> LayerMetrics \<Rightarrow> LayerMetrics" where
  "record_decision d m = bump_counter (counter_type d) m"

definition record_skipped :: "LayerMetrics \<Rightarrow> LayerMetrics" where
  "record_skipped m = bump_counter CT_Skipped m"

definition LayerMetrics_snapshot :: "LayerMetrics \<Rightarrow> DecisionCounters" where
  "LayerMetrics_snapshot m =
     (let ld = (\<lambda>ty. m ! CounterType_index ty) in
      \<lparr>continue_count = ld CT_Continue, delay_count = ld CT_Delay, drop_count = ld CT_Drop,
       timeout_count = ld CT_Timeout, d_error_count = ld CT_Error,
       connection_error_count = ld CT_ConnectionError, reorder_count = ld CT_Reorder,
       duplicate_count = ld CT_Duplicate, nxdomain_count = ld CT_NxDomain,
       mutate_count = ld CT_Mutate, skipped_count = ld CT_Skipped\<rparr>)"

definition LayerMetrics_reset :: "LayerMetrics \<Rightarrow> LayerMetrics" where
  "LayerMetrics_reset m = map (\<lambda>_. 0) m"

section \<open>The engine\<close>

record ChaosEngine =
  e_r2 :: R2ChaosBase
  e_r3 :: R3FlowControl
  e_r4 :: R4TimingVariation
  e_r5 :: R5TransportFaults
  e_r1 :: R1SessionGuard
  e_r6 :: R6ResolverFaults
  metrics :: "LayerMetrics list"
  observed :: AdvancedMetrics

text \<open>The thread generators of the four random stages are separate draws of the same thread
  generator: \<open>threads\<close> gives the stream each of them sees.\<close>

definition ChaosEngine_new ::
  "(u64 \<Rightarrow> u32 stream) \<Rightarrow> (string \<Rightarrow> string option) \<Rightarrow> (LayerStage \<Rightarrow> u32 stream) \<Rightarrow> instant \<Rightarrow> ChaosEngine"
where
  "ChaosEngine_new std_rng env threads now =
     \<lparr>e_r2 = R2_new std_rng env (threads R2), e_r3 = R3_with_rate 0 now,
      e_r4 = R4_new std_rng env (threads R4), e_r5 = R5_new std_rng env (threads R5),
      e_r1 = R1_new, e_r6 = R6_new std_rng env (threads R6),
      metrics = replicate 9 LayerMetrics_new, observed = AdvancedMetrics_new\<rparr>"

primrec stage_index :: "LayerStage \<Rightarrow> nat" where
  "stage_index R0 = 0"
| "stage_index R1 = 1"
| "stage_index R2 = 2"
| "stage_index R3 = 3"
| "stage_index R4 = 4"
| "stage_index R5 = 5"
| "stage_index R6 = 6"
| "stage_index R7 = 7"
| "stage_index R8 = 8"

definition stage_order :: "LayerStage list" where
  "stage_order = [R0, R1, R2, R3, R4, R5, R6, R7, R8]"

definition metrics_snapshot :: "ChaosEngine \<Rightarrow> (LayerStage \<times> DecisionCounters) list" where
  "metrics_snapshot e =
     map (\<lambda>idx. (stage_order ! idx, LayerMetrics_snapshot (metrics e ! idx))) [0..<9]"

definition count_decision :: "LayerStage \<Rightarrow> LayerDecision \<Rightarrow> ChaosEngine \<Rightarrow> ChaosEngine" where
  "count_decision st d e =
     e\<lparr>metrics := (metrics e)[stage_index st := record_decision d (metrics e ! stage_index st)]\<rparr>"

definition count_skipped :: "LayerStage \<Rightarrow> ChaosEngine \<Rightarrow> ChaosEngine" where
  "count_skipped st e =
     e\<lparr>metrics := (metrics e)[stage_index st := record_skipped (metrics e ! stage_index st)]\<rparr>"

definition record_config_resolve :: "ChaosEngine \<Rightarrow> ChaosEngine" where
  "record_config_resolve e = count_decision R0 Continue e"

definition reset_metrics :: "ChaosEngine \<Rightarrow> ChaosEngine" where
  "reset_metrics e = e\<lparr>metrics := map LayerMetrics_reset (metrics e)\<rparr>"

definition observe :: "LayerDecision \<Rightarrow> ChaosEngine \<Rightarrow> ChaosEngine" where
  "observe d e = e\<lparr>observed := record_fault_decision d (observed e)\<rparr>"

section \<open>The main pipeline\<close>

type_synonym clock = "instant \<times> instant"

text \<open>The dynamic dispatch of \<open>&dyn Layer\<close> over \<open>[&r2, &r3, &r4, &r5, &r6]\<close>.\<close>

definition pipeline_stages :: "LayerStage list" where
  "pipeline_stages = [R2, R3, R4, R5, R6]"

fun layer_applies_to :: "LayerStage \<Rightarrow> PacketContext \<Rightarrow> bool" where
  "layer_applies_to R2 ctx = R2_applies_to ctx"
| "layer_applies_to R3 ctx = R3_applies_to ctx"
| "layer_applies_to R4 ctx = R4_applies_to ctx"
| "layer_applies_to R5 ctx = R5_applies_to ctx"
| "layer_applies_to R6 ctx = R6_applies_to ctx"
| "layer_applies_to _ ctx = True"

fun layer_process :: "clock \<Rightarrow> LayerStage \<Rightarrow> PacketContext \<Rightarrow> ChaosEngine \<Rightarrow> LayerDecision \<times> ChaosEngine" where
  "layer_process clk R2 ctx e = (let (d, s) = R2_process ctx (e_r2 e) in (d, e\<lparr>e_r2 := s\<rparr>))"
| "layer_process clk R3 ctx e = (let (d, s) = R3_process clk ctx (e_r3 e) in (d, e\<lparr>e_r3 := s\<rparr>))"
| "layer_process clk R4 ctx e = (let (d, s) = R4_process ctx (e_r4 e) in (d, e\<lparr>e_r4 := s\<rparr>))"
| "layer_process clk R5 ctx e = (let (d, s) = R5_process ctx (e_r5 e) in (d, e\<lparr>e_r5 := s\<rparr>))"
| "layer_process clk R6 ctx e = (let (d, s) = R6_process ctx (e_r6 e) in (d, e\<lparr>e_r6 := s\<rparr>))"
| "layer_process clk _ ctx e = (Continue, e)"

fun layer_name :: "LayerStage \<Rightarrow> string" where
  "layer_name R1 = R1_name"
| "layer_name R2 = R2_name"
| "layer_name R3 = R3_name"
| "layer_name R4 = R4_name"
| "layer_name R5 = R5_name"
| "layer_name R6 = R6_name"
| "layer_name R7 = R7_name"
| "layer_name _ = []"

fun pipeline_loop ::
  "clock \<Rightarrow> PacketContext \<Rightarrow> LayerStage list \<Rightarrow> u64 \<Rightarrow> ChaosEngine \<Rightarrow> LayerDecision \<times> ChaosEngine" where
  "pipeline_loop clk ctx [] delay e = (if delay > 0 then DelayNs delay else Continue, e)"
| "pipeline_loop clk ctx (st # sts) delay e =
     (if \<not> layer_applies_to st ctx then pipeline_loop clk ctx sts delay (count_skipped st e)
      else
        let (d, e1) = layer_process clk st ctx e;
            e2 = count_decision st d e1
        in case d of
             Continue \<Rightarrow> pipeline_loop clk ctx sts delay e2
           | DelayNs ns \<Rightarrow> pipeline_loop clk ctx sts (saturating_add delay ns) e2
           | Drop \<Rightarrow> (Drop, e2)
           | TimeoutMs ms \<Rightarrow> (TimeoutMs ms, e2)
           | Error msg \<Rightarrow> (Error msg, e2)
           | ConnectionErrorKind k \<Rightarrow> (ConnectionErrorKind k, e2)
           | NxDomain \<Rightarrow> (NxDomain, e2)
           | StageReorder \<Rightarrow>
               (Error (layer_name st @ '' returned a post-routing decision in main pipeline''), e2)
           | Duplicate _ \<Rightarrow>
               (Error (layer_name st @ '' returned a post-routing decision in main pipeline''), e2)
           | Mutate _ \<Rightarrow>
               (Error (layer_name st @ '' returned an unsupported decision in main pipeline''), e2))"

definition process_pipeline :: "clock \<Rightarrow> PacketContext \<Rightarrow> ChaosEngine \<Rightarrow> LayerDecision \<times> ChaosEngine" where
  "process_pipeline clk ctx e = pipeline_loop clk ctx pipeline_stages 0 e"

section \<open>The evaluations\<close>

definition effective_for :: "Direction \<Rightarrow> Config \<Rightarrow> Config" where
  "effective_for dir c = (case dir of Uplink \<Rightarrow> effective_for_send c | Downlink \<Rightarrow> effective_for_recv c)"

definition stream_operation :: "Direction \<Rightarrow> Operation" where
  "stream_operation dir = (case dir of Uplink \<Rightarrow> Send | Downlink \<Rightarrow> Recv)"

definition evaluate_connect :: "clock \<Rightarrow> u64 \<Rightarrow> fd \<Rightarrow> Config \<Rightarrow> ChaosEngine \<Rightarrow> LayerDecision \<times> ChaosEngine" where
  "evaluate_connect clk now f c e =
     (let ctx = \<lparr>ctx_fd = f, ctx_bytes = 0, operation = Connect, direction = Some Uplink,
                 config = effective_for_send c, now_ns = now\<rparr>;
          (d, e1) = process_pipeline clk ctx (record_config_resolve e)
      in (d, observe d e1))"

definition stream_ctx :: "u64 \<Rightarrow> fd \<Rightarrow> Config \<Rightarrow> u64 \<Rightarrow> Direction \<Rightarrow> PacketContext" where
  "stream_ctx now f c nbytes dir =
     \<lparr>ctx_fd = f, ctx_bytes = nbytes, operation = stream_operation dir, direction = Some dir,
      config = effective_for dir c, now_ns = now\<rparr>"

definition evaluate_stream_pre ::
  "clock \<Rightarrow> u64 \<Rightarrow> fd \<Rightarrow> Config \<Rightarrow> u64 \<Rightarrow> Direction \<Rightarrow> ChaosEngine \<Rightarrow> LayerDecision \<times> ChaosEngine" where
  "evaluate_stream_pre clk now f c nbytes dir e =
     (let ctx = stream_ctx now f c nbytes dir;
          e0 = record_config_resolve e;
          (sd, m) = R1_process ctx (e_r1 e0);
          e1 = e0\<lparr>e_r1 := m\<rparr>
      in if sd \<noteq> Continue then (sd, observe sd (count_decision R1 sd e1))
         else
           let e2 = count_decision R1 Continue e1;
               (d, e3) = process_pipeline clk ctx e2
           in if d \<noteq> Continue then (d, observe d e3)
              else
                let (rd, s) = reorder_decision (config ctx) (e_r2 e3)
                in (rd, observe rd (count_decision R8 rd (e3\<lparr>e_r2 := s\<rparr>))))"

definition evaluate_stream_post :: "Config \<Rightarrow> Direction \<Rightarrow> ChaosEngine \<Rightarrow> LayerDecision \<times> ChaosEngine" where
  "evaluate_stream_post c dir e =
     (case dir of
        Uplink \<Rightarrow>
          let (d, s) = duplicate_decision (effective_for dir c) (e_r2 e)
          in (d, observe d (count_decision R8 d (e\<lparr>e_r2 := s\<rparr>)))
      | Downlink \<Rightarrow> (Continue, e))"

definition evaluate_dns_lookup :: "clock \<Rightarrow> u64 \<Rightarrow> Config \<Rightarrow> ChaosEngine \<Rightarrow> LayerDecision \<times> ChaosEngine" where
  "evaluate_dns_lookup clk now c e =
     (let ctx = \<lparr>ctx_fd = - 1, ctx_bytes = 0, operation = DnsLookup, direction = None,
                 config = c, now_ns = now\<rparr>;
          (d, e1) = process_pipeline clk ctx (record_config_resolve e)
      in (d, observe d e1))"

definition evaluate_r7_with_buffer ::
  "u64 \<Rightarrow> fd \<Rightarrow> Config \<Rightarrow> Direction \<Rightarrow> u64 \<Rightarrow> bytes \<Rightarrow> ChaosEngine
     \<Rightarrow> (LayerDecision \<times> bytes option) \<times> ChaosEngine" where
  "evaluate_r7_with_buffer now f c dir nbytes buffer e =
     (let ctx = stream_ctx now f c nbytes dir in
      if \<not> layer_applies_to R7 ctx then ((Continue, None), count_skipped R7 e)
      else
        let (d, maybe_buffer) = R7_process_with_buffer ctx buffer;
            e1 = count_decision R7 d e
        in ((d, maybe_buffer), if d \<noteq> Continue then observe d e1 else e1))"

definition record_stream_bytes :: "fd \<Rightarrow> u64 \<Rightarrow> ChaosEngine \<Rightarrow> ChaosEngine" where
  "record_stream_bytes f nbytes e = e\<lparr>e_r5 := R5_record_stream_bytes f nbytes (e_r5 e)\<rparr>"

definition clear_fd_state :: "fd \<Rightarrow> ChaosEngine \<Rightarrow> ChaosEngine" where
  "clear_fd_state f e =
     e\<lparr>e_r5 := R5_clear_fd_state f (e_r5 e), e_r1 := R1_clear_fd_state f (e_r1 e)\<rparr>"

section \<open>What bookkeeping leaves alone\<close>

lemma bookkeeping_frame [simp]:
  "e_r1 (count_decision st d e) = e_r1 e" "e_r2 (count_decision st d e) = e_r2 e"
  "e_r3 (count_decision st d e) = e_r3 e" "e_r4 (count_decision st d e) = e_r4 e"
  "e_r5 (count_decision st d e) = e_r5 e" "e_r6 (count_decision st d e) = e_r6 e"
  "e_r1 (count_skipped st e) = e_r1 e" "e_r2 (count_skipped st e) = e_r2 e"
  "e_r3 (count_skipped st e) = e_r3 e" "e_r4 (count_skipped st e) = e_r4 e"
  "e_r5 (count_skipped st e) = e_r5 e" "e_r6 (count_skipped st e) = e_r6 e"
  "e_r1 (observe d e) = e_r1 e" "e_r2 (observe d e) = e_r2 e" "e_r3 (observe d e) = e_r3 e"
  "e_r4 (observe d e) = e_r4 e" "e_r5 (observe d e) = e_r5 e" "e_r6 (observe d e) = e_r6 e"
  "metrics (observe d e) = metrics e" "observed (count_decision st d e) = observed e"
  "observed (count_skipped st e) = observed e"
  by (simp_all add: count_decision_def count_skipped_def observe_def)

lemma record_config_resolve_frame [simp]:
  "e_r1 (record_config_resolve e) = e_r1 e" "e_r2 (record_config_resolve e) = e_r2 e"
  "e_r3 (record_config_resolve e) = e_r3 e" "e_r4 (record_config_resolve e) = e_r4 e"
  "e_r5 (record_config_resolve e) = e_r5 e" "e_r6 (record_config_resolve e) = e_r6 e"
  by (simp_all add: record_config_resolve_def)


section \<open>The pipeline against its specification\<close>

lemma layer_process_main: "main_decision (fst (layer_process clk st ctx e))"
  by (cases st) (simp_all add: Let_def case_prod_beta r2.process_main r3.process_main
      r4.process_main r5.process_main r6.process_main)

text \<open>What a stage answers on its own state.\<close>

definition stage_answer :: "clock \<Rightarrow> PacketContext \<Rightarrow> ChaosEngine \<Rightarrow> LayerStage \<Rightarrow> LayerDecision" where
  "stage_answer clk ctx e st = fst (layer_process clk st ctx e)"

fun delay_of :: "LayerDecision \<Rightarrow> nat" where
  "delay_of (DelayNs ns) = unat ns"
| "delay_of _ = 0"

text \<open>The specification: the first final decision wins; without one the delays add up, up to
  \<open>u64::MAX\<close>.\<close>

definition total_delay :: "nat \<Rightarrow> LayerDecision" where
  "total_delay n = (if n = 0 then Continue else DelayNs (of_nat (min n (2 ^ 64 - 1))))"

definition combine_decisions :: "LayerDecision list \<Rightarrow> LayerDecision" where
  "combine_decisions ds =
     (case find terminal_decision ds of
        Some d \<Rightarrow> d
      | None \<Rightarrow> total_delay (sum_list (map delay_of ds)))"

lemma stage_answer_frame:
  assumes "st' \<noteq> st"
  shows "stage_answer clk ctx (count_decision st d (snd (layer_process clk st ctx e))) st' = stage_answer clk ctx e st'"
    and "stage_answer clk ctx (count_skipped st e) st' = stage_answer clk ctx e st'"
  using assms by (cases st; cases st'; simp add: stage_answer_def Let_def case_prod_beta)+

definition spec_from :: "u64 \<Rightarrow> LayerDecision list \<Rightarrow> LayerDecision" where
  "spec_from delay ds = combine_decisions (DelayNs delay # ds)"

lemma spec_from_step:
  "spec_from delay [] = (if delay > 0 then DelayNs delay else Continue)"
  "spec_from delay (Continue # ds) = spec_from delay ds"
  "spec_from delay (DelayNs ns # ds) = spec_from (saturating_add delay ns) ds"
  "terminal_decision d \<Longrightarrow> spec_from delay (d # ds) = d"
proof -
  have "total_delay (min a (2 ^ 64 - 1) + t) = total_delay (a + t)" for a t
  proof -
    have "min (min a (2 ^ 64 - 1) + t) (2 ^ 64 - 1) = min (a + t) (2 ^ 64 - 1 :: nat)"
      by linarith
    moreover have "(min a (2 ^ 64 - 1) + t = 0) = (a + t = 0)" by (auto simp: min_def)
    ultimately show ?thesis unfolding total_delay_def by presburger
  qed
  from this [of "unat delay + unat ns"]
  show "spec_from delay (DelayNs ns # ds) = spec_from (saturating_add delay ns) ds"
    by (simp add: spec_from_def combine_decisions_def unat_saturating_add add.assoc split: option.split)
  have "DelayNs (of_nat (min (unat delay) (2 ^ 64 - 1))) = DelayNs delay"
    using unat_bound [of delay] by (simp add: min_def)
  then show "spec_from delay [] = (if delay > 0 then DelayNs delay else Continue)"
    by (simp add: spec_from_def combine_decisions_def total_delay_def unat_eq_0)
qed (simp_all add: spec_from_def combine_decisions_def split: option.split)

lemma pipeline_loop_spec:
  assumes "distinct sts"
  shows "fst (pipeline_loop clk ctx sts delay e) =
    spec_from delay (map (stage_answer clk ctx e) (filter (\<lambda>st. layer_applies_to st ctx) sts))"
  using assms
proof (induction sts arbitrary: delay e)
  case (Cons st sts)
  let ?rest = "filter (\<lambda>st. layer_applies_to st ctx) sts"
  let ?d = "stage_answer clk ctx e st"
  let ?e2 = "\<lambda>d. count_decision st d (snd (layer_process clk st ctx e))"
  have ne: "st' \<noteq> st" if "st' \<in> set ?rest" for st' using Cons.prems that by auto
  note frame = stage_answer_frame [OF ne]
  have skip: "map (stage_answer clk ctx (count_skipped st e)) ?rest = map (stage_answer clk ctx e) ?rest"
    and go: "map (stage_answer clk ctx (?e2 d)) ?rest = map (stage_answer clk ctx e) ?rest" for d
    by (simp_all add: frame cong: map_cong)
  have IH: "fst (pipeline_loop clk ctx sts delay' e') =
      spec_from delay' (map (stage_answer clk ctx e') ?rest)" for delay' e'
    using Cons by simp
  have main: "main_decision ?d" by (simp add: stage_answer_def layer_process_main)
  show ?case
  proof (cases "layer_applies_to st ctx")
    case True
    with main show ?thesis
      by (cases ?d) (simp_all add: case_prod_beta Let_def IH go spec_from_step flip: stage_answer_def)
  qed (simp add: IH skip)
qed (simp add: spec_from_step)

lemma spec_from_0: "spec_from 0 ds = combine_decisions ds"
  by (simp add: spec_from_def combine_decisions_def split: option.split)

lemma process_pipeline_spec:
  "fst (process_pipeline clk ctx e) =
     combine_decisions (map (stage_answer clk ctx e) (filter (\<lambda>st. layer_applies_to st ctx) pipeline_stages))"
  unfolding process_pipeline_def spec_from_0 [symmetric]
  by (rule pipeline_loop_spec) (simp add: pipeline_stages_def)

lemma combine_main: "\<forall>d \<in> set ds. main_decision d \<Longrightarrow> main_decision (combine_decisions ds)"
  by (auto simp: combine_decisions_def total_delay_def find_Some_iff split: option.split)

text \<open>C1. The pipeline refines its specification: over the stages that apply, in the order R2 to
  R6, the first final decision (drop, timeout, connection error, NXDOMAIN) wins, and without one
  the delays of all stages add up, saturating at \<open>u64::MAX\<close>. The internal error branches for
  misplaced reorder, duplicate and mutate decisions are dead: such a decision or an engine error
  is never returned.\<close>

theorem pipeline_refines_spec:
  "fst (process_pipeline clk ctx e) =
     combine_decisions (map (stage_answer clk ctx e) (filter (\<lambda>st. layer_applies_to st ctx) pipeline_stages))
   \<and> main_decision (fst (process_pipeline clk ctx e))"
  by (simp add: process_pipeline_spec combine_main stage_answer_def layer_process_main)

end
