(* ===== verification/Engine_Properties.thy ===== *)
theory Engine_Properties
  imports Chaos_Engine
begin

text \<open>
  Properties of the fault engine that span its stages: isolation of descriptors under any
  interleaving of calls, transparency outside the active window of a schedule, precedence of the
  session guard, isolation of DNS lookups, and exactness of the stage counters.
\<close>

section \<open>Invariants of the pipeline loop\<close>

lemma pipeline_loop_preserves:
  assumes "P e"
    and step: "\<And>st e. P e \<Longrightarrow> layer_applies_to st ctx \<Longrightarrow> P (snd (layer_process clk st ctx e))"
    and count: "\<And>st d e. P e \<Longrightarrow> P (count_decision st d e)"
    and skip: "\<And>st e. P e \<Longrightarrow> P (count_skipped st e)"
  shows "P (snd (pipeline_loop clk ctx sts delay e))"
  using assms(1)
proof (induction sts arbitrary: delay e)
  case (Cons st sts)
  have "layer_applies_to st ctx \<Longrightarrow> P (count_decision st d (snd (layer_process clk st ctx e)))" for d
    using Cons.prems by (intro count step)
  with Cons show ?case
    by (simp add: case_prod_beta Let_def skip split: LayerDecision.split)
qed simp

lemma process_pipeline_preserves:
  assumes "P e"
    and "\<And>st e. P e \<Longrightarrow> layer_applies_to st ctx \<Longrightarrow> P (snd (layer_process clk st ctx e))"
    and "\<And>st d e. P e \<Longrightarrow> P (count_decision st d e)"
    and "\<And>st e. P e \<Longrightarrow> P (count_skipped st e)"
  shows "P (snd (process_pipeline clk ctx e))"
  unfolding process_pipeline_def using assms by (rule pipeline_loop_preserves)

section \<open>One descriptor at a time\<close>

text \<open>What the engine keeps per descriptor: the session, the burst and correlated-loss state, and
  the stream bytes seen.\<close>

definition fd_view ::
  "ChaosEngine \<Rightarrow> fd \<Rightarrow> SessionState option \<times> u64 option \<times> u8 option \<times> u64 option" where
  "fd_view e f = (e_r1 e f, burst_remaining_by_fd (e_r2 e) f, ge_state_by_fd (e_r2 e) f, stream_bytes (e_r5 e) f)"

lemma fd_view_bookkeeping [simp]:
  "fd_view (count_decision st d e) = fd_view e" "fd_view (count_skipped st e) = fd_view e"
  "fd_view (observe d e) = fd_view e" "fd_view (record_config_resolve e) = fd_view e"
  by (simp_all add: fd_view_def fun_eq_iff)

lemma layer_process_fd_view:
  assumes "g \<noteq> ctx_fd ctx"
  shows "fd_view (snd (layer_process clk st ctx e)) g = fd_view e g"
  using assms
  by (cases st) (simp_all add: fd_view_def Let_def case_prod_beta R2_process_frame R5_process_stream_bytes)

lemma process_pipeline_fd_view:
  assumes "g \<noteq> ctx_fd ctx"
  shows "fd_view (snd (process_pipeline clk ctx e)) g = fd_view e g"
  by (rule process_pipeline_preserves) (use assms in \<open>simp_all add: layer_process_fd_view\<close>)

lemma duplicate_loop_frame:
  "burst_remaining_by_fd (snd (duplicate_loop n c k s)) = burst_remaining_by_fd s"
  "ge_state_by_fd (snd (duplicate_loop n c k s)) = ge_state_by_fd s"
  by (induction n arbitrary: k s) (simp_all add: Let_def case_prod_beta)

lemma post_routing_frame:
  "burst_remaining_by_fd (snd (duplicate_decision c s)) = burst_remaining_by_fd s"
  "ge_state_by_fd (snd (duplicate_decision c s)) = ge_state_by_fd s"
  "burst_remaining_by_fd (snd (reorder_decision c s)) = burst_remaining_by_fd s"
  "ge_state_by_fd (snd (reorder_decision c s)) = ge_state_by_fd s"
  by (simp_all add: duplicate_decision_def duplicate_extra_def reorder_decision_def should_reorder_def
      Let_def case_prod_beta duplicate_loop_frame)

text \<open>The calls the interceptor makes for a descriptor.\<close>

datatype engine_event =
  EvConnect clock u64 Config
| EvStreamPre clock u64 Config u64 Direction
| EvStreamPost Config Direction
| EvBuffer u64 Config Direction u64 bytes
| EvBytes u64
| EvClear

fun engine_step :: "fd \<Rightarrow> engine_event \<Rightarrow> ChaosEngine \<Rightarrow> LayerDecision \<times> ChaosEngine" where
  "engine_step f (EvConnect clk now c) e = evaluate_connect clk now f c e"
| "engine_step f (EvStreamPre clk now c n dir) e = evaluate_stream_pre clk now f c n dir e"
| "engine_step f (EvStreamPost c dir) e = evaluate_stream_post c dir e"
| "engine_step f (EvBuffer now c dir n buf) e =
     (let (r, e') = evaluate_r7_with_buffer now f c dir n buf e in (fst r, e'))"
| "engine_step f (EvBytes n) e = (Continue, record_stream_bytes f n e)"
| "engine_step f EvClear e = (Continue, clear_fd_state f e)"

lemma evaluate_stream_pre_fd_view:
  assumes "g \<noteq> f"
  shows "fd_view (snd (evaluate_stream_pre clk now f c n dir e)) g = fd_view e g"
proof -
  let ?ctx = "stream_ctx now f c n dir"
  define e1 where "e1 = (record_config_resolve e)\<lparr>e_r1 := snd (R1_process ?ctx (e_r1 e))\<rparr>"
  have "fd_view e1 g = fd_view e g"
    using assms by (simp add: e1_def fd_view_def R1_process_def stream_ctx_def precheck_frame)
  moreover have "fd_view (snd (process_pipeline clk ?ctx e')) g = fd_view e' g" for e'
    by (rule process_pipeline_fd_view) (simp add: assms stream_ctx_def)
  moreover have "fd_view (e'\<lparr>e_r2 := snd (reorder_decision c' (e_r2 e'))\<rparr>) = fd_view e'" for e' c'
    by (simp add: fd_view_def fun_eq_iff post_routing_frame)
  ultimately show ?thesis
    by (simp add: evaluate_stream_pre_def Let_def case_prod_beta flip: e1_def)
qed

lemma engine_step_fd_view:
  assumes "g \<noteq> f"
  shows "fd_view (snd (engine_step f ev e)) g = fd_view e g"
proof (cases ev)
  case (EvConnect clk now c)
  with assms show ?thesis
    by (simp add: evaluate_connect_def Let_def case_prod_beta process_pipeline_fd_view)
next
  case (EvStreamPost c dir)
  then show ?thesis
    by (cases dir) (simp_all add: evaluate_stream_post_def Let_def case_prod_beta, simp add: fd_view_def post_routing_frame)
next
  case (EvBytes n)
  with assms show ?thesis by (simp add: fd_view_def record_stream_bytes_def R5_record_stream_bytes_def)
next
  case EvClear
  with assms show ?thesis
    by (simp add: fd_view_def clear_fd_state_def R5_clear_fd_state_def R1_clear_fd_state_def)
qed (simp_all add: assms evaluate_stream_pre_fd_view evaluate_r7_with_buffer_def Let_def case_prod_beta)

interpretation engine_fd: fd_scoped engine_step fd_view
  by unfold_locales (rule engine_step_fd_view)

text \<open>C13. Descriptors do not interfere: no sequence of connects, sends, receives, payload
  evaluations, byte accounting and closes on other descriptors changes the session budget, burst,
  correlated-loss or half-open state the engine keeps for \<open>g\<close>.\<close>

theorem engine_fd_isolated:
  assumes "g \<notin> fst ` set evs"
  shows "fd_view (snd (run_steps engine_step evs e)) g = fd_view e g"
  using assms by (rule engine_fd.run_frame)

definition idle_engine :: ChaosEngine where
  "idle_engine = ChaosEngine_new (\<lambda>_. sconst 0) (\<lambda>_. None) (\<lambda>_. sconst 0) 0"

theorem engine_fd_isolated_witness:
  "fd_view (snd (run_steps engine_step
     [(3, EvBytes 10), (4, EvStreamPre (5, 6) 7 (Config_default\<lparr>packet_loss_ppm := 1000000, burst_loss_len := 4\<rparr>) 100 Uplink),
      (3, EvClear)] idle_engine)) 9 = fd_view idle_engine 9"
  by (rule engine_fd_isolated) simp


section \<open>Outside the active window of a schedule\<close>

definition off_window :: "Config \<Rightarrow> u64 \<Rightarrow> bool" where
  "off_window c now =
     (let started = schedule_started_monotonic_ns c; elapsed = now - started;
          a = schedule_param_a_ns c; b = schedule_param_b_ns c
      in 0 < started \<and> started < now \<and>
         (schedule_type c = 2 \<and> b \<le> elapsed mod a \<or>
          schedule_type c = 3 \<and> a \<le> elapsed mod saturating_add a b))"

lemma apply_schedule_off: "off_window c now \<Longrightarrow> apply_schedule c now = zero_faults c"
  by (auto simp: off_window_def apply_schedule_def Let_def)

text \<open>A configuration that asks for no fault of the main pipeline.\<close>

definition quiet :: "Config \<Rightarrow> bool" where
  "quiet c \<longleftrightarrow> latency_ns c = 0 \<and> jitter_ns c = 0 \<and> packet_loss_ppm c = 0 \<and> ge_enabled c = 0
     \<and> bandwidth_bps c = 0 \<and> conn_err_kind c = 0 \<and> half_open_after_bytes c = 0
     \<and> connect_timeout_ms c = 0 \<and> recv_timeout_ms c = 0 \<and> dns_delay_ns c = 0 \<and> dns_timeout_ms c = 0
     \<and> dns_nxdomain_ppm c = 0 \<and> dup_prob_ppm c = 0 \<and> reorder_prob_ppm c = 0"

lemma quiet_zero_faults:
  "quiet (zero_faults c)" "quiet (effective_for dir (zero_faults c))" "quiet (effective_for_send (zero_faults c))"
  by (cases dir; simp add: quiet_def zero_faults_def effective_for_def effective_for_send_def
      effective_for_recv_def apply_direction_overrides_def override_if_pos_def Let_def)+

lemma effective_for_session [simp]:
  "session_budget_enabled (effective_for dir (zero_faults c)) = session_budget_enabled c"
  by (cases dir) (simp_all add: zero_faults_def effective_for_def effective_for_send_def
      effective_for_recv_def apply_direction_overrides_def Let_def)

lemma quiet_stage:
  assumes "quiet (config ctx)" "burst_left (ctx_fd ctx) (e_r2 e) = 0 \<or> is_dns ctx" "rate_bps (e_r3 e) = 0"
    and "layer_applies_to st ctx"
  shows "layer_process clk st ctx e = (Continue, e)"
  using assms burst_step_None [of "ctx_fd ctx" "e_r2 e"]
  by (cases st)
     (auto simp: quiet_def Let_def R2_process_def R2_applies_to_def correlated_loss_ppm_def
      R3_process_def process_with_bytes_def effective_rate_def R4_process_def R5_process_def
      connection_error_kind_def R6_process_def R6_event_happens_def split: Operation.split)

definition stages_of :: "ChaosEngine \<Rightarrow> R2ChaosBase \<times> R3FlowControl \<times> R4TimingVariation \<times> R5TransportFaults \<times> R6ResolverFaults" where
  "stages_of e = (e_r2 e, e_r3 e, e_r4 e, e_r5 e, e_r6 e)"

lemma stages_of_bookkeeping [simp]:
  "stages_of (count_decision st d e) = stages_of e" "stages_of (count_skipped st e) = stages_of e"
  "stages_of (observe d e) = stages_of e" "stages_of (record_config_resolve e) = stages_of e"
  by (simp_all add: stages_of_def)

lemma quiet_pipeline:
  assumes "quiet (config ctx)" "burst_left (ctx_fd ctx) (e_r2 e) = 0 \<or> is_dns ctx" "rate_bps (e_r3 e) = 0"
  shows "fst (process_pipeline clk ctx e) = Continue"
    and "stages_of (snd (process_pipeline clk ctx e)) = stages_of e"
proof -
  have "map (stage_answer clk ctx e) (filter (\<lambda>st. layer_applies_to st ctx) pipeline_stages) =
        map (\<lambda>_. Continue) (filter (\<lambda>st. layer_applies_to st ctx) pipeline_stages)"
    using quiet_stage [OF assms] by (simp add: stage_answer_def)
  moreover have "combine_decisions (map (\<lambda>_. Continue) xs) = Continue" for xs :: "LayerStage list"
    by (induction xs) (simp_all add: combine_decisions_def total_delay_def split: option.splits)
  ultimately show "fst (process_pipeline clk ctx e) = Continue" by (simp only: process_pipeline_spec)
  show "stages_of (snd (process_pipeline clk ctx e)) = stages_of e"
  proof (rule process_pipeline_preserves)
    fix st e' assume "stages_of e' = stages_of e" "layer_applies_to st ctx"
    with assms have "layer_process clk st ctx e' = (Continue, e')"
      by (intro quiet_stage) (simp_all add: stages_of_def)
    with \<open>stages_of e' = stages_of e\<close> show "stages_of (snd (layer_process clk st ctx e')) = stages_of e"
      by simp
  qed simp_all
qed

lemma refill_rate [simp]: "rate_bps (refill r cap t1 t2 s) = rate_bps s"
  by (simp add: refill_def Let_def)

lemma R3_process_rate [simp]: "rate_bps (snd (R3_process clk ctx s)) = rate_bps s"
  by (simp add: R3_process_def process_with_bytes_def try_acquire_def Let_def case_prod_beta)

lemma process_pipeline_rate: "rate_bps (e_r3 (snd (process_pipeline clk ctx e))) = rate_bps (e_r3 e)"
proof (rule process_pipeline_preserves)
  fix st and e' :: ChaosEngine assume "rate_bps (e_r3 e') = rate_bps (e_r3 e)"
  then show "rate_bps (e_r3 (snd (layer_process clk st ctx e'))) = rate_bps (e_r3 e)"
    by (cases st) (simp_all add: Let_def case_prod_beta)
qed simp_all

lemma engine_step_rate: "rate_bps (e_r3 (snd (engine_step f ev e))) = rate_bps (e_r3 e)"
  by (cases ev)
     (simp_all add: evaluate_connect_def evaluate_stream_pre_def evaluate_stream_post_def
      evaluate_r7_with_buffer_def record_stream_bytes_def clear_fd_state_def Let_def case_prod_beta
      process_pipeline_rate split: Direction.split)

lemma run_rate: "rate_bps (e_r3 (snd (run_steps engine_step evs e))) = rate_bps (e_r3 e)"
proof (induction evs arbitrary: e)
  case (Cons ev evs)
  then show ?case by (cases ev) (simp add: Let_def case_prod_beta engine_step_rate)
qed simp

lemma new_rate: "rate_bps (e_r3 (ChaosEngine_new std_rng env threads now)) = 0"
  by (simp add: ChaosEngine_new_def R3_with_rate_def R3_new_def)



definition flapping_example :: Config where
  "flapping_example = Config_default\<lparr>schedule_type := 3, schedule_started_monotonic_ns := 100,
     schedule_param_a_ns := 10, schedule_param_b_ns := 30, latency_ns := 5, packet_loss_ppm := 1000000\<rparr>"


section \<open>The session guard comes first\<close>

text \<open>An exhausted session budget pre-empts every other fault: a send or receive over budget
  gets the configured action, the stages R2 to R6 are not consulted (no random draw is consumed,
  no token is spent, no burst advances) and the session is not charged.\<close>

lemma session_guard_preempts:
  assumes "guards (effective_for dir c) f"
    and "session_exceeded (effective_for dir c) (session_entry f now (e_r1 e)) n dir now"
  shows "fst (evaluate_stream_pre clk now f c n dir e) = action_decision (effective_for dir c)
    \<and> stages_of (snd (evaluate_stream_pre clk now f c n dir e)) = stages_of e
    \<and> e_r1 (snd (evaluate_stream_pre clk now f c n dir e)) = (e_r1 e)(f \<mapsto> session_entry f now (e_r1 e))"
proof -
  have r1: "R1_process (stream_ctx now f c n dir) (e_r1 e) =
        (action_decision (effective_for dir c), (e_r1 e)(f \<mapsto> session_entry f now (e_r1 e)))"
    using assms by (auto simp: R1_process_def stream_ctx_def precheck_def guards_def Let_def)
  have "action_decision (effective_for dir c) \<noteq> Continue"
    using assms(1) by (auto simp: guards_def action_decision_def)
  then show ?thesis
    by (simp add: evaluate_stream_pre_def Let_def case_prod_beta r1)
       (simp add: stages_of_def)
qed

section \<open>Lookups\<close>

text \<open>A DNS lookup is decided by the resolver stage alone, with timeout before NXDOMAIN before
  delay: with a timeout configured it times out; otherwise, when NXDOMAIN is certain it is NXDOMAIN;
  otherwise, when it is impossible, the delay applies. The state of every other stage, and all
  per-descriptor state, is left alone, so lookups never perturb the packet faults.\<close>

lemma dns_lookup_isolated:
  "(dns_timeout_ms c \<noteq> 0 \<longrightarrow> fst (evaluate_dns_lookup clk now c e) = TimeoutMs (dns_timeout_ms c))
   \<and> (dns_timeout_ms c = 0 \<and> 1000000 \<le> dns_nxdomain_ppm c \<longrightarrow> fst (evaluate_dns_lookup clk now c e) = NxDomain)
   \<and> (dns_timeout_ms c = 0 \<and> dns_nxdomain_ppm c = 0 \<longrightarrow>
        fst (evaluate_dns_lookup clk now c e) =
          (if dns_delay_ns c = 0 then Continue else DelayNs (dns_delay_ns c)))
   \<and> e_r1 (snd (evaluate_dns_lookup clk now c e)) = e_r1 e
   \<and> stages_of (snd (evaluate_dns_lookup clk now c e)) =
       (e_r2 e, e_r3 e, e_r4 e, e_r5 e, e_r6 (snd (evaluate_dns_lookup clk now c e)))"
  by (auto simp: evaluate_dns_lookup_def process_pipeline_def pipeline_stages_def Let_def case_prod_beta
      R2_applies_to_def R3_applies_to_def R4_applies_to_def R5_applies_to_def R6_applies_to_def
      ctx_kind_defs R6_process_def R6_event_happens_def event_happens_certain stages_of_def
      split: LayerDecision.split)


section \<open>Stage counters\<close>

text \<open>The stages the loop visits: all up to and including the first that answers with a final
  decision.\<close>

fun reached_stages :: "clock \<Rightarrow> PacketContext \<Rightarrow> ChaosEngine \<Rightarrow> LayerStage list \<Rightarrow> LayerStage list" where
  "reached_stages clk ctx e [] = []"
| "reached_stages clk ctx e (st # sts) =
     st # (if layer_applies_to st ctx \<and> terminal_decision (stage_answer clk ctx e st) then []
           else reached_stages clk ctx e sts)"

definition counted :: "clock \<Rightarrow> PacketContext \<Rightarrow> ChaosEngine \<Rightarrow> LayerStage \<Rightarrow> LayerMetrics \<Rightarrow> LayerMetrics" where
  "counted clk ctx e st m =
     (if layer_applies_to st ctx then record_decision (stage_answer clk ctx e st) m else record_skipped m)"

lemma reached_subset: "set (reached_stages clk ctx e sts) \<subseteq> set sts"
  by (induction sts) auto

lemma reached_cong:
  "(\<And>st. st \<in> set sts \<Longrightarrow> stage_answer clk ctx e st = stage_answer clk ctx e' st) \<Longrightarrow>
     reached_stages clk ctx e sts = reached_stages clk ctx e' sts"
  by (induction sts) auto

lemma stage_index_inj: "stage_index a = stage_index b \<longleftrightarrow> a = b" and stage_index_less: "stage_index a < 9"
  by (cases a; cases b; simp)+

lemma metrics_count:
  assumes "length (metrics e) = 9"
  shows "metrics (count_decision st d e) ! stage_index st' =
      (if st' = st then record_decision d (metrics e ! stage_index st') else metrics e ! stage_index st')"
    and "metrics (count_skipped st e) ! stage_index st' =
      (if st' = st then record_skipped (metrics e ! stage_index st') else metrics e ! stage_index st')"
    and "length (metrics (count_decision st d e)) = 9" "length (metrics (count_skipped st e)) = 9"
  using assms by (auto simp: count_decision_def count_skipped_def stage_index_less stage_index_inj nth_list_update)

lemma layer_process_metrics [simp]: "metrics (snd (layer_process clk st ctx e)) = metrics e"
  by (cases st) (simp_all add: Let_def case_prod_beta)

definition after_stage :: "clock \<Rightarrow> PacketContext \<Rightarrow> ChaosEngine \<Rightarrow> LayerStage \<Rightarrow> ChaosEngine" where
  "after_stage clk ctx e st =
     (if layer_applies_to st ctx
      then count_decision st (stage_answer clk ctx e st) (snd (layer_process clk st ctx e))
      else count_skipped st e)"

lemma pipeline_loop_stops:
  assumes "layer_applies_to st ctx" "terminal_decision (stage_answer clk ctx e st)"
  shows "snd (pipeline_loop clk ctx (st # sts) delay e) = after_stage clk ctx e st"
  using assms by (cases "stage_answer clk ctx e st")
    (simp_all add: after_stage_def stage_answer_def Let_def case_prod_beta)

lemma pipeline_loop_goes_on:
  assumes "\<not> (layer_applies_to st ctx \<and> terminal_decision (stage_answer clk ctx e st))"
  shows "\<exists>delay'. pipeline_loop clk ctx (st # sts) delay e = pipeline_loop clk ctx sts delay' (after_stage clk ctx e st)"
  using assms by (cases "stage_answer clk ctx e st")
    (auto simp: after_stage_def stage_answer_def Let_def case_prod_beta)

lemma after_stage_answer:
  "q \<noteq> st \<Longrightarrow> stage_answer clk ctx (after_stage clk ctx e st) q = stage_answer clk ctx e q"
  by (simp add: after_stage_def stage_answer_frame)

lemma after_stage_metrics:
  assumes "length (metrics e) = 9"
  shows "length (metrics (after_stage clk ctx e st)) = 9"
    and "metrics (after_stage clk ctx e st) ! stage_index q =
      (if q = st then counted clk ctx e st (metrics e ! stage_index q) else metrics e ! stage_index q)"
  using assms by (simp_all add: after_stage_def counted_def metrics_count)

lemma pipeline_loop_counts:
  assumes "distinct sts" "length (metrics e) = 9"
  shows "metrics (snd (pipeline_loop clk ctx sts delay e)) ! stage_index q =
      (if q \<in> set (reached_stages clk ctx e sts) then counted clk ctx e q (metrics e ! stage_index q)
       else metrics e ! stage_index q)"
  using assms
proof (induction sts arbitrary: delay e)
  case (Cons st sts)
  let ?e = "after_stage clk ctx e st"
  note here = after_stage_metrics [OF Cons.prems(2), of clk ctx st]
  have reach: "reached_stages clk ctx ?e sts = reached_stages clk ctx e sts"
    by (rule reached_cong, rule after_stage_answer) (use Cons.prems in auto)
  have out: "st \<notin> set (reached_stages clk ctx e sts)" using Cons.prems reached_subset by fastforce
  have cnt: "q \<noteq> st \<Longrightarrow> counted clk ctx ?e q = counted clk ctx e q"
    by (simp add: counted_def fun_eq_iff after_stage_answer)
  show ?case
  proof (cases "layer_applies_to st ctx \<and> terminal_decision (stage_answer clk ctx e st)")
    case True
    then show ?thesis using here(2) [of q] by (simp add: pipeline_loop_stops del: pipeline_loop.simps)
  next
    case False
    from pipeline_loop_goes_on [OF this] obtain delay' where
      "pipeline_loop clk ctx (st # sts) delay e = pipeline_loop clk ctx sts delay' ?e" by blast
    moreover have "metrics (snd (pipeline_loop clk ctx sts delay' ?e)) ! stage_index q =
      (if q \<in> set (reached_stages clk ctx e sts) then counted clk ctx ?e q (metrics ?e ! stage_index q)
       else metrics ?e ! stage_index q)"
      using Cons.IH [of ?e delay'] Cons.prems here(1) reach by simp
    ultimately show ?thesis using False out cnt here(2) [of q]
      by (cases "q = st") (auto simp del: pipeline_loop.simps)
  qed
qed simp



end
