(* ===== verification/Shm_Contract.thy ===== *)
theory Shm_Contract
  imports Engine_Properties
begin

text \<open>
  The shared-memory contract (\<open>shm_contract.rs\<close>): the packed configuration row that the Python
  side writes, its validation, its translation into the network configuration, and the records of
  target rules and policies.

  A row has every field of the network configuration and four of its own, so the record extends
  \<open>Config\<close>. The theorems say what a row that passes validation guarantees downstream.
\<close>

definition FAULTCORE_MAGIC :: u32 where
  "FAULTCORE_MAGIC = 0xFACC0DE"

definition MAX_FDS :: nat where
  "MAX_FDS = 131072"

definition MAX_TIDS :: nat where
  "MAX_TIDS = 65536"

definition MAX_POLICIES :: nat where
  "MAX_POLICIES = 1024"

definition MAX_TARGET_RULES_PER_TID :: nat where
  "MAX_TARGET_RULES_PER_TID = 8"

definition MAX_LATENCY_NS :: u64 where
  "MAX_LATENCY_NS = 60000000000"

definition MAX_BANDWIDTH_BPS :: u64 where
  "MAX_BANDWIDTH_BPS = 100000000000"

record FaultcoreConfig = Config +
  magic :: u32
  version :: u64
  reserved :: u32
  payload_mutation_reserved :: "u64 list"

text \<open>\<open>core::mem::zeroed()\<close>.\<close>

definition FaultcoreConfig_default :: FaultcoreConfig where
  "FaultcoreConfig_default = \<lparr>
     latency_ns = 0, jitter_ns = 0, packet_loss_ppm = 0, burst_loss_len = 0, bandwidth_bps = 0,
     connect_timeout_ms = 0, recv_timeout_ms = 0, uplink_latency_ns = 0, uplink_jitter_ns = 0,
     uplink_packet_loss_ppm = 0, uplink_burst_loss_len = 0, uplink_bandwidth_bps = 0,
     downlink_latency_ns = 0, downlink_jitter_ns = 0, downlink_packet_loss_ppm = 0,
     downlink_burst_loss_len = 0, downlink_bandwidth_bps = 0, ge_enabled = 0,
     ge_p_good_to_bad_ppm = 0, ge_p_bad_to_good_ppm = 0, ge_loss_good_ppm = 0,
     ge_loss_bad_ppm = 0, conn_err_kind = 0, conn_err_prob_ppm = 0, half_open_after_bytes = 0,
     half_open_err_kind = 0, dup_prob_ppm = 0, dup_max_extra = 0, reorder_prob_ppm = 0,
     reorder_max_delay_ns = 0, reorder_window = 0, dns_delay_ns = 0, dns_timeout_ms = 0,
     dns_nxdomain_ppm = 0, target_enabled = 0, target_kind = 0, target_ipv4 = 0,
     target_prefix_len = 0, target_port = 0, target_protocol = 0, target_address_family = 0,
     target_addr = replicate 16 0, target_hostname = replicate 32 0,
     target_sni = replicate 32 0, session_budget_enabled = 0, session_max_bytes_tx = 0,
     session_max_bytes_rx = 0, session_max_ops = 0, session_max_duration_ms = 0,
     session_action = 0, session_budget_timeout_ms = 0, session_error_kind = 0, policy_seed = 0,
     payload_mutation_enabled = 0, payload_mutation_prob_ppm = 0, payload_mutation_type = 0,
     payload_mutation_target = 0, payload_mutation_truncate_size = 0,
     payload_mutation_corrupt_count = 0, payload_mutation_corrupt_seed = 0,
     payload_mutation_inject_position = 0, payload_mutation_inject_data = replicate 64 0,
     payload_mutation_inject_len = 0, payload_mutation_replace_find = replicate 32 0,
     payload_mutation_replace_find_len = 0, payload_mutation_replace_with = replicate 32 0,
     payload_mutation_replace_with_len = 0, payload_mutation_swap_pos1 = 0,
     payload_mutation_swap_pos2 = 0, payload_mutation_min_size = 0,
     payload_mutation_max_size = 0, payload_mutation_every_n_packets = 0,
     payload_mutation_dry_run = 0, payload_mutation_max_buffer_size = 0, ruleset_generation = 0,
     schedule_type = 0, schedule_param_a_ns = 0, schedule_param_b_ns = 0,
     schedule_param_c_ns = 0, schedule_started_monotonic_ns = 0, magic = 0, version = 0,
     reserved = 0, payload_mutation_reserved = replicate 8 0\<rparr>"

record PolicyState =
  ps_magic :: u32
  ps_name :: bytes
  ps_enabled :: bool
  ps_total_calls :: u64
  ps_total_failures :: u64

record TargetRule =
  tr_enabled :: u64
  tr_priority :: u64
  tr_kind :: u64
  tr_ipv4 :: u64
  tr_prefix_len :: u64
  tr_port :: u64
  tr_protocol :: u64
  tr_reserved :: u64
  tr_address_family :: u64
  tr_addr :: bytes
  tr_hostname :: bytes
  tr_sni :: bytes

definition TargetRule_default :: TargetRule where
  "TargetRule_default =
     \<lparr>tr_enabled = 0, tr_priority = 0, tr_kind = 0, tr_ipv4 = 0, tr_prefix_len = 0, tr_port = 0,
      tr_protocol = 0, tr_reserved = 0, tr_address_family = 0, tr_addr = replicate 16 0,
      tr_hostname = replicate 32 0, tr_sni = replicate 32 0\<rparr>"

definition is_valid :: "FaultcoreConfig \<Rightarrow> bool" where
  "is_valid c \<longleftrightarrow>
      magic c = FAULTCORE_MAGIC
      \<and> latency_ns c \<le> MAX_LATENCY_NS
      \<and> jitter_ns c \<le> MAX_LATENCY_NS
      \<and> packet_loss_ppm c \<le> 1000000
      \<and> burst_loss_len c \<le> 1000000
      \<and> bandwidth_bps c \<le> MAX_BANDWIDTH_BPS
      \<and> uplink_packet_loss_ppm c \<le> 1000000
      \<and> downlink_packet_loss_ppm c \<le> 1000000
      \<and> uplink_burst_loss_len c \<le> 1000000
      \<and> downlink_burst_loss_len c \<le> 1000000
      \<and> uplink_bandwidth_bps c \<le> MAX_BANDWIDTH_BPS
      \<and> downlink_bandwidth_bps c \<le> MAX_BANDWIDTH_BPS
      \<and> uplink_latency_ns c \<le> MAX_LATENCY_NS
      \<and> uplink_jitter_ns c \<le> MAX_LATENCY_NS
      \<and> downlink_latency_ns c \<le> MAX_LATENCY_NS
      \<and> downlink_jitter_ns c \<le> MAX_LATENCY_NS
      \<and> ge_p_good_to_bad_ppm c \<le> 1000000
      \<and> ge_p_bad_to_good_ppm c \<le> 1000000
      \<and> ge_loss_good_ppm c \<le> 1000000
      \<and> ge_loss_bad_ppm c \<le> 1000000
      \<and> conn_err_kind c \<le> 3
      \<and> conn_err_prob_ppm c \<le> 1000000
      \<and> half_open_err_kind c \<le> 3
      \<and> dup_prob_ppm c \<le> 1000000
      \<and> reorder_prob_ppm c \<le> 1000000
      \<and> reorder_window c \<le> 1000000
      \<and> dns_delay_ns c \<le> MAX_LATENCY_NS
      \<and> dns_nxdomain_ppm c \<le> 1000000
      \<and> target_enabled c \<le> of_nat MAX_TARGET_RULES_PER_TID
      \<and> target_kind c \<le> 2
      \<and> ((target_address_family c = 2 \<and> target_prefix_len c \<le> 128)
        \<or> (target_address_family c \<noteq> 2 \<and> target_prefix_len c \<le> 32))
      \<and> target_port c \<le> 65535
      \<and> target_protocol c \<le> 2
      \<and> target_address_family c \<le> 2
      \<and> schedule_type c \<le> 3
      \<and> session_budget_enabled c \<le> 1
      \<and> session_action c \<le> 3
      \<and> session_error_kind c \<le> 3
      \<and> payload_mutation_prob_ppm c \<le> 1000000
      \<and> payload_mutation_type c \<le> 6
      \<and> payload_mutation_target c \<le> 2
      \<and> payload_mutation_dry_run c \<le> 1"

definition into_network_config :: "FaultcoreConfig \<Rightarrow> Config" where
  "into_network_config c = \<lparr>
     latency_ns = latency_ns c, jitter_ns = jitter_ns c, packet_loss_ppm = packet_loss_ppm c,
     burst_loss_len = burst_loss_len c, bandwidth_bps = bandwidth_bps c,
     connect_timeout_ms = connect_timeout_ms c, recv_timeout_ms = recv_timeout_ms c,
     uplink_latency_ns = uplink_latency_ns c, uplink_jitter_ns = uplink_jitter_ns c,
     uplink_packet_loss_ppm = uplink_packet_loss_ppm c,
     uplink_burst_loss_len = uplink_burst_loss_len c,
     uplink_bandwidth_bps = uplink_bandwidth_bps c, downlink_latency_ns = downlink_latency_ns c,
     downlink_jitter_ns = downlink_jitter_ns c,
     downlink_packet_loss_ppm = downlink_packet_loss_ppm c,
     downlink_burst_loss_len = downlink_burst_loss_len c,
     downlink_bandwidth_bps = downlink_bandwidth_bps c, ge_enabled = ge_enabled c,
     ge_p_good_to_bad_ppm = ge_p_good_to_bad_ppm c,
     ge_p_bad_to_good_ppm = ge_p_bad_to_good_ppm c, ge_loss_good_ppm = ge_loss_good_ppm c,
     ge_loss_bad_ppm = ge_loss_bad_ppm c, conn_err_kind = conn_err_kind c,
     conn_err_prob_ppm = conn_err_prob_ppm c, half_open_after_bytes = half_open_after_bytes c,
     half_open_err_kind = half_open_err_kind c, dup_prob_ppm = dup_prob_ppm c,
     dup_max_extra = dup_max_extra c, reorder_prob_ppm = reorder_prob_ppm c,
     reorder_max_delay_ns = reorder_max_delay_ns c, reorder_window = reorder_window c,
     dns_delay_ns = dns_delay_ns c, dns_timeout_ms = dns_timeout_ms c,
     dns_nxdomain_ppm = dns_nxdomain_ppm c, target_enabled = target_enabled c,
     target_kind = target_kind c, target_ipv4 = target_ipv4 c,
     target_prefix_len = target_prefix_len c, target_port = target_port c,
     target_protocol = target_protocol c, target_address_family = target_address_family c,
     target_addr = target_addr c, target_hostname = target_hostname c,
     target_sni = target_sni c, session_budget_enabled = session_budget_enabled c,
     session_max_bytes_tx = session_max_bytes_tx c,
     session_max_bytes_rx = session_max_bytes_rx c, session_max_ops = session_max_ops c,
     session_max_duration_ms = session_max_duration_ms c, session_action = session_action c,
     session_budget_timeout_ms = session_budget_timeout_ms c,
     session_error_kind = session_error_kind c, policy_seed = policy_seed c,
     payload_mutation_enabled = payload_mutation_enabled c,
     payload_mutation_prob_ppm = payload_mutation_prob_ppm c,
     payload_mutation_type = payload_mutation_type c,
     payload_mutation_target = payload_mutation_target c,
     payload_mutation_truncate_size = payload_mutation_truncate_size c,
     payload_mutation_corrupt_count = payload_mutation_corrupt_count c,
     payload_mutation_corrupt_seed = payload_mutation_corrupt_seed c,
     payload_mutation_inject_position = payload_mutation_inject_position c,
     payload_mutation_inject_data = payload_mutation_inject_data c,
     payload_mutation_inject_len = payload_mutation_inject_len c,
     payload_mutation_replace_find = payload_mutation_replace_find c,
     payload_mutation_replace_find_len = payload_mutation_replace_find_len c,
     payload_mutation_replace_with = payload_mutation_replace_with c,
     payload_mutation_replace_with_len = payload_mutation_replace_with_len c,
     payload_mutation_swap_pos1 = payload_mutation_swap_pos1 c,
     payload_mutation_swap_pos2 = payload_mutation_swap_pos2 c,
     payload_mutation_min_size = payload_mutation_min_size c,
     payload_mutation_max_size = payload_mutation_max_size c,
     payload_mutation_every_n_packets = payload_mutation_every_n_packets c,
     payload_mutation_dry_run = payload_mutation_dry_run c,
     payload_mutation_max_buffer_size = payload_mutation_max_buffer_size c,
     ruleset_generation = ruleset_generation c, schedule_type = schedule_type c,
     schedule_param_a_ns = schedule_param_a_ns c, schedule_param_b_ns = schedule_param_b_ns c,
     schedule_param_c_ns = schedule_param_c_ns c,
     schedule_started_monotonic_ns = schedule_started_monotonic_ns c\<rparr>"


lemma into_network_config_truncate: "into_network_config c = Config.truncate c"
  by (simp add: into_network_config_def Config.truncate_def)

section \<open>What validation bounds\<close>

lemma apply_schedule_le:
  assumes "latency_ns c \<le> b" "jitter_ns c \<le> b" "uplink_latency_ns c \<le> b" "uplink_jitter_ns c \<le> b"
    and "downlink_latency_ns c \<le> b" "downlink_jitter_ns c \<le> b" "dns_delay_ns c \<le> b" "b \<le> 2 ^ 53"
  shows "latency_ns (apply_schedule c t) \<le> b \<and> jitter_ns (apply_schedule c t) \<le> b
    \<and> uplink_latency_ns (apply_schedule c t) \<le> b \<and> uplink_jitter_ns (apply_schedule c t) \<le> b
    \<and> downlink_latency_ns (apply_schedule c t) \<le> b \<and> downlink_jitter_ns (apply_schedule c t) \<le> b
    \<and> dns_delay_ns (apply_schedule c t) \<le> b"
proof (cases rule: apply_schedule_cases [of c t])
  case (scale elapsed ramp)
  have "scale_u64 v (fl (f64_of_u64 elapsed / f64_of_u64 ramp)) \<le> b" if "v \<le> b" for v
    using scale_u64_le that assms(8) ramp_factor_bounds [OF scale(1)] by (meson order_trans)
  with assms scale show ?thesis by (simp add: scale_faults_def)
qed (use assms in \<open>simp_all add: zero_faults_def\<close>)

lemma apply_schedule_conn_kinds:
  assumes "conn_err_kind c \<le> 3" "half_open_err_kind c \<le> 3"
  shows "conn_err_kind (apply_schedule c t) \<le> 3 \<and> half_open_err_kind (apply_schedule c t) \<le> 3"
  by (cases rule: apply_schedule_cases [of c t])
     (use assms in \<open>simp_all add: zero_faults_def scale_faults_def\<close>)

lemma override_le: "a \<le> b \<Longrightarrow> v \<le> b \<Longrightarrow> override_if_pos a v \<le> b"
  by (simp add: override_if_pos_def)

definition bounded_by :: "u64 \<Rightarrow> Config \<Rightarrow> bool" where
  "bounded_by b c \<longleftrightarrow> latency_ns c \<le> b \<and> jitter_ns c \<le> b \<and> dns_delay_ns c \<le> b
     \<and> conn_err_kind c \<le> 3 \<and> half_open_err_kind c \<le> 3"

lemma valid_row_bounded:
  fixes t :: u64 and row :: FaultcoreConfig
  assumes "is_valid row"
  defines "c \<equiv> apply_schedule (into_network_config row) t"
  shows "bounded_by MAX_LATENCY_NS c" "bounded_by MAX_LATENCY_NS (effective_for dir c)"
    "bounded_by MAX_LATENCY_NS (effective_for_send c)"
proof -
  have "latency_ns c \<le> MAX_LATENCY_NS \<and> jitter_ns c \<le> MAX_LATENCY_NS
    \<and> uplink_latency_ns c \<le> MAX_LATENCY_NS \<and> uplink_jitter_ns c \<le> MAX_LATENCY_NS
    \<and> downlink_latency_ns c \<le> MAX_LATENCY_NS \<and> downlink_jitter_ns c \<le> MAX_LATENCY_NS
    \<and> dns_delay_ns c \<le> MAX_LATENCY_NS"
    unfolding c_def by (rule apply_schedule_le)
      (use assms(1) in \<open>simp_all add: is_valid_def into_network_config_def MAX_LATENCY_NS_def\<close>)
  moreover have "conn_err_kind c \<le> 3 \<and> half_open_err_kind c \<le> 3"
    unfolding c_def by (rule apply_schedule_conn_kinds)
      (use assms(1) in \<open>simp_all add: is_valid_def into_network_config_def\<close>)
  ultimately show "bounded_by MAX_LATENCY_NS c" "bounded_by MAX_LATENCY_NS (effective_for dir c)"
    "bounded_by MAX_LATENCY_NS (effective_for_send c)"
    by (cases dir; simp add: bounded_by_def effective_for_def effective_for_send_def
        effective_for_recv_def apply_direction_overrides_def override_le Let_def)+
qed

section \<open>What bounded configurations give\<close>

lemma stage_delay_bound:
  assumes "bounded_by b (config ctx)" "b < - 1" "st \<noteq> R3"
  shows "delay_of (stage_answer clk ctx e st) \<le> (if st \<in> {R2, R4, R6} then unat b else 0)"
proof -
  have "unat (jitter_ns (config ctx)) \<le> unat b" "unat (latency_ns (config ctx)) \<le> unat b"
    "unat (dns_delay_ns (config ctx)) \<le> unat b"
    using assms(1) by (simp_all add: bounded_by_def word_le_nat_alt)
  moreover have "jitter_ns (config ctx) \<noteq> - 1" using assms(1,2) by (auto simp: bounded_by_def)
  moreover note random_u64_bounded_le(1) [of "jitter_ns (config ctx)" "policy_seed (config ctx)" "e_r4 e"] assms(3)
  ultimately show ?thesis
    by (cases st) (auto simp: stage_answer_def Let_def case_prod_beta R2_process_def R4_process_def
        R5_process_def R6_process_def word_le_nat_alt split: option.split Operation.split)
qed

lemma combine_DelayNs:
  assumes "combine_decisions ds = DelayNs d"
  shows "unat d \<le> sum_list (map delay_of ds)"
proof -
  have "find terminal_decision ds = Some d' \<Longrightarrow> terminal_decision d'" for d'
    by (auto simp: find_Some_iff)
  with assms have "find terminal_decision ds = None"
    by (force simp: combine_decisions_def split: option.splits)
  with assms have "d = of_nat (min (sum_list (map delay_of ds)) (2 ^ 64 - 1))"
    by (simp add: combine_decisions_def total_delay_def split: if_splits)
  then show ?thesis by (simp add: unat_of_nat_u64)
qed

lemma combine_ConnectionErrorKind:
  "combine_decisions ds = ConnectionErrorKind k \<Longrightarrow> ConnectionErrorKind k \<in> set ds"
  by (auto simp: combine_decisions_def total_delay_def find_Some_iff in_set_conv_nth
      split: option.splits if_splits)

lemma stage_conn_kind:
  assumes "bounded_by b (config ctx)" "stage_answer clk ctx e st = ConnectionErrorKind k"
  shows "1 \<le> k \<and> k \<le> 3"
proof -
  have "conn_err_kind (config ctx) \<le> 3" "max (half_open_err_kind (config ctx)) 1 \<le> 3"
    "max (half_open_err_kind (config ctx)) 1 \<noteq> 0"
    using assms(1) by (auto simp: bounded_by_def max_def)
  with assms(2) show ?thesis
    by (cases st) (auto simp: stage_answer_def Let_def case_prod_beta R2_process_def R3_process_def
        process_with_bytes_def R4_process_def R5_process_def R6_process_def connection_error_kind_def
        word_less_1 word_le_nat_alt unat_gt_0 Suc_le_eq split: option.splits Operation.splits if_splits)
qed

text \<open>Validation bounds what the engine does. For every row that passes validation, at every
  point of its schedule and in every engine state: jitter never hits the overflow panic; a connect is
  delayed by at most 120 seconds (latency and jitter of at most 60 seconds each) and a lookup by at
  most 60; and an injected connection error on connect always has one of the three documented kinds,
  so it never degrades to the \<open>EIO\<close> fallback.\<close>

lemma valid_row_bounds_engine:
  fixes t :: u64 and row :: FaultcoreConfig
  assumes "is_valid row"
  defines "c \<equiv> apply_schedule (into_network_config row) t"
  shows "\<not> R4_panics (stream_ctx now f c n dir)
    \<and> (\<forall>d. fst (evaluate_connect clk now f c e) = DelayNs d \<longrightarrow> unat d \<le> 120000000000)
    \<and> (\<forall>d. fst (evaluate_dns_lookup clk now c e) = DelayNs d \<longrightarrow> unat d \<le> 60000000000)
    \<and> (\<forall>k. fst (evaluate_connect clk now f c e) = ConnectionErrorKind k \<longrightarrow> 1 \<le> k \<and> k \<le> 3)"
proof -
  note b = valid_row_bounded [OF assms(1), where t = t, folded c_def]
  have m: "MAX_LATENCY_NS < - 1" "unat MAX_LATENCY_NS = 60000000000" by (simp_all add: MAX_LATENCY_NS_def)
  let ?cc = "\<lparr>ctx_fd = f, ctx_bytes = 0, operation = Connect, direction = Some Uplink,
     config = effective_for_send c, now_ns = now\<rparr>"
  let ?dc = "\<lparr>ctx_fd = - 1, ctx_bytes = 0, operation = DnsLookup, direction = None, config = c, now_ns = now\<rparr>"
  let ?e = "record_config_resolve e"
  have conn: "fst (evaluate_connect clk now f c e) = combine_decisions (map (stage_answer clk ?cc ?e) [R2, R4, R5])"
    by (simp add: evaluate_connect_def Let_def case_prod_beta process_pipeline_spec pipeline_stages_def
        R2_applies_to_def R3_applies_to_def R4_applies_to_def R5_applies_to_def R6_applies_to_def ctx_kind_defs)
  have dns: "fst (evaluate_dns_lookup clk now c e) = combine_decisions (map (stage_answer clk ?dc ?e) [R6])"
    by (simp add: evaluate_dns_lookup_def Let_def case_prod_beta process_pipeline_spec pipeline_stages_def
        R2_applies_to_def R3_applies_to_def R4_applies_to_def R5_applies_to_def R6_applies_to_def ctx_kind_defs)
  have bc: "bounded_by MAX_LATENCY_NS (config ?cc)" "bounded_by MAX_LATENCY_NS (config ?dc)" using b by simp_all
  have "unat d \<le> 120000000000" if "fst (evaluate_connect clk now f c e) = DelayNs d" for d
    using combine_DelayNs [OF that [unfolded conn]] stage_delay_bound [OF bc(1) m(1), of R2 clk ?e]
      stage_delay_bound [OF bc(1) m(1), of R4 clk ?e] stage_delay_bound [OF bc(1) m(1), of R5 clk ?e] m(2)
    by simp
  moreover have "unat d \<le> 60000000000" if "fst (evaluate_dns_lookup clk now c e) = DelayNs d" for d
    using combine_DelayNs [OF that [unfolded dns]] stage_delay_bound [OF bc(2) m(1), of R6 clk ?e] m(2) by simp
  moreover have "1 \<le> k \<and> k \<le> 3" if "fst (evaluate_connect clk now f c e) = ConnectionErrorKind k" for k
  proof -
    from combine_ConnectionErrorKind [OF that [unfolded conn]] obtain st where
      "stage_answer clk ?cc ?e st = ConnectionErrorKind k" by (auto simp: eq_commute)
    from stage_conn_kind [OF bc(1) this] show ?thesis .
  qed
  moreover have "\<not> R4_panics (stream_ctx now f c n dir)"
    using b(2) [of dir] m(1) by (auto simp: R4_panics_def stream_ctx_def bounded_by_def)
  ultimately show ?thesis by blast
qed

definition valid_row :: FaultcoreConfig where
  "valid_row = FaultcoreConfig_default\<lparr>magic := FAULTCORE_MAGIC, latency_ns := 7, conn_err_kind := 2,
     conn_err_prob_ppm := 1000000\<rparr>"

end
