(* ===== verification/Text_Bytes.thy ===== *)
theory Text_Bytes
  imports Faultcore_Prelude
begin

text \<open>
  The operations of Rust's \<open>str\<close> that the sources use, on the UTF-8 bytes of the string:
  validation (\<open>from_utf8\<close>), \<open>trim\<close>, \<open>trim_end_matches('.')\<close>, \<open>to_ascii_lowercase\<close>, and prefix
  and suffix tests.
\<close>

definition continuation_byte :: "u8 \<Rightarrow> bool" where
  "continuation_byte b \<longleftrightarrow> 0x80 \<le> b \<and> b \<le> 0xBF"

text \<open>Well-formed UTF-8: the shortest form of a scalar value, surrogates excluded.\<close>

fun utf8_valid :: "bytes \<Rightarrow> bool" where
  "utf8_valid [] = True"
| "utf8_valid (a # as) =
     (if a \<le> 0x7F then utf8_valid as
      else case as of
        [] \<Rightarrow> False
      | b # bs \<Rightarrow>
          if 0xC2 \<le> a \<and> a \<le> 0xDF then continuation_byte b \<and> utf8_valid bs
          else case bs of
            [] \<Rightarrow> False
          | c # cs \<Rightarrow>
              if 0xE0 \<le> a \<and> a \<le> 0xEF then
                (if a = 0xE0 then 0xA0 \<le> b \<and> b \<le> 0xBF
                 else if a = 0xED then 0x80 \<le> b \<and> b \<le> 0x9F
                 else continuation_byte b) \<and> continuation_byte c \<and> utf8_valid cs
              else case cs of
                [] \<Rightarrow> False
              | d # ds \<Rightarrow>
                  0xF0 \<le> a \<and> a \<le> 0xF4 \<and>
                  (if a = 0xF0 then 0x90 \<le> b \<and> b \<le> 0xBF
                   else if a = 0xF4 then 0x80 \<le> b \<and> b \<le> 0x8F
                   else continuation_byte b)
                  \<and> continuation_byte c \<and> continuation_byte d \<and> utf8_valid ds)"

text \<open>The encodings of the characters with the Unicode property White_Space.\<close>

definition white_space :: "bytes list" where
  "white_space =
     map (\<lambda>b. [b]) [0x09, 0x0A, 0x0B, 0x0C, 0x0D, 0x20] @
     [[0xC2, 0x85], [0xC2, 0xA0], [0xE1, 0x9A, 0x80]] @
     map (\<lambda>b. [0xE2, 0x80, b])
       [0x80, 0x81, 0x82, 0x83, 0x84, 0x85, 0x86, 0x87, 0x88, 0x89, 0x8A, 0xA8, 0xA9, 0xAF] @
     [[0xE2, 0x81, 0x9F], [0xE3, 0x80, 0x80]]"

definition str_strip_prefix :: "bytes \<Rightarrow> bytes \<Rightarrow> bytes option" where
  "str_strip_prefix p s = (if take (length p) s = p then Some (drop (length p) s) else None)"

definition str_strip_suffix :: "bytes \<Rightarrow> bytes \<Rightarrow> bytes option" where
  "str_strip_suffix p s = map_option rev (str_strip_prefix (rev p) (rev s))"

definition str_ends_with :: "u8 \<Rightarrow> bytes \<Rightarrow> bool" where
  "str_ends_with b s = (s \<noteq> [] \<and> last s = b)"

text \<open>Dropping leading white space, one character per step; \<open>n\<close> bounds the steps.\<close>

fun trim_front :: "bytes list \<Rightarrow> nat \<Rightarrow> bytes \<Rightarrow> bytes" where
  "trim_front ws 0 s = s"
| "trim_front ws (Suc n) s =
     (case find (\<lambda>w. str_strip_prefix w s \<noteq> None) ws of
        Some w \<Rightarrow> trim_front ws n (drop (length w) s)
      | None \<Rightarrow> s)"

definition str_trim :: "bytes \<Rightarrow> bytes" where
  "str_trim s =
     (let front = trim_front white_space (length s) s
      in rev (trim_front (map rev white_space) (length front) (rev front)))"

definition trim_end_dots :: "bytes \<Rightarrow> bytes" where
  "trim_end_dots s = rev (dropWhile (\<lambda>b. b = 0x2E) (rev s))"

definition ascii_lower :: "u8 \<Rightarrow> u8" where
  "ascii_lower b = (if 0x41 \<le> b \<and> b \<le> 0x5A then b + 0x20 else b)"

definition to_ascii_lowercase :: "bytes \<Rightarrow> bytes" where
  "to_ascii_lowercase s = map ascii_lower s"

section \<open>Lemmas\<close>

lemma str_strip_prefix_Some: "str_strip_prefix p s = Some r \<longleftrightarrow> s = p @ r"
  by (auto simp: str_strip_prefix_def) (metis append_take_drop_id)

lemma str_strip_suffix_Some: "str_strip_suffix p s = Some r \<longleftrightarrow> s = r @ p"
proof -
  have "str_strip_suffix p s = Some r \<longleftrightarrow> str_strip_prefix (rev p) (rev s) = Some (rev r)"
    by (auto simp: str_strip_suffix_def)
  also have "\<dots> \<longleftrightarrow> rev s = rev (r @ p)" by (simp add: str_strip_prefix_Some)
  also have "\<dots> \<longleftrightarrow> s = r @ p" by (simp only: rev_is_rev_conv)
  finally show ?thesis .
qed

lemma str_ends_with_iff: "str_ends_with b s \<longleftrightarrow> (\<exists>r. s = r @ [b])"
  by (auto simp: str_ends_with_def) (metis append_butlast_last_id)

lemma ascii_lower_idem [simp]: "ascii_lower (ascii_lower b) = ascii_lower b"
proof (cases "0x41 \<le> b \<and> b \<le> 0x5A")
  case True
  then have "unat (b + 0x20) = unat b + 32" by (simp add: word_le_nat_alt unat_word_ariths)
  with True show ?thesis by (simp add: ascii_lower_def word_le_nat_alt)
qed (simp add: ascii_lower_def)

lemma to_ascii_lowercase_idem: "to_ascii_lowercase (to_ascii_lowercase s) = to_ascii_lowercase s"
  by (simp add: to_ascii_lowercase_def)

lemma length_to_ascii_lowercase [simp]: "length (to_ascii_lowercase s) = length s"
  and to_ascii_lowercase_Nil_iff [simp]: "to_ascii_lowercase s = [] \<longleftrightarrow> s = []"
  by (simp_all add: to_ascii_lowercase_def)

lemma utf8_valid_ascii: "\<forall>b \<in> set s. b \<le> 0x7F \<Longrightarrow> utf8_valid s"
  by (induction s) simp_all

end
