(* ===== verification/Shm_Runtime.thy ===== *)
theory Shm_Runtime
  imports Shm_Contract Text_Bytes
begin

text \<open>
  The shared-memory table (\<open>shm_runtime.rs\<close>): opening it, the hash from thread ids to rows, the
  owner table of descriptors, reading a row through its generation counter and publishing one.

  The mapped region is a record of its four arrays, addressed by index; \<open>shm_pointer\<close> is
  \<open>SHM_POINTER\<close>, \<^const>\<open>None\<close> for the null pointer. The environment and the POSIX calls are the
  fields of \<open>ShmOs\<close>. Each attempt of \<open>read_stable_config\<close> sees two readings of the generation and
  one of the row, given as an argument; \<open>settled\<close> is what it sees when nobody writes.
\<close>

section \<open>State\<close>

record Shm =
  sh_configs :: "nat \<Rightarrow> FaultcoreConfig"
  sh_policy_name :: bytes
  sh_rules :: "nat \<Rightarrow> TargetRule"
  sh_owners :: "nat \<Rightarrow> u64"

record ShmState =
  shm_pointer :: "Shm option"
  shm_is_open :: bool

record ShmOs =
  os_env :: "string \<Rightarrow> string option"
  os_default_name :: string
  os_shm_open :: "string \<Rightarrow> bool \<Rightarrow> bool"
  os_ftruncate_ok :: bool
  os_size_ok :: bool
  os_mmap :: "Shm option"

definition INVALID_TID_SLOT :: u64 where
  "INVALID_TID_SLOT = - 1"

definition tid_slot :: "u64 \<Rightarrow> nat" where
  "tid_slot tid =
     (let hash = ((tid XOR drop_bit 16 tid) * 0x45d9f3b) XOR drop_bit 16 tid
      in unat hash mod MAX_TIDS)"

section \<open>Opening\<close>

datatype ShmOpenMode = Creator | Consumer

definition check_enabled :: "ShmOs \<Rightarrow> bool" where
  "check_enabled os =
     (case os_env os ''FAULTCORE_ENABLED'' of
        Some v \<Rightarrow> v \<notin> {''0'', ''false'', ''no'', ''off''}
      | None \<Rightarrow> True)"

definition get_shm_name :: "ShmOs \<Rightarrow> string option" where
  "get_shm_name os =
     (case os_env os ''FAULTCORE_CONFIG_SHM'' of
        Some s \<Rightarrow> if s = [] then None else Some s
      | None \<Rightarrow> None)"

definition lower_char :: "char \<Rightarrow> char" where
  "lower_char c = (let n = of_char c :: nat in if 65 \<le> n \<and> n \<le> 90 then char_of (n + 32) else c)"

definition shm_open_mode :: "ShmOs \<Rightarrow> ShmOpenMode" where
  "shm_open_mode os =
     (case os_env os ''FAULTCORE_SHM_OPEN_MODE'' of
        Some raw \<Rightarrow> if map lower_char raw = ''creator'' then Creator else Consumer
      | None \<Rightarrow> Consumer)"

definition try_open_shm :: "ShmOs \<Rightarrow> ShmState \<Rightarrow> bool \<times> ShmState" where
  "try_open_shm os st =
     (if \<not> check_enabled os \<or> shm_is_open st then (shm_is_open st, st)
      else
        let name = (case get_shm_name os of Some n \<Rightarrow> n | None \<Rightarrow> os_default_name os);
            mode = shm_open_mode os
        in if \<not> os_shm_open os name (mode = Creator) then (False, st)
           else if mode = Creator \<and> \<not> os_ftruncate_ok os then (False, st)
           else if mode = Consumer \<and> \<not> os_size_ok os then (False, st)
           else case os_mmap os of
             None \<Rightarrow> (False, st)
           | Some m \<Rightarrow>
               let m' = (if mode = Creator then m\<lparr>sh_owners := (\<lambda>i. if i < MAX_FDS then - 1 else sh_owners m i)\<rparr>
                         else m)
               in (True, st\<lparr>shm_pointer := Some m', shm_is_open := True\<rparr>))"

text \<open>The opening attempt at the head of the readers.\<close>

definition ensure_open :: "ShmOs \<Rightarrow> bool \<Rightarrow> ShmState \<Rightarrow> ShmState" where
  "ensure_open os force st = (if \<not> shm_is_open st \<or> force then snd (try_open_shm os st) else st)"

section \<open>Rows\<close>

definition config_index :: "u64 \<Rightarrow> bool \<Rightarrow> nat option" where
  "config_index tid_or_fd is_tid =
     (if is_tid then Some (MAX_FDS + tid_slot tid_or_fd)
      else if unat tid_or_fd \<ge> MAX_FDS then None else Some (unat tid_or_fd))"

definition get_config_ptr :: "u64 \<Rightarrow> bool \<Rightarrow> ShmState \<Rightarrow> nat option" where
  "get_config_ptr tid_or_fd is_tid st =
     (case shm_pointer st of None \<Rightarrow> None | Some _ \<Rightarrow> config_index tid_or_fd is_tid)"

text \<open>What one attempt reads: the generation, the row, the generation again.\<close>

type_synonym row_reading = "u64 \<times> FaultcoreConfig \<times> u64"

fun read_stable_loop :: "nat \<Rightarrow> nat \<Rightarrow> (nat \<Rightarrow> row_reading) \<Rightarrow> FaultcoreConfig option" where
  "read_stable_loop 0 k obs = None"
| "read_stable_loop (Suc n) k obs =
     (let (g1, c, g2) = obs k
      in if g1 mod 2 \<noteq> 0 then read_stable_loop n (Suc k) obs
         else if g1 \<noteq> g2 then read_stable_loop n (Suc k) obs
         else if is_valid c then Some c
         else None)"

definition read_stable_config :: "(nat \<Rightarrow> row_reading) \<Rightarrow> FaultcoreConfig option" where
  "read_stable_config obs = read_stable_loop 10 0 obs"

definition settled :: "FaultcoreConfig \<Rightarrow> nat \<Rightarrow> row_reading" where
  "settled row k = (ruleset_generation row, row, ruleset_generation row)"

definition read_row :: "nat \<Rightarrow> ShmState \<Rightarrow> FaultcoreConfig option" where
  "read_row idx st =
     (case shm_pointer st of
        None \<Rightarrow> None
      | Some m \<Rightarrow> read_stable_config (settled (sh_configs m idx)))"

definition write_config_with_generation_publish ::
  "(FaultcoreConfig \<Rightarrow> FaultcoreConfig) \<Rightarrow> FaultcoreConfig \<Rightarrow> FaultcoreConfig" where
  "write_config_with_generation_publish mutate row =
     (let start_generation = ruleset_generation row OR 1;
          row1 = row\<lparr>ruleset_generation := start_generation\<rparr>;
          row2 = (mutate row1)\<lparr>ruleset_generation := start_generation\<rparr>;
          published_generation = (start_generation + 1) AND NOT 1
      in row2\<lparr>ruleset_generation := published_generation\<rparr>)"

definition write_row :: "nat \<Rightarrow> (FaultcoreConfig \<Rightarrow> FaultcoreConfig) \<Rightarrow> Shm \<Rightarrow> Shm" where
  "write_row idx mutate m =
     m\<lparr>sh_configs := (sh_configs m)(idx := write_config_with_generation_publish mutate (sh_configs m idx))\<rparr>"

section \<open>The interface\<close>

definition get_tid_slot_for_fd :: "ShmOs \<Rightarrow> fd \<Rightarrow> ShmState \<Rightarrow> nat option \<times> ShmState" where
  "get_tid_slot_for_fd os f st0 =
     (let st = ensure_open os (f < 0) st0 in
      (if f < 0 \<or> nat f \<ge> MAX_FDS then None
       else case shm_pointer st of
         None \<Rightarrow> None
       | Some m \<Rightarrow>
           let slot = sh_owners m (nat f)
           in if slot = INVALID_TID_SLOT \<or> slot \<ge> of_nat MAX_TIDS then None else Some (unat slot), st))"

definition get_tid_slot_for_tid :: "u64 \<Rightarrow> nat" where
  "get_tid_slot_for_tid tid = tid_slot tid"

definition get_target_rules_for_tid_slot :: "ShmOs \<Rightarrow> nat \<Rightarrow> ShmState \<Rightarrow> TargetRule list option \<times> ShmState" where
  "get_target_rules_for_tid_slot os slot st0 =
     (let st = ensure_open os False st0 in
      (if slot \<ge> MAX_TIDS then None
       else case shm_pointer st of
         None \<Rightarrow> None
       | Some m \<Rightarrow>
           Some (map (\<lambda>i. sh_rules m (slot * MAX_TARGET_RULES_PER_TID + i)) [0..<MAX_TARGET_RULES_PER_TID]), st))"

definition get_config_for_fd :: "ShmOs \<Rightarrow> fd \<Rightarrow> ShmState \<Rightarrow> FaultcoreConfig option \<times> ShmState" where
  "get_config_for_fd os f st0 =
     (let st = ensure_open os (f < 0) st0 in
      (if f < 0 then None
       else case get_config_ptr (of_int f) False st of
         Some idx \<Rightarrow> read_row idx st
       | None \<Rightarrow> None, st))"

definition get_config_for_tid :: "ShmOs \<Rightarrow> u64 \<Rightarrow> ShmState \<Rightarrow> FaultcoreConfig option \<times> ShmState" where
  "get_config_for_tid os tid st0 =
     (let st = ensure_open os False st0 in
      (case get_config_ptr tid True st of
         Some idx \<Rightarrow> read_row idx st
       | None \<Rightarrow> None, st))"

definition get_config_for_tid_slot :: "ShmOs \<Rightarrow> nat \<Rightarrow> ShmState \<Rightarrow> FaultcoreConfig option \<times> ShmState" where
  "get_config_for_tid_slot os slot st0 =
     (let st = ensure_open os False st0 in
      (if slot \<ge> MAX_TIDS then None else read_row (MAX_FDS + slot) st, st))"

definition get_current_policy_name :: "ShmState \<Rightarrow> bytes option" where
  "get_current_policy_name st =
     (if \<not> shm_is_open st then None
      else case shm_pointer st of
        None \<Rightarrow> None
      | Some m \<Rightarrow>
          let name_bytes = takeWhile (\<lambda>b. b \<noteq> 0) (take 32 (sh_policy_name m))
          in if name_bytes = [] then None
             else if utf8_valid name_bytes then Some name_bytes else None)"

definition on_shm :: "(Shm \<Rightarrow> Shm) \<Rightarrow> ShmState \<Rightarrow> ShmState" where
  "on_shm g st = st\<lparr>shm_pointer := map_option g (shm_pointer st)\<rparr>"

definition assign_rule_to_fd :: "fd \<Rightarrow> u64 \<Rightarrow> ShmState \<Rightarrow> ShmState" where
  "assign_rule_to_fd f tid st =
     (if f < 0 \<or> nat f \<ge> MAX_FDS then st
      else on_shm (\<lambda>m. m\<lparr>sh_owners := (sh_owners m)(nat f := of_nat (tid_slot tid))\<rparr>) st)"

definition clear_rule_for_fd :: "fd \<Rightarrow> ShmState \<Rightarrow> ShmState" where
  "clear_rule_for_fd f st =
     (if f < 0 \<or> nat f \<ge> MAX_FDS then st
      else on_shm (\<lambda>m. write_row (nat f) (\<lambda>_. FaultcoreConfig_default)
                         (m\<lparr>sh_owners := (sh_owners m)(nat f := INVALID_TID_SLOT)\<rparr>)) st)"

definition clone_rule_for_fd :: "fd \<Rightarrow> fd \<Rightarrow> ShmState \<Rightarrow> ShmState" where
  "clone_rule_for_fd src dst st =
     (if src < 0 \<or> dst < 0 \<or> nat src \<ge> MAX_FDS \<or> nat dst \<ge> MAX_FDS then st
      else on_shm (\<lambda>m. m\<lparr>sh_owners := (sh_owners m)(nat dst := sh_owners m (nat src))\<rparr>) st)"

definition update_config_for_tid ::
  "u64 \<Rightarrow> (FaultcoreConfig \<Rightarrow> FaultcoreConfig) \<Rightarrow> ShmState \<Rightarrow> bool \<times> ShmState" where
  "update_config_for_tid tid mutate st =
     (case get_config_ptr tid True st of
        Some idx \<Rightarrow> (True, on_shm (write_row idx (\<lambda>c. (mutate c)\<lparr>magic := FAULTCORE_MAGIC\<rparr>)) st)
      | None \<Rightarrow> (False, st))"


section \<open>The hash\<close>

lemma tid_slot_less: "tid_slot tid < MAX_TIDS"
  by (simp add: tid_slot_def MAX_TIDS_def Let_def)

lemma unat_mod_65536: "unat (w :: u64) mod 65536 = unat (take_bit 16 w)"
  by (simp add: take_bit_eq_mod unat_mod_distrib)

lemma unat_mult_mod_65536:
  "unat (x * y :: u64) mod 65536 = (unat x mod 65536) * (unat y mod 65536) mod 65536"
proof -
  have "unat (x * y) mod 65536 = (unat x * unat y mod 2 ^ 64) mod 65536" by (simp add: unat_word_ariths)
  also have "\<dots> = unat x * unat y mod 65536" by (rule mod_mod_cancel) simp
  finally show ?thesis by (simp add: mod_mult_eq)
qed

lemma take_bit_mult_cancel:
  fixes x y c d :: u64
  assumes "c * d = 1" "take_bit 16 (x * c) = take_bit 16 (y * c)"
  shows "take_bit 16 x = take_bit 16 y"
proof -
  have "unat (x * c) mod 65536 = unat (y * c) mod 65536" by (simp only: unat_mod_65536 assms(2))
  then have "unat (x * c * d) mod 65536 = unat (y * c * d) mod 65536"
    by (simp only: unat_mult_mod_65536 [of _ d])
  then have "unat (take_bit 16 (x * (c * d))) = unat (take_bit 16 (y * (c * d)))"
    by (simp only: unat_mod_65536 mult.assoc)
  then show ?thesis using assms(1) by (simp only: mult_1_right unsigned_word_eqI)
qed

lemma split_at_bit: "take_bit n a = take_bit n b \<Longrightarrow> drop_bit n a = drop_bit n b \<Longrightarrow> a = b" for a b :: u64
  by (metis bits_ident)

lemma tid_slot_block:
  assumes "drop_bit 16 a = drop_bit 16 b"
  shows "tid_slot a = tid_slot b \<longleftrightarrow> a = b"
proof
  assume eq: "tid_slot a = tid_slot b"
  let ?h = "drop_bit 16 a" and ?c = "0x45d9f3b :: u64"
  have "take_bit 16 ((a XOR ?h) * ?c XOR ?h) = take_bit 16 ((b XOR ?h) * ?c XOR ?h)"
    using eq unfolding tid_slot_def Let_def MAX_TIDS_def unat_mod_65536 assms [symmetric]
    by (simp only: unsigned_word_eqI)
  then have "take_bit 16 ?h XOR take_bit 16 ((a XOR ?h) * ?c) = take_bit 16 ?h XOR take_bit 16 ((b XOR ?h) * ?c)"
    by (simp add: xor.commute)
  then have "take_bit 16 ((a XOR ?h) * ?c) = take_bit 16 ((b XOR ?h) * ?c)" by (simp only: xor_left_cancel)
  then have "take_bit 16 (a XOR ?h) = take_bit 16 (b XOR ?h)"
    by (rule take_bit_mult_cancel [rotated, where d = "0xf9e122f8119de1f3"]) simp
  then have "take_bit 16 ?h XOR take_bit 16 a = take_bit 16 ?h XOR take_bit 16 b"
    by (simp add: xor.commute)
  then have "take_bit 16 a = take_bit 16 b" by (simp only: xor_left_cancel)
  then show "a = b" using assms by (rule split_at_bit)
qed simp

text \<open>Threads of one block of 65536 consecutive ids (aligned at a multiple of 65536) never
  share a configuration row, and every row index stays inside the table: the multiplier is odd, so
  the hash permutes each block.\<close>

lemma tid_rows_distinct:
  assumes "drop_bit 16 a = drop_bit 16 b" "a \<noteq> b"
  shows "config_index a True \<noteq> config_index b True
    \<and> (\<exists>i < MAX_FDS + MAX_TIDS. config_index a True = Some i \<and> MAX_FDS \<le> i)"
  using tid_slot_block [OF assms(1)] assms(2) tid_slot_less [of a] by (simp add: config_index_def)

section \<open>Publishing and reading a row\<close>

lemma is_valid_generation [simp]: "is_valid (c\<lparr>ruleset_generation := g\<rparr>) = is_valid c"
  by (simp add: is_valid_def)

lemma published_even: "(x AND - 2) mod 2 = (0 :: u64)"
proof -
  have "\<not> bit (x AND NOT 1) 0" by (simp only: bit_and_iff bit_not_iff bit_1_0) simp
  then show ?thesis by (simp add: bit_0 even_iff_mod_2_eq_zero)
qed

lemma read_stable_settled:
  "ruleset_generation row mod 2 = 0 \<Longrightarrow> read_stable_config (settled row) = (if is_valid row then Some row else None)"
  by (simp add: read_stable_config_def settled_def numeral_eq_Suc)

lemma write_publish_sel:
  "ruleset_generation (write_config_with_generation_publish mutate row) mod 2 = 0"
  by (simp add: write_config_with_generation_publish_def Let_def published_even)


lemma ensure_open_id [simp]: "shm_is_open st \<Longrightarrow> ensure_open os b st = st"
  by (simp add: ensure_open_def try_open_shm_def)

definition written_row :: "(FaultcoreConfig \<Rightarrow> FaultcoreConfig) \<Rightarrow> FaultcoreConfig \<Rightarrow> FaultcoreConfig" where
  "written_row mutate row =
     (mutate (row\<lparr>ruleset_generation := ruleset_generation row OR 1\<rparr>))\<lparr>magic := FAULTCORE_MAGIC\<rparr>"

lemma update_readback:
  assumes "shm_pointer st = Some m" "shm_is_open st"
    and "update_config_for_tid tid mutate st = (ok, st')"
    and "row = written_row mutate (sh_configs m (MAX_FDS + tid_slot tid))"
  shows "ok \<and> (\<exists>g. g mod 2 = 0 \<and>
      fst (get_config_for_tid os tid st') = (if is_valid row then Some (row\<lparr>ruleset_generation := g\<rparr>) else None))
    \<and> (tid_slot tid' \<noteq> tid_slot tid \<longrightarrow>
         fst (get_config_for_tid os tid' st') = fst (get_config_for_tid os tid' st))
    \<and> fst (get_tid_slot_for_fd os f st') = fst (get_tid_slot_for_fd os f st)"
proof -
  let ?i = "MAX_FDS + tid_slot tid"
  define new where "new = write_config_with_generation_publish (\<lambda>c. (mutate c)\<lparr>magic := FAULTCORE_MAGIC\<rparr>) (sh_configs m ?i)"
  have st': "ok" "st' = st\<lparr>shm_pointer := Some (m\<lparr>sh_configs := (sh_configs m)(?i := new)\<rparr>)\<rparr>"
    using assms(1,3) by (auto simp: update_config_for_tid_def get_config_ptr_def config_index_def
        on_shm_def write_row_def new_def)
  have new: "new = row\<lparr>ruleset_generation := ruleset_generation new\<rparr>"
    by (simp add: new_def assms(4) written_row_def write_config_with_generation_publish_def Let_def)
  have even: "ruleset_generation new mod 2 = 0" by (simp add: new_def write_publish_sel)
  have valid: "is_valid new = is_valid row" by (subst new) simp
  have "fst (get_config_for_tid os tid st') = (if is_valid new then Some new else None)"
    by (simp add: get_config_for_tid_def get_config_ptr_def config_index_def read_row_def
        st'(2) assms(2) read_stable_settled [OF even])
  then have own: "fst (get_config_for_tid os tid st') =
      (if is_valid row then Some (row\<lparr>ruleset_generation := ruleset_generation new\<rparr>) else None)"
    unfolding valid by (simp only: new [symmetric])
  have other: "tid_slot tid' \<noteq> tid_slot tid \<Longrightarrow>
      fst (get_config_for_tid os tid' st') = fst (get_config_for_tid os tid' st)"
    by (simp add: get_config_for_tid_def get_config_ptr_def config_index_def read_row_def
        st'(2) assms(1,2))
  have owners: "fst (get_tid_slot_for_fd os f st') = fst (get_tid_slot_for_fd os f st)"
    by (simp add: get_tid_slot_for_fd_def Let_def st'(2) assms(1,2))
  have "\<exists>g. g mod 2 = 0 \<and> fst (get_config_for_tid os tid st') =
      (if is_valid row then Some (row\<lparr>ruleset_generation := g\<rparr>) else None)"
    by (rule exI [of _ "ruleset_generation new"], rule conjI [OF even own])
  then show ?thesis using st'(1) other owners by (intro conjI impI)
qed

text \<open>A published row is what readers of that thread get, and nobody else's row changes.
  After \<open>update_config_for_tid\<close> the reader sees the mutated row with the magic set, under an even
  generation, exactly when that row passes validation; otherwise it gets nothing rather than an
  invalid row. The rows of threads with another slot and the owner table are untouched.\<close>

lemma published_row_readable:
  assumes "shm_pointer st = Some m" "shm_is_open st"
    and "update_config_for_tid tid mutate st = (ok, st')"
    and "row = written_row mutate (sh_configs m (MAX_FDS + tid_slot tid))"
  shows "ok \<and> (\<exists>g. g mod 2 = 0 \<and>
      fst (get_config_for_tid os tid st') = (if is_valid row then Some (row\<lparr>ruleset_generation := g\<rparr>) else None))
    \<and> (tid_slot tid' \<noteq> tid_slot tid \<longrightarrow>
         fst (get_config_for_tid os tid' st') = fst (get_config_for_tid os tid' st))
    \<and> fst (get_tid_slot_for_fd os f st') = fst (get_tid_slot_for_fd os f st)"
  using update_readback [OF assms] by blast

definition open_table :: ShmState where
  "open_table = \<lparr>shm_pointer = Some \<lparr>sh_configs = (\<lambda>_. FaultcoreConfig_default), sh_policy_name = [],
     sh_rules = (\<lambda>_. TargetRule_default), sh_owners = (\<lambda>_. - 1)\<rparr>, shm_is_open = True\<rparr>"

definition plain_os :: ShmOs where
  "plain_os = \<lparr>os_env = (\<lambda>_. None), os_default_name = ''/faultcore_1_config'', os_shm_open = (\<lambda>_ _. False),
     os_ftruncate_ok = False, os_size_ok = False, os_mmap = None\<rparr>"

section \<open>Ownership of descriptors\<close>

text \<open>The contract of a binding table between descriptors and owner slots, as the socket, dup,
  accept and close hooks rely on it. \<open>ok f\<close> holds of the descriptors the table covers.\<close>

locale binding_table =
  fixes lookup :: "fd \<Rightarrow> 's \<Rightarrow> 'o option"
    and assign :: "fd \<Rightarrow> 't \<Rightarrow> 's \<Rightarrow> 's"
    and clear :: "fd \<Rightarrow> 's \<Rightarrow> 's"
    and clone :: "fd \<Rightarrow> fd \<Rightarrow> 's \<Rightarrow> 's"
    and owner :: "'t \<Rightarrow> 'o"
    and ok :: "fd \<Rightarrow> bool"
    and inv :: "'s \<Rightarrow> bool"
  assumes lookup_assign: "inv s \<Longrightarrow> ok f \<Longrightarrow> lookup g (assign f t s) = (if g = f then Some (owner t) else lookup g s)"
    and lookup_clear: "inv s \<Longrightarrow> ok f \<Longrightarrow> lookup g (clear f s) = (if g = f then None else lookup g s)"
    and lookup_clone: "inv s \<Longrightarrow> ok src \<Longrightarrow> ok dst \<Longrightarrow>
          lookup g (clone src dst s) = (if g = dst then lookup src s else lookup g s)"
    and inv_ops: "inv s \<Longrightarrow> inv (assign f t s)" "inv s \<Longrightarrow> inv (clear f s)" "inv s \<Longrightarrow> inv (clone src dst s)"
begin

lemma dup_chain_inherits:
  "inv s \<Longrightarrow> ok f \<Longrightarrow> \<forall>g \<in> set gs. ok g \<Longrightarrow> f \<notin> set gs \<Longrightarrow>
     g \<in> set gs \<Longrightarrow> lookup g (fold (\<lambda>g. clone f g) gs (assign f t s)) = Some (owner t)"
proof (induction gs rule: rev_induct)
  case (snoc h gs)
  have inv_fold: "inv (fold (\<lambda>g. clone f g) xs (assign f t s))" for xs
    using snoc.prems(1) by (induction xs rule: rev_induct) (simp_all add: inv_ops)
  have src: "lookup f (fold (\<lambda>g. clone f g) xs (assign f t s)) = Some (owner t)" if "set xs \<subseteq> set gs" for xs
    using that
  proof (induction xs rule: rev_induct)
    case (snoc h' xs)
    then show ?case using \<open>f \<notin> set (gs @ [h])\<close> \<open>ok f\<close> \<open>\<forall>g \<in> set (gs @ [h]). ok g\<close>
      by (auto simp: lookup_clone [OF inv_fold])
  qed (simp add: lookup_assign snoc.prems)
  show ?case using snoc src [of gs] by (auto simp: lookup_clone [OF inv_fold])
qed simp

lemma close_forgets:
  "inv s \<Longrightarrow> ok f \<Longrightarrow> ok g \<Longrightarrow> f \<noteq> g \<Longrightarrow> lookup f (clear f (clone f g s)) = None \<and> lookup g (clear f (clone f g s)) = lookup f s"
  by (simp add: lookup_clear lookup_clone inv_ops)

end

definition table_open :: "ShmState \<Rightarrow> bool" where
  "table_open st \<longleftrightarrow> shm_is_open st \<and> shm_pointer st \<noteq> None"

definition covered_fd :: "fd \<Rightarrow> bool" where
  "covered_fd f \<longleftrightarrow> 0 \<le> f \<and> nat f < MAX_FDS"

definition owner_slot :: "ShmOs \<Rightarrow> fd \<Rightarrow> ShmState \<Rightarrow> nat option" where
  "owner_slot os f st = fst (get_tid_slot_for_fd os f st)"

definition slot_value :: "u64 \<Rightarrow> nat option" where
  "slot_value w = (if w < of_nat MAX_TIDS then Some (unat w) else None)"

lemma owner_slot_open:
  assumes "shm_pointer st = Some m" "shm_is_open st"
  shows "owner_slot os f st = (if covered_fd f then slot_value (sh_owners m (nat f)) else None)"
  using assms by (auto simp: owner_slot_def get_tid_slot_for_fd_def covered_fd_def slot_value_def Let_def
      not_le INVALID_TID_SLOT_def MAX_TIDS_def)

lemma owner_slot_on_shm:
  assumes "shm_pointer st = Some m" "shm_is_open st"
  shows "owner_slot os f (on_shm h st) = (if covered_fd f then slot_value (sh_owners (h m) (nat f)) else None)"
  by (rule owner_slot_open) (simp_all add: on_shm_def assms)

lemma slot_value_simps [simp]: "slot_value (of_nat (tid_slot t)) = Some (tid_slot t)" "slot_value INVALID_TID_SLOT = None"
  using tid_slot_less [of t]
  by (simp_all add: slot_value_def MAX_TIDS_def word_less_nat_alt unat_of_nat_u64 INVALID_TID_SLOT_def
      unat_minus_one_max)

lemma covered_nat_eq: "covered_fd f \<Longrightarrow> covered_fd g \<Longrightarrow> nat g = nat f \<longleftrightarrow> g = f"
  by (auto simp: covered_fd_def)

lemma covered_guard: "covered_fd f \<Longrightarrow> \<not> (f < 0 \<or> MAX_FDS \<le> nat f)"
  by (auto simp: covered_fd_def)

lemma sh_owners_write_row [simp]: "sh_owners (write_row i mutate m) = sh_owners m"
  by (simp add: write_row_def)

lemma table_open_ops:
  "table_open st \<Longrightarrow> table_open (assign_rule_to_fd f t st)"
  "table_open st \<Longrightarrow> table_open (clear_rule_for_fd f st)"
  "table_open st \<Longrightarrow> table_open (clone_rule_for_fd src dst st)"
  by (simp_all add: table_open_def assign_rule_to_fd_def clear_rule_for_fd_def clone_rule_for_fd_def on_shm_def)

lemma owner_slot_ops:
  assumes "table_open st" "covered_fd f"
  shows "owner_slot os g (assign_rule_to_fd f t st) = (if g = f then Some (tid_slot t) else owner_slot os g st)"
    and "owner_slot os g (clear_rule_for_fd f st) = (if g = f then None else owner_slot os g st)"
    and "covered_fd src \<Longrightarrow> owner_slot os g (clone_rule_for_fd src f st) = (if g = f then owner_slot os src st else owner_slot os g st)"
proof -
  obtain m where m: "shm_pointer st = Some m" "shm_is_open st"
    using assms(1) by (auto simp: table_open_def)
  note o = owner_slot_open [OF m] owner_slot_on_shm [OF m] covered_guard [OF assms(2)] covered_nat_eq [OF assms(2)]
  show "owner_slot os g (assign_rule_to_fd f t st) = (if g = f then Some (tid_slot t) else owner_slot os g st)"
    using assms(2) by (simp add: assign_rule_to_fd_def o)
  show "owner_slot os g (clear_rule_for_fd f st) = (if g = f then None else owner_slot os g st)"
    using assms(2) by (simp add: clear_rule_for_fd_def o)
  assume "covered_fd src"
  then show "owner_slot os g (clone_rule_for_fd src f st) = (if g = f then owner_slot os src st else owner_slot os g st)"
    using assms(2) covered_guard [of src] by (simp add: clone_rule_for_fd_def o)
qed

interpretation owners: binding_table "owner_slot os" assign_rule_to_fd clear_rule_for_fd clone_rule_for_fd
  tid_slot covered_fd table_open for os
  by unfold_locales (simp_all add: owner_slot_ops table_open_ops)

text \<open>Descriptors inherit the policy of the thread that opened them, through any number of
  dups: after a thread binds \<open>f\<close> and \<open>f\<close> is duplicated onto any descriptors, each of them is owned by
  the row of that thread; and closing the original forgets its binding while a duplicate keeps it.\<close>

lemma bindings_follow_dup:
  assumes "table_open st" "covered_fd f" "\<forall>g \<in> set gs. covered_fd g" "f \<notin> set gs"
  shows "(\<forall>g \<in> set gs. owner_slot os g (fold (\<lambda>g. clone_rule_for_fd f g) gs (assign_rule_to_fd f tid st)) = Some (tid_slot tid))
    \<and> (\<forall>g. covered_fd g \<and> g \<noteq> f \<longrightarrow>
         owner_slot os f (clear_rule_for_fd f (clone_rule_for_fd f g st)) = None
         \<and> owner_slot os g (clear_rule_for_fd f (clone_rule_for_fd f g st)) = owner_slot os f st)"
  using owners.dup_chain_inherits [OF assms] owners.close_forgets [OF assms(1,2)] by metis

end
