(* ===== verification/Socket_Runtime.thy ===== *)
theory Socket_Runtime
  imports Net_Config
begin

text \<open>
  Endpoints of sockets (\<open>socket_runtime.rs\<close>): the protocol of a descriptor, decoding a socket
  address, the peer of a descriptor, and the monotonic clock in nanoseconds.

  A socket address is the byte buffer it points to (\<^const>\<open>None\<close> for a null pointer) with its
  length; the layout is that of \<open>sockaddr_in\<close> and \<open>sockaddr_in6\<close> on Linux, a little-endian family
  followed by a big-endian port. \<open>getsockopt\<close>, \<open>getpeername\<close> and \<open>clock_gettime\<close> are the fields of
  \<open>SocketOs\<close>, \<^const>\<open>None\<close> where the call fails. Bytes past the end of a buffer, which the safety
  contract excludes, read as zero.
\<close>

record SocketOs =
  so_type :: "fd \<Rightarrow> int option"
  so_peername :: "fd \<Rightarrow> (bytes \<times> nat) option"

definition SOCK_STREAM :: int where
  "SOCK_STREAM = 1"

definition SOCK_DGRAM :: int where
  "SOCK_DGRAM = 2"

definition AF_INET :: nat where
  "AF_INET = 2"

definition AF_INET6 :: nat where
  "AF_INET6 = 10"

definition socket_protocol_for_fd :: "SocketOs \<Rightarrow> fd \<Rightarrow> u64" where
  "socket_protocol_for_fd os f =
     (case so_type os f of
        None \<Rightarrow> 0
      | Some sock_type \<Rightarrow> if sock_type = SOCK_STREAM then 1 else if sock_type = SOCK_DGRAM then 2 else 0)"

definition byte_at :: "bytes \<Rightarrow> nat \<Rightarrow> u8" where
  "byte_at buf i = (if i < length buf then buf ! i else 0)"

definition be_u16 :: "bytes \<Rightarrow> nat \<Rightarrow> u16" where
  "be_u16 buf i = ucast (byte_at buf i) * 256 + ucast (byte_at buf (i + 1))"

definition be_u32 :: "bytes \<Rightarrow> nat \<Rightarrow> u32" where
  "be_u32 buf i =
     ((ucast (byte_at buf i) * 256 + ucast (byte_at buf (i + 1))) * 256 + ucast (byte_at buf (i + 2))) * 256
       + ucast (byte_at buf (i + 3))"

definition u32_to_be_bytes :: "u32 \<Rightarrow> bytes" where
  "u32_to_be_bytes w = [ucast (drop_bit 24 w), ucast (drop_bit 16 w), ucast (drop_bit 8 w), ucast w]"

definition sockaddr_family :: "bytes \<Rightarrow> nat" where
  "sockaddr_family buf = unat (byte_at buf 0) + 256 * unat (byte_at buf 1)"

definition sockaddr_endpoint :: "bytes option \<Rightarrow> nat \<Rightarrow> Endpoint option" where
  "sockaddr_endpoint address addr_len =
     (case address of
        None \<Rightarrow> None
      | Some buf \<Rightarrow>
          let family = sockaddr_family buf
          in if family = AF_INET then
               if addr_len < 16 then None
               else let ip = be_u32 buf 4
                    in Some \<lparr>address_family = 1, addr = u32_to_be_bytes ip @ replicate 12 0, ipv4 = ip,
                             port = be_u16 buf 2, protocol = 0\<rparr>
             else if family = AF_INET6 then
               if addr_len < 28 then None
               else Some \<lparr>address_family = 2, addr = map (byte_at buf) [8..<24], ipv4 = 0,
                          port = be_u16 buf 2, protocol = 0\<rparr>
             else None)"

definition peer_endpoint_for_fd :: "SocketOs \<Rightarrow> fd \<Rightarrow> Endpoint option" where
  "peer_endpoint_for_fd os f =
     (case so_peername os f of
        None \<Rightarrow> None
      | Some (storage, len) \<Rightarrow> sockaddr_endpoint (Some storage) len)"

definition monotonic_now_ns :: "(u64 \<times> u64) option \<Rightarrow> u64" where
  "monotonic_now_ns ts =
     (case ts of
        None \<Rightarrow> 0
      | Some (tv_sec, tv_nsec) \<Rightarrow> saturating_add (saturating_mul tv_sec 1000000000) tv_nsec)"

definition endpoint_for_fd :: "SocketOs \<Rightarrow> fd \<Rightarrow> Endpoint option" where
  "endpoint_for_fd os f =
     map_option (\<lambda>ep. ep\<lparr>protocol := socket_protocol_for_fd os f\<rparr>) (peer_endpoint_for_fd os f)"

definition endpoint_for_addr_or_fd :: "SocketOs \<Rightarrow> fd \<Rightarrow> bytes option \<Rightarrow> nat \<Rightarrow> Endpoint option" where
  "endpoint_for_addr_or_fd os f address addr_len =
     (let proto = socket_protocol_for_fd os f;
          ep = (case sockaddr_endpoint address addr_len of
                  Some e \<Rightarrow> Some e
                | None \<Rightarrow> peer_endpoint_for_fd os f)
      in map_option (\<lambda>e. e\<lparr>protocol := proto\<rparr>) ep)"

section \<open>Shape of endpoints\<close>

text \<open>What every decoded endpoint satisfies: a 16 byte address, one of the two families, and for IPv4
  the octets of the address in network order followed by zeros.\<close>

definition endpoint_wf :: "Endpoint \<Rightarrow> bool" where
  "endpoint_wf ep \<longleftrightarrow> length (addr ep) = 16 \<and> (address_family ep = 1 \<or> address_family ep = 2)
     \<and> (address_family ep = 1 \<longrightarrow> addr ep = u32_to_be_bytes (ipv4 ep) @ replicate 12 0)"

lemma sockaddr_endpoint_wf: "sockaddr_endpoint a n = Some ep \<Longrightarrow> endpoint_wf ep"
  by (auto simp: sockaddr_endpoint_def endpoint_wf_def Let_def u32_to_be_bytes_def split: option.splits if_splits)

lemma endpoint_wf_protocol [simp]: "endpoint_wf (ep\<lparr>protocol := p\<rparr>) = endpoint_wf ep"
  by (simp add: endpoint_wf_def)

lemma endpoint_for_addr_or_fd_wf: "endpoint_for_addr_or_fd os f a n = Some ep \<Longrightarrow> endpoint_wf ep"
  by (auto simp: endpoint_for_addr_or_fd_def peer_endpoint_for_fd_def Let_def
      split: option.splits dest: sockaddr_endpoint_wf)

lemma endpoint_for_fd_wf: "endpoint_for_fd os f = Some ep \<Longrightarrow> endpoint_wf ep"
  by (auto simp: endpoint_for_fd_def peer_endpoint_for_fd_def split: option.splits dest: sockaddr_endpoint_wf)

end
