(* ===== verification/Interceptor_Bridge.thy ===== *)
theory Interceptor_Bridge
  imports Shm_Runtime Socket_Runtime
begin

text \<open>
  The bridge between the hooks and the tables (\<open>interceptor_bridge.rs\<close>): names observed for
  descriptors and endpoints, matching and ranking of target rules, the retry loop that reads a
  consistent rule set, and the configuration that applies to a call.

  Names are UTF-8 byte strings. The two observation maps are process state: names by descriptor a
  map, names by endpoint an association list whose order stands for the unspecified iteration order of
  the hash map. Clock readings, the current thread id and the socket calls are arguments. The
  process-wide fault metrics live in the engine record, as in \<open>Chaos_Engine\<close>.
\<close>

section \<open>Observed names\<close>

definition RULESET_READ_RETRY_LIMIT :: nat where
  "RULESET_READ_RETRY_LIMIT = 3"

definition HOSTNAME_OBSERVATION_TTL_NS :: u64 where
  "HOSTNAME_OBSERVATION_TTL_NS = 30000000000"

definition HOSTNAME_OBSERVATION_MAX_ENTRIES :: nat where
  "HOSTNAME_OBSERVATION_MAX_ENTRIES = 4096"

record HostnameObservationKey =
  hk_tid_slot :: nat
  hk_address_family :: u64
  hk_addr :: bytes
  hk_port :: u16
  hk_protocol :: u64

record ObservedName =
  on_hostname :: bytes
  observed_at_ns :: u64

type_synonym hostname_map = "(HostnameObservationKey \<times> ObservedName) list"
type_synonym sni_map = "fd \<rightharpoonup> bytes"

definition normalize_semantic_name :: "bytes \<Rightarrow> bytes option" where
  "normalize_semantic_name v =
     (let normalized = to_ascii_lowercase (trim_end_dots (str_trim v))
      in if normalized = [] then None else Some normalized)"

definition observed_sni_for_fd :: "fd \<Rightarrow> sni_map \<Rightarrow> bytes option" where
  "observed_sni_for_fd f m = (if f < 0 then None else m f)"

definition hostname_observation_key :: "nat \<Rightarrow> Endpoint \<Rightarrow> HostnameObservationKey option" where
  "hostname_observation_key slot ep =
     (if address_family ep \<noteq> 1 \<and> address_family ep \<noteq> 2 then None
      else Some \<lparr>hk_tid_slot = slot, hk_address_family = address_family ep, hk_addr = addr ep,
                 hk_port = port ep, hk_protocol = protocol ep\<rparr>)"

definition fresh_name :: "u64 \<Rightarrow> ObservedName \<Rightarrow> bool" where
  "fresh_name now item \<longleftrightarrow> saturating_sub now (observed_at_ns item) \<le> HOSTNAME_OBSERVATION_TTL_NS"

definition prune_hostname_observations :: "hostname_map \<Rightarrow> u64 \<Rightarrow> hostname_map" where
  "prune_hostname_observations m0 now =
     (let m = filter (\<lambda>(_, item). fresh_name now item) m0
      in if length m \<le> HOSTNAME_OBSERVATION_MAX_ENTRIES then m
         else
           let items = sort_key snd (map (\<lambda>(key, item). (key, observed_at_ns item)) m);
               remove_count = length m - HOSTNAME_OBSERVATION_MAX_ENTRIES
           in fold (\<lambda>(key, _) m. AList.delete key m) (take remove_count items) m)"

definition observe_hostname_for_slot_endpoint ::
  "nat \<Rightarrow> Endpoint \<Rightarrow> bytes \<Rightarrow> u64 \<Rightarrow> hostname_map \<Rightarrow> hostname_map" where
  "observe_hostname_for_slot_endpoint slot ep name now m =
     (case normalize_semantic_name name of
        None \<Rightarrow> m
      | Some normalized \<Rightarrow>
          (case hostname_observation_key slot ep of
             None \<Rightarrow> m
           | Some key \<Rightarrow>
               prune_hostname_observations
                 (AList.update key \<lparr>on_hostname = normalized, observed_at_ns = now\<rparr> m) now))"

text \<open>\<open>Iterator::max_by_key\<close>: the last of the maximal elements.\<close>

fun latest_observation :: "hostname_map \<Rightarrow> (HostnameObservationKey \<times> ObservedName) option" where
  "latest_observation [] = None"
| "latest_observation (x # xs) =
     (case latest_observation xs of
        None \<Rightarrow> Some x
      | Some y \<Rightarrow> if observed_at_ns (snd x) \<le> observed_at_ns (snd y) then Some y else Some x)"

definition same_address :: "nat \<Rightarrow> Endpoint \<Rightarrow> HostnameObservationKey \<Rightarrow> bool" where
  "same_address slot ep candidate \<longleftrightarrow>
     hk_tid_slot candidate = slot \<and> hk_address_family candidate = address_family ep \<and> hk_addr candidate = addr ep"

definition observed_hostname_for_slot_endpoint ::
  "nat \<Rightarrow> Endpoint \<Rightarrow> u64 \<Rightarrow> hostname_map \<Rightarrow> bytes option \<times> hostname_map" where
  "observed_hostname_for_slot_endpoint slot ep now m =
     (case hostname_observation_key slot ep of
        None \<Rightarrow> (None, m)
      | Some key \<Rightarrow>
          (case (case map_of m key of
                   Some item \<Rightarrow> Some (key, item)
                 | None \<Rightarrow> latest_observation (filter (\<lambda>(candidate, _). same_address slot ep candidate) m)) of
             None \<Rightarrow> (None, m)
           | Some (selected_key, item) \<Rightarrow>
               if saturating_sub now (observed_at_ns item) > HOSTNAME_OBSERVATION_TTL_NS
               then (None, AList.delete selected_key m)
               else (Some (on_hostname item), m)))"

definition observe_sni_for_fd :: "fd \<Rightarrow> bytes \<Rightarrow> sni_map \<Rightarrow> sni_map" where
  "observe_sni_for_fd f sni m =
     (if f < 0 then m
      else case normalize_semantic_name sni of
        None \<Rightarrow> m
      | Some normalized \<Rightarrow> m(f \<mapsto> normalized))"

definition clear_observed_semantic_for_fd :: "fd \<Rightarrow> sni_map \<Rightarrow> sni_map" where
  "clear_observed_semantic_for_fd f m = (if f < 0 then m else m(f := None))"

definition clone_observed_semantic_for_fd :: "fd \<Rightarrow> fd \<Rightarrow> sni_map \<Rightarrow> sni_map" where
  "clone_observed_semantic_for_fd src dst m =
     (if src < 0 \<or> dst < 0 then m
      else case m src of
        Some sni \<Rightarrow> m(dst \<mapsto> sni)
      | None \<Rightarrow> m(dst := None))"

section \<open>Matching a rule\<close>

record SemanticContext =
  sem_hostname :: "bytes option"
  sem_sni :: "bytes option"

definition rule_name :: "bytes \<Rightarrow> bytes option" where
  "rule_name raw =
     (let name = takeWhile (\<lambda>b. b \<noteq> 0) raw
      in if name = [] then None
         else if utf8_valid name then Some name else None)"

definition wildcard_suffix :: "bytes \<Rightarrow> bytes option" where
  "wildcard_suffix name = str_strip_prefix [0x2A, 0x2E] name"

definition wildcard_matches :: "bytes \<Rightarrow> bytes \<Rightarrow> bool" where
  "wildcard_matches suffix candidate =
     (if candidate = suffix then False
      else case str_strip_suffix suffix candidate of
        Some pre \<Rightarrow> str_ends_with 0x2E pre
      | None \<Rightarrow> False)"

definition match_name_score :: "bytes \<Rightarrow> bytes option \<Rightarrow> u8 option" where
  "match_name_score name candidate =
     (case candidate of
        None \<Rightarrow> None
      | Some c \<Rightarrow>
          (case wildcard_suffix name of
             Some suffix \<Rightarrow> if wildcard_matches suffix c then Some 1 else None
           | None \<Rightarrow> if name = c then Some 2 else None))"

definition rule_port_end :: "TargetRule \<Rightarrow> u64" where
  "rule_port_end rule = (if tr_reserved rule > 0 then tr_reserved rule else tr_port rule)"

definition endpoint_matches_rule_filters :: "TargetRule \<Rightarrow> Endpoint \<Rightarrow> bool" where
  "endpoint_matches_rule_filters rule ep =
     (if tr_protocol rule > 0 \<and> tr_protocol rule \<noteq> protocol ep then False
      else
        let endpoint_port = (ucast (port ep) :: u64);
            port_start = tr_port rule;
            port_end = rule_port_end rule
        in if (port_start > 0 \<or> port_end > 0) \<and> (endpoint_port < port_start \<or> endpoint_port > port_end)
           then False else True)"

definition rule_prefix_match :: "bytes \<Rightarrow> bytes \<Rightarrow> nat \<Rightarrow> bool option" where
  "rule_prefix_match candidate network prefix_len =
     (if prefix_len = 0 then Some True
      else
        let full_bytes = prefix_len div 8; partial_bits = prefix_len mod 8
        in if length candidate < full_bytes \<or> length network < full_bytes then None
           else if 0 < full_bytes \<and> take full_bytes candidate \<noteq> take full_bytes network
                then Some False
           else if partial_bits = 0 then Some True
           else if length candidate \<le> full_bytes \<or> length network \<le> full_bytes then None
           else let mask = push_bit (8 - partial_bits) (NOT 0 :: u8)
                in Some ((candidate ! full_bytes) AND mask = (network ! full_bytes) AND mask))"

definition address_rule_matches :: "TargetRule \<Rightarrow> Endpoint \<Rightarrow> bool" where
  "address_rule_matches rule ep =
     (let family = tr_address_family rule
      in if tr_kind rule = 1 then address_family ep = family \<and> addr ep = tr_addr rule
         else if tr_kind rule = 2 then
           address_family ep = family \<and>
           rule_prefix_match (addr ep) (tr_addr rule)
             (min (unat (tr_prefix_len rule)) (if family = 1 then 32 else 128)) = Some True
         else False)"

definition rule_match_class :: "TargetRule \<Rightarrow> Endpoint option \<Rightarrow> SemanticContext \<Rightarrow> u8 option" where
  "rule_match_class rule endpoint sem =
     (if tr_enabled rule = 0 then None
      else
        let hostname_rule = rule_name (tr_hostname rule);
            sni_rule = rule_name (tr_sni rule)
        in if hostname_rule \<noteq> None \<and> sni_rule \<noteq> None then None
           else
             let is_semantic = (hostname_rule \<noteq> None \<or> sni_rule \<noteq> None)
             in if is_semantic \<and> tr_kind rule \<noteq> 0 then None
                else
                  case (case sni_rule of
                          Some v \<Rightarrow> Some (v, sem_sni sem, 3)
                        | None \<Rightarrow> map_option (\<lambda>v. (v, sem_hostname sem, 1)) hostname_rule) of
                    Some (name, candidate, bonus) \<Rightarrow>
                      if (tr_protocol rule > 0 \<or> tr_port rule > 0 \<or> tr_reserved rule > 0) \<and>
                         (case endpoint of None \<Rightarrow> True | Some ep \<Rightarrow> \<not> endpoint_matches_rule_filters rule ep)
                      then None
                      else map_option (\<lambda>score. score + bonus) (match_name_score name candidate)
                  | None \<Rightarrow>
                      (case endpoint of
                         None \<Rightarrow> None
                       | Some ep \<Rightarrow>
                           if \<not> endpoint_matches_rule_filters rule ep then None
                           else if tr_address_family rule = 0 then None
                           else if address_rule_matches rule ep then Some 1 else None))"

section \<open>Selecting a rule\<close>

definition should_replace :: "(nat \<times> u64 \<times> u8) option \<Rightarrow> u64 \<Rightarrow> u8 \<Rightarrow> bool" where
  "should_replace selected priority match_class =
     (case selected of
        None \<Rightarrow> True
      | Some (_, selected_priority, selected_class) \<Rightarrow>
          priority > selected_priority \<or> (priority = selected_priority \<and> match_class > selected_class))"

fun select_loop ::
  "Endpoint option \<Rightarrow> SemanticContext \<Rightarrow> nat \<Rightarrow> TargetRule list \<Rightarrow> (nat \<times> u64 \<times> u8) option \<Rightarrow> (nat \<times> u64 \<times> u8) option"
where
  "select_loop endpoint sem idx [] selected = selected"
| "select_loop endpoint sem idx (rule # rules) selected =
     select_loop endpoint sem (idx + 1) rules
       (case rule_match_class rule endpoint sem of
          None \<Rightarrow> selected
        | Some match_class \<Rightarrow>
            if should_replace selected (tr_priority rule) match_class
            then Some (idx, tr_priority rule, match_class) else selected)"

definition select_best_target_rule ::
  "Endpoint option \<Rightarrow> SemanticContext \<Rightarrow> TargetRule list \<Rightarrow> nat \<Rightarrow> (nat \<times> TargetRule) option" where
  "select_best_target_rule endpoint sem rules n =
     (let limit = min n (length rules)
      in map_option (\<lambda>(idx, _, _). (idx, rules ! idx))
           (select_loop endpoint sem 0 (take limit rules) None))"

definition target_rule_id_for_slot_idx :: "nat \<Rightarrow> nat \<Rightarrow> u64" where
  "target_rule_id_for_slot_idx slot idx = push_bit 32 (of_nat slot) OR of_nat idx"

section \<open>Reading a consistent rule set\<close>

text \<open>The two readers are closures over the shared memory \<open>'w\<close>, which other processes write; a reader
  is a state transformer that may also return nothing.\<close>

record ReloadMetrics =
  reload_applied_total :: u64
  reload_retry_total :: u64

type_synonym 'w reload_state = "'w \<times> ReloadMetrics \<times> AdvancedMetrics"

definition retarget :: "TargetRule \<Rightarrow> Config \<Rightarrow> Config" where
  "retarget rule cfg = cfg\<lparr>target_enabled := 0, target_kind := tr_kind rule,
     target_prefix_len := tr_prefix_len rule, target_port := tr_port rule, target_protocol := tr_protocol rule,
     target_address_family := tr_address_family rule, target_addr := tr_addr rule,
     target_hostname := tr_hostname rule, target_sni := tr_sni rule\<rparr>"

fun ruleset_loop ::
  "nat \<Rightarrow> nat \<Rightarrow> Endpoint option \<Rightarrow> SemanticContext \<Rightarrow> u64 \<Rightarrow> ('w \<Rightarrow> TargetRule list option \<times> 'w) \<Rightarrow>
   ('w \<Rightarrow> Config option \<times> 'w) \<Rightarrow> Config \<Rightarrow> 'w reload_state \<Rightarrow> Config option \<times> 'w reload_state"
where
  "ruleset_loop 0 slot endpoint sem now read_rules read_cfg cfg (w, m, a) = (None, w, m, a)"
| "ruleset_loop (Suc n) slot endpoint sem now read_rules read_cfg cfg (w, m, a) =
     (if target_enabled cfg = 0 then (runtime_filtered cfg endpoint now, w, m, a)
      else
        case read_rules w of
          (None, w1) \<Rightarrow> (None, w1, m, a)
        | (Some rules, w1) \<Rightarrow>
            (case read_cfg w1 of
               (None, w2) \<Rightarrow> (None, w2, m, a)
             | (Some refreshed_cfg, w2) \<Rightarrow>
                 if ruleset_generation refreshed_cfg \<noteq> ruleset_generation cfg
                 then ruleset_loop n slot endpoint sem now read_rules read_cfg refreshed_cfg
                        (w2, m\<lparr>reload_retry_total := reload_retry_total m + 1\<rparr>, a)
                 else
                   case select_best_target_rule endpoint sem rules
                          (min (unat (target_enabled cfg)) (length rules)) of
                     None \<Rightarrow> (None, w2, m, a)
                   | Some (rule_idx, rule) \<Rightarrow>
                       (runtime_filtered (retarget rule cfg) endpoint now,
                        w2, m\<lparr>reload_applied_total := reload_applied_total m + 1\<rparr>,
                        record_target_rule_hit (target_rule_id_for_slot_idx slot rule_idx) a)))"

definition apply_multi_target_for_tid_with_reader ::
  "nat \<Rightarrow> Endpoint option \<Rightarrow> SemanticContext \<Rightarrow> u64 \<Rightarrow> ('w \<Rightarrow> TargetRule list option \<times> 'w) \<Rightarrow>
   ('w \<Rightarrow> Config option \<times> 'w) \<Rightarrow> Config \<Rightarrow> 'w reload_state \<Rightarrow> Config option \<times> 'w reload_state"
where
  "apply_multi_target_for_tid_with_reader slot endpoint sem now read_rules read_cfg cfg s =
     ruleset_loop RULESET_READ_RETRY_LIMIT slot endpoint sem now read_rules read_cfg cfg s"

section \<open>The configuration of a call\<close>

record Bridge =
  br_shm :: ShmState
  br_sni :: sni_map
  br_hostnames :: hostname_map
  br_reload :: ReloadMetrics
  br_engine :: ChaosEngine

definition with_shm_readers ::
  "ShmOs \<Rightarrow> Config \<Rightarrow> nat \<Rightarrow> Endpoint option \<Rightarrow> SemanticContext \<Rightarrow> u64 \<Rightarrow> Bridge \<Rightarrow> Config option \<times> Bridge" where
  "with_shm_readers os cfg slot endpoint sem now b =
     (let (r, s, m, a) =
            apply_multi_target_for_tid_with_reader slot endpoint sem now
              (get_target_rules_for_tid_slot os slot)
              (\<lambda>s. let (c, s') = get_config_for_tid_slot os slot s in (map_option into_network_config c, s'))
              cfg (br_shm b, br_reload b, observed (br_engine b))
      in (r, b\<lparr>br_shm := s, br_reload := m, br_engine := (br_engine b)\<lparr>observed := a\<rparr>\<rparr>))"

definition apply_multi_target_for_tid ::
  "ShmOs \<Rightarrow> Config \<Rightarrow> nat \<Rightarrow> Endpoint option \<Rightarrow> SemanticContext \<Rightarrow> u64 \<Rightarrow> Bridge \<Rightarrow> Config option \<times> Bridge" where
  "apply_multi_target_for_tid os cfg slot endpoint sem now b =
     (if target_enabled cfg = 0 then (runtime_filtered cfg endpoint now, b)
      else case endpoint of
        None \<Rightarrow> (None, b)
      | Some ep \<Rightarrow> with_shm_readers os cfg slot (Some ep) sem now b)"

definition init_runtime_shm :: "ShmOs \<Rightarrow> Bridge \<Rightarrow> bool \<times> Bridge" where
  "init_runtime_shm os b = (let (ok, s) = try_open_shm os (br_shm b) in (ok, b\<lparr>br_shm := s\<rparr>))"

definition bind_fd_to_current_thread :: "u64 \<Rightarrow> fd \<Rightarrow> Bridge \<Rightarrow> Bridge" where
  "bind_fd_to_current_thread tid f b =
     (if f < 0 then b else b\<lparr>br_shm := assign_rule_to_fd f tid (br_shm b)\<rparr>)"

definition clear_fd_binding :: "fd \<Rightarrow> Bridge \<Rightarrow> Bridge" where
  "clear_fd_binding f b =
     b\<lparr>br_shm := clear_rule_for_fd f (br_shm b), br_sni := clear_observed_semantic_for_fd f (br_sni b)\<rparr>"

definition clone_fd_binding :: "fd \<Rightarrow> fd \<Rightarrow> Bridge \<Rightarrow> Bridge" where
  "clone_fd_binding src dst b =
     b\<lparr>br_shm := clone_rule_for_fd src dst (br_shm b),
       br_sni := clone_observed_semantic_for_fd src dst (br_sni b)\<rparr>"

definition runtime_reload_metrics_snapshot :: "Bridge \<Rightarrow> u64 \<times> u64" where
  "runtime_reload_metrics_snapshot b =
     (reload_applied_total (br_reload b), reload_retry_total (br_reload b))"

definition reset_runtime_reload_metrics :: "Bridge \<Rightarrow> Bridge" where
  "reset_runtime_reload_metrics b =
     b\<lparr>br_reload := \<lparr>reload_applied_total = 0, reload_retry_total = 0\<rparr>\<rparr>"

definition observe_hostname_for_current_thread_addr ::
  "SocketOs \<Rightarrow> u64 \<Rightarrow> bytes option \<Rightarrow> nat \<Rightarrow> bytes \<Rightarrow> u64 \<Rightarrow> Bridge \<Rightarrow> Bridge" where
  "observe_hostname_for_current_thread_addr sos tid address addr_len name now b =
     (case endpoint_for_addr_or_fd sos (- 1) address addr_len of
        None \<Rightarrow> b
      | Some ep \<Rightarrow>
          b\<lparr>br_hostnames :=
              observe_hostname_for_slot_endpoint (get_tid_slot_for_tid tid) ep name now (br_hostnames b)\<rparr>)"

text \<open>The row that governs a descriptor: its owner's if it has one that reads, else the caller's.\<close>

definition base_config :: "ShmOs \<Rightarrow> u64 \<Rightarrow> fd \<Rightarrow> ShmState \<Rightarrow> (Config \<times> nat) option \<times> ShmState" where
  "base_config os tid f s =
     (let (owner_slot, s1) = get_tid_slot_for_fd os f s;
          (owner_cfg, s2) =
            (case owner_slot of
               None \<Rightarrow> (None, s1)
             | Some slot \<Rightarrow>
                 let (c, s') = get_config_for_tid_slot os slot s1 in (map_option into_network_config c, s'))
      in case (owner_slot, owner_cfg) of
           (Some slot, Some cfg) \<Rightarrow> (Some (cfg, slot), s2)
         | _ \<Rightarrow>
             let (c, s3) = get_config_for_tid os tid s2
             in (map_option (\<lambda>c. (into_network_config c, get_tid_slot_for_tid tid)) c, s3))"

definition resolve_runtime_config_for_endpoint ::
  "ShmOs \<Rightarrow> u64 \<Rightarrow> u64 \<Rightarrow> u64 \<Rightarrow> fd \<Rightarrow> Endpoint option \<Rightarrow> Bridge \<Rightarrow> Config option \<times> Bridge" where
  "resolve_runtime_config_for_endpoint os tid now1 now2 f endpoint b =
     (let (base, s) = base_config os tid f (br_shm b)
      in case base of
           None \<Rightarrow> (None, b\<lparr>br_shm := s\<rparr>)
         | Some (base_cfg, slot) \<Rightarrow>
             let observed_sni = observed_sni_for_fd f (br_sni b);
                 (observed_hostname, hm) =
                   (case endpoint of
                      None \<Rightarrow> (None, br_hostnames b)
                    | Some ep \<Rightarrow> observed_hostname_for_slot_endpoint slot ep now1 (br_hostnames b))
             in apply_multi_target_for_tid os base_cfg slot endpoint
                  \<lparr>sem_hostname = observed_hostname, sem_sni = observed_sni\<rparr> now2
                  (b\<lparr>br_shm := s, br_hostnames := hm\<rparr>))"

definition runtime_config_for_fd ::
  "ShmOs \<Rightarrow> SocketOs \<Rightarrow> u64 \<Rightarrow> u64 \<Rightarrow> u64 \<Rightarrow> fd \<Rightarrow> Bridge \<Rightarrow> Config option \<times> Bridge" where
  "runtime_config_for_fd os sos tid now1 now2 f b =
     resolve_runtime_config_for_endpoint os tid now1 now2 f (endpoint_for_fd sos f) b"

definition runtime_config_for_addr_or_fd ::
  "ShmOs \<Rightarrow> SocketOs \<Rightarrow> u64 \<Rightarrow> u64 \<Rightarrow> u64 \<Rightarrow> fd \<Rightarrow> bytes option \<Rightarrow> nat \<Rightarrow> Bridge \<Rightarrow> Config option \<times> Bridge" where
  "runtime_config_for_addr_or_fd os sos tid now1 now2 f address addr_len b =
     resolve_runtime_config_for_endpoint os tid now1 now2 f (endpoint_for_addr_or_fd sos f address addr_len) b"

definition runtime_dns_config_for_query ::
  "ShmOs \<Rightarrow> u64 \<Rightarrow> u64 \<Rightarrow> bytes option \<Rightarrow> bytes option \<Rightarrow> Bridge \<Rightarrow> Config option \<times> Bridge" where
  "runtime_dns_config_for_query os tid now hostname sni b =
     (let (c, s) = get_config_for_tid os tid (br_shm b); b' = b\<lparr>br_shm := s\<rparr>
      in case map_option into_network_config c of
           None \<Rightarrow> (None, b')
         | Some cfg \<Rightarrow>
             let slot = get_tid_slot_for_tid tid
             in if target_enabled cfg = 0 then (runtime_filtered cfg None now, b')
                else with_shm_readers os cfg slot None \<lparr>sem_hostname = hostname, sem_sni = sni\<rparr> now b')"

definition runtime_dns_config_for_current_thread ::
  "ShmOs \<Rightarrow> u64 \<Rightarrow> u64 \<Rightarrow> Bridge \<Rightarrow> Config option \<times> Bridge" where
  "runtime_dns_config_for_current_thread os tid now b = runtime_dns_config_for_query os tid now None None b"

definition duplicate_count :: "Config option \<times> Bridge \<Rightarrow> u64 \<times> Bridge" where
  "duplicate_count r =
     (case r of
        (None, b) \<Rightarrow> (0, b)
      | (Some network_cfg, b) \<Rightarrow>
          let (d, e) = evaluate_stream_post network_cfg Uplink (br_engine b)
          in ((case d of Duplicate n \<Rightarrow> n | _ \<Rightarrow> 0), b\<lparr>br_engine := e\<rparr>))"

definition uplink_duplicate_count_for_fd ::
  "ShmOs \<Rightarrow> SocketOs \<Rightarrow> u64 \<Rightarrow> u64 \<Rightarrow> u64 \<Rightarrow> fd \<Rightarrow> Bridge \<Rightarrow> u64 \<times> Bridge" where
  "uplink_duplicate_count_for_fd os sos tid now1 now2 f b =
     duplicate_count (runtime_config_for_fd os sos tid now1 now2 f b)"

definition uplink_duplicate_count_for_addr_or_fd ::
  "ShmOs \<Rightarrow> SocketOs \<Rightarrow> u64 \<Rightarrow> u64 \<Rightarrow> u64 \<Rightarrow> fd \<Rightarrow> bytes option \<Rightarrow> nat \<Rightarrow> Bridge \<Rightarrow> u64 \<times> Bridge" where
  "uplink_duplicate_count_for_addr_or_fd os sos tid now1 now2 f address addr_len b =
     duplicate_count (runtime_config_for_addr_or_fd os sos tid now1 now2 f address addr_len b)"

end
