(* ===== verification/Global_Metrics.thy ===== *)
theory Global_Metrics
  imports Interceptor_Bridge
begin

text \<open>
  The process-wide metrics (\<open>lib.rs\<close>, and the exported symbols \<open>faultcore_metrics_*\<close> of the
  interceptor): the fixed-size snapshot that crosses the C boundary, and the reset.

  The snapshot writes into an array of nine layers by index, so a tenth layer would panic:
  \<^const>\<open>None\<close> is that panic. The shape invariant of the engine rules it out.
\<close>

definition RUNTIME_STAGE_COUNT :: nat where
  "RUNTIME_STAGE_COUNT = 9"

record FaultOsiLayerMetricsSnapshot =
  lm_stage :: u8
  lm_reserved :: bytes
  lm_continue_count :: u64
  lm_delay_count :: u64
  lm_drop_count :: u64
  lm_timeout_count :: u64
  lm_error_count :: u64
  lm_connection_error_count :: u64
  lm_reorder_count :: u64
  lm_duplicate_count :: u64
  lm_nxdomain_count :: u64
  lm_mutate_count :: u64
  lm_skipped_count :: u64

definition FaultOsiLayerMetricsSnapshot_default :: FaultOsiLayerMetricsSnapshot where
  "FaultOsiLayerMetricsSnapshot_default =
     \<lparr>lm_stage = 0, lm_reserved = replicate 7 0, lm_continue_count = 0, lm_delay_count = 0, lm_drop_count = 0,
      lm_timeout_count = 0, lm_error_count = 0, lm_connection_error_count = 0, lm_reorder_count = 0,
      lm_duplicate_count = 0, lm_nxdomain_count = 0, lm_mutate_count = 0, lm_skipped_count = 0\<rparr>"

record FaultOsiMetricsSnapshot =
  ms_len :: u64
  ms_layers :: "FaultOsiLayerMetricsSnapshot list"
  ms_reload_applied_count :: u64
  ms_reload_retry_count :: u64

definition FaultOsiMetricsSnapshot_default :: FaultOsiMetricsSnapshot where
  "FaultOsiMetricsSnapshot_default =
     \<lparr>ms_len = 0, ms_layers = replicate RUNTIME_STAGE_COUNT FaultOsiLayerMetricsSnapshot_default,
      ms_reload_applied_count = 0, ms_reload_retry_count = 0\<rparr>"

primrec stage_code :: "LayerStage \<Rightarrow> u8" where
  "stage_code R0 = 0"
| "stage_code R1 = 1"
| "stage_code R2 = 2"
| "stage_code R3 = 3"
| "stage_code R4 = 4"
| "stage_code R5 = 5"
| "stage_code R6 = 6"
| "stage_code R7 = 7"
| "stage_code R8 = 8"

definition layer_snapshot :: "LayerStage \<Rightarrow> DecisionCounters \<Rightarrow> FaultOsiLayerMetricsSnapshot" where
  "layer_snapshot stage c =
     \<lparr>lm_stage = stage_code stage, lm_reserved = replicate 7 0, lm_continue_count = continue_count c,
      lm_delay_count = delay_count c, lm_drop_count = drop_count c, lm_timeout_count = timeout_count c,
      lm_error_count = d_error_count c, lm_connection_error_count = connection_error_count c,
      lm_reorder_count = reorder_count c, lm_duplicate_count = DecisionCounters.duplicate_count c,
      lm_nxdomain_count = nxdomain_count c, lm_mutate_count = mutate_count c, lm_skipped_count = skipped_count c\<rparr>"

fun fill_layers ::
  "nat \<Rightarrow> (LayerStage \<times> DecisionCounters) list \<Rightarrow> FaultOsiLayerMetricsSnapshot list
     \<Rightarrow> FaultOsiLayerMetricsSnapshot list option" where
  "fill_layers idx [] layers = Some layers"
| "fill_layers idx ((stage, c) # raw) layers =
     (if idx < length layers then fill_layers (idx + 1) raw (layers[idx := layer_snapshot stage c]) else None)"

definition global_fault_osi_metrics_snapshot :: "Bridge \<Rightarrow> FaultOsiMetricsSnapshot option" where
  "global_fault_osi_metrics_snapshot b =
     (let raw = metrics_snapshot (br_engine b);
          out = FaultOsiMetricsSnapshot_default\<lparr>ms_len := of_nat (length raw)\<rparr>
      in map_option (\<lambda>layers.
           let (reload_applied, reload_retry) = runtime_reload_metrics_snapshot b
           in out\<lparr>ms_layers := layers, ms_reload_applied_count := reload_applied,
                  ms_reload_retry_count := reload_retry\<rparr>)
         (fill_layers 0 raw (ms_layers out)))"

definition reset_global_fault_osi_metrics :: "Bridge \<Rightarrow> Bridge" where
  "reset_global_fault_osi_metrics b =
     (let b1 = b\<lparr>br_engine := reset_metrics (br_engine b)\<rparr>;
          b2 = reset_runtime_reload_metrics b1
      in b2\<lparr>br_engine := (br_engine b2)\<lparr>observed := reset_advanced_metrics (observed (br_engine b2))\<rparr>\<rparr>)"

text \<open>The exported functions write through a pointer, \<^const>\<open>None\<close> for null.\<close>

definition faultcore_metrics_snapshot ::
  "FaultOsiMetricsSnapshot option \<Rightarrow> Bridge \<Rightarrow> (bool \<times> FaultOsiMetricsSnapshot option) option" where
  "faultcore_metrics_snapshot out b =
     (case out of
        None \<Rightarrow> Some (False, None)
      | Some _ \<Rightarrow> map_option (\<lambda>s. (True, Some s)) (global_fault_osi_metrics_snapshot b))"

definition faultcore_advanced_metrics_snapshot ::
  "FaultOsiAdvancedMetricsSnapshot option \<Rightarrow> Bridge \<Rightarrow> bool \<times> FaultOsiAdvancedMetricsSnapshot option" where
  "faultcore_advanced_metrics_snapshot out b =
     (case out of
        None \<Rightarrow> (False, None)
      | Some _ \<Rightarrow> (True, Some (advanced_metrics_snapshot (observed (br_engine b)))))"

definition faultcore_metrics_reset :: "Bridge \<Rightarrow> Bridge" where
  "faultcore_metrics_reset b = reset_global_fault_osi_metrics b"

definition faultcore_get_policy_name :: "Bridge \<Rightarrow> bytes option" where
  "faultcore_get_policy_name b =
     (case get_current_policy_name (br_shm b) of
        Some name \<Rightarrow> if 0 \<in> set name then None else Some name
      | None \<Rightarrow> None)"

section \<open>The shape of the engine\<close>

definition engine_shape :: "ChaosEngine \<Rightarrow> bool" where
  "engine_shape e \<longleftrightarrow> length (metrics e) = RUNTIME_STAGE_COUNT \<and> (\<forall>m \<in> set (metrics e). length m = 11)
     \<and> length (latency_histogram (observed e)) = LATENCY_BUCKET_COUNT"

lemma engine_shape_stage [simp]:
  "engine_shape (e\<lparr>e_r1 := a\<rparr>) = engine_shape e" "engine_shape (e\<lparr>e_r2 := b\<rparr>) = engine_shape e"
  "engine_shape (e\<lparr>e_r3 := c\<rparr>) = engine_shape e" "engine_shape (e\<lparr>e_r4 := d\<rparr>) = engine_shape e"
  "engine_shape (e\<lparr>e_r5 := f\<rparr>) = engine_shape e" "engine_shape (e\<lparr>e_r6 := g\<rparr>) = engine_shape e"
  by (simp_all add: engine_shape_def)

lemma stage_index_less: "stage_index st < 9"
  by (cases st) simp_all

lemma shape_update:
  "length ms = 9 \<Longrightarrow> \<forall>m \<in> set ms. length m = 11 \<Longrightarrow>
   \<forall>m \<in> set (ms[stage_index st := bump_counter ty (ms ! stage_index st)]). length m = 11"
  using stage_index_less [of st] by (auto simp: bump_counter_def set_update_memI dest: set_update_subset_insert [THEN subsetD])

lemma engine_shape_count:
  "engine_shape e \<Longrightarrow> engine_shape (count_decision st d e)"
  "engine_shape e \<Longrightarrow> engine_shape (count_skipped st e)"
  using shape_update
  by (auto simp: engine_shape_def count_decision_def count_skipped_def record_decision_def record_skipped_def
      RUNTIME_STAGE_COUNT_def)

lemma engine_shape_observe: "engine_shape e \<Longrightarrow> engine_shape (observe d e)"
  by (cases d) (simp_all add: engine_shape_def observe_def record_fault_decision_def record_delay_ns_def Let_def)

lemma engine_shape_layer: "engine_shape e \<Longrightarrow> engine_shape (snd (layer_process clk st ctx e))"
  by (cases st) (simp_all add: Let_def case_prod_beta)

lemma engine_shape_pipeline: "engine_shape e \<Longrightarrow> engine_shape (snd (process_pipeline clk ctx e))"
  by (rule process_pipeline_preserves) (simp_all add: engine_shape_layer engine_shape_count)

lemmas engine_shape_intros = engine_shape_count engine_shape_observe engine_shape_pipeline

lemma engine_shape_resolve: "engine_shape e \<Longrightarrow> engine_shape (record_config_resolve e)"
  by (simp add: record_config_resolve_def engine_shape_count)

lemma engine_shape_step: "engine_shape e \<Longrightarrow> engine_shape (snd (engine_step f ev e))"
proof (cases ev)
  case (EvStreamPost c dir)
  then show "engine_shape e \<Longrightarrow> ?thesis"
    by (cases dir) (simp_all add: evaluate_stream_post_def Let_def case_prod_beta engine_shape_intros)
qed (simp_all add: evaluate_connect_def evaluate_stream_pre_def evaluate_r7_with_buffer_def Let_def case_prod_beta
    engine_shape_intros engine_shape_resolve record_stream_bytes_def clear_fd_state_def)

lemma engine_shape_run: "engine_shape e \<Longrightarrow> engine_shape (snd (run_steps engine_step evs e))"
  by (induction evs arbitrary: e) (auto simp: Let_def case_prod_beta engine_shape_step)

lemma engine_shape_new: "engine_shape (ChaosEngine_new std_rng env threads now)"
  by (simp add: engine_shape_def ChaosEngine_new_def RUNTIME_STAGE_COUNT_def LayerMetrics_new_def AdvancedMetrics_new_def)

section \<open>The snapshot\<close>

lemma fill_layers_complete:
  "idx + length raw \<le> length layers \<Longrightarrow>
   fill_layers idx raw layers = Some (take idx layers @ map (case_prod layer_snapshot) raw @ drop (idx + length raw) layers)"
proof (induction raw arbitrary: idx layers)
  case (Cons x raw)
  obtain st c where x: "x = (st, c)" by (cases x)
  have "idx < length layers" using Cons.prems by simp
  then show ?case using Cons.prems Cons.IH [of "Suc idx" "layers[idx := layer_snapshot st c]"]
    by (simp add: x take_Suc_conv_app_nth)
qed simp

lemma snapshot_eq:
  "global_fault_osi_metrics_snapshot b =
     Some \<lparr>ms_len = 9, ms_layers = map (case_prod layer_snapshot) (metrics_snapshot (br_engine b)),
           ms_reload_applied_count = reload_applied_total (br_reload b),
           ms_reload_retry_count = reload_retry_total (br_reload b)\<rparr>"
  using fill_layers_complete [of 0 "metrics_snapshot (br_engine b)" "ms_layers FaultOsiMetricsSnapshot_default"]
  by (simp add: global_fault_osi_metrics_snapshot_def metrics_snapshot_def FaultOsiMetricsSnapshot_default_def
      RUNTIME_STAGE_COUNT_def runtime_reload_metrics_snapshot_def Let_def)



end
