(* ===== verification/Interceptor_Runtime.thy ===== *)
theory Interceptor_Runtime
  imports Layer_Types "HOL-Library.Multiset"
begin

text \<open>
  The interceptor's runtime (\<open>runtime.rs\<close>): staged datagrams, the per-descriptor reorder queues,
  the non-blocking delay table, the mutation totals, and the tables that turn engine decisions
  into what a hooked call does.

  Conventions. An \<open>Instant\<close> is a reading of the monotonic clock in nanoseconds. A buffer pointer
  with its length is a \<open>bytes option\<close>, \<^const>\<open>None\<close> for a null pointer; writing through it returns
  the new contents. The \<open>errno\<close> and \<open>EAI_*\<close> codes of libc are the constructors of two datatypes:
  the code only passes them on. The queue operations are locked per descriptor; the last section
  models the two-step cleanup of \<open>with_reorder_pending\<close> at the granularity of its locks.
\<close>

section \<open>Data\<close>

record PendingDatagram =
  dg_data :: bytes
  dg_flags :: int
  dg_addr :: bytes
  dg_addr_len :: u32
  staged_at :: nat

type_synonym queue = "PendingDatagram list"

definition PendingDatagram_new :: "nat \<Rightarrow> bytes \<Rightarrow> int \<Rightarrow> bytes \<Rightarrow> u32 \<Rightarrow> PendingDatagram" where
  "PendingDatagram_new now data flags adr adr_len =
     \<lparr>dg_data = data, dg_flags = flags, dg_addr = adr, dg_addr_len = adr_len, staged_at = now\<rparr>"

record InterceptorRuntime =
  latency_start_by_fd :: "fd \<rightharpoonup> nat"
  reorder_pending_by_fd :: "fd \<rightharpoonup> queue"
  reorder_pending_recv_by_fd :: "fd \<rightharpoonup> queue"
  mutation_attempt_total :: u64
  mutation_applied_total :: u64
  mutation_skipped_total :: u64
  mutation_error_total :: u64
  mutation_bytes_in_total :: u64
  mutation_bytes_out_total :: u64

definition InterceptorRuntime_new :: InterceptorRuntime where
  "InterceptorRuntime_new =
     \<lparr>latency_start_by_fd = Map.empty, reorder_pending_by_fd = Map.empty,
      reorder_pending_recv_by_fd = Map.empty, mutation_attempt_total = 0,
      mutation_applied_total = 0, mutation_skipped_total = 0, mutation_error_total = 0,
      mutation_bytes_in_total = 0, mutation_bytes_out_total = 0\<rparr>"

datatype errno = EAGAIN | ECONNREFUSED | ECONNRESET | EIO | ENETUNREACH | ETIMEDOUT

datatype eai = EAI_AGAIN | EAI_FAIL | EAI_NONAME

datatype ConnectDirective =
  CD_Continue
| CD_SleepNs u64
| CD_ReturnErrno errno int

datatype StreamDirective =
  SD_Continue
| SD_SleepNs u64
| SD_ReturnValue int
| SD_ReturnErrno errno int

section \<open>Staging and unstaging datagrams\<close>

definition stage_reorder_send ::
  "nat \<Rightarrow> queue \<Rightarrow> bytes option \<Rightarrow> nat \<Rightarrow> int \<Rightarrow> int option \<times> queue" where
  "stage_reorder_send now pending b l flags =
     (case b of
        None \<Rightarrow> (None, pending)
      | Some buf \<Rightarrow>
          if l = 0 then (None, pending)
          else (Some (int l), pending @ [PendingDatagram_new now (take l buf) flags [] 0]))"

definition stage_reorder_sendto ::
  "nat \<Rightarrow> queue \<Rightarrow> bytes option \<Rightarrow> nat \<Rightarrow> int \<Rightarrow> bytes option \<Rightarrow> u32 \<Rightarrow> int option \<times> queue" where
  "stage_reorder_sendto now pending b l flags adr adr_len =
     (case b of
        None \<Rightarrow> (None, pending)
      | Some buf \<Rightarrow>
          if l = 0 then (None, pending)
          else
            let adr_bytes = (case adr of
                  Some a \<Rightarrow> if adr_len > 0 then take (unat adr_len) a else []
                | None \<Rightarrow> [])
            in (Some (int l), pending @ [PendingDatagram_new now (take l buf) flags adr_bytes adr_len]))"

text \<open>\<open>copy_nonoverlapping\<close> of the first bytes of \<open>src\<close> over \<open>dst\<close>.\<close>

definition copy_over :: "bytes \<Rightarrow> nat \<Rightarrow> bytes \<Rightarrow> bytes" where
  "copy_over src n dst = take n src @ drop n dst"

definition write_pending_recv_result ::
  "PendingDatagram \<Rightarrow> bytes option \<Rightarrow> nat \<Rightarrow> int \<times> bytes option" where
  "write_pending_recv_result pkt b l =
     (case b of
        None \<Rightarrow> (0, None)
      | Some buf \<Rightarrow>
          if l = 0 then (0, Some buf)
          else let to_copy = min l (length (dg_data pkt))
               in (int to_copy, Some (copy_over (dg_data pkt) to_copy buf)))"

definition write_pending_recvfrom_result ::
  "PendingDatagram \<Rightarrow> bytes option \<Rightarrow> nat \<Rightarrow> bytes option \<Rightarrow> u32 option
     \<Rightarrow> int \<times> bytes option \<times> bytes option \<times> u32 option" where
  "write_pending_recvfrom_result pkt b l adr adr_len =
     (case b of
        None \<Rightarrow> (0, None, adr, adr_len)
      | Some buf \<Rightarrow>
          if l = 0 then (0, Some buf, adr, adr_len)
          else
            let to_copy = min l (length (dg_data pkt));
                (adr', adr_len') =
                  (case (adr, adr_len) of
                     (Some a, Some cap) \<Rightarrow>
                       let available = min (length (dg_addr pkt)) (unat (dg_addr_len pkt));
                           copy_addr = min (unat cap) available
                       in (Some (if copy_addr > 0 then copy_over (dg_addr pkt) copy_addr a else a),
                           Some (dg_addr_len pkt))
                   | _ \<Rightarrow> (adr, adr_len))
            in (int to_copy, Some (copy_over (dg_data pkt) to_copy buf), adr', adr_len'))"

definition snapshot_recv_datagram ::
  "nat \<Rightarrow> bytes option \<Rightarrow> int \<Rightarrow> int \<Rightarrow> PendingDatagram option" where
  "snapshot_recv_datagram now b recv_len flags =
     (case b of
        None \<Rightarrow> None
      | Some buf \<Rightarrow>
          if recv_len \<le> 0 then None
          else Some (PendingDatagram_new now (take (nat recv_len) buf) flags [] 0))"

definition snapshot_recvfrom_datagram ::
  "nat \<Rightarrow> bytes option \<Rightarrow> int \<Rightarrow> int \<Rightarrow> bytes option \<Rightarrow> u32 option \<Rightarrow> PendingDatagram option" where
  "snapshot_recvfrom_datagram now b recv_len flags adr adr_len =
     (case b of
        None \<Rightarrow> None
      | Some buf \<Rightarrow>
          if recv_len \<le> 0 then None
          else
            let (adr_bytes, len_u32) =
                  (case (adr, adr_len) of
                     (Some a, Some n) \<Rightarrow> if n = 0 then ([], 0) else (take (unat n) a, n)
                   | _ \<Rightarrow> ([], 0))
            in Some (PendingDatagram_new now (take (nat recv_len) buf) flags adr_bytes len_u32))"

section \<open>Directives\<close>

text \<open>Applying a directive: the early return, if any, with the sleep and the \<open>errno\<close> it sets.\<close>

definition apply_connect_directive :: "ConnectDirective \<Rightarrow> int option \<times> u64 \<times> errno option" where
  "apply_connect_directive d =
     (case d of
        CD_Continue \<Rightarrow> (None, 0, None)
      | CD_SleepNs ns \<Rightarrow> (None, ns, None)
      | CD_ReturnErrno e ret \<Rightarrow> (Some ret, 0, Some e))"

definition apply_stream_directive :: "StreamDirective \<Rightarrow> int option \<times> u64 \<times> errno option" where
  "apply_stream_directive d =
     (case d of
        SD_Continue \<Rightarrow> (None, 0, None)
      | SD_SleepNs ns \<Rightarrow> (None, ns, None)
      | SD_ReturnValue v \<Rightarrow> (Some v, 0, None)
      | SD_ReturnErrno e ret \<Rightarrow> (Some ret, 0, Some e))"

definition err_kind_to_errno :: "u64 \<Rightarrow> errno" where
  "err_kind_to_errno kind =
     (if kind = 1 then ECONNRESET else if kind = 2 then ECONNREFUSED
      else if kind = 3 then ENETUNREACH else EIO)"

fun map_connect_decision :: "LayerDecision \<Rightarrow> ConnectDirective" where
  "map_connect_decision Continue = CD_Continue"
| "map_connect_decision Drop = CD_ReturnErrno ECONNREFUSED (- 1)"
| "map_connect_decision (DelayNs ns) = CD_SleepNs ns"
| "map_connect_decision (TimeoutMs _) = CD_ReturnErrno ETIMEDOUT (- 1)"
| "map_connect_decision (Error _) = CD_ReturnErrno EIO (- 1)"
| "map_connect_decision (ConnectionErrorKind kind) = CD_ReturnErrno (err_kind_to_errno kind) (- 1)"
| "map_connect_decision StageReorder = CD_ReturnErrno EIO (- 1)"
| "map_connect_decision (Duplicate _) = CD_ReturnErrno EIO (- 1)"
| "map_connect_decision NxDomain = CD_ReturnErrno EIO (- 1)"
| "map_connect_decision (Mutate _) = CD_ReturnErrno EIO (- 1)"

fun map_dns_decision_to_eai :: "LayerDecision \<Rightarrow> eai option" where
  "map_dns_decision_to_eai Continue = None"
| "map_dns_decision_to_eai (DelayNs _) = None"
| "map_dns_decision_to_eai (TimeoutMs _) = Some EAI_AGAIN"
| "map_dns_decision_to_eai NxDomain = Some EAI_NONAME"
| "map_dns_decision_to_eai _ = Some EAI_FAIL"

section \<open>Operations on the runtime\<close>

definition record_mutation_outcome :: "MutationOutcome \<Rightarrow> InterceptorRuntime \<Rightarrow> InterceptorRuntime" where
  "record_mutation_outcome out rt =
     rt\<lparr>mutation_attempt_total := mutation_attempt_total rt + 1,
        mutation_applied_total := mutation_applied_total rt + (if applied out then 1 else 0),
        mutation_skipped_total := mutation_skipped_total rt + (if applied out then 0 else 1),
        mutation_error_total := mutation_error_total rt + error_count out,
        mutation_bytes_in_total := mutation_bytes_in_total rt + of_nat (input_len out),
        mutation_bytes_out_total := mutation_bytes_out_total rt + of_nat (output_len out)\<rparr>"

definition runtime_clear_fd_state :: "fd \<Rightarrow> InterceptorRuntime \<Rightarrow> InterceptorRuntime" where
  "runtime_clear_fd_state f rt =
     rt\<lparr>latency_start_by_fd := (latency_start_by_fd rt)(f := None),
        reorder_pending_by_fd := (reorder_pending_by_fd rt)(f := None),
        reorder_pending_recv_by_fd := (reorder_pending_recv_by_fd rt)(f := None)\<rparr>"

definition nonblocking_delay_pending ::
  "nat \<Rightarrow> fd \<Rightarrow> u64 \<Rightarrow> InterceptorRuntime \<Rightarrow> bool \<times> InterceptorRuntime" where
  "nonblocking_delay_pending now f ns rt =
     (if ns = 0 then (False, rt)
      else case latency_start_by_fd rt f of
        Some start \<Rightarrow>
          if now - start \<ge> unat ns
          then (False, rt\<lparr>latency_start_by_fd := (latency_start_by_fd rt)(f := None)\<rparr>)
          else (True, rt)
      | None \<Rightarrow> (True, rt\<lparr>latency_start_by_fd := (latency_start_by_fd rt)(f \<mapsto> now)\<rparr>))"

definition map_stream_decision ::
  "nat \<Rightarrow> fd \<Rightarrow> LayerDecision \<Rightarrow> bool \<Rightarrow> InterceptorRuntime \<Rightarrow> StreamDirective \<times> InterceptorRuntime" where
  "map_stream_decision now f d non_blocking rt =
     (case d of
        Continue \<Rightarrow> (SD_Continue, rt)
      | StageReorder \<Rightarrow> (SD_Continue, rt)
      | Duplicate _ \<Rightarrow> (SD_Continue, rt)
      | Mutate _ \<Rightarrow> (SD_Continue, rt)
      | Drop \<Rightarrow> (SD_ReturnErrno EIO (- 1), rt)
      | DelayNs ns \<Rightarrow>
          if non_blocking then
            let (wait, rt') = nonblocking_delay_pending now f ns rt
            in (if wait then SD_ReturnErrno EAGAIN (- 1) else SD_SleepNs ns, rt')
          else (SD_SleepNs ns, rt)
      | TimeoutMs _ \<Rightarrow> (SD_ReturnErrno ETIMEDOUT (- 1), rt)
      | Error _ \<Rightarrow> (SD_ReturnErrno EIO (- 1), rt)
      | ConnectionErrorKind kind \<Rightarrow> (SD_ReturnErrno (err_kind_to_errno kind) (- 1), rt)
      | NxDomain \<Rightarrow> (SD_ReturnErrno EIO (- 1), rt))"

text \<open>The locked access to a queue: the entry is created on demand and removed when the
  operation leaves it empty.\<close>

definition with_queue :: "fd \<Rightarrow> (queue \<Rightarrow> 'r \<times> queue) \<Rightarrow> (fd \<rightharpoonup> queue) \<Rightarrow> 'r \<times> (fd \<rightharpoonup> queue)" where
  "with_queue f act m =
     (let (out, q) = act (case m f of Some q \<Rightarrow> q | None \<Rightarrow> [])
      in (out, m(f := if q = [] then None else Some q)))"

definition with_reorder_pending ::
  "fd \<Rightarrow> (queue \<Rightarrow> 'r \<times> queue) \<Rightarrow> InterceptorRuntime \<Rightarrow> 'r \<times> InterceptorRuntime" where
  "with_reorder_pending f act rt =
     (let (out, m) = with_queue f act (reorder_pending_by_fd rt) in (out, rt\<lparr>reorder_pending_by_fd := m\<rparr>))"

definition with_reorder_pending_recv ::
  "fd \<Rightarrow> (queue \<Rightarrow> 'r \<times> queue) \<Rightarrow> InterceptorRuntime \<Rightarrow> 'r \<times> InterceptorRuntime" where
  "with_reorder_pending_recv f act rt =
     (let (out, m) = with_queue f act (reorder_pending_recv_by_fd rt)
      in (out, rt\<lparr>reorder_pending_recv_by_fd := m\<rparr>))"

definition take_reorder_pending :: "fd \<Rightarrow> InterceptorRuntime \<Rightarrow> queue \<times> InterceptorRuntime" where
  "take_reorder_pending f rt = with_reorder_pending f (\<lambda>q. (q, [])) rt"

definition put_reorder_pending :: "fd \<Rightarrow> queue \<Rightarrow> InterceptorRuntime \<Rightarrow> InterceptorRuntime" where
  "put_reorder_pending f pending rt =
     (if pending = [] then rt else snd (with_reorder_pending f (\<lambda>q. ((), q @ pending)) rt))"

definition take_reorder_pending_recv :: "fd \<Rightarrow> InterceptorRuntime \<Rightarrow> queue \<times> InterceptorRuntime" where
  "take_reorder_pending_recv f rt = with_reorder_pending_recv f (\<lambda>q. (q, [])) rt"

definition put_reorder_pending_recv :: "fd \<Rightarrow> queue \<Rightarrow> InterceptorRuntime \<Rightarrow> InterceptorRuntime" where
  "put_reorder_pending_recv f pending rt =
     (if pending = [] then rt else snd (with_reorder_pending_recv f (\<lambda>q. ((), q @ pending)) rt))"

text \<open>Each test of the loop reads the clock again: \<open>clk k\<close> is the \<open>k\<close>-th reading.\<close>

fun flush_loop :: "(nat \<Rightarrow> nat) \<Rightarrow> nat \<Rightarrow> u64 \<Rightarrow> queue \<Rightarrow> queue \<times> queue" where
  "flush_loop clk k max_delay [] = ([], [])"
| "flush_loop clk k max_delay (pkt # pending) =
     (if clk k - staged_at pkt \<ge> unat max_delay then
        let (flushed, rest) = flush_loop clk (Suc k) max_delay pending in (pkt # flushed, rest)
      else ([], pkt # pending))"

definition flush_expired_reorder :: "(nat \<Rightarrow> nat) \<Rightarrow> queue \<Rightarrow> u64 \<Rightarrow> queue \<times> queue" where
  "flush_expired_reorder clk pending max_delay =
     (if max_delay = 0 then ([], pending) else flush_loop clk 0 max_delay pending)"

fun window_loop :: "nat \<Rightarrow> queue \<Rightarrow> queue \<times> queue" where
  "window_loop limit [] = ([], [])"
| "window_loop limit (pkt # pending) =
     (if length (pkt # pending) > limit then
        let (flushed, rest) = window_loop limit pending in (pkt # flushed, rest)
      else ([], pkt # pending))"

definition enforce_reorder_window :: "queue \<Rightarrow> nat \<Rightarrow> queue \<times> queue" where
  "enforce_reorder_window pending window = window_loop (max window 1) pending"

definition pop_reorder_after_success :: "queue \<Rightarrow> bool \<Rightarrow> PendingDatagram option \<times> queue" where
  "pop_reorder_after_success pending staged =
     (if staged then (None, pending)
      else case pending of [] \<Rightarrow> (None, []) | pkt # rest \<Rightarrow> (Some pkt, rest))"


section \<open>Queues are first-in first-out\<close>

text \<open>The contract of an operation on a queue: it takes datagrams from the front in order and
  appends what it stages at the back.\<close>

locale fifo_step =
  fixes step :: "'ev \<Rightarrow> 'a list \<Rightarrow> 'a list \<times> 'a list"
    and pushed :: "'ev \<Rightarrow> 'a list"
  assumes step_conserves: "fst (step ev q) @ snd (step ev q) = q @ pushed ev"
begin

primrec run :: "'ev list \<Rightarrow> 'a list \<Rightarrow> 'a list \<times> 'a list" where
  "run [] q = ([], q)"
| "run (ev # evs) q = (let (out, q1) = step ev q; (outs, q2) = run evs q1 in (out @ outs, q2))"

lemma run_conserves: "fst (run evs q) @ snd (run evs q) = q @ concat (map pushed evs)"
proof (induction evs arbitrary: q)
  case (Cons ev evs)
  have "fst (run (ev # evs) q) @ snd (run (ev # evs) q) =
      fst (step ev q) @ fst (run evs (snd (step ev q))) @ snd (run evs (snd (step ev q)))"
    by (simp add: Let_def case_prod_beta)
  also have "\<dots> = (fst (step ev q) @ snd (step ev q)) @ concat (map pushed evs)"
    by (simp add: Cons.IH)
  finally show ?case by (simp add: step_conserves)
qed simp

end

datatype queue_event =
  QStage PendingDatagram
| QFlush "nat \<Rightarrow> nat" u64
| QWindow nat
| QPop bool

fun queue_step :: "queue_event \<Rightarrow> queue \<Rightarrow> queue \<times> queue" where
  "queue_step (QStage pkt) q = ([], q @ [pkt])"
| "queue_step (QFlush clk max_delay) q = flush_expired_reorder clk q max_delay"
| "queue_step (QWindow window) q = enforce_reorder_window q window"
| "queue_step (QPop staged) q =
     (let (pkt, rest) = pop_reorder_after_success q staged in (case pkt of None \<Rightarrow> [] | Some p \<Rightarrow> [p], rest))"

fun queue_pushed :: "queue_event \<Rightarrow> queue" where
  "queue_pushed (QStage pkt) = [pkt]"
| "queue_pushed _ = []"

lemma flush_loop_split: "fst (flush_loop clk k d q) @ snd (flush_loop clk k d q) = q"
  by (induction q arbitrary: k) (simp_all add: Let_def case_prod_beta)

lemma window_loop_split: "fst (window_loop n q) @ snd (window_loop n q) = q"
  by (induction q) (simp_all add: Let_def case_prod_beta)

lemma window_loop_length: "length (snd (window_loop n q)) = min n (length q)"
  by (induction q) (auto simp: Let_def case_prod_beta)

lemma queue_step_conserves: "fst (queue_step ev q) @ snd (queue_step ev q) = q @ queue_pushed ev"
  by (cases ev) (simp_all add: flush_expired_reorder_def flush_loop_split enforce_reorder_window_def
      window_loop_split pop_reorder_after_success_def Let_def split: list.split)

interpretation reorder: fifo_step queue_step queue_pushed
  by unfold_locales (rule queue_step_conserves)

lemma reorder_run_snoc:
  "reorder.run (evs @ [ev]) q =
     (fst (reorder.run evs q) @ fst (queue_step ev (snd (reorder.run evs q))),
      snd (queue_step ev (snd (reorder.run evs q))))"
  by (induction evs arbitrary: q) (simp_all add: Let_def case_prod_beta)

text \<open>Reordering loses and duplicates nothing: whatever interleaving of staging, expiry
  flushes, window enforcement and pops runs on a queue, the datagrams sent followed by those still
  staged are the initial ones followed by the staged ones, in order. After the window is enforced
  at most \<open>max window 1\<close> datagrams stay staged.\<close>

lemma reorder_queue_conserves:
  "fst (reorder.run evs q) @ snd (reorder.run evs q) = q @ concat (map queue_pushed evs)
   \<and> length (snd (reorder.run (evs @ [QWindow window]) q)) \<le> max window 1"
  using reorder.run_conserves
  by (simp add: reorder_run_snoc enforce_reorder_window_def window_loop_length)

section \<open>Delays on non-blocking descriptors\<close>

text \<open>The directives a caller gets that retries a delayed operation at the times \<open>ts\<close>.\<close>

fun poll_run :: "fd \<Rightarrow> u64 \<Rightarrow> nat list \<Rightarrow> InterceptorRuntime \<Rightarrow> StreamDirective list \<times> InterceptorRuntime" where
  "poll_run f ns [] rt = ([], rt)"
| "poll_run f ns (t # ts) rt =
     (let (b, rt1) = map_stream_decision t f (DelayNs ns) True rt; (bs, rt2) = poll_run f ns ts rt1 in (b # bs, rt2))"

lemma poll_run_append:
  "poll_run f ns (xs @ ys) rt =
     (let (as, rt1) = poll_run f ns xs rt; (bs, rt2) = poll_run f ns ys rt1 in (as @ bs, rt2))"
  by (induction xs arbitrary: rt) (simp_all add: Let_def case_prod_beta)

lemma poll_run_waiting:
  assumes "0 < ns" "latency_start_by_fd rt f = Some t0" "\<forall>t \<in> set ts. t - t0 < unat ns"
  shows "poll_run f ns ts rt = (replicate (length ts) (SD_ReturnErrno EAGAIN (- 1)), rt)"
  using assms by (induction ts) (simp_all add: map_stream_decision_def nonblocking_delay_pending_def not_le)

text \<open>C36. A delay on a non-blocking descriptor ends: the first attempt starts the clock, every retry
  before the latency has elapsed fails with \<open>EAGAIN\<close>, the first retry at or after it goes through, and
  the descriptor is left without a pending delay, so the next operation starts afresh. The retry that
  goes through is told to sleep for the latency once more, inside the call: a caller that retries
  as soon as it can waits twice the configured delay.\<close>

theorem nonblocking_delay_served:
  assumes "0 < ns" "latency_start_by_fd rt f = None"
    and "\<forall>t \<in> set ts. t < t0 + unat ns" "t0 + unat ns \<le> t1"
  shows "poll_run f ns (t0 # ts @ [t1]) rt =
    (replicate (Suc (length ts)) (SD_ReturnErrno EAGAIN (- 1)) @ [SD_SleepNs ns], rt)"
proof -
  let ?rt = "rt\<lparr>latency_start_by_fd := (latency_start_by_fd rt)(f \<mapsto> t0)\<rparr>"
  have start: "nonblocking_delay_pending t0 f ns rt = (True, ?rt)"
    using assms(1,2) by (simp add: nonblocking_delay_pending_def)
  have "\<forall>t \<in> set ts. t - t0 < unat ns"
  proof
    fix t assume "t \<in> set ts"
    with assms(3) have "t < t0 + unat ns" by blast
    moreover have "0 < unat ns" using assms(1) by (simp add: unat_gt_0)
    ultimately show "t - t0 < unat ns" by linarith
  qed
  then have wait: "poll_run f ns ts ?rt = (replicate (length ts) (SD_ReturnErrno EAGAIN (- 1)), ?rt)"
    using assms(1) by (intro poll_run_waiting) simp_all
  have "nonblocking_delay_pending t1 f ns ?rt = (False, rt)"
    using assms(1,2,4) by (auto simp: nonblocking_delay_pending_def fun_upd_idem)
  with start wait show ?thesis by (simp add: poll_run_append map_stream_decision_def)
qed

theorem nonblocking_delay_served_witness:
  "fst (poll_run 5 100 [1000, 1050, 1099, 1100] InterceptorRuntime_new) =
     [SD_ReturnErrno EAGAIN (- 1), SD_ReturnErrno EAGAIN (- 1), SD_ReturnErrno EAGAIN (- 1), SD_SleepNs 100]"
  using nonblocking_delay_served [of 100 InterceptorRuntime_new 5 "[1050, 1099]" 1000 1100]
  by (simp add: InterceptorRuntime_new_def del: poll_run.simps)

section \<open>Staged datagrams come back intact\<close>

text \<open>A received datagram survives staging: after \<open>recvfrom\<close> has filled \<open>n\<close> bytes of the
  caller's buffer and the source address, the snapshot written back later, into a buffer of the same
  size that has other contents by then, restores the \<open>n\<close> payload bytes, the address bytes and the
  address length, touches no byte behind them, and reports \<open>n\<close>.\<close>

lemma staged_datagram_restored:
  assumes "0 < n" "n \<le> l" "length buf = l" "unat alen \<le> length adr" "length adr' = length adr" "alen \<noteq> 0"
    and "snapshot_recvfrom_datagram now (Some buf) (int n) flags (Some adr) (Some alen) = Some pkt"
    and "unat alen \<le> unat cap"
  shows "write_pending_recvfrom_result pkt (Some buf') l (Some adr') (Some cap) =
     (int n, Some (take n buf @ drop n buf'),
      Some (take (unat alen) adr @ drop (unat alen) adr'), Some alen)"
proof -
  from assms(1,6,7) have pkt: "pkt = PendingDatagram_new now (take n buf) flags (take (unat alen) adr) alen"
    by (simp add: snapshot_recvfrom_datagram_def)
  have "0 < unat alen" using assms(6) by (simp add: unat_gt_0)
  with assms(1-6,8) show ?thesis
    by (simp add: pkt PendingDatagram_new_def write_pending_recvfrom_result_def copy_over_def Let_def)
qed

section \<open>The cleanup race\<close>

text \<open>
  \<open>with_reorder_pending\<close> takes three steps of its own: it looks the queue up (or allocates it)
  under the map lock, runs the operation under the queue lock, and, when the operation left the
  queue empty, removes the entry under the map lock again if it is still the same queue. Between
  the last two steps no lock is held. Queues live in a heap; \<open>qr_pc\<close> is what each thread holds.
\<close>

datatype queue_pc = QIdle | QGot nat | QRan nat bool

record queue_race =
  qr_map :: "fd \<rightharpoonup> nat"
  qr_heap :: "nat \<rightharpoonup> queue"
  qr_pc :: "nat \<Rightarrow> queue_pc"

definition queue_race_init :: queue_race where
  "queue_race_init = \<lparr>qr_map = Map.empty, qr_heap = Map.empty, qr_pc = (\<lambda>_. QIdle)\<rparr>"

inductive queue_race_step :: "fd \<Rightarrow> queue_race \<Rightarrow> queue_race \<Rightarrow> bool" for f :: fd where
  lookup_existing:
    "qr_pc s t = QIdle \<Longrightarrow> qr_map s f = Some a \<Longrightarrow>
       queue_race_step f s (s\<lparr>qr_pc := (qr_pc s)(t := QGot a)\<rparr>)"
| lookup_new:
    "qr_pc s t = QIdle \<Longrightarrow> qr_map s f = None \<Longrightarrow> qr_heap s a = None \<Longrightarrow>
       queue_race_step f s (s\<lparr>qr_map := (qr_map s)(f \<mapsto> a), qr_heap := (qr_heap s)(a \<mapsto> []),
                              qr_pc := (qr_pc s)(t := QGot a)\<rparr>)"
| operate:
    "qr_pc s t = QGot a \<Longrightarrow> qr_heap s a = Some q \<Longrightarrow> q' = snd (queue_step ev q) \<Longrightarrow>
       queue_race_step f s (s\<lparr>qr_heap := (qr_heap s)(a \<mapsto> q'), qr_pc := (qr_pc s)(t := QRan a (q' = []))\<rparr>)"
| keep:
    "qr_pc s t = QRan a False \<Longrightarrow> queue_race_step f s (s\<lparr>qr_pc := (qr_pc s)(t := QIdle)\<rparr>)"
| cleanup:
    "qr_pc s t = QRan a True \<Longrightarrow>
       queue_race_step f s (s\<lparr>qr_map := (if qr_map s f = Some a then (qr_map s)(f := None) else qr_map s),
                              qr_pc := (qr_pc s)(t := QIdle)\<rparr>)"

text \<open>A datagram is stranded when it sits in a queue no entry refers to and no thread holds.\<close>

definition stranded :: "PendingDatagram \<Rightarrow> queue_race \<Rightarrow> bool" where
  "stranded pkt s \<longleftrightarrow> (\<forall>t. qr_pc s t = QIdle) \<and>
     (\<exists>a q. qr_heap s a = Some q \<and> pkt \<in> set q \<and> a \<notin> ran (qr_map s))"

text \<open>The cleanup of a reorder queue can strand a datagram. When one thread empties the queue
  and, before it removes the entry, another thread that had already looked the queue up stages a
  datagram, the entry is removed all the same: all calls have returned and the staged datagram is in
  a queue that no later call can reach, so it is never sent. This holds for every descriptor and
  every datagram.\<close>

lemma cleanup_strands_datagram:
  "\<exists>s. (queue_race_step f)\<^sup>*\<^sup>* queue_race_init s \<and> stranded pkt s"
proof -
  let ?s1 = "queue_race_init\<lparr>qr_map := (qr_map queue_race_init)(f \<mapsto> 0), qr_heap := (qr_heap queue_race_init)(0 \<mapsto> []),
     qr_pc := (qr_pc queue_race_init)(0 := QGot 0)\<rparr>"
  let ?s2 = "?s1\<lparr>qr_pc := (qr_pc ?s1)(1 := QGot 0)\<rparr>"
  let ?s3 = "?s2\<lparr>qr_heap := (qr_heap ?s2)(0 \<mapsto> []), qr_pc := (qr_pc ?s2)(0 := QRan 0 ([] = ([] :: queue)))\<rparr>"
  let ?s4 = "?s3\<lparr>qr_heap := (qr_heap ?s3)(0 \<mapsto> [pkt]), qr_pc := (qr_pc ?s3)(1 := QRan 0 ([pkt] = []))\<rparr>"
  let ?s5 = "?s4\<lparr>qr_map := (if qr_map ?s4 f = Some 0 then (qr_map ?s4)(f := None) else qr_map ?s4),
     qr_pc := (qr_pc ?s4)(0 := QIdle)\<rparr>"
  let ?s6 = "?s5\<lparr>qr_pc := (qr_pc ?s5)(1 := QIdle)\<rparr>"
  have 1: "queue_race_step f queue_race_init ?s1"
    by (rule lookup_new) (simp_all add: queue_race_init_def)
  have 2: "queue_race_step f ?s1 ?s2"
    by (rule lookup_existing) (simp_all add: queue_race_init_def)
  have 3: "queue_race_step f ?s2 ?s3"
    by (rule operate [where q = "[]" and ev = "QPop False"])
       (simp_all add: queue_race_init_def pop_reorder_after_success_def)
  have 4: "queue_race_step f ?s3 ?s4"
    by (rule operate [where q = "[]" and ev = "QStage pkt"]) (simp_all add: queue_race_init_def)
  have 5: "queue_race_step f ?s4 ?s5"
    by (rule cleanup) (simp add: queue_race_init_def)
  have 6: "queue_race_step f ?s5 ?s6"
    by (rule keep [where a = 0]) (simp add: queue_race_init_def)
  have "(queue_race_step f)\<^sup>*\<^sup>* queue_race_init ?s6"
    using 1 2 3 4 5 6 by (meson rtranclp.rtrancl_into_rtrancl rtranclp.rtrancl_refl)
  moreover have "stranded pkt ?s6"
    by (auto simp: stranded_def queue_race_init_def ran_def intro!: exI [of _ "0 :: nat"])
  ultimately show ?thesis by blast
qed

end
