(* ===== verification/Record_Replay.thy ===== *)
theory Record_Replay
  imports Layer_Types
begin

text \<open>
  Recording and replaying decisions (\<open>record_replay.rs\<close>).

  The evaluation a call site passes is a state transformer on the rest of the program's state
  \<open>'w\<close>; \<open>get_current_policy_name\<close> is a reading of that state. The file is a list of lines under
  its path; the line type, \<open>serde_json\<close>'s encoder and decoder, and whether a path can be created
  or opened are parameters, since that code is not part of the sources.
\<close>

section \<open>Events\<close>

datatype RecordReplayMode = RR_Off | RR_Record | RR_Replay

record RecordReplayEvent =
  ev_site :: string
  ev_decision :: string
  ev_value :: u64
  ev_policy_name :: "string option"

fun decision_kind :: "LayerDecision \<Rightarrow> string \<times> u64" where
  "decision_kind Continue = (''continue'', 0)"
| "decision_kind Drop = (''drop'', 0)"
| "decision_kind (DelayNs ns) = (''delay_ns'', ns)"
| "decision_kind (TimeoutMs ms) = (''timeout_ms'', ms)"
| "decision_kind (Error _) = (''error'', 0)"
| "decision_kind (ConnectionErrorKind k) = (''connection_error_kind'', k)"
| "decision_kind StageReorder = (''stage_reorder'', 0)"
| "decision_kind (Duplicate extra) = (''duplicate'', extra)"
| "decision_kind NxDomain = (''nxdomain'', 0)"
| "decision_kind (Mutate _) = (''mutate'', 0)"

definition from_decision :: "string \<Rightarrow> LayerDecision \<Rightarrow> RecordReplayEvent" where
  "from_decision site d =
     (let (kind, v) = decision_kind d in
      \<lparr>ev_site = site, ev_decision = kind, ev_value = v, ev_policy_name = None\<rparr>)"

definition with_policy_name :: "string option \<Rightarrow> RecordReplayEvent \<Rightarrow> RecordReplayEvent" where
  "with_policy_name p ev = ev\<lparr>ev_policy_name := p\<rparr>"

definition to_decision :: "RecordReplayEvent \<Rightarrow> LayerDecision option" where
  "to_decision ev =
     (let k = ev_decision ev; v = ev_value ev in
      if k = ''continue'' then Some Continue
      else if k = ''drop'' then Some Drop
      else if k = ''delay_ns'' then Some (DelayNs v)
      else if k = ''timeout_ms'' then Some (TimeoutMs v)
      else if k = ''error'' then Some (Error ''record_replay_error'')
      else if k = ''connection_error_kind'' then Some (ConnectionErrorKind v)
      else if k = ''stage_reorder'' then Some StageReorder
      else if k = ''duplicate'' then Some (Duplicate v)
      else if k = ''nxdomain'' then Some NxDomain
      else if k = ''mutate'' then Some Continue
      else None)"

section \<open>The core\<close>

record RecordReplayCore =
  rr_mode :: RecordReplayMode
  rr_fail_fast :: bool
  rr_replay_events :: "RecordReplayEvent list"

definition RecordReplayCore_new :: "RecordReplayMode \<Rightarrow> RecordReplayEvent list \<Rightarrow> RecordReplayCore" where
  "RecordReplayCore_new mode evs = \<lparr>rr_mode = mode, rr_fail_fast = False, rr_replay_events = evs\<rparr>"

definition fail_fast_decision :: LayerDecision where
  "fail_fast_decision = Error ''record_replay_fail_fast''"

definition core_evaluate_or_replay ::
  "('w \<Rightarrow> string option) \<Rightarrow> string \<Rightarrow> ('w \<Rightarrow> LayerDecision \<times> 'w) \<Rightarrow> RecordReplayCore \<Rightarrow> 'w
     \<Rightarrow> (LayerDecision \<times> RecordReplayEvent option) \<times> RecordReplayCore \<times> 'w" where
  "core_evaluate_or_replay policy_name site evaluate core w =
     (if rr_fail_fast core then ((fail_fast_decision, None), core, w)
      else case rr_mode core of
        RR_Off \<Rightarrow> let (d, w') = evaluate w in ((d, None), core, w')
      | RR_Record \<Rightarrow>
          let (d, w') = evaluate w;
              ev = with_policy_name (policy_name w') (from_decision site d)
          in ((d, Some ev), core, w')
      | RR_Replay \<Rightarrow>
          (case rr_replay_events core of
             [] \<Rightarrow> ((fail_fast_decision, None), core\<lparr>rr_fail_fast := True\<rparr>, w)
           | ev # evs \<Rightarrow>
               let core' = core\<lparr>rr_replay_events := evs\<rparr> in
               if ev_site ev \<noteq> site then ((fail_fast_decision, None), core'\<lparr>rr_fail_fast := True\<rparr>, w)
               else (case to_decision ev of
                       None \<Rightarrow> ((fail_fast_decision, None), core'\<lparr>rr_fail_fast := True\<rparr>, w)
                     | Some d \<Rightarrow> ((d, None), core', w))))"

section \<open>The session and its file\<close>

type_synonym 'l files = "string \<rightharpoonup> 'l list"

record RecordReplaySession =
  rr_core :: RecordReplayCore
  record_path :: "string option"

definition mode_from_env :: "(string \<Rightarrow> string option) \<Rightarrow> (string \<Rightarrow> string) \<Rightarrow> RecordReplayMode" where
  "mode_from_env env to_ascii_lowercase =
     (let m = to_ascii_lowercase (case env ''FAULTCORE_RECORD_REPLAY_MODE'' of Some v \<Rightarrow> v | None \<Rightarrow> [])
      in if m = ''record'' then RR_Record else if m = ''replay'' then RR_Replay else RR_Off)"

definition path_from_env :: "(string \<Rightarrow> string option) \<Rightarrow> string" where
  "path_from_env env =
     (case env ''FAULTCORE_RECORD_REPLAY_PATH'' of
        Some p \<Rightarrow> p
      | None \<Rightarrow> ''/tmp/faultcore_record_replay.jsonl.gz'')"

fun decode_lines :: "('l \<Rightarrow> RecordReplayEvent option) \<Rightarrow> 'l list \<Rightarrow> RecordReplayEvent list" where
  "decode_lines from_json [] = []"
| "decode_lines from_json (l # ls) =
     (case from_json l of Some ev \<Rightarrow> ev # decode_lines from_json ls | None \<Rightarrow> decode_lines from_json ls)"

definition load_replay_events ::
  "('l \<Rightarrow> RecordReplayEvent option) \<Rightarrow> string \<Rightarrow> 'l files \<Rightarrow> RecordReplayEvent list" where
  "load_replay_events from_json path fs =
     (case fs path of None \<Rightarrow> [] | Some ls \<Rightarrow> decode_lines from_json ls)"

definition RecordReplaySession_new ::
  "('l \<Rightarrow> RecordReplayEvent option) \<Rightarrow> (string \<Rightarrow> bool) \<Rightarrow> RecordReplayMode \<Rightarrow> string \<Rightarrow> 'l files
     \<Rightarrow> RecordReplaySession \<times> 'l files" where
  "RecordReplaySession_new from_json creatable mode path fs =
     (case mode of
        RR_Off \<Rightarrow> (\<lparr>rr_core = RecordReplayCore_new mode [], record_path = None\<rparr>, fs)
      | RR_Record \<Rightarrow>
          if creatable path
          then (\<lparr>rr_core = RecordReplayCore_new mode [], record_path = Some path\<rparr>, fs(path \<mapsto> []))
          else (\<lparr>rr_core = RecordReplayCore_new mode [], record_path = None\<rparr>, fs)
      | RR_Replay \<Rightarrow>
          (\<lparr>rr_core = RecordReplayCore_new mode (load_replay_events from_json path fs), record_path = None\<rparr>, fs))"

definition persist_event ::
  "(RecordReplayEvent \<Rightarrow> 'l option) \<Rightarrow> (string \<Rightarrow> bool) \<Rightarrow> RecordReplaySession \<Rightarrow> RecordReplayEvent
     \<Rightarrow> 'l files \<Rightarrow> 'l files" where
  "persist_event to_json creatable ses ev fs =
     (case record_path ses of
        None \<Rightarrow> fs
      | Some path \<Rightarrow>
          (case to_json ev of
             None \<Rightarrow> fs
           | Some line \<Rightarrow>
               if creatable path
               then fs(path \<mapsto> (case fs path of Some ls \<Rightarrow> ls | None \<Rightarrow> []) @ [line])
               else fs))"

definition evaluate_or_replay ::
  "(RecordReplayEvent \<Rightarrow> 'l option) \<Rightarrow> (string \<Rightarrow> bool) \<Rightarrow> ('w \<Rightarrow> string option)
     \<Rightarrow> string \<Rightarrow> ('w \<Rightarrow> LayerDecision \<times> 'w) \<Rightarrow> RecordReplaySession \<times> 'l files \<times> 'w
     \<Rightarrow> LayerDecision \<times> RecordReplaySession \<times> 'l files \<times> 'w" where
  "evaluate_or_replay to_json creatable policy_name site evaluate st =
     (let (ses, fs, w) = st;
          ((d, maybe_event), core, w') = core_evaluate_or_replay policy_name site evaluate (rr_core ses) w;
          ses' = ses\<lparr>rr_core := core\<rparr>;
          fs' = (case maybe_event of Some ev \<Rightarrow> persist_event to_json creatable ses' ev fs | None \<Rightarrow> fs)
      in (d, ses', fs', w'))"

text \<open>A run of call sites.\<close>

fun rr_run ::
  "(RecordReplayEvent \<Rightarrow> 'l option) \<Rightarrow> (string \<Rightarrow> bool) \<Rightarrow> ('w \<Rightarrow> string option)
     \<Rightarrow> (string \<times> ('w \<Rightarrow> LayerDecision \<times> 'w)) list \<Rightarrow> RecordReplaySession \<times> 'l files \<times> 'w
     \<Rightarrow> LayerDecision list \<times> RecordReplaySession \<times> 'l files \<times> 'w" where
  "rr_run to_json creatable policy_name [] st = ([], st)"
| "rr_run to_json creatable policy_name ((site, evaluate) # calls) st =
     (let (d, st1) = evaluate_or_replay to_json creatable policy_name site evaluate st;
          (ds, st2) = rr_run to_json creatable policy_name calls st1
      in (d # ds, st2))"

section \<open>Round trip of one event\<close>

text \<open>What replaying a decision yields: the text of an engine error and the list of mutations are
  not recorded.\<close>

fun replayed :: "LayerDecision \<Rightarrow> LayerDecision" where
  "replayed (Error _) = Error ''record_replay_error''"
| "replayed (Mutate _) = Continue"
| "replayed d = d"

lemma to_from_decision: "to_decision (with_policy_name p (from_decision site d)) = Some (replayed d)"
  by (cases d) (simp_all add: to_decision_def with_policy_name_def from_decision_def)

lemma ev_site_from_decision [simp]: "ev_site (with_policy_name p (from_decision site d)) = site"
  by (simp add: with_policy_name_def from_decision_def case_prod_beta Let_def)

section \<open>Recording\<close>

lemma record_step:
  assumes "rr_core ses = RecordReplayCore_new RR_Record []" "record_path ses = Some path"
    and "creatable path" "fs path = Some ls" "to_json = (\<lambda>ev. Some (enc ev))"
  shows "evaluate_or_replay to_json creatable policy_name site evaluate (ses, fs, w) =
     (fst (evaluate w), ses,
      fs(path \<mapsto> ls @ [enc (with_policy_name (policy_name (snd (evaluate w))) (from_decision site (fst (evaluate w))))]),
      snd (evaluate w))"
  using assms
  by (cases ses) (simp add: evaluate_or_replay_def core_evaluate_or_replay_def RecordReplayCore_new_def
      persist_event_def Let_def case_prod_beta)

fun eval_run :: "(string \<times> ('w \<Rightarrow> LayerDecision \<times> 'w)) list \<Rightarrow> 'w \<Rightarrow> LayerDecision list \<times> 'w" where
  "eval_run [] w = ([], w)"
| "eval_run ((site, evaluate) # calls) w =
     (let (d, w1) = evaluate w; (ds, w2) = eval_run calls w1 in (d # ds, w2))"

lemma record_run:
  assumes "rr_core ses = RecordReplayCore_new RR_Record []" "record_path ses = Some path"
    and "creatable path" "fs path = Some ls" "to_json = (\<lambda>ev. Some (enc ev))"
  shows "\<exists>evs. rr_run to_json creatable policy_name calls (ses, fs, w) =
      (fst (eval_run calls w), ses, fs(path \<mapsto> ls @ map enc evs), snd (eval_run calls w))
    \<and> map ev_site evs = map fst calls
    \<and> map to_decision evs = map (\<lambda>d. Some (replayed d)) (fst (eval_run calls w))"
  using assms(4)
proof (induction calls arbitrary: fs ls w)
  case Nil
  then show ?case by (intro exI [of _ "[]"]) (auto simp: fun_upd_idem)
next
  case (Cons call calls)
  obtain site evaluate where call: "call = (site, evaluate)" by (cases call)
  let ?d = "fst (evaluate w)" and ?w = "snd (evaluate w)"
  let ?ev = "with_policy_name (policy_name ?w) (from_decision site ?d)"
  let ?fs = "fs(path \<mapsto> ls @ [enc ?ev])"
  have step: "evaluate_or_replay to_json creatable policy_name site evaluate (ses, fs, w) = (?d, ses, ?fs, ?w)"
    using assms(1-3) Cons.prems assms(5) by (rule record_step)
  have "?fs path = Some (ls @ [enc ?ev])" by simp
  from Cons.IH [of ?fs "ls @ [enc ?ev]" ?w, OF this] obtain evs where
    "rr_run to_json creatable policy_name calls (ses, ?fs, ?w) =
       (fst (eval_run calls ?w), ses, ?fs(path \<mapsto> (ls @ [enc ?ev]) @ map enc evs), snd (eval_run calls ?w))"
    "map ev_site evs = map fst calls"
    "map to_decision evs = map (\<lambda>d. Some (replayed d)) (fst (eval_run calls ?w))" by blast
  then show ?case
    by (intro exI [of _ "?ev # evs"])
       (simp add: call step Let_def case_prod_beta to_from_decision, auto simp: fun_eq_iff)
qed

section \<open>Replaying\<close>

definition replaying :: "RecordReplayEvent list \<Rightarrow> RecordReplaySession" where
  "replaying evs = \<lparr>rr_core = RecordReplayCore_new RR_Replay evs, record_path = None\<rparr>"

lemma replay_step:
  assumes "ev_site ev = site" "to_decision ev = Some d"
  shows "evaluate_or_replay to_json creatable policy_name site evaluate (replaying (ev # evs), fs, w) =
     (d, replaying evs, fs, w)"
  using assms by (simp add: evaluate_or_replay_def core_evaluate_or_replay_def replaying_def
      RecordReplayCore_new_def Let_def)

lemma replay_run:
  assumes "map ev_site evs = map fst calls" "map to_decision evs = map Some ds"
  shows "rr_run to_json creatable policy_name calls (replaying evs, fs, w) = (ds, replaying [], fs, w)"
  using assms
proof (induction calls arbitrary: evs ds)
  case (Cons call calls)
  then show ?case by (cases call; cases evs; cases ds) (auto simp: replay_step Let_def)
qed auto

lemma decode_encoded: "\<forall>ev. from_json (enc ev) = Some ev \<Longrightarrow> decode_lines from_json (map enc evs) = evs"
  by (induction evs) simp_all

definition record_session ::
  "(RecordReplayEvent \<Rightarrow> 'l option) \<Rightarrow> ('l \<Rightarrow> RecordReplayEvent option) \<Rightarrow> (string \<Rightarrow> bool)
     \<Rightarrow> ('w \<Rightarrow> string option) \<Rightarrow> RecordReplayMode \<Rightarrow> string \<Rightarrow> (string \<times> ('w \<Rightarrow> LayerDecision \<times> 'w)) list
     \<Rightarrow> 'l files \<Rightarrow> 'w \<Rightarrow> LayerDecision list \<times> RecordReplaySession \<times> 'l files \<times> 'w" where
  "record_session to_json from_json creatable policy_name mode path calls fs w =
     (let (ses, fs0) = RecordReplaySession_new from_json creatable mode path fs
      in rr_run to_json creatable policy_name calls (ses, fs0, w))"

text \<open>C22. Record then replay reproduces the run. Record any sequence of call sites into a fresh
  file, start a replay session on that file, and run the same sites: each of them gets the decision
  it got when it was recorded, up to the text of engine errors and the list of mutations, which are
  not recorded. Whatever the evaluations would do now, none of them is run: the state of the
  rest of the program is unchanged. Recording itself does not change the decisions. The codec is
  assumed to decode what it encodes.\<close>

theorem record_then_replay:
  assumes "\<forall>ev. \<exists>line. to_json ev = Some line \<and> from_json line = Some ev"
    and "creatable path" "map fst calls' = map fst calls"
    and "record_session to_json from_json creatable policy_name RR_Record path calls fs w = (ds, ses, fs', w1)"
    and "record_session to_json from_json creatable' policy_name' RR_Replay path calls' fs' w2 = (ds', ses', fs'', w3)"
  shows "(ds, w1) = eval_run calls w \<and> ds' = map replayed ds \<and> w3 = w2 \<and> fs'' = fs'"
proof -
  define enc where "enc = (\<lambda>ev. the (to_json ev))"
  have enc: "to_json = (\<lambda>ev. Some (enc ev))" "\<forall>ev. from_json (enc ev) = Some ev"
    using assms(1) by (auto simp: enc_def fun_eq_iff) (metis option.sel)+
  let ?ses = "\<lparr>rr_core = RecordReplayCore_new RR_Record [], record_path = Some path\<rparr>"
  have st: "RecordReplaySession_new from_json creatable RR_Record path fs = (?ses, fs(path \<mapsto> []))"
    using assms(2) by (simp add: RecordReplaySession_new_def)
  obtain evs where
    run: "rr_run to_json creatable policy_name calls (?ses, fs(path \<mapsto> []), w) =
      (fst (eval_run calls w), ?ses, (fs(path \<mapsto> []))(path \<mapsto> [] @ map enc evs), snd (eval_run calls w))"
    and sites: "map ev_site evs = map fst calls"
    and decs: "map to_decision evs = map (\<lambda>d. Some (replayed d)) (fst (eval_run calls w))"
    using record_run [of ?ses path creatable "fs(path \<mapsto> [])" "[]" to_json enc policy_name calls w]
      assms(2) enc(1) by auto
  have rec: "ds = fst (eval_run calls w)" "w1 = snd (eval_run calls w)" "fs' path = Some (map enc evs)"
    using assms(4) run by (auto simp: record_session_def st)
  have load: "RecordReplaySession_new from_json creatable' RR_Replay path fs' = (replaying evs, fs')"
    using rec(3) decode_encoded [of from_json enc, OF enc(2)]
    by (simp add: RecordReplaySession_new_def load_replay_events_def replaying_def)
  have "map to_decision evs = map Some (map replayed ds)" using decs rec(1) by simp
  from replay_run [OF sites [folded assms(3)] this, of to_json creatable' policy_name' fs' w2]
    assms(5) rec(1,2) show ?thesis
    by (simp add: record_session_def load)
qed

definition recorded_calls :: "(string \<times> (nat \<Rightarrow> LayerDecision \<times> nat)) list" where
  "recorded_calls = [(''connect_pre'', \<lambda>w. (DelayNs 5, Suc w)), (''dns_lookup'', \<lambda>w. (Mutate [], Suc w))]"

definition replayed_calls :: "(string \<times> (nat \<Rightarrow> LayerDecision \<times> nat)) list" where
  "replayed_calls = [(''connect_pre'', \<lambda>w. (Drop, Suc w)), (''dns_lookup'', \<lambda>w. (Drop, Suc w))]"

theorem record_then_replay_witness:
  "\<exists>ses fs w1 ses' fs' w3.
     record_session Some Some (\<lambda>_. True) (\<lambda>_. None) RR_Record ''f'' recorded_calls Map.empty 0 =
       ([DelayNs 5, Mutate []], ses, fs, w1) \<and>
     record_session Some Some (\<lambda>_. True) (\<lambda>_. None) RR_Replay ''f'' replayed_calls fs 7 =
       ([DelayNs 5, Continue], ses', fs', 7)"
proof -
  obtain ds ses fs w1 where 1:
    "record_session Some Some (\<lambda>_. True) (\<lambda>_. None) RR_Record ''f'' recorded_calls Map.empty 0 = (ds, ses, fs, w1)"
    by (metis prod_cases4)
  obtain ds' ses' fs' w3 where 2:
    "record_session Some Some (\<lambda>_. True) (\<lambda>_. None) RR_Replay ''f'' replayed_calls fs 7 = (ds', ses', fs', w3)"
    by (metis prod_cases4)
  have "(ds, w1) = eval_run recorded_calls 0 \<and> ds' = map replayed ds \<and> w3 = 7 \<and> fs' = fs"
    by (rule record_then_replay [OF _ _ _ 1 2]) (simp_all add: recorded_calls_def replayed_calls_def)
  then have "ds = [DelayNs 5, Mutate []]" "ds' = [DelayNs 5, Continue]" "w3 = 7"
    by (simp_all add: recorded_calls_def)
  with 1 2 show ?thesis by simp
qed

section \<open>Divergence\<close>

text \<open>An event that answers a site.\<close>

definition answers :: "RecordReplayEvent \<Rightarrow> string \<Rightarrow> bool" where
  "answers ev site = (ev_site ev = site \<and> to_decision ev \<noteq> None)"

fun replay_spec :: "string list \<Rightarrow> RecordReplayEvent list \<Rightarrow> LayerDecision list" where
  "replay_spec [] evs = []"
| "replay_spec (site # sites) evs =
     (if evs \<noteq> [] \<and> answers (hd evs) site
      then the (to_decision (hd evs)) # replay_spec sites (tl evs)
      else replicate (Suc (length sites)) fail_fast_decision)"

lemma failed_run:
  "rr_fail_fast (rr_core ses) \<Longrightarrow> rr_run to_json creatable policy_name calls (ses, fs, w) =
     (replicate (length calls) fail_fast_decision, ses, fs, w)"
proof (induction calls)
  case (Cons call calls)
  then show ?case
    by (cases call; cases ses) (simp add: evaluate_or_replay_def core_evaluate_or_replay_def Let_def)
qed simp

lemma diverged_step:
  assumes "evs = [] \<or> \<not> answers (hd evs) site"
  shows "\<exists>ses. rr_fail_fast (rr_core ses) \<and>
    evaluate_or_replay to_json creatable policy_name site evaluate (replaying evs, fs, w) =
      (fail_fast_decision, ses, fs, w)"
proof (cases evs)
  case Nil
  then show ?thesis
    by (simp add: evaluate_or_replay_def core_evaluate_or_replay_def replaying_def RecordReplayCore_new_def Let_def)
next
  case (Cons ev evs')
  with assms show ?thesis
    by (cases "ev_site ev = site") (simp_all add: evaluate_or_replay_def core_evaluate_or_replay_def
        replaying_def RecordReplayCore_new_def Let_def answers_def)
qed

text \<open>Divergence fails fast and for good: as long as the recorded events answer the sites in
  order, their decisions are replayed; from the first site that finds no event, an event of
  another site, or an undecodable decision, every call gets the fail-fast error, even where a later
  event would match again. No evaluation is run and no file is written.\<close>

lemma replay_fails_fast:
  "rr_run to_json creatable policy_name calls (replaying evs, fs, w) =
     (replay_spec (map fst calls) evs,
      fst (snd (rr_run to_json creatable policy_name calls (replaying evs, fs, w))), fs, w)"
proof (induction calls arbitrary: evs)
  case (Cons call calls)
  obtain site evaluate where call: "call = (site, evaluate)" by (cases call)
  show ?case
  proof (cases "evs \<noteq> [] \<and> answers (hd evs) site")
    case True
    then obtain ev evs' d where "evs = ev # evs'" "ev_site ev = site" "to_decision ev = Some d"
      by (cases evs) (auto simp: answers_def)
    with Cons.IH [of evs'] show ?thesis
      by (simp add: call replay_step answers_def Let_def case_prod_beta prod_eq_iff)
  next
    case False
    with diverged_step [of evs site to_json creatable policy_name evaluate fs w]
    obtain ses where "rr_fail_fast (rr_core ses)"
      "evaluate_or_replay to_json creatable policy_name site evaluate (replaying evs, fs, w) =
        (fail_fast_decision, ses, fs, w)" by blast
    with False show ?thesis by (auto simp add: call failed_run Let_def)
  qed
qed simp

end
