(* ===== verification/Setpriority_Compat.thy ===== *)
theory Setpriority_Compat
  imports Shm_Runtime
begin

text \<open>
  The \<open>setpriority\<close> entry (\<open>setpriority_compat.rs\<close>): three reserved values of \<open>which\<close> set the latency,
  bandwidth or timeouts of the calling thread's row. The arguments are \<open>c_int\<close>s, here integers of that
  range; the thread id is an argument.
\<close>

definition FAULTCORE_SETPRIORITY_LATENCY :: int where
  "FAULTCORE_SETPRIORITY_LATENCY = 0xFA"

definition FAULTCORE_SETPRIORITY_BANDWIDTH :: int where
  "FAULTCORE_SETPRIORITY_BANDWIDTH = 0xFB"

definition FAULTCORE_SETPRIORITY_TIMEOUT :: int where
  "FAULTCORE_SETPRIORITY_TIMEOUT = 0xFC"

lemmas setpriority_modes =
  FAULTCORE_SETPRIORITY_LATENCY_def FAULTCORE_SETPRIORITY_BANDWIDTH_def FAULTCORE_SETPRIORITY_TIMEOUT_def

datatype compat_errno = EINVAL | EIO

datatype SetpriorityCompatOutcome = NotHandled | Handled | FaultcoreError compat_errno

definition is_faultcore_mode :: "int \<Rightarrow> bool" where
  "is_faultcore_mode which \<longleftrightarrow>
     which = FAULTCORE_SETPRIORITY_LATENCY \<or> which = FAULTCORE_SETPRIORITY_BANDWIDTH
     \<or> which = FAULTCORE_SETPRIORITY_TIMEOUT"

definition is_valid_faultcore_args :: "int \<Rightarrow> int \<Rightarrow> int \<Rightarrow> bool" where
  "is_valid_faultcore_args which who prio =
     (if which = FAULTCORE_SETPRIORITY_LATENCY then who \<ge> 0 \<and> prio \<ge> 0
      else if which = FAULTCORE_SETPRIORITY_BANDWIDTH then prio \<ge> 0
      else if which = FAULTCORE_SETPRIORITY_TIMEOUT then who \<ge> - 1 \<and> prio \<ge> - 1
      else False)"

definition setpriority_row :: "int \<Rightarrow> int \<Rightarrow> int \<Rightarrow> FaultcoreConfig \<Rightarrow> FaultcoreConfig" where
  "setpriority_row which who prio c =
     (let c1 =
        (if which = FAULTCORE_SETPRIORITY_LATENCY
         then c\<lparr>latency_ns := of_int who * 1000000, packet_loss_ppm := of_int prio\<rparr>
         else if which = FAULTCORE_SETPRIORITY_BANDWIDTH then c\<lparr>bandwidth_bps := of_int prio * 1024\<rparr>
         else if which = FAULTCORE_SETPRIORITY_TIMEOUT then
           let c' = (if who \<noteq> - 1 then c\<lparr>connect_timeout_ms := of_int who\<rparr> else c)
           in if prio \<noteq> - 1 then c'\<lparr>recv_timeout_ms := of_int prio\<rparr> else c'
         else c)
      in c1\<lparr>magic := FAULTCORE_MAGIC\<rparr>)"

definition handle_setpriority_compat ::
  "u64 \<Rightarrow> int \<Rightarrow> int \<Rightarrow> int \<Rightarrow> ShmState \<Rightarrow> SetpriorityCompatOutcome \<times> ShmState" where
  "handle_setpriority_compat tid which who prio st =
     (if \<not> is_faultcore_mode which then (NotHandled, st)
      else if \<not> is_valid_faultcore_args which who prio then (FaultcoreError EINVAL, st)
      else
        let (ok, st') = update_config_for_tid tid (setpriority_row which who prio) st
        in (if ok then Handled else FaultcoreError EIO, st'))"

definition try_handle_setpriority :: "u64 \<Rightarrow> int \<Rightarrow> int \<Rightarrow> int \<Rightarrow> ShmState \<Rightarrow> bool \<times> ShmState" where
  "try_handle_setpriority tid which who prio st =
     (let (outcome, st') = handle_setpriority_compat tid which who prio st in (outcome = Handled, st'))"

section \<open>What an accepted call does\<close>

lemma handled_iff:
  "fst (handle_setpriority_compat tid which who prio st) = Handled \<longleftrightarrow>
     is_valid_faultcore_args which who prio \<and> shm_pointer st \<noteq> None"
  by (auto simp: handle_setpriority_compat_def update_config_for_tid_def get_config_ptr_def config_index_def
      is_valid_faultcore_args_def is_faultcore_mode_def setpriority_modes split: option.splits)

lemma unat_of_c_int:
  assumes "0 \<le> w" "w < 2 ^ 31" "k \<le> 1000000"
  shows "unat (of_int w * of_nat k :: u64) = nat w * k"
proof -
  have "(of_int w :: u64) = of_nat (nat w)" using assms(1) by simp
  then have "(of_int w * of_nat k :: u64) = of_nat (nat w * k)" by (simp only: of_nat_mult)
  moreover have "nat w * k \<le> 2 ^ 31 * 1000000" using assms by (intro mult_le_mono) auto
  then have "nat w * k < 2 ^ 64" by simp
  ultimately show ?thesis by (simp only: unat_of_nat_u64)
qed

lemma latency_row_valid:
  assumes "is_valid row" "0 \<le> who" "who < 2 ^ 31" "0 \<le> prio" "prio < 2 ^ 31"
  shows "is_valid (row\<lparr>latency_ns := of_int who * 1000000, packet_loss_ppm := of_int prio\<rparr>) \<longleftrightarrow>
    who \<le> 60000 \<and> prio \<le> 1000000"
proof -
  have "unat (of_int who * 1000000 :: u64) = nat who * 1000000" "unat (of_int prio :: u64) = nat prio"
    using unat_of_c_int [of who 1000000] unat_of_c_int [of prio 1] assms by simp_all
  then have "of_int who * 1000000 \<le> MAX_LATENCY_NS \<longleftrightarrow> who \<le> 60000" "(of_int prio :: u64) \<le> 1000000 \<longleftrightarrow> prio \<le> 1000000"
    using assms by (simp_all add: word_le_nat_alt MAX_LATENCY_NS_def nat_le_iff)
  then show ?thesis using assms(1) by (simp add: is_valid_def)
qed

text \<open>The latency mode. Called with non-negative arguments on a thread with a valid row, it reports
  success; afterwards the thread's row carries the latency in nanoseconds and the loss rate exactly
  when they are within the limits (60 s and 1000000 ppm). Outside them the call still reports
  success, but the row no longer reads at all, so the thread loses every fault it had.\<close>

lemma setpriority_latency_effect:
  assumes "shm_pointer st = Some m" "shm_is_open st" "is_valid row"
    and "row = sh_configs m (MAX_FDS + tid_slot tid)"
    and "0 \<le> who" "who < 2 ^ 31" "0 \<le> prio" "prio < 2 ^ 31"
    and "handle_setpriority_compat tid FAULTCORE_SETPRIORITY_LATENCY who prio st = (outcome, st')"
  shows "outcome = Handled \<and>
    (if who \<le> 60000 \<and> prio \<le> 1000000
     then \<exists>g. fst (get_config_for_tid os tid st') =
            Some (row\<lparr>latency_ns := of_int who * 1000000, packet_loss_ppm := of_int prio, ruleset_generation := g\<rparr>)
     else fst (get_config_for_tid os tid st') = None)"
proof -
  let ?mut = "setpriority_row FAULTCORE_SETPRIORITY_LATENCY who prio"
  obtain ok st1 where u: "update_config_for_tid tid ?mut st = (ok, st1)" by (metis surj_pair)
  define row' where "row' = written_row ?mut row"
  have r: "row' = written_row ?mut (sh_configs m (MAX_FDS + tid_slot tid))" by (simp add: row'_def assms(4))
  note readback = update_readback [OF assms(1,2) u r, of os tid 0]
  have magic: "magic row = FAULTCORE_MAGIC" using assms(3) by (simp add: is_valid_def)
  have row': "row'\<lparr>ruleset_generation := g\<rparr> =
      row\<lparr>latency_ns := of_int who * 1000000, packet_loss_ppm := of_int prio, ruleset_generation := g\<rparr>" for g
    using magic by (cases row) (simp add: row'_def written_row_def setpriority_row_def)
  have "is_valid row' = is_valid (row'\<lparr>ruleset_generation := 0\<rparr>)" by simp
  also have "\<dots> = is_valid (row\<lparr>latency_ns := of_int who * 1000000, packet_loss_ppm := of_int prio\<rparr>)"
    unfolding row' by (metis is_valid_generation)
  finally have valid: "is_valid row' \<longleftrightarrow> who \<le> 60000 \<and> prio \<le> 1000000"
    using latency_row_valid [OF assms(3,5-8)] by simp
  have "outcome = Handled \<and> st' = st1" using assms(5,7,9) readback u
    by (auto simp: handle_setpriority_compat_def is_faultcore_mode_def is_valid_faultcore_args_def)
  with readback valid row' show ?thesis by (metis (no_types, lifting))
qed

definition valid_table :: ShmState where
  "valid_table = \<lparr>shm_pointer = Some \<lparr>sh_configs = (\<lambda>_. valid_row), sh_policy_name = [],
     sh_rules = (\<lambda>_. TargetRule_default), sh_owners = (\<lambda>_. - 1)\<rparr>, shm_is_open = True\<rparr>"

end
