(* ===== verification/Tls_Sni.thy ===== *)
theory Tls_Sni
  imports Interceptor_Bridge
begin

text \<open>
  The server name of a TLS ClientHello (\<open>faultcore_interceptor/src/lib.rs\<close>,
  \<open>tls_client_hello_sni\<close> and \<open>observe_tls_sni_from_send_buffer\<close>), read from the buffers a program sends.

  The parser indexes into a buffer it does not control, and an index outside it is a panic in the
  intercepted program: the outer option is \<^const>\<open>None\<close> for a panic, the inner one is the answer. \<open>payload.get(i)\<close>
  answers \<open>None\<close> outside the buffer instead. Positions are naturals: a slice is
  shorter than \<open>2\<^sup>6\<^sup>3\<close> bytes, so the checked additions of the source do not overflow.
\<close>

section \<open>The parser\<close>

type_synonym 'a panicking = "'a option"

definition be16_at :: "bytes \<Rightarrow> nat \<Rightarrow> nat" where
  "be16_at payload p = unat (payload ! p) * 256 + unat (payload ! (p + 1))"

definition slice :: "bytes \<Rightarrow> nat \<Rightarrow> nat \<Rightarrow> bytes" where
  "slice payload a b = take (b - a) (drop a payload)"

function sni_name_loop :: "bytes \<Rightarrow> nat \<Rightarrow> nat \<Rightarrow> bytes option panicking" where
  "sni_name_loop payload q list_end =
     (if q + 3 > list_end then Some None
      else if length payload \<le> q + 2 then None
      else
        let name_type = payload ! q;
            name_len = be16_at payload (q + 1);
            name_start = q + 3;
            name_end = name_start + name_len
        in if name_end > list_end then Some None
           else if name_type = 0 then
             (if name_end > length payload then None
              else
                let host = slice payload name_start name_end
                in if utf8_valid host then Some (normalize_semantic_name host) else Some None)
           else sni_name_loop payload name_end list_end)"
  by auto

termination
  by (relation "measure (\<lambda>(payload, q, list_end). list_end - q)") auto

definition sni_extension :: "bytes \<Rightarrow> nat \<Rightarrow> nat \<Rightarrow> bytes option panicking" where
  "sni_extension payload p data_end =
     (if p + 2 > data_end then Some None
      else if length payload \<le> p + 1 then None
      else
        let list_len = be16_at payload p;
            q = p + 2;
            list_end = q + list_len
        in if list_end > data_end then Some None
           else sni_name_loop payload q list_end)"

function sni_extension_loop :: "bytes \<Rightarrow> nat \<Rightarrow> nat \<Rightarrow> bytes option panicking" where
  "sni_extension_loop payload p ext_end =
     (if p + 4 > ext_end then Some None
      else if length payload \<le> p + 3 then None
      else
        let ext_type = be16_at payload p;
            ext_len = be16_at payload (p + 2);
            data_start = p + 4;
            data_end = data_start + ext_len
        in if data_end > ext_end then Some None
           else if ext_type = 0 then sni_extension payload data_start data_end
           else sni_extension_loop payload data_end ext_end)"
  by auto

termination
  by (relation "measure (\<lambda>(payload, p, ext_end). ext_end - p)") auto

text \<open>From the session id on.\<close>

definition client_hello_body :: "bytes \<Rightarrow> nat \<Rightarrow> nat \<Rightarrow> bytes option panicking" where
  "client_hello_body payload p0 hs_end =
     (if length payload \<le> p0 then Some None
      else
        let p1 = p0 + (1 + unat (payload ! p0))
        in if p1 > hs_end then Some None
           else if p1 + 2 > hs_end then Some None
           else if length payload \<le> p1 + 1 then None
           else
             let p2 = p1 + (2 + be16_at payload p1)
             in if p2 > hs_end then Some None
                else if length payload \<le> p2 then Some None
                else
                  let p3 = p2 + (1 + unat (payload ! p2))
                  in if p3 > hs_end then Some None
                     else if p3 + 2 > hs_end then Some None
                     else if length payload \<le> p3 + 1 then None
                     else
                       let extensions_len = be16_at payload p3;
                           p4 = p3 + 2;
                           ext_end = p4 + extensions_len
                       in if ext_end > hs_end then Some None
                          else sni_extension_loop payload p4 ext_end)"

definition tls_client_hello_sni :: "bytes \<Rightarrow> bytes option panicking" where
  "tls_client_hello_sni payload =
     (if length payload < 5 \<or> payload ! 0 \<noteq> 22 then Some None
      else
        let record_len = be16_at payload 3;
            record_end = 5 + record_len
        in if record_end > length payload then Some None
           else if length payload \<le> 5 \<or> payload ! 5 \<noteq> 1 then Some None
           else if length payload \<le> 8 then Some None
           else
             let hs_len = unat (payload ! 6) * 65536 + unat (payload ! 7) * 256 + unat (payload ! 8);
                 hs_start = 9;
                 hs_end = hs_start + hs_len
             in if hs_end > record_end then Some None
                else if hs_start + 34 > hs_end then Some None
                else client_hello_body payload (hs_start + 34) hs_end)"

definition observe_tls_sni_from_send_buffer :: "fd \<Rightarrow> bytes option \<Rightarrow> sni_map \<Rightarrow> sni_map panicking" where
  "observe_tls_sni_from_send_buffer f buffer m =
     (case buffer of
        None \<Rightarrow> Some m
      | Some payload \<Rightarrow>
          if f < 0 \<or> length payload < 5 then Some m
          else case tls_client_hello_sni payload of
            None \<Rightarrow> None
          | Some None \<Rightarrow> Some m
          | Some (Some sni) \<Rightarrow> Some (observe_sni_for_fd f sni m))"

section \<open>No panics\<close>

declare sni_name_loop.simps [simp del] sni_extension_loop.simps [simp del]

lemma sni_name_loop_total: "list_end \<le> length payload \<Longrightarrow> sni_name_loop payload q list_end \<noteq> None"
proof (induction payload q list_end rule: sni_name_loop.induct)
  case (1 payload q list_end)
  then show ?case by (subst sni_name_loop.simps) (auto simp: Let_def)
qed

lemma sni_extension_total: "data_end \<le> length payload \<Longrightarrow> sni_extension payload p data_end \<noteq> None"
  using sni_name_loop_total [of "p + 2 + be16_at payload p" payload "p + 2"] by (auto simp: sni_extension_def Let_def)

lemma sni_extension_loop_total: "ext_end \<le> length payload \<Longrightarrow> sni_extension_loop payload p ext_end \<noteq> None"
proof (induction payload p ext_end rule: sni_extension_loop.induct)
  case (1 payload p ext_end)
  then show ?case
    using sni_extension_total by (subst sni_extension_loop.simps) (auto simp: Let_def)
qed

lemma client_hello_total: "tls_client_hello_sni payload \<noteq> None"
proof -
  have "client_hello_body payload p hs_end \<noteq> None" if "hs_end \<le> length payload" for p hs_end
    using that sni_extension_loop_total by (auto simp: client_hello_body_def Let_def)
  then show ?thesis by (auto simp: tls_client_hello_sni_def Let_def)
qed

section \<open>Reading back what a client encodes\<close>

text \<open>The encoder of RFC 8446 and RFC 6066, as far as the parser looks: an extension is a type and its
  data, a server name list a list of typed names, a ClientHello carries version and random (34 bytes), session
  id, cipher suites, compression methods and extensions, inside one handshake message in one record.\<close>

definition be16 :: "nat \<Rightarrow> bytes" where
  "be16 n = [of_nat (n div 256), of_nat n]"

definition be24 :: "nat \<Rightarrow> bytes" where
  "be24 n = [of_nat (n div 65536), of_nat (n div 256), of_nat n]"

definition enc_name :: "u8 \<times> bytes \<Rightarrow> bytes" where
  "enc_name e = fst e # be16 (length (snd e)) @ snd e"

definition enc_names :: "(u8 \<times> bytes) list \<Rightarrow> bytes" where
  "enc_names names = concat (map enc_name names)"

definition enc_extension :: "nat \<times> bytes \<Rightarrow> bytes" where
  "enc_extension e = be16 (fst e) @ be16 (length (snd e)) @ snd e"

definition enc_extensions :: "(nat \<times> bytes) list \<Rightarrow> bytes" where
  "enc_extensions exts = concat (map enc_extension exts)"

definition sni_data :: "(u8 \<times> bytes) list \<Rightarrow> bytes" where
  "sni_data names = be16 (length (enc_names names)) @ enc_names names"

definition enc_hello :: "bytes \<Rightarrow> bytes \<Rightarrow> bytes \<Rightarrow> bytes \<Rightarrow> bytes \<Rightarrow> bytes" where
  "enc_hello random session suites compression exts =
     random @ [of_nat (length session)] @ session @ be16 (length suites) @ suites
       @ [of_nat (length compression)] @ compression @ be16 (length exts) @ exts"

definition enc_record :: "bytes \<Rightarrow> bytes \<Rightarrow> bytes" where
  "enc_record vers hello =
     [22] @ vers @ be16 (4 + length hello) @ [1] @ be24 (length hello) @ hello"

lemma length_be [simp]: "length (be16 n) = 2" "length (be24 n) = 3"
  by (simp_all add: be16_def be24_def)

lemma unat_of_nat_u8: "unat (of_nat n :: u8) = n mod 256"
  by (simp add: unat_of_nat)

lemma be16_at_eq: "payload = pre @ be16 n @ suf \<Longrightarrow> n < 65536 \<Longrightarrow> p = length pre \<Longrightarrow> be16_at payload p = n"
  by (simp add: be16_at_def be16_def nth_append unat_of_nat_u8)

lemma slice_eq: "payload = pre @ x @ suf \<Longrightarrow> a = length pre \<Longrightarrow> b = a + length x \<Longrightarrow> slice payload a b = x"
  by (simp add: slice_def)

lemma enc_name_at:
  assumes "payload = pre @ enc_name (t, n) @ suf" "length n < 65536" "q = length pre"
  shows "payload ! q = t" "be16_at payload (q + 1) = length n" "slice payload (q + 3) (q + 3 + length n) = n"
    "q + 3 + length n \<le> length payload"
proof -
  show "payload ! q = t" by (simp add: assms(1,3) enc_name_def)
  have "payload = (pre @ [t]) @ be16 (length n) @ (n @ suf)" by (simp add: assms(1) enc_name_def)
  then show "be16_at payload (q + 1) = length n" by (rule be16_at_eq) (simp_all add: assms(2,3))
  have "payload = (pre @ [t] @ be16 (length n)) @ n @ suf" by (simp add: assms(1) enc_name_def)
  then show "slice payload (q + 3) (q + 3 + length n) = n" by (rule slice_eq) (simp_all add: assms(3))
qed (simp add: assms(1,3) enc_name_def)

lemma enc_extension_at:
  assumes "payload = pre @ enc_extension (t, d) @ suf" "t < 65536" "length d < 65536" "p = length pre"
  shows "be16_at payload p = t" "be16_at payload (p + 2) = length d" "p + 4 + length d \<le> length payload"
proof -
  have "payload = pre @ be16 t @ (be16 (length d) @ d @ suf)" by (simp add: assms(1) enc_extension_def)
  then show "be16_at payload p = t" by (rule be16_at_eq) (simp_all add: assms(2,4))
  have "payload = (pre @ be16 t) @ be16 (length d) @ (d @ suf)" by (simp add: assms(1) enc_extension_def)
  then show "be16_at payload (p + 2) = length d" by (rule be16_at_eq) (simp_all add: assms(3,4))
qed (simp add: assms(1,4) enc_extension_def)

lemma sni_name_loop_enc:
  assumes "payload = pre @ enc_names (before @ (0, host) # after) @ suf" "q = length pre"
    "list_end = q + length (enc_names (before @ (0, host) # after))"
    "\<forall>(t, n) \<in> set before. t \<noteq> 0 \<and> length n < 65536" "length host < 65536"
  shows "sni_name_loop payload q list_end = Some (if utf8_valid host then normalize_semantic_name host else None)"
  using assms
proof (induction before arbitrary: pre q)
  case Nil
  have "payload = pre @ enc_name (0, host) @ enc_names after @ suf" using Nil by (simp add: enc_names_def)
  note at = enc_name_at [OF this Nil(5,2)]
  have "q + 3 + length host \<le> list_end" using Nil by (simp add: enc_names_def enc_name_def)
  with at show ?case by (subst sni_name_loop.simps) (simp add: Let_def)
next
  case (Cons e before)
  obtain t n where e: "e = (t, n)" by (cases e)
  have n: "t \<noteq> 0" "length n < 65536" using Cons.prems(4) by (simp_all add: e)
  let ?rest = "enc_names (before @ (0, host) # after)"
  have p: "payload = pre @ enc_name (t, n) @ ?rest @ suf" using Cons.prems(1) by (simp add: enc_names_def e)
  note at = enc_name_at [OF p n(2) Cons.prems(2)]
  have ends: "list_end = q + 3 + length n + length ?rest"
    using Cons.prems(3) by (simp add: enc_names_def e enc_name_def)
  have "sni_name_loop payload (q + 3 + length n) list_end = Some (if utf8_valid host then normalize_semantic_name host else None)"
    by (rule Cons.IH [of "pre @ enc_name (t, n)"])
       (use p ends Cons.prems in \<open>simp_all add: enc_name_def\<close>)
  with at n(1) ends show ?case by (subst sni_name_loop.simps) (simp add: Let_def)
qed

lemma sni_extension_loop_enc:
  assumes "payload = pre @ enc_extensions (before @ (0, sni_data names) # after) @ suf" "p = length pre"
    "ext_end = p + length (enc_extensions (before @ (0, sni_data names) # after))"
    "\<forall>(t, d) \<in> set before. 0 < t \<and> t < 65536 \<and> length d < 65536" "length (sni_data names) < 65536"
    "names = nb @ (0, host) # na" "\<forall>(t, n) \<in> set nb. t \<noteq> 0 \<and> length n < 65536" "length host < 65536"
  shows "sni_extension_loop payload p ext_end = Some (if utf8_valid host then normalize_semantic_name host else None)"
  using assms(1-4)
proof (induction before arbitrary: pre p)
  case Nil
  let ?e = "(0, sni_data names)"
  have pl: "payload = pre @ enc_extension ?e @ enc_extensions after @ suf" using Nil by (simp add: enc_extensions_def)
  note at = enc_extension_at [OF pl _ assms(5) Nil(2)]
  have ext_end: "p + 4 + length (sni_data names) \<le> ext_end" using Nil by (simp add: enc_extensions_def enc_extension_def)
  have len: "length (enc_names names) < 65536" using assms(5) by (simp add: sni_data_def)
  have list_len: "be16_at payload (p + 4) = length (enc_names names)"
    by (rule be16_at_eq [of _ "pre @ be16 0 @ be16 (length (sni_data names))" _ "enc_names names @ enc_extensions after @ suf"])
       (simp_all add: pl enc_extension_def sni_data_def len Nil(2))
  have "sni_name_loop payload (p + 4 + 2) (p + 4 + 2 + length (enc_names names)) =
      Some (if utf8_valid host then normalize_semantic_name host else None)"
    by (rule sni_name_loop_enc [of _ "pre @ be16 0 @ be16 (length (sni_data names)) @ be16 (length (enc_names names))"
          nb host na "enc_extensions after @ suf"])
       (use pl assms(6-8) Nil(2) in \<open>simp_all add: enc_extension_def sni_data_def\<close>)
  then have "sni_extension payload (p + 4) (p + 4 + length (sni_data names)) =
      Some (if utf8_valid host then normalize_semantic_name host else None)"
    using at(3) list_len by (simp add: sni_extension_def sni_data_def Let_def)
  with at ext_end show ?case by (subst sni_extension_loop.simps) (simp add: Let_def)
next
  case (Cons e before)
  obtain t d where e: "e = (t, d)" by (cases e)
  have d: "0 < t" "t < 65536" "length d < 65536" using Cons.prems(4) by (simp_all add: e)
  let ?rest = "enc_extensions (before @ (0, sni_data names) # after)"
  have pl: "payload = pre @ enc_extension (t, d) @ ?rest @ suf" using Cons.prems(1) by (simp add: enc_extensions_def e)
  note at = enc_extension_at [OF pl d(2,3) Cons.prems(2)]
  have ends: "ext_end = p + 4 + length d + length ?rest"
    using Cons.prems(3) by (simp add: enc_extensions_def e enc_extension_def)
  have "sni_extension_loop payload (p + 4 + length d) ext_end = Some (if utf8_valid host then normalize_semantic_name host else None)"
    by (rule Cons.IH [of "pre @ enc_extension (t, d)"])
       (use pl ends Cons.prems in \<open>simp_all add: enc_extension_def\<close>)
  with at d(1) ends show ?case by (subst sni_extension_loop.simps) (simp add: Let_def)
qed

lemma length_in_extensions: "(t, d) \<in> set es \<Longrightarrow> length d < length (enc_extensions es)"
  by (induction es) (auto simp: enc_extensions_def enc_extension_def)

lemma length_in_names: "(t, n) \<in> set ns \<Longrightarrow> length n < length (enc_names ns)"
  by (induction ns) (auto simp: enc_names_def enc_name_def)

lemma client_hello_body_enc:
  assumes "payload = pre @ enc_hello random session suites compression exts @ rest" "length random = 34"
    and "length session < 256" "length suites < 65536" "length compression < 256" "length exts < 65536"
    and "p = length pre + 34" "hs_end = length pre + length (enc_hello random session suites compression exts)"
  defines "p4 \<equiv> p + 1 + length session + 2 + length suites + 1 + length compression + 2"
  shows "client_hello_body payload p hs_end = sni_extension_loop payload p4 (p4 + length exts)"
proof -
  let ?p1 = "p + (1 + length session)"
  let ?p2 = "?p1 + (2 + length suites)"
  let ?p3 = "?p2 + (1 + length compression)"
  let ?a = "pre @ random @ [of_nat (length session)] @ session"
  let ?b = "?a @ be16 (length suites) @ suites"
  let ?c = "?b @ [of_nat (length compression)] @ compression"
  note enc = assms(1) [unfolded enc_hello_def]
  have b0: "payload ! p = of_nat (length session)"
    using nth_append_length [of "pre @ random"] by (simp add: enc assms(2,7))
  have b1: "be16_at payload ?p1 = length suites"
    by (rule be16_at_eq [of _ ?a _ "suites @ [of_nat (length compression)] @ compression @ be16 (length exts) @ exts @ rest"])
       (simp_all add: enc assms(2,4,7))
  have b2: "payload ! ?p2 = of_nat (length compression)"
    using nth_append_length [of ?b "of_nat (length compression)" "compression @ be16 (length exts) @ exts @ rest"]
    by (simp add: enc assms(2,7) ac_simps)
  have b3: "be16_at payload ?p3 = length exts"
    by (rule be16_at_eq [of _ ?c _ "exts @ rest"]) (simp_all add: enc assms(2,6,7))
  have hs: "hs_end = ?p3 + 2 + length exts" "hs_end \<le> length payload"
    by (simp_all add: assms(1,2,7,8) enc_hello_def)
  show ?thesis
    unfolding client_hello_body_def p4_def Let_def b0
    using assms(3,5) b1 b2 b3 hs by (simp add: unat_of_nat_u8 ac_simps)
qed

lemma enc_record_header:
  assumes "length vers = 2" "34 \<le> length hello" "4 + length hello < 65536"
  shows "tls_client_hello_sni (enc_record vers hello @ rest) =
    client_hello_body (enc_record vers hello @ rest) 43 (9 + length hello)"
proof -
  let ?pl = "enc_record vers hello @ rest"
  obtain v0 v1 where v: "vers = [v0, v1]" using assms(1) by (auto simp: length_Suc_conv numeral_2_eq_2)
  have rec: "be16_at ?pl 3 = 4 + length hello"
    by (rule be16_at_eq [of _ "[22] @ vers" _ "[1] @ be24 (length hello) @ hello @ rest"])
       (use assms(1,3) in \<open>simp_all add: enc_record_def\<close>)
  have bytes: "?pl ! 0 = 22" "?pl ! 5 = 1" "?pl ! 6 = of_nat (length hello div 65536)"
    "?pl ! 7 = of_nat (length hello div 256)" "?pl ! 8 = of_nat (length hello)"
    by (simp_all add: enc_record_def v be16_def be24_def)
  have hs_len: "unat (?pl ! 6) * 65536 + unat (?pl ! 7) * 256 + unat (?pl ! 8) = length hello"
    unfolding bytes unat_of_nat_u8 using assms(3) by simp
  have len: "length ?pl = 9 + length hello + length rest" by (simp add: enc_record_def assms(1))
  show ?thesis
    unfolding tls_client_hello_sni_def Let_def rec hs_len using bytes(1,2) len assms(2) by simp
qed

lemma enc_extensions_searched:
  assumes "payload = before_exts @ enc_extensions exts @ rest" "length (enc_extensions exts) < 65536"
    and "exts = before @ (0, sni_data names) # after" "\<forall>(t, d) \<in> set before. 0 < t \<and> t < 65536"
    and "names = nb @ (0, host) # na" "\<forall>(t, n) \<in> set nb. t \<noteq> 0"
  shows "sni_extension_loop payload (length before_exts) (length before_exts + length (enc_extensions exts)) =
    Some (if utf8_valid host then normalize_semantic_name host else None)"
proof (rule sni_extension_loop_enc)
  show "payload = before_exts @ enc_extensions (before @ (0, sni_data names) # after) @ rest"
    using assms(1,3) by simp
  have "length d < 65536" if "(t, d) \<in> set before" for t d
    using that assms(2) length_in_extensions [of t d exts] by (simp add: assms(3))
  then show "\<forall>(t, d) \<in> set before. 0 < t \<and> t < 65536 \<and> length d < 65536"
    using assms(4) by auto
  show sd: "length (sni_data names) < 65536"
    using assms(2) length_in_extensions [of 0 "sni_data names" exts] by (simp add: assms(3))
  have n: "length n < 65536" if "(t, n) \<in> set names" for t n
    using length_in_names [OF that] sd by (simp add: sni_data_def)
  show "\<forall>(t, n) \<in> set nb. t \<noteq> 0 \<and> length n < 65536" "length host < 65536"
    using assms(5,6) n by auto
qed (use assms(3,5) in simp_all)

text \<open>C16. The parser cannot panic, on any bytes at all; and it reads the server name of every well-formed
  ClientHello that fits one record: whatever the session id, the cipher suites, the other extensions and
  the data that follows, the answer is the first host name of the server name extension, normalised.\<close>

theorem client_hello_sni_found:
  assumes "length vers = 2" "length random = 34" "length session < 256" "length suites < 65536"
    and "length compression < 256" "exts = before @ (0, sni_data names) # after"
    and "\<forall>(t, d) \<in> set before. 0 < t \<and> t < 65536" "names = nb @ (0, host) # na" "\<forall>(t, n) \<in> set nb. t \<noteq> 0"
    and "hello = enc_hello random session suites compression (enc_extensions exts)" "4 + length hello < 65536"
  shows "tls_client_hello_sni payload \<noteq> None \<and>
    tls_client_hello_sni (enc_record vers hello @ rest) =
      Some (if utf8_valid host then normalize_semantic_name host else None)"
proof -
  let ?pl = "enc_record vers hello @ rest" and ?e = "enc_extensions exts"
  let ?pre = "[22] @ vers @ be16 (4 + length hello) @ [1] @ be24 (length hello)"
  let ?head = "?pre @ random @ [of_nat (length session)] @ session @ be16 (length suites) @ suites
    @ [of_nat (length compression)] @ compression @ be16 (length ?e)"
  let ?q = "43 + 1 + length session + 2 + length suites + 1 + length compression + 2"
  have e: "length ?e < 65536" using assms(10,11) by (simp add: enc_hello_def)
  have pre: "?pl = ?pre @ hello @ rest" "length ?pre = 9" by (simp_all add: enc_record_def assms(1))
  have "hello @ rest = random @ [of_nat (length session)] @ session @ be16 (length suites) @ suites
    @ [of_nat (length compression)] @ compression @ be16 (length ?e) @ ?e @ rest"
    by (simp only: assms(10) enc_hello_def append_assoc)
  then have exts: "?pl = ?head @ ?e @ rest" by (simp only: pre(1) append_assoc)
  have "34 \<le> length hello" by (simp add: assms(2,10) enc_hello_def)
  then have "tls_client_hello_sni ?pl = client_hello_body ?pl 43 (9 + length hello)"
    by (rule enc_record_header [OF assms(1) _ assms(11)])
  also have "\<dots> = sni_extension_loop ?pl ?q (?q + length ?e)"
    by (rule client_hello_body_enc [of _ ?pre random session suites compression ?e rest])
       (use pre assms(2-5,10) e in simp_all)
  also have "\<dots> = Some (if utf8_valid host then normalize_semantic_name host else None)"
    using enc_extensions_searched [OF exts e assms(6-9)] assms(1,2) by simp
  finally show ?thesis using client_hello_total by simp
qed

theorem client_hello_sni_found_witness:
  "tls_client_hello_sni (enc_record [3, 1] (enc_hello (replicate 34 7) [] [0x13, 0x01] [0]
      (enc_extensions [(10, [1, 2]), (0, sni_data [(0, [0x41, 0x2E, 0x42])])])) @ [9, 9]) = Some (Some [0x61, 0x2E, 0x62])"
proof -
  have h: "utf8_valid [0x41, 0x2E, 0x42]" "normalize_semantic_name [0x41, 0x2E, 0x42] = Some [0x61, 0x2E, 0x62]"
    by code_simp+
  let ?exts = "[(10, [1, 2]), (0, sni_data [(0, [0x41, 0x2E, 0x42])])]"
  have "4 + length (enc_hello (replicate 34 7) [] [0x13, 0x01] [0] (enc_extensions ?exts)) < 65536"
    by (simp add: enc_hello_def enc_extensions_def enc_extension_def sni_data_def enc_names_def enc_name_def)
  from client_hello_sni_found [of "[3, 1]" "replicate 34 7" "[]" "[0x13, 0x01]" "[0]" ?exts "[(10, [1, 2])]"
      "[(0, [0x41, 0x2E, 0x42])]" "[]" "[]" "[0x41, 0x2E, 0x42]" "[]", OF _ _ _ _ _ _ _ _ _ refl this, of "[]" "[9, 9]"] h
  show ?thesis by simp
qed

end
