(* ===== verification/Interceptor_Process.thy ===== *)
theory Interceptor_Process
  imports Global_Metrics Interceptor_Runtime Record_Replay Setpriority_Compat Tls_Sni
begin

text \<open>
  The process the interceptor library lives in (\<open>faultcore_interceptor/src/lib.rs\<close>): the global engine,
  runtime, bridge and record/replay session, the OpenSSL tables, the thread's recursion guard, and
  the original functions the hooks call.

  A call of an original function is a \<open>sys_call\<close> answered by the parameter \<open>he_kernel\<close>, which stands for libc, the
  kernel and OpenSSL over their own state \<open>'o\<close>; \<open>pr_calls\<close> is the log of the calls made, sleeps included.
  The readings of the clock that one hook takes are the fields of \<open>HookTimes\<close>. Memory the caller passes in is a
  byte list, \<^const>\<open>None\<close> for a null pointer.
\<close>

section \<open>System calls\<close>

datatype sys_call =
    SysSend fd "bytes option" nat int
  | SysWrite fd "bytes option" nat
  | SysSendto fd "bytes option" nat int "bytes option" u32
  | SysRecv fd "bytes option" nat int
  | SysRead fd "bytes option" nat
  | SysRecvfrom fd "bytes option" nat int "bytes option" "u32 option"
  | SysConnect fd "bytes option" nat
  | SysSocket int int int
  | SysClose fd
  | SysDup fd
  | SysDup2 fd fd
  | SysDup3 fd fd int
  | SysAccept fd "bytes option" "u32 option"
  | SysAccept4 fd "bytes option" "u32 option" int
  | SysGetaddrinfo "bytes option" "bytes option" "bytes option"
  | SysSetpriority int int int
  | SysSleep nat
  | SslCtrl nat int int "bytes option"
  | SslSetFd nat fd
  | SslFree nat

record sys_reply =
  rp_value :: int
  rp_buffer :: "bytes option"
  rp_addr :: "bytes option"
  rp_addr_len :: "u32 option"
  rp_addrs :: "(bytes option \<times> nat) list"

record ('o, 'l) HookEnv =
  he_shm :: ShmOs
  he_sock :: SocketOs
  he_tid :: u64
  he_flags :: "fd \<Rightarrow> int"
  he_to_json :: "RecordReplayEvent \<Rightarrow> 'l option"
  he_creatable :: "string \<Rightarrow> bool"
  he_kernel :: "sys_call \<Rightarrow> 'o \<Rightarrow> sys_reply \<times> 'o"
  he_ssl_get_fd :: "(nat \<Rightarrow> int) option"
  he_ssl_ctrl :: bool
  he_ssl_set_fd :: bool
  he_ssl_free :: bool
  he_setpriority :: bool
  he_guard_ok :: bool

record HookTimes =
  ht_lookup :: "u64 \<times> u64"
  ht_dup_lookup :: "u64 \<times> u64"
  ht_flush :: "nat \<Rightarrow> nat"
  ht_clk :: clock
  ht_pre :: u64
  ht_r7 :: u64
  ht_map :: nat
  ht_stage :: nat
  ht_snapshot :: nat
  ht_observe :: "nat \<Rightarrow> u64"

datatype hook_errno = RtErrno errno | CompatErrno compat_errno | ENOSYS

record ('o, 'l) Process =
  pr_bridge :: Bridge
  pr_runtime :: InterceptorRuntime
  pr_session :: RecordReplaySession
  pr_files :: "'l files"
  pr_ssl_sni :: "nat \<rightharpoonup> bytes"
  pr_ssl_fd :: "nat \<rightharpoonup> fd"
  pr_guard :: bool
  pr_initialized :: bool
  pr_errno :: "hook_errno option"
  pr_calls :: "sys_call list"
  pr_os :: 'o

definition syscall :: "('o, 'l) HookEnv \<Rightarrow> sys_call \<Rightarrow> ('o, 'l) Process \<Rightarrow> sys_reply \<times> ('o, 'l) Process" where
  "syscall env c p =
     (let (r, os) = he_kernel env c (pr_os p) in (r, p\<lparr>pr_os := os, pr_calls := pr_calls p @ [c]\<rparr>))"

definition thread_sleep :: "nat \<Rightarrow> ('o, 'l) Process \<Rightarrow> ('o, 'l) Process" where
  "thread_sleep ns p = (if ns = 0 then p else p\<lparr>pr_calls := pr_calls p @ [SysSleep ns]\<rparr>)"

definition orig_call :: "('o, 'l) HookEnv \<Rightarrow> sys_call \<Rightarrow> ('o, 'l) Process \<Rightarrow> int \<times> ('o, 'l) Process" where
  "orig_call env c p = (let (r, p') = syscall env c p in (rp_value r, p'))"

definition set_errno_value :: "hook_errno \<Rightarrow> ('o, 'l) Process \<Rightarrow> ('o, 'l) Process" where
  "set_errno_value e p = p\<lparr>pr_errno := Some e\<rparr>"

definition with_engine :: "(ChaosEngine \<Rightarrow> 'r \<times> ChaosEngine) \<Rightarrow> ('o, 'l) Process \<Rightarrow> 'r \<times> ('o, 'l) Process" where
  "with_engine act p =
     (let (r, e) = act (br_engine (pr_bridge p)) in (r, p\<lparr>pr_bridge := (pr_bridge p)\<lparr>br_engine := e\<rparr>\<rparr>))"

definition with_bridge :: "(Bridge \<Rightarrow> 'r \<times> Bridge) \<Rightarrow> ('o, 'l) Process \<Rightarrow> 'r \<times> ('o, 'l) Process" where
  "with_bridge act p = (let (r, b) = act (pr_bridge p) in (r, p\<lparr>pr_bridge := b\<rparr>))"

section \<open>The guard and the initialisation\<close>

definition enter_hook :: "('o, 'l) HookEnv \<Rightarrow> ('o, 'l) Process \<Rightarrow> bool \<times> ('o, 'l) Process" where
  "enter_hook env p =
     (if pr_guard p then (False, p)
      else if \<not> he_guard_ok env then (False, p)
      else (True, p\<lparr>pr_guard := True\<rparr>))"

definition exit_hook :: "('o, 'l) Process \<Rightarrow> ('o, 'l) Process" where
  "exit_hook p = p\<lparr>pr_guard := False\<rparr>"

definition initialize :: "('o, 'l) HookEnv \<Rightarrow> ('o, 'l) Process \<Rightarrow> ('o, 'l) Process" where
  "initialize env p =
     (if pr_initialized p then p
      else snd (with_bridge (init_runtime_shm (he_shm env)) (p\<lparr>pr_initialized := True\<rparr>)))"

text \<open>The frame every hook but \<open>setpriority\<close> has: a nested call goes straight to the original.\<close>

definition hook ::
  "('o, 'l) HookEnv \<Rightarrow> (('o, 'l) Process \<Rightarrow> 'r \<times> ('o, 'l) Process) \<Rightarrow> (('o, 'l) Process \<Rightarrow> 'r \<times> ('o, 'l) Process)
     \<Rightarrow> ('o, 'l) Process \<Rightarrow> 'r \<times> ('o, 'l) Process" where
  "hook env original body p =
     (let (entered, p1) = enter_hook env p
      in if \<not> entered then original p1
         else let (r, p2) = body (initialize env p1) in (r, exit_hook p2))"

definition is_non_blocking :: "('o, 'l) HookEnv \<Rightarrow> fd \<Rightarrow> bool" where
  "is_non_blocking env f = (let flags = he_flags env f in if flags < 0 then False else bit flags 11)"

section \<open>Recording, engine and runtime\<close>

definition policy_name_of :: "('o, 'l) Process \<Rightarrow> string option" where
  "policy_name_of p =
     map_option (map (\<lambda>b. char_of (unat b))) (get_current_policy_name (br_shm (pr_bridge p)))"

definition record_replay_evaluate_or_replay ::
  "('o, 'l) HookEnv \<Rightarrow> string \<Rightarrow> (('o, 'l) Process \<Rightarrow> LayerDecision \<times> ('o, 'l) Process) \<Rightarrow> ('o, 'l) Process
     \<Rightarrow> LayerDecision \<times> ('o, 'l) Process" where
  "record_replay_evaluate_or_replay env site evaluate p =
     (let (d, ses, fs, p') =
            evaluate_or_replay (he_to_json env) (he_creatable env) policy_name_of site evaluate
              (pr_session p, pr_files p, p)
      in (d, p'\<lparr>pr_session := ses, pr_files := fs\<rparr>))"

definition hook_record_stream_bytes :: "fd \<Rightarrow> u64 \<Rightarrow> ('o, 'l) Process \<Rightarrow> ('o, 'l) Process" where
  "hook_record_stream_bytes f n p = snd (with_engine (\<lambda>e. ((), record_stream_bytes f n e)) p)"

definition duplicate_count_from_decision :: "LayerDecision \<Rightarrow> u64" where
  "duplicate_count_from_decision d = (case d of Duplicate n \<Rightarrow> n | _ \<Rightarrow> 0)"

definition record_mutation :: "bool \<Rightarrow> nat \<Rightarrow> nat \<Rightarrow> ('o, 'l) Process \<Rightarrow> ('o, 'l) Process" where
  "record_mutation applied_flag in_len out_len p =
     p\<lparr>pr_runtime := record_mutation_outcome
         \<lparr>applied = applied_flag, input_len = in_len, output_len = out_len,
          skipped_rules = (if applied_flag then 0 else 1), error_count = 0\<rparr> (pr_runtime p)\<rparr>"

definition maybe_duplicate_common ::
  "('o, 'l) HookEnv \<Rightarrow> string \<Rightarrow> int \<Rightarrow> (('o, 'l) Process \<Rightarrow> u64 \<times> ('o, 'l) Process) \<Rightarrow> sys_call
     \<Rightarrow> ('o, 'l) Process \<Rightarrow> ('o, 'l) Process" where
  "maybe_duplicate_common env site sent count_lookup send_call p =
     (if sent \<le> 0 then p
      else
        let (d, p1) = record_replay_evaluate_or_replay env site
              (\<lambda>p. let (n, p') = count_lookup p in (if n = 0 then Continue else Duplicate n, p')) p;
            n = duplicate_count_from_decision d
        in if n = 0 then p1 else ((\<lambda>p. snd (syscall env send_call p)) ^^ unat n) p1)"

definition dup_count_for_fd ::
  "('o, 'l) HookEnv \<Rightarrow> HookTimes \<Rightarrow> fd \<Rightarrow> ('o, 'l) Process \<Rightarrow> u64 \<times> ('o, 'l) Process" where
  "dup_count_for_fd env t f p =
     with_bridge (uplink_duplicate_count_for_fd (he_shm env) (he_sock env) (he_tid env)
       (fst (ht_dup_lookup t)) (snd (ht_dup_lookup t)) f) p"

definition maybe_duplicate_send ::
  "('o, 'l) HookEnv \<Rightarrow> HookTimes \<Rightarrow> fd \<Rightarrow> bytes option \<Rightarrow> int \<Rightarrow> int \<Rightarrow> ('o, 'l) Process \<Rightarrow> ('o, 'l) Process" where
  "maybe_duplicate_send env t f b sent flags p =
     maybe_duplicate_common env ''stream_uplink_post_send'' sent (dup_count_for_fd env t f)
       (SysSend f b (nat sent) flags) p"

definition maybe_duplicate_write ::
  "('o, 'l) HookEnv \<Rightarrow> HookTimes \<Rightarrow> fd \<Rightarrow> bytes option \<Rightarrow> int \<Rightarrow> ('o, 'l) Process \<Rightarrow> ('o, 'l) Process" where
  "maybe_duplicate_write env t f b sent p =
     maybe_duplicate_common env ''stream_uplink_post_write'' sent (dup_count_for_fd env t f)
       (SysWrite f b (nat sent)) p"

definition maybe_duplicate_sendto ::
  "('o, 'l) HookEnv \<Rightarrow> HookTimes \<Rightarrow> fd \<Rightarrow> bytes option \<Rightarrow> int \<Rightarrow> int \<Rightarrow> bytes option \<Rightarrow> u32
     \<Rightarrow> ('o, 'l) Process \<Rightarrow> ('o, 'l) Process" where
  "maybe_duplicate_sendto env t f b sent flags adr adr_len p =
     maybe_duplicate_common env ''stream_uplink_post_sendto'' sent
       (with_bridge (uplink_duplicate_count_for_addr_or_fd (he_shm env) (he_sock env) (he_tid env)
          (fst (ht_dup_lookup t)) (snd (ht_dup_lookup t)) f adr (unat adr_len)))
       (SysSendto f b (nat sent) flags adr adr_len) p"

definition send_pending_datagram ::
  "('o, 'l) HookEnv \<Rightarrow> fd \<Rightarrow> PendingDatagram \<Rightarrow> ('o, 'l) Process \<Rightarrow> ('o, 'l) Process" where
  "send_pending_datagram env f pkt p =
     snd (syscall env (SysSendto f (Some (dg_data pkt)) (length (dg_data pkt)) (dg_flags pkt)
       (if dg_addr pkt = [] then None else Some (dg_addr pkt)) (dg_addr_len pkt)) p)"

text \<open>The effects of a directive: an early return with its \<open>errno\<close>, or a sleep.\<close>

definition run_stream_directive :: "StreamDirective \<Rightarrow> ('o, 'l) Process \<Rightarrow> int option \<times> ('o, 'l) Process" where
  "run_stream_directive d p =
     (let (ret, ns, err) = apply_stream_directive d;
          p1 = thread_sleep (unat ns) p
      in (ret, case err of Some e \<Rightarrow> set_errno_value (RtErrno e) p1 | None \<Rightarrow> p1))"

definition run_connect_directive :: "ConnectDirective \<Rightarrow> ('o, 'l) Process \<Rightarrow> int option \<times> ('o, 'l) Process" where
  "run_connect_directive d p =
     (let (ret, ns, err) = apply_connect_directive d;
          p1 = thread_sleep (unat ns) p
      in (ret, case err of Some e \<Rightarrow> set_errno_value (RtErrno e) p1 | None \<Rightarrow> p1))"

section \<open>Names from C strings and OpenSSL handles\<close>

text \<open>A C string is its bytes up to the terminating zero.\<close>

definition normalized_name_from_cstr :: "bytes option \<Rightarrow> bytes option" where
  "normalized_name_from_cstr raw =
     (case raw of
        None \<Rightarrow> None
      | Some s \<Rightarrow>
          let str = takeWhile (\<lambda>b. b \<noteq> 0) s
          in if utf8_valid str then normalize_semantic_name str else None)"

definition ssl_key :: "nat \<Rightarrow> nat option" where
  "ssl_key ssl = (if ssl = 0 then None else Some ssl)"

definition remember_ssl_sni :: "nat \<Rightarrow> bytes \<Rightarrow> ('o, 'l) Process \<Rightarrow> ('o, 'l) Process" where
  "remember_ssl_sni ssl sni p =
     (case ssl_key ssl of
        None \<Rightarrow> p
      | Some key \<Rightarrow> p\<lparr>pr_ssl_sni := (pr_ssl_sni p)(key \<mapsto> sni)\<rparr>)"

definition forget_ssl_state :: "nat \<Rightarrow> ('o, 'l) Process \<Rightarrow> ('o, 'l) Process" where
  "forget_ssl_state ssl p =
     (case ssl_key ssl of
        None \<Rightarrow> p
      | Some key \<Rightarrow> p\<lparr>pr_ssl_sni := (pr_ssl_sni p)(key := None), pr_ssl_fd := (pr_ssl_fd p)(key := None)\<rparr>)"

definition forget_ssl_bindings_for_fd :: "fd \<Rightarrow> ('o, 'l) Process \<Rightarrow> ('o, 'l) Process" where
  "forget_ssl_bindings_for_fd f p =
     (if f < 0 then p
      else
        let bound = (\<lambda>key. pr_ssl_fd p key = Some f)
        in p\<lparr>pr_ssl_fd := (\<lambda>key. if bound key then None else pr_ssl_fd p key),
             pr_ssl_sni := (\<lambda>key. if bound key then None else pr_ssl_sni p key)\<rparr>)"

definition process_observe_sni :: "fd \<Rightarrow> bytes \<Rightarrow> ('o, 'l) Process \<Rightarrow> ('o, 'l) Process" where
  "process_observe_sni f sni p =
     p\<lparr>pr_bridge := (pr_bridge p)\<lparr>br_sni := observe_sni_for_fd f sni (br_sni (pr_bridge p))\<rparr>\<rparr>"

definition remember_ssl_fd :: "nat \<Rightarrow> fd \<Rightarrow> ('o, 'l) Process \<Rightarrow> ('o, 'l) Process" where
  "remember_ssl_fd ssl f p =
     (if f < 0 then p
      else case ssl_key ssl of
        None \<Rightarrow> p
      | Some key \<Rightarrow>
          let p1 = p\<lparr>pr_ssl_fd := (pr_ssl_fd p)(key \<mapsto> f)\<rparr>
          in case pr_ssl_sni p1 key of
               Some sni \<Rightarrow> process_observe_sni f sni p1
             | None \<Rightarrow> p1)"

definition bind_ssl_sni_if_possible ::
  "('o, 'l) HookEnv \<Rightarrow> nat \<Rightarrow> bytes \<Rightarrow> ('o, 'l) Process \<Rightarrow> ('o, 'l) Process" where
  "bind_ssl_sni_if_possible env ssl sni p =
     (case ssl_key ssl of
        None \<Rightarrow> p
      | Some key \<Rightarrow>
          (case (case he_ssl_get_fd env of
                   Some get_fd \<Rightarrow> if get_fd ssl \<ge> 0 then Some (get_fd ssl) else None
                 | None \<Rightarrow> None) of
             Some f \<Rightarrow> process_observe_sni f sni (remember_ssl_fd ssl f p)
           | None \<Rightarrow>
               (case pr_ssl_fd p key of
                  Some f \<Rightarrow> process_observe_sni f sni p
                | None \<Rightarrow> p)))"

definition call_ssl_ctrl_orig ::
  "('o, 'l) HookEnv \<Rightarrow> nat \<Rightarrow> int \<Rightarrow> int \<Rightarrow> bytes option \<Rightarrow> ('o, 'l) Process \<Rightarrow> int \<times> ('o, 'l) Process" where
  "call_ssl_ctrl_orig env ssl cmd larg parg p =
     (if he_ssl_ctrl env then let (r, p') = syscall env (SslCtrl ssl cmd larg parg) p in (rp_value r, p')
      else (0, p))"

definition call_ssl_set_fd_orig :: "('o, 'l) HookEnv \<Rightarrow> nat \<Rightarrow> fd \<Rightarrow> ('o, 'l) Process \<Rightarrow> int \<times> ('o, 'l) Process" where
  "call_ssl_set_fd_orig env ssl f p =
     (if he_ssl_set_fd env then let (r, p') = syscall env (SslSetFd ssl f) p in (rp_value r, p') else (0, p))"

definition call_ssl_free_orig :: "('o, 'l) HookEnv \<Rightarrow> nat \<Rightarrow> ('o, 'l) Process \<Rightarrow> ('o, 'l) Process" where
  "call_ssl_free_orig env ssl p = (if he_ssl_free env then snd (syscall env (SslFree ssl) p) else p)"

end
