(* ===== verification/Uplink_Hooks.thy ===== *)
theory Uplink_Hooks
  imports Interceptor_Process
begin

text \<open>
  The sending hooks (\<open>faultcore_interceptor/src/lib.rs\<close>: \<open>handle_uplink_send\<close>, \<open>write\<close>, \<open>send\<close>, \<open>sendto\<close>).

  \<open>handle_uplink_send\<close> takes the closures of its callers as arguments, as the source does: the
  configuration lookup, the original call, the staging of a datagram, the duplication after a success.
  The queue of the descriptor is locked for the whole call and passed in and out.
\<close>

section \<open>The common handler\<close>

definition evaluate_pre ::
  "('o, 'l) HookEnv \<Rightarrow> HookTimes \<Rightarrow> string \<Rightarrow> fd \<Rightarrow> Config \<Rightarrow> nat \<Rightarrow> Direction \<Rightarrow> ('o, 'l) Process
     \<Rightarrow> LayerDecision \<times> ('o, 'l) Process" where
  "evaluate_pre env t site s cfg l dir p =
     record_replay_evaluate_or_replay env site
       (with_engine (evaluate_stream_pre (ht_clk t) (ht_pre t) s cfg (of_nat l) dir)) p"

definition uplink_mutation ::
  "('o, 'l) HookEnv \<Rightarrow> HookTimes \<Rightarrow> fd \<Rightarrow> Config \<Rightarrow> bytes \<Rightarrow> ('o, 'l) Process \<Rightarrow> bytes \<times> ('o, 'l) Process" where
  "uplink_mutation env t s cfg raw p =
     (let ((l6_decision, maybe_mutated), p1) =
            with_engine (evaluate_r7_with_buffer (ht_r7 t) s cfg Uplink (of_nat (length raw)) raw) p;
          p2 = snd (record_replay_evaluate_or_replay env ''stream_uplink_l6_mutation'' (\<lambda>p. (l6_decision, p)) p1)
      in case maybe_mutated of
           Some data \<Rightarrow> (data, record_mutation True (length raw) (length data) p2)
         | None \<Rightarrow> (raw, record_mutation False (length raw) (length raw) p2))"

definition decide_stream ::
  "HookTimes \<Rightarrow> fd \<Rightarrow> LayerDecision \<Rightarrow> bool \<Rightarrow> ('o, 'l) Process \<Rightarrow> int option \<times> ('o, 'l) Process" where
  "decide_stream t s d non_blocking p =
     (let (directive, rt) = map_stream_decision (ht_map t) s d non_blocking (pr_runtime p)
      in run_stream_directive directive (p\<lparr>pr_runtime := rt\<rparr>))"

text \<open>What follows a result: byte accounting, duplicates, one waiting datagram.\<close>

definition finish_uplink ::
  "('o, 'l) HookEnv \<Rightarrow> fd \<Rightarrow> bool \<Rightarrow> bool \<Rightarrow> (int \<Rightarrow> bytes \<Rightarrow> ('o, 'l) Process \<Rightarrow> ('o, 'l) Process) \<Rightarrow> bytes \<Rightarrow> int
     \<Rightarrow> queue \<Rightarrow> ('o, 'l) Process \<Rightarrow> int \<times> queue \<times> ('o, 'l) Process" where
  "finish_uplink env s faults_applied staged duplicate_after_success payload res pending p =
     (if res > 0 then
        let p1 = hook_record_stream_bytes s (of_int res) p;
            p2 = (if faults_applied \<and> \<not> staged then duplicate_after_success res payload p1 else p1)
        in if faults_applied then
             (case pop_reorder_after_success pending staged of
                (Some pkt, rest) \<Rightarrow> (res, rest, send_pending_datagram env s pkt p2)
              | (None, rest) \<Rightarrow> (res, rest, p2))
           else (res, pending, p2)
      else (res, pending, p))"

definition handle_uplink_send ::
  "('o, 'l) HookEnv \<Rightarrow> HookTimes \<Rightarrow> string \<Rightarrow> fd \<Rightarrow> nat \<Rightarrow> bytes option \<Rightarrow> bool
     \<Rightarrow> (('o, 'l) Process \<Rightarrow> Config option \<times> ('o, 'l) Process)
     \<Rightarrow> (bytes \<Rightarrow> ('o, 'l) Process \<Rightarrow> int \<times> ('o, 'l) Process)
     \<Rightarrow> (queue \<Rightarrow> bytes \<Rightarrow> int \<times> queue)
     \<Rightarrow> (int \<Rightarrow> bytes \<Rightarrow> ('o, 'l) Process \<Rightarrow> ('o, 'l) Process)
     \<Rightarrow> queue \<Rightarrow> ('o, 'l) Process \<Rightarrow> int \<times> queue \<times> ('o, 'l) Process" where
  "handle_uplink_send env t site s l payload non_blocking config_lookup call_orig stage_reorder duplicate_after_success
     pending p =
     (let given = (case payload of Some b \<Rightarrow> b | None \<Rightarrow> []);
          (cfg, p1) = config_lookup p
      in case cfg of
           None \<Rightarrow>
             let (res, p2) = call_orig given p1
             in finish_uplink env s False False duplicate_after_success given res pending p2
         | Some network_cfg \<Rightarrow>
             let (expired, q1) = flush_expired_reorder (ht_flush t) pending (reorder_max_delay_ns network_cfg);
                 p2 = fold (send_pending_datagram env s) expired p1;
                 (d, p3) = evaluate_pre env t site s network_cfg l Uplink p2;
                 (effective_payload, p4) =
                   (case payload of
                      Some raw \<Rightarrow> uplink_mutation env t s network_cfg raw p3
                    | None \<Rightarrow> (given, p3));
                 (early, p5) = decide_stream t s d non_blocking p4
             in case early of
                  Some e \<Rightarrow> finish_uplink env s True False duplicate_after_success effective_payload e q1 p5
                | None \<Rightarrow>
                    if d = StageReorder then
                      let (staged, q2) = stage_reorder q1 effective_payload;
                          (overflow, q3) = enforce_reorder_window q2 (unat (reorder_window network_cfg));
                          p6 = fold (send_pending_datagram env s) overflow p5
                      in finish_uplink env s True True duplicate_after_success effective_payload staged q3 p6
                    else
                      let (res, p6) = call_orig effective_payload p5
                      in finish_uplink env s True False duplicate_after_success effective_payload res q1 p6)"

text \<open>The lock on the queue of a descriptor around a handler that changes the whole process.\<close>

definition with_send_queue ::
  "fd \<Rightarrow> (queue \<Rightarrow> ('o, 'l) Process \<Rightarrow> 'r \<times> queue \<times> ('o, 'l) Process) \<Rightarrow> ('o, 'l) Process \<Rightarrow> 'r \<times> ('o, 'l) Process" where
  "with_send_queue s act p =
     (let (r, q, p1) = act (case reorder_pending_by_fd (pr_runtime p) s of Some q \<Rightarrow> q | None \<Rightarrow> []) p;
          rt = pr_runtime p1
      in (r, p1\<lparr>pr_runtime := rt\<lparr>reorder_pending_by_fd :=
                 (reorder_pending_by_fd rt)(s := if q = [] then None else Some q)\<rparr>\<rparr>))"

section \<open>The hooks\<close>

definition sent_payload :: "bytes option \<Rightarrow> nat \<Rightarrow> bytes option" where
  "sent_payload b l = (case b of Some buf \<Rightarrow> if l > 0 then Some (take l buf) else None | None \<Rightarrow> None)"

definition fd_config ::
  "('o, 'l) HookEnv \<Rightarrow> HookTimes \<Rightarrow> fd \<Rightarrow> ('o, 'l) Process \<Rightarrow> Config option \<times> ('o, 'l) Process" where
  "fd_config env t s p =
     with_bridge (runtime_config_for_fd (he_shm env) (he_sock env) (he_tid env)
       (fst (ht_lookup t)) (snd (ht_lookup t)) s) p"

definition addr_config ::
  "('o, 'l) HookEnv \<Rightarrow> HookTimes \<Rightarrow> fd \<Rightarrow> bytes option \<Rightarrow> nat \<Rightarrow> ('o, 'l) Process \<Rightarrow> Config option \<times> ('o, 'l) Process" where
  "addr_config env t s adr adr_len p =
     with_bridge (runtime_config_for_addr_or_fd (he_shm env) (he_sock env) (he_tid env)
       (fst (ht_lookup t)) (snd (ht_lookup t)) s adr adr_len) p"

text \<open>Observing the SNI of the buffer; the parser does not panic (\<open>client_hello_total\<close>).\<close>

definition observe_sent_sni :: "fd \<Rightarrow> bytes option \<Rightarrow> nat \<Rightarrow> ('o, 'l) Process \<Rightarrow> ('o, 'l) Process" where
  "observe_sent_sni s b l p =
     (case observe_tls_sni_from_send_buffer s (map_option (take l) b) (br_sni (pr_bridge p)) of
        Some m \<Rightarrow> p\<lparr>pr_bridge := (pr_bridge p)\<lparr>br_sni := m\<rparr>\<rparr>
      | None \<Rightarrow> p)"

text \<open>An empty payload stands for the caller's own buffer.\<close>

definition send_args :: "bytes option \<Rightarrow> nat \<Rightarrow> bytes \<Rightarrow> bytes option \<times> nat" where
  "send_args b l payload = (if payload = [] then (map_option (take l) b, l) else (Some payload, length payload))"

definition stage_result :: "nat \<Rightarrow> int option \<times> queue \<Rightarrow> int \<times> queue" where
  "stage_result l r = (case r of (Some v, q) \<Rightarrow> (v, q) | (None, q) \<Rightarrow> (int l, q))"

definition send_hook ::
  "('o, 'l) HookEnv \<Rightarrow> HookTimes \<Rightarrow> fd \<Rightarrow> bytes option \<Rightarrow> nat \<Rightarrow> int \<Rightarrow> ('o, 'l) Process \<Rightarrow> int \<times> ('o, 'l) Process" where
  "send_hook env t s b l f =
     hook env (orig_call env (SysSend s (map_option (take l) b) l f))
       (\<lambda>p. with_send_queue s (\<lambda>pending p.
          handle_uplink_send env t ''stream_uplink_pre_send'' s l (sent_payload b l) (is_non_blocking env s)
            (fd_config env t s)
            (\<lambda>payload. orig_call env (SysSend s (fst (send_args b l payload)) (snd (send_args b l payload)) f))
            (\<lambda>pending payload. stage_result l
               (stage_reorder_send (ht_stage t) pending (fst (send_args b l payload)) (snd (send_args b l payload)) f))
            (\<lambda>sent payload. maybe_duplicate_send env t s (fst (send_args b l payload)) sent f)
            pending p) (observe_sent_sni s b l p))"

definition write_hook ::
  "('o, 'l) HookEnv \<Rightarrow> HookTimes \<Rightarrow> fd \<Rightarrow> bytes option \<Rightarrow> nat \<Rightarrow> ('o, 'l) Process \<Rightarrow> int \<times> ('o, 'l) Process" where
  "write_hook env t s b l =
     hook env (orig_call env (SysWrite s (map_option (take l) b) l))
       (\<lambda>p. with_send_queue s (\<lambda>pending p.
          handle_uplink_send env t ''stream_uplink_pre_write'' s l (sent_payload b l) (is_non_blocking env s)
            (fd_config env t s)
            (\<lambda>payload. orig_call env (SysWrite s (fst (send_args b l payload)) (snd (send_args b l payload))))
            (\<lambda>pending payload. stage_result l
               (stage_reorder_send (ht_stage t) pending (fst (send_args b l payload)) (snd (send_args b l payload)) 0))
            (\<lambda>sent payload. maybe_duplicate_write env t s (fst (send_args b l payload)) sent)
            pending p) (observe_sent_sni s b l p))"

definition sendto_hook ::
  "('o, 'l) HookEnv \<Rightarrow> HookTimes \<Rightarrow> fd \<Rightarrow> bytes option \<Rightarrow> nat \<Rightarrow> int \<Rightarrow> bytes option \<Rightarrow> u32
     \<Rightarrow> ('o, 'l) Process \<Rightarrow> int \<times> ('o, 'l) Process" where
  "sendto_hook env t s b l f adr adr_len =
     hook env (orig_call env (SysSendto s (map_option (take l) b) l f adr adr_len))
       (\<lambda>p. with_send_queue s (\<lambda>pending p.
          handle_uplink_send env t ''stream_uplink_pre_sendto'' s l (sent_payload b l) (is_non_blocking env s)
            (addr_config env t s adr (unat adr_len))
            (\<lambda>payload. orig_call env (SysSendto s (fst (send_args b l payload)) (snd (send_args b l payload)) f adr adr_len))
            (\<lambda>pending payload. stage_result l
               (stage_reorder_sendto (ht_stage t) pending (fst (send_args b l payload)) (snd (send_args b l payload)) f
                  adr adr_len))
            (\<lambda>sent payload. maybe_duplicate_sendto env t s (fst (send_args b l payload)) sent f adr adr_len)
            pending p) (observe_sent_sni s b l p))"

end
