(* ===== verification/Downlink_Hooks.thy ===== *)
theory Downlink_Hooks
  imports Uplink_Hooks
begin

text \<open>
  The receiving hooks (\<open>faultcore_interceptor/src/lib.rs\<close>: \<open>handle_downlink_recv\<close>, \<open>read\<close>, \<open>recv\<close>, \<open>recvfrom\<close>).

  The memory the caller lends is threaded through: the buffer, the address and the address length,
  each \<^const>\<open>None\<close> for a null pointer. The original call, the snapshot of what it received and the
  write-back of a staged datagram are arguments, as in the source.
\<close>

section \<open>The common handler\<close>

record UserMem =
  um_buffer :: "bytes option"
  um_addr :: "bytes option"
  um_addr_len :: "u32 option"

definition downlink_mutation ::
  "('o, 'l) HookEnv \<Rightarrow> HookTimes \<Rightarrow> fd \<Rightarrow> Config \<Rightarrow> (nat \<Rightarrow> int \<Rightarrow> UserMem \<Rightarrow> PendingDatagram option)
     \<Rightarrow> (PendingDatagram \<Rightarrow> UserMem \<Rightarrow> int \<times> UserMem)
     \<Rightarrow> int \<Rightarrow> UserMem \<Rightarrow> ('o, 'l) Process \<Rightarrow> int \<times> UserMem \<times> ('o, 'l) Process" where
  "downlink_mutation env t s cfg snapshot write_staged res mem p =
     (case (if res > 0 then snapshot (ht_snapshot t) res mem else None) of
        None \<Rightarrow> (res, mem, p)
      | Some pkt \<Rightarrow>
          let ((l6_decision, maybe_mutated), p1) =
                with_engine (evaluate_r7_with_buffer (ht_r7 t) s cfg Downlink (of_int res) (dg_data pkt)) p;
              p2 = snd (record_replay_evaluate_or_replay env ''stream_downlink_l6_mutation''
                          (\<lambda>p. (l6_decision, p)) p1)
          in case maybe_mutated of
               Some data \<Rightarrow>
                 let (written, mem') = write_staged (pkt\<lparr>dg_data := data\<rparr>) mem
                 in (written, mem', record_mutation True (nat written) (length data) p2)
             | None \<Rightarrow> (res, mem, record_mutation False (nat res) (nat res) p2))"

text \<open>A blocking \<open>StageReorder\<close>: the first datagram waits behind the second.\<close>

definition reorder_blocking ::
  "HookTimes \<Rightarrow> (UserMem \<Rightarrow> ('o, 'l) Process \<Rightarrow> int \<times> UserMem \<times> ('o, 'l) Process)
     \<Rightarrow> (nat \<Rightarrow> int \<Rightarrow> UserMem \<Rightarrow> PendingDatagram option) \<Rightarrow> (PendingDatagram \<Rightarrow> UserMem \<Rightarrow> int \<times> UserMem)
     \<Rightarrow> queue \<Rightarrow> UserMem \<Rightarrow> ('o, 'l) Process \<Rightarrow> int \<times> queue \<times> UserMem \<times> ('o, 'l) Process" where
  "reorder_blocking t call_orig snapshot write_staged pending mem p =
     (let (first_recv, mem1, p1) = call_orig mem p
      in if first_recv \<le> 0 then (first_recv, pending, mem1, p1)
         else case snapshot (ht_stage t) first_recv mem1 of
           None \<Rightarrow> (first_recv, pending, mem1, p1)
         | Some pkt \<Rightarrow>
             let (second_recv, mem2, p2) = call_orig mem1 p1
             in if second_recv > 0 then (second_recv, pending @ [pkt], mem2, p2)
                else case pending @ [pkt] of
                  staged # rest \<Rightarrow> let (written, mem3) = write_staged staged mem2 in (written, rest, mem3, p2)
                | [] \<Rightarrow> (second_recv, [], mem2, p2))"

definition reorder_non_blocking ::
  "HookTimes \<Rightarrow> bool \<Rightarrow> (UserMem \<Rightarrow> ('o, 'l) Process \<Rightarrow> int \<times> UserMem \<times> ('o, 'l) Process)
     \<Rightarrow> (nat \<Rightarrow> int \<Rightarrow> UserMem \<Rightarrow> PendingDatagram option)
     \<Rightarrow> queue \<Rightarrow> UserMem \<Rightarrow> ('o, 'l) Process \<Rightarrow> int \<times> queue \<times> UserMem \<times> ('o, 'l) Process" where
  "reorder_non_blocking t stage call_orig snapshot pending mem p =
     (let (recv_result, mem1, p1) = call_orig mem p
      in if stage \<and> recv_result > 0 then
           (case snapshot (ht_stage t) recv_result mem1 of
              Some pkt \<Rightarrow> (- 1, pending @ [pkt], mem1, set_errno_value (RtErrno EAGAIN) p1)
            | None \<Rightarrow> (recv_result, pending, mem1, p1))
         else (recv_result, pending, mem1, p1))"

definition handle_downlink_recv ::
  "('o, 'l) HookEnv \<Rightarrow> HookTimes \<Rightarrow> string \<Rightarrow> fd \<Rightarrow> nat \<Rightarrow> bool
     \<Rightarrow> (UserMem \<Rightarrow> ('o, 'l) Process \<Rightarrow> int \<times> UserMem \<times> ('o, 'l) Process)
     \<Rightarrow> (nat \<Rightarrow> int \<Rightarrow> UserMem \<Rightarrow> PendingDatagram option) \<Rightarrow> (PendingDatagram \<Rightarrow> UserMem \<Rightarrow> int \<times> UserMem)
     \<Rightarrow> UserMem \<Rightarrow> queue \<Rightarrow> ('o, 'l) Process \<Rightarrow> (int \<times> bool \<times> UserMem) \<times> queue \<times> ('o, 'l) Process" where
  "handle_downlink_recv env t site s l non_blocking call_orig snapshot write_staged mem pending p =
     (let (cfg, p1) = fd_config env t s p
      in case cfg of
           None \<Rightarrow> let (res, mem1, p2) = call_orig mem p1 in ((res, True, mem1), pending, p2)
         | Some network_cfg \<Rightarrow>
             (case pending of
                pkt # rest \<Rightarrow> let (written, mem1) = write_staged pkt mem in ((written, False, mem1), rest, p1)
              | [] \<Rightarrow>
                  let (d, p2) = evaluate_pre env t site s network_cfg l Downlink p1;
                      (early, p3) = decide_stream t s d non_blocking p2;
                      (out, q, mem1, p4) =
                        (case early of
                           Some e \<Rightarrow> (e, pending, mem, p3)
                         | None \<Rightarrow>
                             if \<not> non_blocking \<and> d = StageReorder
                             then reorder_blocking t call_orig snapshot write_staged pending mem p3
                             else reorder_non_blocking t (non_blocking \<and> d = StageReorder) call_orig snapshot
                                    pending mem p3);
                      (out', mem2, p5) = downlink_mutation env t s network_cfg snapshot write_staged out mem1 p4
                  in ((out', True, mem2), q, p5)))"

text \<open>The lock on the receive queue of a descriptor.\<close>

definition with_recv_queue ::
  "fd \<Rightarrow> (queue \<Rightarrow> ('o, 'l) Process \<Rightarrow> 'r \<times> queue \<times> ('o, 'l) Process) \<Rightarrow> ('o, 'l) Process \<Rightarrow> 'r \<times> ('o, 'l) Process" where
  "with_recv_queue s act p =
     (let (r, q, p1) = act (case reorder_pending_recv_by_fd (pr_runtime p) s of Some q \<Rightarrow> q | None \<Rightarrow> []) p;
          rt = pr_runtime p1
      in (r, p1\<lparr>pr_runtime := rt\<lparr>reorder_pending_recv_by_fd :=
                 (reorder_pending_recv_by_fd rt)(s := if q = [] then None else Some q)\<rparr>\<rparr>))"

section \<open>The hooks\<close>

text \<open>What the three hooks do with the result: count its bytes unless it came from the queue.\<close>

definition finish_downlink :: "fd \<Rightarrow> (int \<times> bool \<times> UserMem) \<times> ('o, 'l) Process \<Rightarrow> (int \<times> UserMem) \<times> ('o, 'l) Process" where
  "finish_downlink s r =
     (let ((res, should_record, mem), p) = r
      in ((res, mem), if should_record \<and> res > 0 then hook_record_stream_bytes s (of_int res) p else p))"

definition recv_orig ::
  "('o, 'l) HookEnv \<Rightarrow> (UserMem \<Rightarrow> sys_call) \<Rightarrow> UserMem \<Rightarrow> ('o, 'l) Process \<Rightarrow> int \<times> UserMem \<times> ('o, 'l) Process" where
  "recv_orig env c mem p =
     (let (r, p') = syscall env (c mem) p in (rp_value r, mem\<lparr>um_buffer := rp_buffer r\<rparr>, p'))"

definition recvfrom_orig ::
  "('o, 'l) HookEnv \<Rightarrow> (UserMem \<Rightarrow> sys_call) \<Rightarrow> UserMem \<Rightarrow> ('o, 'l) Process \<Rightarrow> int \<times> UserMem \<times> ('o, 'l) Process" where
  "recvfrom_orig env c mem p =
     (let (r, p') = syscall env (c mem) p
      in (rp_value r, \<lparr>um_buffer = rp_buffer r, um_addr = rp_addr r, um_addr_len = rp_addr_len r\<rparr>, p'))"

definition write_back :: "nat \<Rightarrow> PendingDatagram \<Rightarrow> UserMem \<Rightarrow> int \<times> UserMem" where
  "write_back l pkt mem =
     (let (n, b) = write_pending_recv_result pkt (um_buffer mem) l in (n, mem\<lparr>um_buffer := b\<rparr>))"

definition write_back_from :: "nat \<Rightarrow> PendingDatagram \<Rightarrow> UserMem \<Rightarrow> int \<times> UserMem" where
  "write_back_from l pkt mem =
     (let (n, b, adr, adr_len) = write_pending_recvfrom_result pkt (um_buffer mem) l (um_addr mem) (um_addr_len mem)
      in (n, \<lparr>um_buffer = b, um_addr = adr, um_addr_len = adr_len\<rparr>))"

definition read_hook ::
  "('o, 'l) HookEnv \<Rightarrow> HookTimes \<Rightarrow> fd \<Rightarrow> nat \<Rightarrow> UserMem \<Rightarrow> ('o, 'l) Process \<Rightarrow> (int \<times> UserMem) \<times> ('o, 'l) Process" where
  "read_hook env t s l mem =
     (let call_orig = recv_orig env (\<lambda>mem. SysRead s (um_buffer mem) l)
      in hook env (\<lambda>p. let (res, mem', p') = call_orig mem p in ((res, mem'), p'))
           (\<lambda>p. finish_downlink s (with_recv_queue s
              (handle_downlink_recv env t ''stream_downlink_pre_read'' s l (is_non_blocking env s) call_orig
                 (\<lambda>now res mem. snapshot_recv_datagram now (um_buffer mem) res 0) (write_back l) mem) p)))"

definition recv_hook ::
  "('o, 'l) HookEnv \<Rightarrow> HookTimes \<Rightarrow> fd \<Rightarrow> nat \<Rightarrow> int \<Rightarrow> UserMem \<Rightarrow> ('o, 'l) Process
     \<Rightarrow> (int \<times> UserMem) \<times> ('o, 'l) Process" where
  "recv_hook env t s l f mem =
     (let call_orig = recv_orig env (\<lambda>mem. SysRecv s (um_buffer mem) l f)
      in hook env (\<lambda>p. let (res, mem', p') = call_orig mem p in ((res, mem'), p'))
           (\<lambda>p. finish_downlink s (with_recv_queue s
              (handle_downlink_recv env t ''stream_downlink_pre_recv'' s l (is_non_blocking env s) call_orig
                 (\<lambda>now res mem. snapshot_recv_datagram now (um_buffer mem) res f) (write_back l) mem) p)))"

definition recvfrom_hook ::
  "('o, 'l) HookEnv \<Rightarrow> HookTimes \<Rightarrow> fd \<Rightarrow> nat \<Rightarrow> int \<Rightarrow> UserMem \<Rightarrow> ('o, 'l) Process
     \<Rightarrow> (int \<times> UserMem) \<times> ('o, 'l) Process" where
  "recvfrom_hook env t s l f mem =
     (let call_orig = recvfrom_orig env (\<lambda>mem. SysRecvfrom s (um_buffer mem) l f (um_addr mem) (um_addr_len mem))
      in hook env (\<lambda>p. let (res, mem', p') = call_orig mem p in ((res, mem'), p'))
           (\<lambda>p. finish_downlink s (with_recv_queue s
              (handle_downlink_recv env t ''stream_downlink_pre_recvfrom'' s l (is_non_blocking env s) call_orig
                 (\<lambda>now res mem. snapshot_recvfrom_datagram now (um_buffer mem) res f (um_addr mem) (um_addr_len mem))
                 (write_back_from l) mem) p)))"

end
