(* ===== verification/Socket_Hooks.thy ===== *)
theory Socket_Hooks
  imports Downlink_Hooks
begin

text \<open>
  The remaining hooks (\<open>faultcore_interceptor/src/lib.rs\<close>): the calls that create, copy and close
  descriptors, \<open>connect\<close>, \<open>getaddrinfo\<close>, the three OpenSSL functions and \<open>setpriority\<close>.
\<close>

section \<open>Descriptors\<close>

definition upd_bridge :: "(Bridge \<Rightarrow> Bridge) \<Rightarrow> ('o, 'l) Process \<Rightarrow> ('o, 'l) Process" where
  "upd_bridge f p = p\<lparr>pr_bridge := f (pr_bridge p)\<rparr>"

definition upd_engine :: "(ChaosEngine \<Rightarrow> ChaosEngine) \<Rightarrow> ('o, 'l) Process \<Rightarrow> ('o, 'l) Process" where
  "upd_engine f p = upd_bridge (\<lambda>b. b\<lparr>br_engine := f (br_engine b)\<rparr>) p"

definition upd_runtime :: "(InterceptorRuntime \<Rightarrow> InterceptorRuntime) \<Rightarrow> ('o, 'l) Process \<Rightarrow> ('o, 'l) Process" where
  "upd_runtime f p = p\<lparr>pr_runtime := f (pr_runtime p)\<rparr>"

definition socket_hook :: "('o, 'l) HookEnv \<Rightarrow> int \<Rightarrow> int \<Rightarrow> int \<Rightarrow> ('o, 'l) Process \<Rightarrow> int \<times> ('o, 'l) Process" where
  "socket_hook env domain ty proto =
     hook env (orig_call env (SysSocket domain ty proto))
       (\<lambda>p. let (f, p1) = orig_call env (SysSocket domain ty proto) p
            in (f, if f \<ge> 0 then upd_bridge (bind_fd_to_current_thread (he_tid env) f) p1 else p1))"

definition close_hook :: "('o, 'l) HookEnv \<Rightarrow> fd \<Rightarrow> ('o, 'l) Process \<Rightarrow> int \<times> ('o, 'l) Process" where
  "close_hook env f =
     hook env (orig_call env (SysClose f))
       (\<lambda>p. let p1 = upd_engine (clear_fd_state f) p;
                p2 = upd_runtime (runtime_clear_fd_state f) p1;
                p3 = forget_ssl_bindings_for_fd f p2;
                p4 = upd_bridge (clear_fd_binding f) p3
            in orig_call env (SysClose f) p4)"

definition dup_hook :: "('o, 'l) HookEnv \<Rightarrow> fd \<Rightarrow> ('o, 'l) Process \<Rightarrow> int \<times> ('o, 'l) Process" where
  "dup_hook env oldfd =
     hook env (orig_call env (SysDup oldfd))
       (\<lambda>p. let (newfd, p1) = orig_call env (SysDup oldfd) p
            in (newfd, if newfd \<ge> 0 then upd_bridge (clone_fd_binding oldfd newfd) p1 else p1))"

text \<open>What \<open>dup2\<close> and \<open>dup3\<close> do after the original call succeeded.\<close>

definition after_dup_onto :: "fd \<Rightarrow> int \<Rightarrow> ('o, 'l) Process \<Rightarrow> ('o, 'l) Process" where
  "after_dup_onto oldfd out p =
     (let p1 = (if oldfd \<noteq> out then upd_runtime (runtime_clear_fd_state out) (upd_engine (clear_fd_state out) p)
                else p)
      in upd_bridge (clone_fd_binding oldfd out) p1)"

definition dup2_hook :: "('o, 'l) HookEnv \<Rightarrow> fd \<Rightarrow> fd \<Rightarrow> ('o, 'l) Process \<Rightarrow> int \<times> ('o, 'l) Process" where
  "dup2_hook env oldfd newfd =
     hook env (orig_call env (SysDup2 oldfd newfd))
       (\<lambda>p. let (out, p1) = orig_call env (SysDup2 oldfd newfd) p
            in (out, if out \<ge> 0 then after_dup_onto oldfd out p1 else p1))"

definition dup3_hook :: "('o, 'l) HookEnv \<Rightarrow> fd \<Rightarrow> fd \<Rightarrow> int \<Rightarrow> ('o, 'l) Process \<Rightarrow> int \<times> ('o, 'l) Process" where
  "dup3_hook env oldfd newfd flags =
     hook env (orig_call env (SysDup3 oldfd newfd flags))
       (\<lambda>p. let (out, p1) = orig_call env (SysDup3 oldfd newfd flags) p
            in (out, if out \<ge> 0 then after_dup_onto oldfd out p1 else p1))"

definition accept_body ::
  "('o, 'l) HookEnv \<Rightarrow> fd \<Rightarrow> sys_call \<Rightarrow> ('o, 'l) Process \<Rightarrow> sys_reply \<times> ('o, 'l) Process" where
  "accept_body env s c p =
     (let (r, p1) = syscall env c p; newfd = rp_value r
      in (r, if newfd \<ge> 0 then upd_bridge (clone_fd_binding s newfd) p1 else p1))"

definition accept_hook ::
  "('o, 'l) HookEnv \<Rightarrow> fd \<Rightarrow> bytes option \<Rightarrow> u32 option \<Rightarrow> ('o, 'l) Process \<Rightarrow> sys_reply \<times> ('o, 'l) Process" where
  "accept_hook env s adr adr_len =
     hook env (syscall env (SysAccept s adr adr_len)) (accept_body env s (SysAccept s adr adr_len))"

definition accept4_hook ::
  "('o, 'l) HookEnv \<Rightarrow> fd \<Rightarrow> bytes option \<Rightarrow> u32 option \<Rightarrow> int \<Rightarrow> ('o, 'l) Process
     \<Rightarrow> sys_reply \<times> ('o, 'l) Process" where
  "accept4_hook env s adr adr_len flags =
     hook env (syscall env (SysAccept4 s adr adr_len flags)) (accept_body env s (SysAccept4 s adr adr_len flags))"

section \<open>Connections and names\<close>

definition connect_hook ::
  "('o, 'l) HookEnv \<Rightarrow> HookTimes \<Rightarrow> fd \<Rightarrow> bytes option \<Rightarrow> nat \<Rightarrow> ('o, 'l) Process \<Rightarrow> int \<times> ('o, 'l) Process" where
  "connect_hook env t s a l =
     hook env (orig_call env (SysConnect s a l))
       (\<lambda>p. let p1 = upd_bridge (bind_fd_to_current_thread (he_tid env) s) p;
                (cfg, p2) = addr_config env t s a l p1
            in case cfg of
                 None \<Rightarrow> orig_call env (SysConnect s a l) p2
               | Some network_cfg \<Rightarrow>
                   let (d, p3) = record_replay_evaluate_or_replay env ''connect_pre''
                         (with_engine (evaluate_connect (ht_clk t) (ht_pre t) s network_cfg)) p2;
                       (early, p4) = run_connect_directive (map_connect_decision d) p3
                   in case early of
                        Some e \<Rightarrow> (e, p4)
                      | None \<Rightarrow> orig_call env (SysConnect s a l) p4)"

definition dns_config ::
  "('o, 'l) HookEnv \<Rightarrow> HookTimes \<Rightarrow> bytes option \<Rightarrow> ('o, 'l) Process \<Rightarrow> Config option \<times> ('o, 'l) Process" where
  "dns_config env t name p =
     (let (cfg, p1) = with_bridge (runtime_dns_config_for_query (he_shm env) (he_tid env) (fst (ht_lookup t)) name None) p
      in case cfg of
           Some c \<Rightarrow> (Some c, p1)
         | None \<Rightarrow> with_bridge (runtime_dns_config_for_current_thread (he_shm env) (he_tid env) (snd (ht_lookup t))) p1)"

definition dns_sleep :: "LayerDecision \<Rightarrow> ('o, 'l) Process \<Rightarrow> ('o, 'l) Process" where
  "dns_sleep d p =
     (case d of DelayNs ns \<Rightarrow> thread_sleep (unat ns) p | TimeoutMs ms \<Rightarrow> thread_sleep (unat ms * 1000000) p | _ \<Rightarrow> p)"

text \<open>The walk along the list of results; \<open>k\<close> counts the readings of the clock.\<close>

fun observe_addrs ::
  "('o, 'l) HookEnv \<Rightarrow> HookTimes \<Rightarrow> bytes \<Rightarrow> nat \<Rightarrow> (bytes option \<times> nat) list \<Rightarrow> ('o, 'l) Process \<Rightarrow> ('o, 'l) Process" where
  "observe_addrs env t name k [] p = p"
| "observe_addrs env t name k ((address, addr_len) # items) p =
     observe_addrs env t name (Suc k) items
       (if address \<noteq> None \<and> addr_len > 0
        then upd_bridge (observe_hostname_for_current_thread_addr (he_sock env) (he_tid env) address addr_len name
               (ht_observe t k)) p
        else p)"

definition getaddrinfo_hook ::
  "('o, 'l) HookEnv \<Rightarrow> HookTimes \<Rightarrow> bytes option \<Rightarrow> bytes option \<Rightarrow> bytes option \<Rightarrow> bool \<Rightarrow> ('o, 'l) Process
     \<Rightarrow> (eai + sys_reply) \<times> ('o, 'l) Process" where
  "getaddrinfo_hook env t node service hints res_null =
     hook env (\<lambda>p. let (r, p') = syscall env (SysGetaddrinfo node service hints) p in (Inr r, p'))
       (\<lambda>p. let observed_hostname = normalized_name_from_cstr node;
                (dns_cfg, p1) = dns_config env t observed_hostname p;
                (failed, p2) =
                  (case dns_cfg of
                     None \<Rightarrow> (None, p1)
                   | Some network_cfg \<Rightarrow>
                       let (d, p') = record_replay_evaluate_or_replay env ''dns_lookup''
                             (with_engine (evaluate_dns_lookup (ht_clk t) (ht_pre t) network_cfg)) p1
                       in (map_dns_decision_to_eai d, dns_sleep d p'))
            in case failed of
                 Some eai \<Rightarrow> (Inl eai, p2)
               | None \<Rightarrow>
                   let (r, p3) = syscall env (SysGetaddrinfo node service hints) p2
                   in (Inr r,
                       case observed_hostname of
                         Some name \<Rightarrow>
                           if rp_value r = 0 \<and> \<not> res_null then observe_addrs env t name 0 (rp_addrs r) p3 else p3
                       | None \<Rightarrow> p3))"

section \<open>OpenSSL\<close>

definition SSL_CTRL_SET_TLSEXT_HOSTNAME :: int where
  "SSL_CTRL_SET_TLSEXT_HOSTNAME = 55"

definition TLSEXT_NAMETYPE_HOST_NAME :: int where
  "TLSEXT_NAMETYPE_HOST_NAME = 0"

definition SSL_ctrl_hook ::
  "('o, 'l) HookEnv \<Rightarrow> nat \<Rightarrow> int \<Rightarrow> int \<Rightarrow> bytes option \<Rightarrow> ('o, 'l) Process \<Rightarrow> int \<times> ('o, 'l) Process" where
  "SSL_ctrl_hook env ssl cmd larg parg =
     hook env (call_ssl_ctrl_orig env ssl cmd larg parg)
       (\<lambda>p. let p1 =
              (if cmd = SSL_CTRL_SET_TLSEXT_HOSTNAME \<and> larg = TLSEXT_NAMETYPE_HOST_NAME then
                 (case normalized_name_from_cstr parg of
                    Some sni \<Rightarrow> remember_ssl_sni ssl sni (bind_ssl_sni_if_possible env ssl sni p)
                  | None \<Rightarrow> forget_ssl_state ssl p)
               else p)
            in call_ssl_ctrl_orig env ssl cmd larg parg p1)"

definition SSL_set_fd_hook :: "('o, 'l) HookEnv \<Rightarrow> nat \<Rightarrow> fd \<Rightarrow> ('o, 'l) Process \<Rightarrow> int \<times> ('o, 'l) Process" where
  "SSL_set_fd_hook env ssl f =
     hook env (call_ssl_set_fd_orig env ssl f)
       (\<lambda>p. let (out, p1) = call_ssl_set_fd_orig env ssl f p
            in (out, if out = 1 then remember_ssl_fd ssl f p1 else p1))"

definition SSL_free_hook :: "('o, 'l) HookEnv \<Rightarrow> nat \<Rightarrow> ('o, 'l) Process \<Rightarrow> unit \<times> ('o, 'l) Process" where
  "SSL_free_hook env ssl =
     hook env (\<lambda>p. ((), call_ssl_free_orig env ssl p)) (\<lambda>p. ((), call_ssl_free_orig env ssl (forget_ssl_state ssl p)))"

section \<open>The setpriority entry\<close>

definition setpriority_hook :: "('o, 'l) HookEnv \<Rightarrow> int \<Rightarrow> int \<Rightarrow> int \<Rightarrow> ('o, 'l) Process \<Rightarrow> int \<times> ('o, 'l) Process" where
  "setpriority_hook env which who prio p =
     (let (outcome, shm) = handle_setpriority_compat (he_tid env) which who prio (br_shm (pr_bridge p));
          p1 = upd_bridge (\<lambda>b. b\<lparr>br_shm := shm\<rparr>) p
      in case outcome of
           Handled \<Rightarrow> (0, p1)
         | FaultcoreError e \<Rightarrow> (- 1, set_errno_value (CompatErrno e) p1)
         | NotHandled \<Rightarrow>
             if he_setpriority env then orig_call env (SysSetpriority which who prio) p1
             else (- 1, set_errno_value ENOSYS p1))"

end
