(* ===== verification/Process_Frames.thy ===== *)
theory Process_Frames
  imports Interceptor_Process
begin

text \<open>
  What the steps of a hook leave alone. Most of them only look at the engine, the bridge and the
  recording: \<open>quiet p q\<close> says that between \<open>p\<close> and \<open>q\<close> no original function was called, the state of the kernel,
  the guard and the staged datagrams are the same. Sleeping is quiet.
\<close>

named_theorems quiet_intros

fun is_sleep :: "sys_call \<Rightarrow> bool" where
  "is_sleep (SysSleep _) = True"
| "is_sleep _ = False"

definition kernel_calls :: "('o, 'l) Process \<Rightarrow> sys_call list" where
  "kernel_calls p = filter (\<lambda>c. \<not> is_sleep c) (pr_calls p)"

definition send_queue :: "fd \<Rightarrow> ('o, 'l) Process \<Rightarrow> queue" where
  "send_queue s p = (case reorder_pending_by_fd (pr_runtime p) s of Some q \<Rightarrow> q | None \<Rightarrow> [])"

definition recv_queue :: "fd \<Rightarrow> ('o, 'l) Process \<Rightarrow> queue" where
  "recv_queue s p = (case reorder_pending_recv_by_fd (pr_runtime p) s of Some q \<Rightarrow> q | None \<Rightarrow> [])"

definition quiet :: "('o, 'l) Process \<Rightarrow> ('o, 'l) Process \<Rightarrow> bool" where
  "quiet p q \<longleftrightarrow>
     kernel_calls q = kernel_calls p \<and> pr_os q = pr_os p \<and> pr_guard q = pr_guard p
     \<and> reorder_pending_by_fd (pr_runtime q) = reorder_pending_by_fd (pr_runtime p)
     \<and> reorder_pending_recv_by_fd (pr_runtime q) = reorder_pending_recv_by_fd (pr_runtime p)"

lemma quiet_refl [simp, quiet_intros]: "quiet p p"
  by (simp add: quiet_def)

lemma quiet_trans [trans]: "quiet p q \<Longrightarrow> quiet q r \<Longrightarrow> quiet p r"
  by (simp add: quiet_def)

lemma quiet_queues:
  "quiet p q \<Longrightarrow> send_queue s q = send_queue s p"
  "quiet p q \<Longrightarrow> recv_queue s q = recv_queue s p"
  by (simp_all add: quiet_def send_queue_def recv_queue_def)

lemma quiet_with_engine [quiet_intros]: "quiet p (snd (with_engine act p))"
  by (simp add: quiet_def with_engine_def kernel_calls_def case_prod_beta Let_def)

lemma quiet_with_bridge [quiet_intros]: "quiet p (snd (with_bridge act p))"
  by (simp add: quiet_def with_bridge_def kernel_calls_def case_prod_beta Let_def)

lemma quiet_initialize [quiet_intros]: "quiet p (initialize env p)"
  by (simp add: quiet_def initialize_def with_bridge_def kernel_calls_def case_prod_beta Let_def)

lemma quiet_record_bytes [quiet_intros]: "quiet p (hook_record_stream_bytes f n p)"
  unfolding hook_record_stream_bytes_def by (rule quiet_with_engine)

lemma quiet_record_mutation [quiet_intros]: "quiet p (record_mutation a i o' p)"
  by (simp add: quiet_def record_mutation_def record_mutation_outcome_def kernel_calls_def)

lemma quiet_observe_sni [quiet_intros]: "quiet p (process_observe_sni f sni p)"
  by (simp add: quiet_def process_observe_sni_def kernel_calls_def)

lemma quiet_set_errno [quiet_intros]: "quiet p (set_errno_value e p)"
  by (simp add: quiet_def set_errno_value_def kernel_calls_def)

lemma quiet_sleep [quiet_intros]: "quiet p (thread_sleep ns p)"
  by (simp add: quiet_def thread_sleep_def kernel_calls_def)

lemma quiet_run_stream_directive [quiet_intros]: "quiet p (snd (run_stream_directive d p))"
  by (cases d) (simp_all add: run_stream_directive_def apply_stream_directive_def quiet_def set_errno_value_def
      thread_sleep_def kernel_calls_def)

lemma quiet_run_connect_directive [quiet_intros]: "quiet p (snd (run_connect_directive d p))"
  by (cases d) (simp_all add: run_connect_directive_def apply_connect_directive_def quiet_def set_errno_value_def
      thread_sleep_def kernel_calls_def)

text \<open>A consultation of the recording: either the evaluation ran, or it did not.\<close>

lemma evaluate_or_replay_world:
  "snd (snd (snd (evaluate_or_replay tj cr pn site evaluate (ses, fs, p)))) \<in> {p, snd (evaluate p)}"
  by (auto simp: evaluate_or_replay_def core_evaluate_or_replay_def Let_def case_prod_beta
      split: RecordReplayMode.splits list.splits option.splits)

lemma quiet_record_replay [quiet_intros]:
  assumes "quiet p (snd (evaluate p))"
  shows "quiet p (snd (record_replay_evaluate_or_replay env site evaluate p))"
proof -
  let ?w = "snd (snd (snd (evaluate_or_replay (he_to_json env) (he_creatable env) policy_name_of site evaluate
              (pr_session p, pr_files p, p))))"
  have "snd (record_replay_evaluate_or_replay env site evaluate p) =
      ?w\<lparr>pr_session := fst (snd (evaluate_or_replay (he_to_json env) (he_creatable env) policy_name_of site evaluate
              (pr_session p, pr_files p, p))),
         pr_files := fst (snd (snd (evaluate_or_replay (he_to_json env) (he_creatable env) policy_name_of site evaluate
              (pr_session p, pr_files p, p))))\<rparr>"
    by (simp add: record_replay_evaluate_or_replay_def case_prod_beta Let_def)
  moreover have "quiet p ?w"
    using evaluate_or_replay_world [of "he_to_json env" "he_creatable env" policy_name_of site evaluate
        "pr_session p" "pr_files p" p] assms by auto
  ultimately show ?thesis by (simp add: quiet_def kernel_calls_def)
qed

section \<open>Calls of the original functions\<close>

lemma orig_call_effect:
  "kernel_calls (snd (syscall env c p)) = kernel_calls p @ (if is_sleep c then [] else [c])"
  "pr_guard (snd (syscall env c p)) = pr_guard p"
  "pr_runtime (snd (syscall env c p)) = pr_runtime p"
  "pr_os (snd (syscall env c p)) = snd (he_kernel env c (pr_os p))"
  "fst (syscall env c p) = fst (he_kernel env c (pr_os p))"
  by (simp_all add: syscall_def kernel_calls_def case_prod_beta Let_def)

lemma snd_orig_call [simp]: "snd (orig_call env c p) = snd (syscall env c p)"
  by (simp add: orig_call_def case_prod_beta Let_def)

lemma fst_orig_call [simp]: "fst (orig_call env c p) = rp_value (fst (he_kernel env c (pr_os p)))"
  by (simp add: orig_call_def syscall_def case_prod_beta Let_def)

section \<open>The frame of a hook\<close>

text \<open>The steps between the guard and the original call never see a free guard; the frame puts
  it back.\<close>

lemma hook_nested:
  "pr_guard p \<or> \<not> he_guard_ok env \<Longrightarrow> hook env original body p = original p"
  by (auto simp: hook_def enter_hook_def)

lemma hook_outer:
  assumes "\<not> pr_guard p" "he_guard_ok env"
  shows "hook env original body p =
     (fst (body (initialize env (p\<lparr>pr_guard := True\<rparr>))),
      exit_hook (snd (body (initialize env (p\<lparr>pr_guard := True\<rparr>)))))"
  using assms by (simp add: hook_def enter_hook_def case_prod_beta Let_def)

lemma hook_guard:
  assumes "\<And>q. pr_guard (snd (original q)) = pr_guard q"
  shows "pr_guard (snd (hook env original body p)) = pr_guard p"
proof (cases "pr_guard p \<or> \<not> he_guard_ok env")
  case True
  then show ?thesis using assms by (simp add: hook_nested)
next
  case False
  then show ?thesis by (simp add: hook_outer exit_hook_def)
qed

end
