(* ===== verification/Detached_Process.thy ===== *)
theory Detached_Process
  imports Uplink_Hooks Process_Frames
begin

text \<open>
  A process for which there is no shared segment: it is not mapped and cannot be opened. Every lookup of
  a configuration finds nothing. The last section is a concrete process of this kind.
\<close>

definition detached :: "('o, 'l) HookEnv \<Rightarrow> ('o, 'l) Process \<Rightarrow> bool" where
  "detached env p \<longleftrightarrow>
     shm_pointer (br_shm (pr_bridge p)) = None \<and> try_open_shm (he_shm env) (br_shm (pr_bridge p)) = (False, br_shm (pr_bridge p))"

lemma detached_ensure_open:
  "try_open_shm os st = (False, st) \<Longrightarrow> ensure_open os b st = st"
  by (simp add: ensure_open_def)

lemma detached_base:
  assumes "shm_pointer st = None" "try_open_shm os st = (False, st)"
  shows "base_config os tid f st = (None, st)" "get_config_for_tid os tid st = (None, st)"
proof -
  note e = detached_ensure_open [OF assms(2)]
  show c: "get_config_for_tid os tid st = (None, st)"
    using assms(1) by (simp add: get_config_for_tid_def e get_config_ptr_def)
  show "base_config os tid f st = (None, st)"
    using assms(1) by (simp add: base_config_def get_tid_slot_for_fd_def e c)
qed

lemma bridge_id: "b\<lparr>br_shm := br_shm b\<rparr> = b"
  by simp

lemma process_bridge_id: "p\<lparr>pr_bridge := pr_bridge p\<rparr> = p"
  by simp

lemma detached_fd_config:
  assumes "detached env p"
  shows "fd_config env t s p = (None, p)" "addr_config env t s adr n p = (None, p)"
  using assms
  by (simp_all add: detached_def fd_config_def addr_config_def with_bridge_def runtime_config_for_fd_def
      runtime_config_for_addr_or_fd_def resolve_runtime_config_for_endpoint_def detached_base)

lemma detached_initialize:
  assumes "detached env p"
  shows "initialize env p = p\<lparr>pr_initialized := True\<rparr>"
  using assms by (simp add: detached_def initialize_def with_bridge_def init_runtime_shm_def)

lemma detached_upd [simp]:
  "detached env (p\<lparr>pr_guard := g\<rparr>) = detached env p"
  "detached env (p\<lparr>pr_initialized := g\<rparr>) = detached env p"
  by (simp_all add: detached_def)

section \<open>A witness process\<close>

text \<open>A process without a segment whose kernel accepts every byte.\<close>

definition accepting_kernel :: "sys_call \<Rightarrow> nat \<Rightarrow> sys_reply \<times> nat" where
  "accepting_kernel c n =
     (\<lparr>rp_value = (case c of SysSend _ _ k _ \<Rightarrow> int k | SysWrite _ _ k \<Rightarrow> int k | SysSendto _ _ k _ _ _ \<Rightarrow> int k
                   | SslSetFd _ _ \<Rightarrow> 1 | _ \<Rightarrow> 0),
        rp_buffer = None, rp_addr = None, rp_addr_len = None, rp_addrs = []\<rparr>, Suc n)"

definition detached_env :: "(nat, RecordReplayEvent) HookEnv" where
  "detached_env =
     \<lparr>he_shm = \<lparr>os_env = (\<lambda>_. None), os_default_name = [], os_shm_open = (\<lambda>_ _. False), os_ftruncate_ok = False,
                os_size_ok = False, os_mmap = None\<rparr>,
      he_sock = \<lparr>so_type = (\<lambda>_. None), so_peername = (\<lambda>_. None)\<rparr>, he_tid = 7, he_flags = (\<lambda>_. 0),
      he_to_json = Some, he_creatable = (\<lambda>_. False), he_kernel = accepting_kernel, he_ssl_get_fd = None,
      he_ssl_ctrl = True, he_ssl_set_fd = True, he_ssl_free = True, he_setpriority = True, he_guard_ok = True\<rparr>"

definition fresh_process :: "(nat, RecordReplayEvent) Process" where
  "fresh_process =
     \<lparr>pr_bridge = \<lparr>br_shm = \<lparr>shm_pointer = None, shm_is_open = False\<rparr>, br_sni = (\<lambda>_. None), br_hostnames = [],
                   br_reload = \<lparr>reload_applied_total = 0, reload_retry_total = 0\<rparr>, br_engine = idle_engine\<rparr>,
      pr_runtime = InterceptorRuntime_new,
      pr_session = \<lparr>rr_core = RecordReplayCore_new RR_Off [], record_path = None\<rparr>, pr_files = Map.empty,
      pr_ssl_sni = Map.empty, pr_ssl_fd = Map.empty, pr_guard = False, pr_initialized = False, pr_errno = None,
      pr_calls = [], pr_os = 0\<rparr>"

definition some_times :: HookTimes where
  "some_times = \<lparr>ht_lookup = (0, 0), ht_dup_lookup = (0, 0), ht_flush = (\<lambda>_. 0), ht_clk = (0, 0), ht_pre = 0, ht_r7 = 0,
     ht_map = 0, ht_stage = 0, ht_snapshot = 0, ht_observe = (\<lambda>_. 0)\<rparr>"


lemma fresh_detached: "detached detached_env fresh_process" "\<not> pr_guard fresh_process" "he_guard_ok detached_env"
  by (simp_all add: detached_def detached_env_def fresh_process_def try_open_shm_def check_enabled_def get_shm_name_def
      shm_open_mode_def Let_def)

end
