(* ===== verification/Uplink_Properties.thy ===== *)
theory Uplink_Properties
  imports Detached_Process
begin

text \<open>
  The sending hooks against an abstract specification. \<open>uplink_step\<close> says what one call may put on the wire
  and leave staged, given the verdict of the policy; \<open>send\<close>, \<open>write\<close> and \<open>sendto\<close> refine it. The three
  hooks share the proof through the locale \<open>uplink_calls\<close>.
\<close>

section \<open>The wire\<close>

fun wire_data :: "fd \<Rightarrow> sys_call \<Rightarrow> bytes list" where
  "wire_data s (SysSend f b n _) = (if f = s then (case b of Some x \<Rightarrow> [take n x] | None \<Rightarrow> []) else [])"
| "wire_data s (SysWrite f b n) = (if f = s then (case b of Some x \<Rightarrow> [take n x] | None \<Rightarrow> []) else [])"
| "wire_data s (SysSendto f b n _ _ _) = (if f = s then (case b of Some x \<Rightarrow> [take n x] | None \<Rightarrow> []) else [])"
| "wire_data s _ = []"

definition wire :: "fd \<Rightarrow> ('o, 'l) Process \<Rightarrow> bytes list" where
  "wire s p = concat (map (wire_data s) (kernel_calls p))"

lemma wire_quiet: "quiet p q \<Longrightarrow> wire s q = wire s p"
  by (simp add: wire_def quiet_def)

lemma wire_syscall: "wire s (snd (syscall env c p)) = wire s p @ wire_data s c"
  by (cases c) (simp_all add: wire_def orig_call_effect)

lemma wire_send_pending [simp]: "wire s (send_pending_datagram env s pkt p) = wire s p @ [dg_data pkt]"
  by (simp add: send_pending_datagram_def wire_syscall)

lemma wire_send_all [simp]: "wire s (fold (send_pending_datagram env s) pkts p) = wire s p @ map dg_data pkts"
  by (induction pkts arbitrary: p) simp_all

lemma wire_repeat:
  assumes "wire_data s c = [x]"
  shows "wire s (((\<lambda>p. snd (syscall env c p)) ^^ n) p) = wire s p @ replicate n x"
  using assms by (induction n) (simp_all add: wire_syscall replicate_append_same)

section \<open>The specification\<close>

datatype verdict = V_Unfaulted | V_Rejected | V_Staged bytes | V_Sent bytes

text \<open>Given the verdict and the datagrams staged before: the result, what goes on the wire in
  order, and what stays staged. Datagrams leave the queue from its front.\<close>

inductive uplink_step :: "bytes \<Rightarrow> verdict \<Rightarrow> queue \<Rightarrow> int \<Rightarrow> bytes list \<Rightarrow> queue \<Rightarrow> bool" for raw where
  unfaulted: "uplink_step raw V_Unfaulted q r [raw] q"
| rejected: "q = expired @ q' \<Longrightarrow> uplink_step raw V_Rejected q (- 1) (map dg_data expired) q'"
| staged: "q = expired @ q1 \<Longrightarrow> dg_data pkt = body \<Longrightarrow> q1 @ [pkt] = overflow @ q' \<Longrightarrow>
    uplink_step raw (V_Staged body) q (int (length body)) (map dg_data (expired @ overflow)) q'"
| sent: "q = expired @ q1 \<Longrightarrow> (r \<le> 0 \<longrightarrow> n = 0) \<Longrightarrow>
    uplink_step raw (V_Sent body) q r
      (map dg_data expired @ body # replicate n (take (nat r) body) @ map dg_data (if r > 0 then take 1 q1 else []))
      (if r > 0 then drop 1 q1 else q1)"

inductive_cases uplink_stepE: "uplink_step raw v q r ws q'"

text \<open>Nothing is lost and nothing is made up but the duplicates.\<close>

fun verdict_body :: "bytes \<Rightarrow> verdict \<Rightarrow> bytes list" where
  "verdict_body raw V_Unfaulted = [raw]"
| "verdict_body raw V_Rejected = []"
| "verdict_body raw (V_Staged body) = [body]"
| "verdict_body raw (V_Sent body) = [body]"

lemma uplink_step_conserves:
  assumes "uplink_step raw v q r ws q'"
  shows "\<exists>n. mset ws + mset (map dg_data q') =
      mset (map dg_data q) + mset (verdict_body raw v) + replicate_mset n (take (nat r) (concat (verdict_body raw v)))
    \<and> (verdict_body raw v = [] \<longrightarrow> n = 0)"
  using assms
proof cases
  case unfaulted
  then show ?thesis by (intro exI [of _ 0]) simp
next
  case (rejected expired)
  then show ?thesis by (intro exI [of _ 0]) simp
next
  case (staged expired q1 pkt body overflow)
  have "mset (map dg_data (q1 @ [pkt])) = mset (map dg_data (overflow @ q'))" by (simp only: staged)
  then have "mset (map dg_data overflow) + mset (map dg_data q') = mset (map dg_data q1) + {#body#}"
    using staged(5) by simp
  with staged show ?thesis by (intro exI [of _ 0]) (simp add: ac_simps)
next
  case (sent expired q1 n body)
  then show ?thesis by (intro exI [of _ n]) (cases q1; simp)
qed

section \<open>The verdict\<close>

definition r7_output :: "u64 \<Rightarrow> fd \<Rightarrow> Config \<Rightarrow> Direction \<Rightarrow> bytes \<Rightarrow> bytes option" where
  "r7_output now s cfg dir raw =
     (let ctx = stream_ctx now s cfg (of_nat (length raw)) dir
      in if layer_applies_to R7 ctx then snd (R7_process_with_buffer ctx raw) else None)"

definition body_of :: "bytes \<Rightarrow> bytes \<Rightarrow> bytes" where
  "body_of raw payload = (if payload = [] then raw else payload)"

definition early_return :: "nat \<Rightarrow> fd \<Rightarrow> LayerDecision \<Rightarrow> bool \<Rightarrow> InterceptorRuntime \<Rightarrow> int option" where
  "early_return now s d non_blocking rt = fst (apply_stream_directive (fst (map_stream_decision now s d non_blocking rt)))"

definition uplink_verdict ::
  "('o, 'l) HookEnv \<Rightarrow> HookTimes \<Rightarrow> string \<Rightarrow> fd \<Rightarrow> bytes \<Rightarrow> (('o, 'l) Process \<Rightarrow> Config option \<times> ('o, 'l) Process)
     \<Rightarrow> ('o, 'l) Process \<Rightarrow> verdict" where
  "uplink_verdict env t site s raw config_lookup p =
     (case config_lookup p of
        (None, _) \<Rightarrow> V_Unfaulted
      | (Some cfg, p1) \<Rightarrow>
          let d = fst (evaluate_pre env t site s cfg (length raw) Uplink p1);
              body = body_of raw (case r7_output (ht_r7 t) s cfg Uplink raw of Some x \<Rightarrow> x | None \<Rightarrow> raw)
          in if early_return (ht_map t) s d (is_non_blocking env s) (pr_runtime p1) \<noteq> None then V_Rejected
             else if d = StageReorder then V_Staged body else V_Sent body)"

lemma early_return_minus: "early_return now s d nb rt \<in> {None, Some (- 1)}"
  by (cases d) (simp_all add: early_return_def map_stream_decision_def apply_stream_directive_def
      nonblocking_delay_pending_def Let_def split: option.split)

lemma early_return_cong:
  "latency_start_by_fd rt = latency_start_by_fd rt' \<Longrightarrow> early_return now s d nb rt = early_return now s d nb rt'"
  by (cases d) (simp_all add: early_return_def map_stream_decision_def apply_stream_directive_def
      nonblocking_delay_pending_def Let_def split: option.split)

lemma r7_output_eq:
  "snd (fst (evaluate_r7_with_buffer now s cfg dir (of_nat (length raw)) raw e)) = r7_output now s cfg dir raw"
  by (simp add: evaluate_r7_with_buffer_def r7_output_def Let_def case_prod_beta)


section \<open>The steps of the handler\<close>

lemma latency_frames [simp]:
  "pr_runtime (snd (with_engine act p)) = pr_runtime p"
  "pr_runtime (snd (with_bridge act' p)) = pr_runtime p"
  "pr_runtime (send_pending_datagram env s pkt p) = pr_runtime p"
  "pr_runtime (fold (send_pending_datagram env s) pkts p) = pr_runtime p"
proof -
  show send: "pr_runtime (send_pending_datagram env s pkt p) = pr_runtime p" for pkt p
    by (simp add: send_pending_datagram_def orig_call_effect)
  show "pr_runtime (fold (send_pending_datagram env s) pkts p) = pr_runtime p"
    by (induction pkts arbitrary: p) (simp_all add: send)
qed (simp_all add: with_engine_def with_bridge_def case_prod_beta Let_def)

lemma record_replay_runtime:
  assumes "pr_runtime (snd (evaluate p)) = pr_runtime p"
  shows "pr_runtime (snd (record_replay_evaluate_or_replay env site evaluate p)) = pr_runtime p"
  using evaluate_or_replay_world [of "he_to_json env" "he_creatable env" policy_name_of site evaluate
      "pr_session p" "pr_files p" p] assms
  by (auto simp: record_replay_evaluate_or_replay_def case_prod_beta Let_def)

lemma evaluate_pre_runtime [simp]: "pr_runtime (snd (evaluate_pre env t site s cfg l dir p)) = pr_runtime p"
  unfolding evaluate_pre_def by (rule record_replay_runtime) simp

lemma quiet_evaluate_pre [quiet_intros]: "quiet p (snd (evaluate_pre env t site s cfg l dir p))"
  unfolding evaluate_pre_def by (intro quiet_intros)

text \<open>The decision does not depend on what was sent before.\<close>

lemma evaluate_pre_cong:
  assumes "pr_session p = pr_session q" "pr_bridge p = pr_bridge q"
  shows "fst (evaluate_pre env t site s cfg l dir p) = fst (evaluate_pre env t site s cfg l dir q)"
  using assms
  by (simp add: evaluate_pre_def record_replay_evaluate_or_replay_def evaluate_or_replay_def
      core_evaluate_or_replay_def with_engine_def Let_def case_prod_beta
      split: RecordReplayMode.splits list.splits option.splits)

lemma send_pending_frames [simp]:
  "pr_session (fold (send_pending_datagram env s) pkts p) = pr_session p"
  "pr_bridge (fold (send_pending_datagram env s) pkts p) = pr_bridge p"
proof -
  have step: "pr_session (send_pending_datagram env s pkt p) = pr_session p"
    "pr_bridge (send_pending_datagram env s pkt p) = pr_bridge p" for pkt p
    by (simp_all add: send_pending_datagram_def syscall_def case_prod_beta Let_def)
  show "pr_session (fold (send_pending_datagram env s) pkts p) = pr_session p"
    by (induction pkts arbitrary: p) (simp_all add: step)
  show "pr_bridge (fold (send_pending_datagram env s) pkts p) = pr_bridge p"
    by (induction pkts arbitrary: p) (simp_all add: step)
qed

lemma uplink_mutation_effect:
  "fst (uplink_mutation env t s cfg raw p) = (case r7_output (ht_r7 t) s cfg Uplink raw of Some x \<Rightarrow> x | None \<Rightarrow> raw)"
  "quiet p (snd (uplink_mutation env t s cfg raw p))"
  "latency_start_by_fd (pr_runtime (snd (uplink_mutation env t s cfg raw p))) = latency_start_by_fd (pr_runtime p)"
proof -
  let ?r7 = "with_engine (evaluate_r7_with_buffer (ht_r7 t) s cfg Uplink (of_nat (length raw)) raw) p"
  let ?p2 = "snd (record_replay_evaluate_or_replay env ''stream_uplink_l6_mutation''
               (\<lambda>p. (fst (fst ?r7), p)) (snd ?r7))"
  have out: "snd (fst ?r7) = r7_output (ht_r7 t) s cfg Uplink raw"
    by (simp add: with_engine_def case_prod_beta Let_def r7_output_eq)
  have m: "uplink_mutation env t s cfg raw p =
      (case r7_output (ht_r7 t) s cfg Uplink raw of
         Some data \<Rightarrow> (data, record_mutation True (length raw) (length data) ?p2)
       | None \<Rightarrow> (raw, record_mutation False (length raw) (length raw) ?p2))"
    by (simp add: uplink_mutation_def Let_def case_prod_beta out)
  have "quiet (snd ?r7) ?p2" by (intro quiet_intros) simp
  then have q2: "quiet p ?p2" by (rule quiet_trans [OF quiet_with_engine])
  have rt: "pr_runtime ?p2 = pr_runtime p" by (subst record_replay_runtime) simp_all
  show "fst (uplink_mutation env t s cfg raw p) = (case r7_output (ht_r7 t) s cfg Uplink raw of Some x \<Rightarrow> x | None \<Rightarrow> raw)"
    by (simp add: m split: option.split)
  show "quiet p (snd (uplink_mutation env t s cfg raw p))"
    using q2 by (auto simp: m intro: quiet_trans quiet_record_mutation split: option.split)
  show "latency_start_by_fd (pr_runtime (snd (uplink_mutation env t s cfg raw p))) = latency_start_by_fd (pr_runtime p)"
    by (simp add: m record_mutation_def record_mutation_outcome_def rt split: option.split)
qed

lemma decide_stream_effect:
  "fst (decide_stream t s d nb p) = early_return (ht_map t) s d nb (pr_runtime p)"
  "quiet p (snd (decide_stream t s d nb p))"
proof -
  obtain dir rt where m: "map_stream_decision (ht_map t) s d nb (pr_runtime p) = (dir, rt)" by fastforce
  have "reorder_pending_by_fd rt = reorder_pending_by_fd (pr_runtime p)"
    "reorder_pending_recv_by_fd rt = reorder_pending_recv_by_fd (pr_runtime p)"
    using m by (auto simp: map_stream_decision_def nonblocking_delay_pending_def Let_def
        split: LayerDecision.splits option.splits if_splits)
  then have q: "quiet p (p\<lparr>pr_runtime := rt\<rparr>)" by (simp add: quiet_def kernel_calls_def)
  show "quiet p (snd (decide_stream t s d nb p))"
    using quiet_trans [OF q quiet_run_stream_directive] by (simp add: decide_stream_def m)
  show "fst (decide_stream t s d nb p) = early_return (ht_map t) s d nb (pr_runtime p)"
    by (simp add: decide_stream_def m early_return_def run_stream_directive_def case_prod_beta Let_def)
qed

lemma send_args_some:
  assumes "l \<le> length buf"
  shows "send_args (Some buf) l payload =
    (Some (body_of (take l buf) payload), length (body_of (take l buf) payload))"
  using assms by (simp add: send_args_def body_of_def)

lemma duplicates_on_wire:
  assumes "wire_data s c = [x]" "quiet p (snd (n_of p))"
  shows "\<exists>n. wire s (maybe_duplicate_common env site sent n_of c p) = wire s p @ replicate n x \<and> (sent \<le> 0 \<longrightarrow> n = 0)"
proof (cases "sent \<le> 0")
  case False
  let ?r = "record_replay_evaluate_or_replay env site
              (\<lambda>p. let (n, p') = n_of p in (if n = 0 then Continue else Duplicate n, p')) p"
  have "quiet p (snd ?r)" by (rule quiet_record_replay) (simp add: assms(2) case_prod_beta Let_def)
  then have "wire s (maybe_duplicate_common env site sent n_of c p) =
      wire s p @ replicate (unat (duplicate_count_from_decision (fst ?r))) x"
    using False
    by (simp add: maybe_duplicate_common_def case_prod_beta Let_def wire_repeat [OF assms(1)] wire_quiet)
  with False show ?thesis by blast
qed (simp add: maybe_duplicate_common_def)

section \<open>The three hooks\<close>

text \<open>What the handler needs of a hook: its original call carries the given bytes once, and staging them
  appends one datagram with them.\<close>

locale uplink_calls =
  fixes s :: fd
    and call :: "bytes option \<Rightarrow> nat \<Rightarrow> sys_call"
    and stage :: "nat \<Rightarrow> queue \<Rightarrow> bytes option \<Rightarrow> nat \<Rightarrow> int option \<times> queue"
  assumes call_data: "wire_data s (call (Some x) n) = [take n x]"
    and stage_back: "x \<noteq> [] \<Longrightarrow>
      \<exists>pkt. stage now q (Some x) (length x) = (Some (int (length x)), q @ [pkt]) \<and> dg_data pkt = x"
begin

definition handler where
  "handler env t site dup_site lookup n_of buf l =
     handle_uplink_send env t site s l (sent_payload (Some buf) l) (is_non_blocking env s) lookup
       (\<lambda>payload. orig_call env (call (fst (send_args (Some buf) l payload)) (snd (send_args (Some buf) l payload))))
       (\<lambda>pending payload. stage_result l
          (stage (ht_stage t) pending (fst (send_args (Some buf) l payload)) (snd (send_args (Some buf) l payload))))
       (\<lambda>sent payload. maybe_duplicate_common env dup_site sent n_of (call (fst (send_args (Some buf) l payload)) (nat sent)))"

lemma finish_on_wire:
  assumes "l \<le> length buf" "\<And>p. quiet p (snd (n_of p))"
    and "finish_uplink env s True False
           (\<lambda>sent payload. maybe_duplicate_common env dup_site sent n_of (call (fst (send_args (Some buf) l payload)) (nat sent)))
           payload r q p = (res, q', p')"
  shows "\<exists>n. wire s p' = wire s p @ replicate n (take (nat r) (body_of (take l buf) payload))
        @ map dg_data (if r > 0 then take 1 q else [])
    \<and> (r \<le> 0 \<longrightarrow> n = 0) \<and> res = r \<and> q' = (if r > 0 then drop 1 q else q)"
proof (cases "r > 0")
  case True
  let ?body = "body_of (take l buf) payload"
  let ?p1 = "hook_record_stream_bytes s (of_int r) p"
  let ?p2 = "maybe_duplicate_common env dup_site r n_of (call (Some ?body) (nat r)) ?p1"
  have w1: "wire s ?p1 = wire s p" by (rule wire_quiet [OF quiet_record_bytes])
  obtain n where "wire s ?p2 = wire s p @ replicate n (take (nat r) ?body)"
    using duplicates_on_wire [of s "call (Some ?body) (nat r)" "take (nat r) ?body" ?p1 n_of env dup_site r, OF call_data assms(2)]
    by (auto simp: w1)
  with assms(3) True show ?thesis
    by (cases q) (auto simp: finish_uplink_def Let_def pop_reorder_after_success_def send_args_some [OF assms(1)])
next
  case False
  with assms(3) show ?thesis by (auto simp: finish_uplink_def)
qed

lemma handler_unfaulted:
  assumes "0 < l" "l \<le> length buf" "\<And>p. quiet p (snd (lookup p))" "fst (lookup p) = None"
    and "handler env t site dup_site lookup n_of buf l q p = (res, q', p')"
  shows "wire s p' = wire s p @ [take l buf] \<and> q' = q"
proof -
  obtain p1 where look: "lookup p = (None, p1)" using assms(4) by (cases "lookup p") simp
  then have q1: "quiet p p1" using assms(3) [of p] by simp
  have given: "sent_payload (Some buf) l = Some (take l buf)" and body: "body_of (take l buf) (take l buf) = take l buf"
    using assms(1) by (simp_all add: sent_payload_def body_of_def)
  let ?c = "call (Some (take l buf)) (length (take l buf))"
  obtain v p2 where call: "orig_call env ?c p1 = (v, p2)" by fastforce
  then have p2: "p2 = snd (syscall env ?c p1)" by (metis snd_conv snd_orig_call)
  have "wire s p2 = wire s p @ [take l buf]"
    using assms(2) by (simp add: p2 wire_syscall call_data wire_quiet [OF q1] min_absorb2)
  moreover have "wire s (hook_record_stream_bytes s k p2) = wire s p2" for k
    by (rule wire_quiet [OF quiet_record_bytes])
  ultimately show ?thesis
    using assms(5) call
    by (auto simp: handler_def handle_uplink_send_def look given Let_def send_args_some [OF assms(2)] body
        finish_uplink_def split: if_splits)
qed

text \<open>The handler up to the point where the verdict is known.\<close>

abbreviation faulted_tail where
  "faulted_tail env t dup_site n_of buf l cfg early d payload q1 p5 \<equiv>
     (let body = body_of (take l buf) payload;
          dup = (\<lambda>sent payload. maybe_duplicate_common env dup_site sent n_of (call (fst (send_args (Some buf) l payload)) (nat sent)))
      in case early of
           Some e \<Rightarrow> finish_uplink env s True False dup payload e q1 p5
         | None \<Rightarrow>
             if d = StageReorder then
               let (staged, q2) = stage_result l (stage (ht_stage t) q1 (Some body) (length body));
                   (overflow, q3) = enforce_reorder_window q2 (unat (reorder_window cfg));
                   p6 = fold (send_pending_datagram env s) overflow p5
               in finish_uplink env s True True dup payload staged q3 p6
             else
               let (res, p6) = orig_call env (call (Some body) (length body)) p5
               in finish_uplink env s True False dup payload res q1 p6)"

lemma handler_verdict:
  assumes "0 < l" "l \<le> length buf" "\<And>p. quiet p (snd (lookup p))" "lookup p = (Some cfg, p1)"
  obtains expired q1 d payload early p5 where
    "q = expired @ q1" "wire s p5 = wire s p @ map dg_data expired" "early \<in> {None, Some (- 1)}"
    "uplink_verdict env t site s (take l buf) lookup p =
      (if early \<noteq> None then V_Rejected else if d = StageReorder then V_Staged (body_of (take l buf) payload)
       else V_Sent (body_of (take l buf) payload))"
    "handler env t site dup_site lookup n_of buf l q p = faulted_tail env t dup_site n_of buf l cfg early d payload q1 p5"
proof -
  let ?raw = "take l buf" and ?nb = "is_non_blocking env s"
  have given: "sent_payload (Some buf) l = Some ?raw" using assms(1) by (simp add: sent_payload_def)
  have len: "length ?raw = l" using assms(2) by simp
  obtain expired q1 where fl: "flush_expired_reorder (ht_flush t) q (reorder_max_delay_ns cfg) = (expired, q1)" by fastforce
  then have q: "q = expired @ q1"
    using flush_loop_split [of "ht_flush t" 0 "reorder_max_delay_ns cfg" q]
    by (auto simp: flush_expired_reorder_def split: if_splits)
  let ?p2 = "fold (send_pending_datagram env s) expired p1"
  obtain d p3 where ev: "evaluate_pre env t site s cfg l Uplink ?p2 = (d, p3)" by fastforce
  obtain payload p4 where mu: "uplink_mutation env t s cfg ?raw p3 = (payload, p4)" by fastforce
  obtain early p5 where de: "decide_stream t s d ?nb p4 = (early, p5)" by fastforce
  have "quiet ?p2 p3" "quiet p3 p4" "quiet p4 p5"
    using quiet_evaluate_pre [of ?p2 env t site s cfg l Uplink] uplink_mutation_effect(2) [of p3 env t s cfg ?raw]
      decide_stream_effect(2) [of p4 t s d ?nb] by (simp_all add: ev mu de)
  then have "wire s p5 = wire s ?p2" by (metis quiet_trans wire_quiet)
  then have w: "wire s p5 = wire s p @ map dg_data expired"
    using assms(3) [of p] by (simp add: assms(4) wire_quiet [of p p1])
  have d: "fst (evaluate_pre env t site s cfg l Uplink p1) = d"
    using evaluate_pre_cong [of p1 ?p2 env t site s cfg l Uplink] by (simp add: ev)
  have rt: "latency_start_by_fd (pr_runtime p4) = latency_start_by_fd (pr_runtime p1)"
    using uplink_mutation_effect(3) [of env t s cfg ?raw p3] evaluate_pre_runtime [of env t site s cfg l Uplink ?p2]
    by (simp add: mu ev)
  have early: "early = early_return (ht_map t) s d ?nb (pr_runtime p1)"
    using decide_stream_effect(1) [of t s d ?nb p4] early_return_cong [OF rt] by (simp add: de)
  have payload: "payload = (case r7_output (ht_r7 t) s cfg Uplink ?raw of Some x \<Rightarrow> x | None \<Rightarrow> ?raw)"
    using uplink_mutation_effect(1) [of env t s cfg ?raw p3] by (simp add: mu)
  have verdict: "uplink_verdict env t site s ?raw lookup p =
      (if early \<noteq> None then V_Rejected else if d = StageReorder then V_Staged (body_of ?raw payload)
       else V_Sent (body_of ?raw payload))"
    by (simp only: uplink_verdict_def assms(4) len d early payload Let_def prod.case option.case)
  have small: "early \<in> {None, Some (- 1)}" unfolding early by (rule early_return_minus)
  show thesis
    by (rule that [OF q w small verdict])
       (simp add: handler_def handle_uplink_send_def given assms(4) fl ev mu de send_args_some [OF assms(2)] Let_def)
qed

lemma handler_faulted:
  assumes "0 < l" "l \<le> length buf" "\<And>p. quiet p (snd (lookup p))" "\<And>p. quiet p (snd (n_of p))"
    and "lookup p = (Some cfg, p1)" "handler env t site dup_site lookup n_of buf l q p = (res, q', p')"
  shows "\<exists>sent. wire s p' = wire s p @ sent \<and>
     uplink_step (take l buf) (uplink_verdict env t site s (take l buf) lookup p) q res sent q'"
proof -
  obtain expired q1 d payload early p5 where v:
    "q = expired @ q1" "wire s p5 = wire s p @ map dg_data expired" "early \<in> {None, Some (- 1)}"
    "uplink_verdict env t site s (take l buf) lookup p =
      (if early \<noteq> None then V_Rejected else if d = StageReorder then V_Staged (body_of (take l buf) payload)
       else V_Sent (body_of (take l buf) payload))"
    "handler env t site dup_site lookup n_of buf l q p = faulted_tail env t dup_site n_of buf l cfg early d payload q1 p5"
    by (rule handler_verdict [OF assms(1,2,3,5)])
  let ?body = "body_of (take l buf) payload"
  have ne: "?body \<noteq> []" using assms(1,2) by (auto simp: body_of_def)
  note run = assms(6) [unfolded v(5)]
  consider (rejected) "early = Some (- 1)" | (staged) "early = None" "d = StageReorder" | (sent) "early = None" "d \<noteq> StageReorder"
    using v(3) by auto
  then show ?thesis
  proof cases
    case rejected
    with run have "res = - 1" "q' = q1" "p' = p5" by (auto simp: finish_uplink_def Let_def)
    with rejected v show ?thesis by (auto intro: uplink_step.rejected)
  next
    case staged
    obtain pkt where pkt: "stage (ht_stage t) q1 (Some ?body) (length ?body) = (Some (int (length ?body)), q1 @ [pkt])"
      "dg_data pkt = ?body" using stage_back [OF ne] by blast
    obtain overflow q3 where ov: "enforce_reorder_window (q1 @ [pkt]) (unat (reorder_window cfg)) = (overflow, q3)" by fastforce
    have split: "q1 @ [pkt] = overflow @ q3"
      using window_loop_split [of "max (unat (reorder_window cfg)) 1" "q1 @ [pkt]"] ov by (simp add: enforce_reorder_window_def)
    let ?p6 = "fold (send_pending_datagram env s) overflow p5"
    have "wire s (hook_record_stream_bytes s k ?p6) = wire s ?p6" for k by (rule wire_quiet [OF quiet_record_bytes])
    then have "res = int (length ?body)" "q' = q3" "wire s p' = wire s p @ map dg_data (expired @ overflow)"
      using run staged ne v(2)
      by (auto simp: pkt stage_result_def ov finish_uplink_def pop_reorder_after_success_def Let_def)
    with uplink_step.staged [OF v(1) pkt(2) split] staged v(4) show ?thesis by auto
  next
    case sent
    let ?c = "call (Some ?body) (length ?body)"
    obtain r p6 where call: "orig_call env ?c p5 = (r, p6)" by fastforce
    then have "wire s p6 = wire s p5 @ [?body]"
      using wire_syscall [of s env ?c p5] snd_orig_call [of env ?c p5] by (simp add: call_data)
    moreover from run sent call have fin: "finish_uplink env s True False
        (\<lambda>sent payload. maybe_duplicate_common env dup_site sent n_of (call (fst (send_args (Some buf) l payload)) (nat sent)))
        payload r q1 p6 = (res, q', p')" by (simp add: Let_def)
    obtain n where "wire s p' = wire s p6 @ replicate n (take (nat r) ?body) @ map dg_data (if r > 0 then take 1 q1 else [])"
      "r \<le> 0 \<longrightarrow> n = 0" "res = r" "q' = (if r > 0 then drop 1 q1 else q1)"
      using finish_on_wire [OF assms(2,4) fin] by auto
    ultimately show ?thesis
      using uplink_step.sent [OF v(1), of r n "take l buf" ?body] sent v(2,4) by auto
  qed
qed

lemma handler_refines:
  assumes "0 < l" "l \<le> length buf" "\<And>p. quiet p (snd (lookup p))" "\<And>p. quiet p (snd (n_of p))"
    and "handler env t site dup_site lookup n_of buf l q p = (res, q', p')"
  shows "\<exists>sent. wire s p' = wire s p @ sent \<and>
     uplink_step (take l buf) (uplink_verdict env t site s (take l buf) lookup p) q res sent q'"
proof (cases "lookup p")
  case (Pair cfg p1)
  show ?thesis
  proof (cases cfg)
    case None
    with Pair have "uplink_verdict env t site s (take l buf) lookup p = V_Unfaulted" by (simp add: uplink_verdict_def)
    with handler_unfaulted [OF assms(1,2,3) _ assms(5)] Pair None show ?thesis
      by (auto intro: uplink_step.unfaulted)
  next
    case (Some c)
    with handler_faulted [OF assms(1,2,3,4) _ assms(5)] Pair show ?thesis by blast
  qed
qed

end

interpretation send_calls: uplink_calls s "\<lambda>b n. SysSend s b n f" "\<lambda>now q b n. stage_reorder_send now q b n f" for s f
  by unfold_locales (simp_all add: stage_reorder_send_def PendingDatagram_new_def)

interpretation write_calls: uplink_calls s "\<lambda>b n. SysWrite s b n" "\<lambda>now q b n. stage_reorder_send now q b n 0" for s
  by unfold_locales (simp_all add: stage_reorder_send_def PendingDatagram_new_def)

interpretation sendto_calls: uplink_calls s "\<lambda>b n. SysSendto s b n f adr adr_len"
    "\<lambda>now q b n. stage_reorder_sendto now q b n f adr adr_len" for s f adr adr_len
  by unfold_locales (simp_all add: stage_reorder_sendto_def PendingDatagram_new_def)

text \<open>The three hooks as one function of the operation.\<close>

datatype uplink_op = Op_Send int | Op_Write | Op_Sendto int "bytes option" u32

fun uplink_hook ::
  "('o, 'l) HookEnv \<Rightarrow> HookTimes \<Rightarrow> uplink_op \<Rightarrow> fd \<Rightarrow> bytes option \<Rightarrow> nat \<Rightarrow> ('o, 'l) Process \<Rightarrow> int \<times> ('o, 'l) Process" where
  "uplink_hook env t (Op_Send f) s b l p = send_hook env t s b l f p"
| "uplink_hook env t Op_Write s b l p = write_hook env t s b l p"
| "uplink_hook env t (Op_Sendto f adr adr_len) s b l p = sendto_hook env t s b l f adr adr_len p"

fun uplink_site :: "uplink_op \<Rightarrow> string" where
  "uplink_site (Op_Send _) = ''stream_uplink_pre_send''"
| "uplink_site Op_Write = ''stream_uplink_pre_write''"
| "uplink_site (Op_Sendto _ _ _) = ''stream_uplink_pre_sendto''"

fun uplink_config ::
  "('o, 'l) HookEnv \<Rightarrow> HookTimes \<Rightarrow> uplink_op \<Rightarrow> fd \<Rightarrow> ('o, 'l) Process \<Rightarrow> Config option \<times> ('o, 'l) Process" where
  "uplink_config env t (Op_Sendto _ adr adr_len) s p = addr_config env t s adr (unat adr_len) p"
| "uplink_config env t _ s p = fd_config env t s p"

text \<open>The state in which the handler starts: guard set, library initialised, server name observed.\<close>

definition uplink_entry :: "('o, 'l) HookEnv \<Rightarrow> fd \<Rightarrow> bytes option \<Rightarrow> nat \<Rightarrow> ('o, 'l) Process \<Rightarrow> ('o, 'l) Process" where
  "uplink_entry env s b l p = observe_sent_sni s b l (initialize env (p\<lparr>pr_guard := True\<rparr>))"

lemma quiet_observe_sent [quiet_intros]: "quiet p (observe_sent_sni s b l p)"
  by (simp add: observe_sent_sni_def quiet_def kernel_calls_def split: option.split)

lemma uplink_entry_frame:
  "wire s (uplink_entry env s' b l p) = wire s p" "send_queue s (uplink_entry env s' b l p) = send_queue s p"
proof -
  have q: "quiet (p\<lparr>pr_guard := True\<rparr>) (uplink_entry env s' b l p)"
    unfolding uplink_entry_def by (rule quiet_trans [OF quiet_initialize quiet_observe_sent])
  show "wire s (uplink_entry env s' b l p) = wire s p"
    using wire_quiet [OF q] by (simp add: wire_def kernel_calls_def)
  show "send_queue s (uplink_entry env s' b l p) = send_queue s p"
    using quiet_queues(1) [OF q] by (simp add: send_queue_def)
qed

lemma uplink_config_frame: "quiet p (snd (uplink_config env t op s p))"
  by (cases op) (simp_all add: fd_config_def addr_config_def quiet_with_bridge)

lemma with_send_queue_effect:
  assumes "with_send_queue s act p = (r, p')" "act (send_queue s p) p = (r', q', p1)"
  shows "r = r' \<and> send_queue s p' = q' \<and> wire s p' = wire s p1"
  using assms by (auto simp: with_send_queue_def send_queue_def wire_def kernel_calls_def Let_def case_prod_beta)

text \<open>From the handler to the hook.\<close>

lemma hook_from_handler:
  assumes "\<not> pr_guard p" "he_guard_ok env"
    and "hook env original (\<lambda>p. with_send_queue s h (observe_sent_sni s b l p)) p = (res, p')"
    and "\<And>q p r q' p1. h q p = (r, q', p1) \<Longrightarrow> \<exists>sent. wire s p1 = wire s p @ sent \<and> uplink_step raw (v p) q r sent q'"
  shows "\<exists>sent. wire s p' = wire s p @ sent
    \<and> uplink_step raw (v (uplink_entry env s b l p)) (send_queue s p) res sent (send_queue s p') \<and> \<not> pr_guard p'"
proof -
  let ?p0 = "uplink_entry env s b l p"
  obtain r p1 where w: "with_send_queue s h ?p0 = (r, p1)" by fastforce
  obtain r' q' p2 where h: "h (send_queue s ?p0) ?p0 = (r', q', p2)" using prod_cases3 by blast
  have "res = r" "p' = exit_hook p1"
    using assms(3) w by (simp_all add: hook_outer [OF assms(1,2)] uplink_entry_def)
  moreover have "wire s (exit_hook p1) = wire s p1" "send_queue s (exit_hook p1) = send_queue s p1" "\<not> pr_guard (exit_hook p1)"
    by (simp_all add: exit_hook_def wire_def kernel_calls_def send_queue_def)
  ultimately show ?thesis
    using with_send_queue_effect [OF w h] assms(4) [OF h] by (auto simp: uplink_entry_frame)
qed

lemma uplink_hook_step:
  assumes "\<not> pr_guard p" "he_guard_ok env" "0 < l" "l \<le> length buf"
    and "uplink_hook env t op s (Some buf) l p = (res, p')"
  shows "\<exists>sent. wire s p' = wire s p @ sent
    \<and> uplink_step (take l buf)
        (uplink_verdict env t (uplink_site op) s (take l buf) (uplink_config env t op s) (uplink_entry env s (Some buf) l p))
        (send_queue s p) res sent (send_queue s p')
    \<and> \<not> pr_guard p'"
proof -
  note q = uplink_config_frame [of _ env t op s] quiet_with_bridge
  show ?thesis
  proof (cases op)
    case (Op_Send f)
    from assms(5) show ?thesis unfolding Op_Send uplink_hook.simps send_hook_def maybe_duplicate_send_def
      by (rule hook_from_handler [OF assms(1,2)])
         (rule send_calls.handler_refines [OF assms(3,4) q(1) [unfolded Op_Send]],
          auto simp: send_calls.handler_def dup_count_for_fd_def quiet_with_bridge)
  next
    case Op_Write
    from assms(5) show ?thesis unfolding Op_Write uplink_hook.simps write_hook_def maybe_duplicate_write_def
      by (rule hook_from_handler [OF assms(1,2)])
         (rule write_calls.handler_refines [OF assms(3,4) q(1) [unfolded Op_Write]],
          auto simp: write_calls.handler_def dup_count_for_fd_def quiet_with_bridge)
  next
    case (Op_Sendto f adr adr_len)
    from assms(5) show ?thesis unfolding Op_Sendto uplink_hook.simps sendto_hook_def maybe_duplicate_sendto_def
      by (rule hook_from_handler [OF assms(1,2)])
         (rule sendto_calls.handler_refines [OF assms(3,4) q(1) [unfolded Op_Sendto]],
          auto simp: sendto_calls.handler_def dup_count_for_fd_def quiet_with_bridge)
  qed
qed

text \<open>Without a segment there is no policy.\<close>

lemma detached_entry: "detached env p \<Longrightarrow> detached env (uplink_entry env s b l p)"
  by (simp add: uplink_entry_def detached_initialize observe_sent_sni_def split: option.split)
     (simp add: detached_def)

lemma uplink_verdict_detached:
  assumes "detached env p"
  shows "uplink_verdict env t site s raw (uplink_config env t op s) (uplink_entry env s b l p) = V_Unfaulted"
  using detached_entry [OF assms] by (cases op) (simp_all add: uplink_verdict_def detached_fd_config)

text \<open>C2. The sending hooks do what the policy says and nothing else. Whatever the state of the process,
  a call of \<open>send\<close>, \<open>write\<close> or \<open>sendto\<close> outside another hook behaves as the abstract step of the verdict: without
  a policy the caller's bytes go out once and the queue is untouched; when the decision ends the call
  early the result is \<open>- 1\<close> and nothing of the caller's is sent; a reorder decision puts the bytes (after
  R7) at the back of the queue and reports them as sent; otherwise they are sent once, and after a
  success their duplicates and one staged datagram follow. Datagrams leave the queue from the front,
  each exactly once, and the recursion guard is released.\<close>

theorem uplink_hook_refines:
  assumes "\<not> pr_guard p" "he_guard_ok env" "0 < l" "l \<le> length buf"
    and "uplink_hook env t op s (Some buf) l p = (res, p')"
  shows "\<exists>sent. wire s p' = wire s p @ sent
    \<and> uplink_step (take l buf)
        (uplink_verdict env t (uplink_site op) s (take l buf) (uplink_config env t op s) (uplink_entry env s (Some buf) l p))
        (send_queue s p) res sent (send_queue s p')
    \<and> \<not> pr_guard p'"
  using assms by (rule uplink_hook_step)

theorem uplink_hook_refines_witness:
  "\<exists>res p'. uplink_hook detached_env some_times (Op_Send 0) 5 (Some [1, 2, 3]) 3 fresh_process = (res, p')
    \<and> wire 5 p' = [[1, 2, 3]] \<and> send_queue 5 p' = [] \<and> \<not> pr_guard p'"
proof -
  let ?raw = "[1, 2, 3] :: bytes"
  obtain res p' where run: "uplink_hook detached_env some_times (Op_Send 0) 5 (Some ?raw) 3 fresh_process = (res, p')"
    by fastforce
  have v: "uplink_verdict detached_env some_times (uplink_site (Op_Send 0)) 5 ?raw (uplink_config detached_env some_times (Op_Send 0) 5)
      (uplink_entry detached_env 5 (Some ?raw) 3 fresh_process) = V_Unfaulted"
    by (rule uplink_verdict_detached [OF fresh_detached(1)])
  from uplink_hook_refines [OF fresh_detached(2,3) _ _ run] obtain sent where
    "wire 5 p' = wire 5 fresh_process @ sent" "\<not> pr_guard p'"
    "uplink_step ?raw V_Unfaulted (send_queue 5 fresh_process) res sent (send_queue 5 p')" using v by auto
  moreover have "wire 5 fresh_process = []" "send_queue 5 fresh_process = []"
    by (simp_all add: wire_def kernel_calls_def send_queue_def fresh_process_def InterceptorRuntime_new_def)
  ultimately show ?thesis using run by (auto elim: uplink_stepE)
qed

section \<open>Runs\<close>

text \<open>A run of sending calls on one descriptor, and the bytes its calls are about.\<close>

fun uplink_run ::
  "('o, 'l) HookEnv \<Rightarrow> fd \<Rightarrow> (HookTimes \<times> uplink_op \<times> bytes) list \<Rightarrow> ('o, 'l) Process \<Rightarrow> int list \<times> ('o, 'l) Process" where
  "uplink_run env s [] p = ([], p)"
| "uplink_run env s ((t, op, buf) # calls) p =
     (let (r, p1) = uplink_hook env t op s (Some buf) (length buf) p; (rs, p2) = uplink_run env s calls p1
      in (r # rs, p2))"

fun run_bodies ::
  "('o, 'l) HookEnv \<Rightarrow> fd \<Rightarrow> (HookTimes \<times> uplink_op \<times> bytes) list \<Rightarrow> ('o, 'l) Process \<Rightarrow> bytes list" where
  "run_bodies env s [] p = []"
| "run_bodies env s ((t, op, buf) # calls) p =
     verdict_body buf (uplink_verdict env t (uplink_site op) s buf (uplink_config env t op s)
       (uplink_entry env s (Some buf) (length buf) p))
     @ run_bodies env s calls (snd (uplink_hook env t op s (Some buf) (length buf) p))"

lemma verdict_body_cases: "verdict_body raw v = [] \<or> (\<exists>b. verdict_body raw v = [b])"
  by (cases v) simp_all

text \<open>C21. Reordering and duplication lose nothing over a whole run. Take any sequence of \<open>send\<close>, \<open>write\<close> and \<open>sendto\<close>
  calls on a descriptor: what went on the wire together with what is still staged is what was staged
  before together with one body for each call that was not rejected, plus duplicates, each of which
  is the beginning of one of those bodies.\<close>

theorem uplink_run_conserves:
  assumes "\<not> pr_guard p" "he_guard_ok env" "\<forall>(t, op, buf) \<in> set calls. buf \<noteq> []"
    and "uplink_run env s calls p = (rs, p')"
  shows "\<exists>sent dups. wire s p' = wire s p @ sent
    \<and> mset sent + mset (map dg_data (send_queue s p')) =
        mset (map dg_data (send_queue s p)) + mset (run_bodies env s calls p) + mset dups
    \<and> (\<forall>x \<in> set dups. \<exists>b \<in> set (run_bodies env s calls p). \<exists>n. x = take n b)"
  using assms
proof (induction calls arbitrary: p rs)
  case Nil
  then show ?case by (auto intro!: exI [of _ "[]"])
next
  case (Cons call calls)
  obtain t op buf where call: "call = (t, op, buf)" by (cases call)
  obtain r p1 where hk: "uplink_hook env t op s (Some buf) (length buf) p = (r, p1)" by fastforce
  obtain rs' where rest: "uplink_run env s calls p1 = (rs', p')"
    using Cons.prems(4) by (cases "uplink_run env s calls p1") (simp add: call hk Let_def)
  let ?v = "uplink_verdict env t (uplink_site op) s buf (uplink_config env t op s)
       (uplink_entry env s (Some buf) (length buf) p)"
  have "0 < length buf" using Cons.prems(3) by (simp add: call)
  from uplink_hook_step [OF Cons.prems(1,2) this le_refl hk] obtain sent1 where
    1: "wire s p1 = wire s p @ sent1" "uplink_step buf ?v (send_queue s p) r sent1 (send_queue s p1)" "\<not> pr_guard p1"
    by auto
  from uplink_step_conserves [OF 1(2)] obtain n where
    2: "mset sent1 + mset (map dg_data (send_queue s p1)) = mset (map dg_data (send_queue s p)) + mset (verdict_body buf ?v)
          + replicate_mset n (take (nat r) (concat (verdict_body buf ?v)))" "verdict_body buf ?v = [] \<longrightarrow> n = 0" by blast
  obtain sent2 dups where
    3: "wire s p' = wire s p1 @ sent2"
      "mset sent2 + mset (map dg_data (send_queue s p')) =
         mset (map dg_data (send_queue s p1)) + mset (run_bodies env s calls p1) + mset dups"
      "\<forall>x \<in> set dups. \<exists>b \<in> set (run_bodies env s calls p1). \<exists>n. x = take n b"
    using Cons.IH [OF 1(3) Cons.prems(2) _ rest] Cons.prems(3) by auto
  let ?d = "replicate n (take (nat r) (concat (verdict_body buf ?v))) @ dups"
  have bodies: "run_bodies env s (call # calls) p = verdict_body buf ?v @ run_bodies env s calls p1"
    by (simp add: call hk)
  have "mset (sent1 @ sent2) + mset (map dg_data (send_queue s p')) =
      mset (map dg_data (send_queue s p)) + mset (run_bodies env s (call # calls) p) + mset ?d"
    using 2(1) 3(2) unfolding bodies mset_append by (simp add: ac_simps)
  moreover have "\<forall>x \<in> set ?d. \<exists>b \<in> set (run_bodies env s (call # calls) p). \<exists>n. x = take n b"
    using 2(2) 3(3) verdict_body_cases [of buf ?v] unfolding bodies by auto
  ultimately show ?case
    using 1(1) 3(1) by (intro exI [of _ "sent1 @ sent2"] exI [of _ ?d]) simp
qed


theorem uplink_run_conserves_witness:
  "\<exists>rs p' dups. uplink_run detached_env 5 [(some_times, Op_Write, [1, 2])] fresh_process = (rs, p')
    \<and> mset (wire 5 p') + mset (map dg_data (send_queue 5 p')) = {#[1, 2]#} + mset dups"
proof -
  let ?calls = "[(some_times, Op_Write, [1, 2 :: u8])]"
  obtain rs p' where run: "uplink_run detached_env 5 ?calls fresh_process = (rs, p')" by fastforce
  have b: "run_bodies detached_env 5 ?calls fresh_process = [[1, 2]]"
    using uplink_verdict_detached [OF fresh_detached(1)] by simp
  have w: "wire 5 fresh_process = []" "send_queue 5 fresh_process = []"
    by (simp_all add: wire_def kernel_calls_def send_queue_def fresh_process_def InterceptorRuntime_new_def)
  have "\<exists>sent dups. wire 5 p' = [] @ sent
      \<and> mset sent + mset (map dg_data (send_queue 5 p')) = mset (map dg_data []) + mset [[1, 2]] + mset dups"
    using uplink_run_conserves [OF fresh_detached(2,3) _ run] unfolding b w by auto
  then have "\<exists>dups. mset (wire 5 p') + mset (map dg_data (send_queue 5 p')) = {#[1, 2]#} + mset dups" by auto
  with run show ?thesis by blast
qed

end
