(* ===== verification/Hook_Transparency.thy ===== *)
theory Hook_Transparency
  imports Socket_Hooks Uplink_Properties
begin

text \<open>
  The hooks as one interface, and what a process sees that no policy applies to: exactly the original calls.
\<close>

section \<open>All hooks\<close>

datatype api_call =
    A_Uplink uplink_op fd "bytes option" nat
  | A_Read fd nat UserMem
  | A_Recv fd nat int UserMem
  | A_Recvfrom fd nat int UserMem
  | A_Socket int int int
  | A_Close fd
  | A_Dup fd
  | A_Dup2 fd fd
  | A_Dup3 fd fd int
  | A_Accept fd "bytes option" "u32 option"
  | A_Accept4 fd "bytes option" "u32 option" int
  | A_Connect fd "bytes option" nat
  | A_Getaddrinfo "bytes option" "bytes option" "bytes option" bool
  | A_SslCtrl nat int int "bytes option"
  | A_SslSetFd nat fd
  | A_SslFree nat
  | A_Setpriority int int int

text \<open>What the caller sees: a value, the memory it lent for data, the address and the list of a lookup.\<close>

datatype api_result =
    R_Value int
  | R_Memory int UserMem
  | R_Accepted int "bytes option" "u32 option"
  | R_Addrs int "(bytes option \<times> nat) list"
  | R_Eai eai
  | R_Unit

definition wrap :: "('r \<Rightarrow> api_result) \<Rightarrow> 'r \<times> ('o, 'l) Process \<Rightarrow> api_result \<times> ('o, 'l) Process" where
  "wrap f r = (f (fst r), snd r)"

definition accept_result :: "sys_reply \<Rightarrow> api_result" where
  "accept_result r = R_Accepted (rp_value r) (rp_addr r) (rp_addr_len r)"

fun run_api :: "('o, 'l) HookEnv \<Rightarrow> HookTimes \<Rightarrow> api_call \<Rightarrow> ('o, 'l) Process \<Rightarrow> api_result \<times> ('o, 'l) Process" where
  "run_api env t (A_Uplink op s b l) p = wrap R_Value (uplink_hook env t op s b l p)"
| "run_api env t (A_Read s l mem) p = wrap (\<lambda>(n, m). R_Memory n m) (read_hook env t s l mem p)"
| "run_api env t (A_Recv s l f mem) p = wrap (\<lambda>(n, m). R_Memory n m) (recv_hook env t s l f mem p)"
| "run_api env t (A_Recvfrom s l f mem) p = wrap (\<lambda>(n, m). R_Memory n m) (recvfrom_hook env t s l f mem p)"
| "run_api env t (A_Socket domain ty proto) p = wrap R_Value (socket_hook env domain ty proto p)"
| "run_api env t (A_Close s) p = wrap R_Value (close_hook env s p)"
| "run_api env t (A_Dup s) p = wrap R_Value (dup_hook env s p)"
| "run_api env t (A_Dup2 s s') p = wrap R_Value (dup2_hook env s s' p)"
| "run_api env t (A_Dup3 s s' f) p = wrap R_Value (dup3_hook env s s' f p)"
| "run_api env t (A_Accept s a n) p = wrap accept_result (accept_hook env s a n p)"
| "run_api env t (A_Accept4 s a n f) p = wrap accept_result (accept4_hook env s a n f p)"
| "run_api env t (A_Connect s a n) p = wrap R_Value (connect_hook env t s a n p)"
| "run_api env t (A_Getaddrinfo node service hints res_null) p =
     wrap (\<lambda>r. case r of Inl e \<Rightarrow> R_Eai e | Inr r \<Rightarrow> R_Addrs (rp_value r) (rp_addrs r))
       (getaddrinfo_hook env t node service hints res_null p)"
| "run_api env t (A_SslCtrl ssl cmd larg parg) p = wrap R_Value (SSL_ctrl_hook env ssl cmd larg parg p)"
| "run_api env t (A_SslSetFd ssl s) p = wrap R_Value (SSL_set_fd_hook env ssl s p)"
| "run_api env t (A_SslFree ssl) p = wrap (\<lambda>_. R_Unit) (SSL_free_hook env ssl p)"
| "run_api env t (A_Setpriority which who prio) p = wrap R_Value (setpriority_hook env which who prio p)"

text \<open>The call the program would have made, and what it would have got.\<close>

fun uplink_original :: "uplink_op \<Rightarrow> fd \<Rightarrow> bytes option \<Rightarrow> nat \<Rightarrow> sys_call" where
  "uplink_original (Op_Send f) s b l = SysSend s (map_option (take l) b) l f"
| "uplink_original Op_Write s b l = SysWrite s (map_option (take l) b) l"
| "uplink_original (Op_Sendto f a n) s b l = SysSendto s (map_option (take l) b) l f a n"

fun original_call :: "api_call \<Rightarrow> sys_call" where
  "original_call (A_Uplink op s b l) = uplink_original op s b l"
| "original_call (A_Read s l mem) = SysRead s (um_buffer mem) l"
| "original_call (A_Recv s l f mem) = SysRecv s (um_buffer mem) l f"
| "original_call (A_Recvfrom s l f mem) = SysRecvfrom s (um_buffer mem) l f (um_addr mem) (um_addr_len mem)"
| "original_call (A_Socket domain ty proto) = SysSocket domain ty proto"
| "original_call (A_Close s) = SysClose s"
| "original_call (A_Dup s) = SysDup s"
| "original_call (A_Dup2 s s') = SysDup2 s s'"
| "original_call (A_Dup3 s s' f) = SysDup3 s s' f"
| "original_call (A_Accept s a n) = SysAccept s a n"
| "original_call (A_Accept4 s a n f) = SysAccept4 s a n f"
| "original_call (A_Connect s a n) = SysConnect s a n"
| "original_call (A_Getaddrinfo node service hints _) = SysGetaddrinfo node service hints"
| "original_call (A_SslCtrl ssl cmd larg parg) = SslCtrl ssl cmd larg parg"
| "original_call (A_SslSetFd ssl s) = SslSetFd ssl s"
| "original_call (A_SslFree ssl) = SslFree ssl"
| "original_call (A_Setpriority which who prio) = SysSetpriority which who prio"

fun result_of :: "api_call \<Rightarrow> sys_reply \<Rightarrow> api_result" where
  "result_of (A_Read _ _ mem) r = R_Memory (rp_value r) (mem\<lparr>um_buffer := rp_buffer r\<rparr>)"
| "result_of (A_Recv _ _ _ mem) r = R_Memory (rp_value r) (mem\<lparr>um_buffer := rp_buffer r\<rparr>)"
| "result_of (A_Recvfrom _ _ _ _) r =
     R_Memory (rp_value r) \<lparr>um_buffer = rp_buffer r, um_addr = rp_addr r, um_addr_len = rp_addr_len r\<rparr>"
| "result_of (A_Accept _ _ _) r = accept_result r"
| "result_of (A_Accept4 _ _ _ _) r = accept_result r"
| "result_of (A_Getaddrinfo _ _ _ _) r = R_Addrs (rp_value r) (rp_addrs r)"
| "result_of (A_SslFree _) r = R_Unit"
| "result_of _ r = R_Value (rp_value r)"

text \<open>What the caller has to respect: a sent buffer is as long as it says, and the entry reserved for the
  policies is another matter.\<close>

fun well_formed_call :: "api_call \<Rightarrow> bool" where
  "well_formed_call (A_Uplink _ _ b l) \<longleftrightarrow> (case b of Some buf \<Rightarrow> l \<le> length buf | None \<Rightarrow> True)"
| "well_formed_call (A_Setpriority which _ _) \<longleftrightarrow> \<not> is_faultcore_mode which"
| "well_formed_call _ \<longleftrightarrow> True"

definition originals_found :: "('o, 'l) HookEnv \<Rightarrow> bool" where
  "originals_found env \<longleftrightarrow> he_ssl_ctrl env \<and> he_ssl_set_fd env \<and> he_ssl_free env \<and> he_setpriority env"

text \<open>The contract: the call happened once, its reply is what the caller gets.\<close>

definition plain_effect :: "('o, 'l) HookEnv \<Rightarrow> sys_call \<Rightarrow> ('o, 'l) Process \<Rightarrow> ('o, 'l) Process \<Rightarrow> bool" where
  "plain_effect env c p p' \<longleftrightarrow>
     pr_calls p' = pr_calls p @ [c] \<and> pr_os p' = snd (he_kernel env c (pr_os p))"

section \<open>Nested calls\<close>

lemma uplink_nested:
  assumes "pr_guard p \<or> \<not> he_guard_ok env"
  shows "uplink_hook env t op s b l p = orig_call env (uplink_original op s b l) p"
  using assms by (cases op) (simp_all add: send_hook_def write_hook_def sendto_hook_def hook_nested)

lemma run_api_nested:
  assumes "pr_guard p \<or> \<not> he_guard_ok env" "originals_found env" "well_formed_call a"
  shows "run_api env t a p =
    (result_of a (fst (he_kernel env (original_call a) (pr_os p))),
     p\<lparr>pr_calls := pr_calls p @ [original_call a], pr_os := snd (he_kernel env (original_call a) (pr_os p))\<rparr>)"
  using assms
  by (cases a)
     (simp_all add: wrap_def uplink_nested hook_nested read_hook_def recv_hook_def recvfrom_hook_def socket_hook_def
       close_hook_def dup_hook_def dup2_hook_def dup3_hook_def accept_hook_def accept4_hook_def connect_hook_def
       getaddrinfo_hook_def SSL_ctrl_hook_def SSL_set_fd_hook_def SSL_free_hook_def setpriority_hook_def
       orig_call_def syscall_def recv_orig_def recvfrom_orig_def call_ssl_ctrl_orig_def call_ssl_set_fd_orig_def
       call_ssl_free_orig_def originals_found_def handle_setpriority_compat_def upd_bridge_def case_prod_beta Let_def)

section \<open>Calls without a policy\<close>

lemma plain_effect_upd [simp]:
  "plain_effect env c p (p'\<lparr>pr_bridge := b\<rparr>) = plain_effect env c p p'"
  "plain_effect env c p (p'\<lparr>pr_runtime := rt\<rparr>) = plain_effect env c p p'"
  "plain_effect env c p (p'\<lparr>pr_guard := g\<rparr>) = plain_effect env c p p'"
  "plain_effect env c (p\<lparr>pr_guard := g\<rparr>) p' = plain_effect env c p p'"
  "plain_effect env c (p\<lparr>pr_initialized := g\<rparr>) p' = plain_effect env c p p'"
  "plain_effect env c (p\<lparr>pr_bridge := b\<rparr>) p' = plain_effect env c p p'"
  "plain_effect env c (p\<lparr>pr_runtime := rt\<rparr>) p' = plain_effect env c p p'"
  "plain_effect env c (p\<lparr>pr_ssl_sni := m\<rparr>) p' = plain_effect env c p p'"
  "plain_effect env c (p\<lparr>pr_ssl_fd := m'\<rparr>) p' = plain_effect env c p p'"
  "plain_effect env c p (p'\<lparr>pr_ssl_fd := m'\<rparr>) = plain_effect env c p p'"
  by (simp_all add: plain_effect_def)

lemma plain_syscall [simp]:
  "plain_effect env c p (snd (syscall env c p))"
  "fst (syscall env c p) = fst (he_kernel env c (pr_os p))"
  by (simp_all add: plain_effect_def syscall_def case_prod_beta Let_def)

lemma hook_plain:
  assumes "detached env p"
    and "\<And>q. detached env q \<Longrightarrow> pr_os q = pr_os p \<Longrightarrow> fst (body q) = x \<and> plain_effect env c q (snd (body q))"
    and "fst (original p) = x \<and> plain_effect env c p (snd (original p))"
  shows "fst (hook env original body p) = x \<and> plain_effect env c p (snd (hook env original body p))"
proof (cases "pr_guard p \<or> \<not> he_guard_ok env")
  case True
  then show ?thesis using assms(3) by (simp add: hook_nested)
next
  case False
  let ?q = "p\<lparr>pr_guard := True, pr_initialized := True\<rparr>"
  have "initialize env (p\<lparr>pr_guard := True\<rparr>) = ?q" using assms(1) by (simp add: detached_initialize)
  with assms(2) [of ?q] assms(1) False show ?thesis
    by (simp add: hook_outer exit_hook_def)
qed

lemma detached_bridge:
  "br_shm b = br_shm (pr_bridge p) \<Longrightarrow> detached env (p\<lparr>pr_bridge := b\<rparr>) = detached env p"
  by (simp add: detached_def)

lemma send_args_given:
  assumes "case b of Some buf \<Rightarrow> l \<le> length buf | None \<Rightarrow> True"
  shows "send_args b l (case sent_payload b l of Some x \<Rightarrow> x | None \<Rightarrow> []) = (map_option (take l) b, l)"
  using assms by (auto simp: send_args_def sent_payload_def min_def split: option.splits)

lemma finish_uplink_plain:
  "fst (finish_uplink env s False False dup payload r q p) = r"
  "plain_effect env c p0 (snd (snd (finish_uplink env s False False dup payload r q p))) = plain_effect env c p0 p"
  by (simp_all add: finish_uplink_def hook_record_stream_bytes_def with_engine_def Let_def)

lemma handle_uplink_plain:
  assumes "detached env p" "config_lookup p = (None, p)"
    and "\<And>q. call_orig (case payload of Some x \<Rightarrow> x | None \<Rightarrow> []) q = orig_call env c q"
  shows "fst (handle_uplink_send env t site s l payload nb config_lookup call_orig stage dup q p)
      = rp_value (fst (he_kernel env c (pr_os p)))
    \<and> plain_effect env c p (snd (snd (handle_uplink_send env t site s l payload nb config_lookup call_orig stage dup q p)))"
  using assms(2,3)
  by (simp add: handle_uplink_send_def case_prod_beta Let_def finish_uplink_plain)

lemma with_send_queue_plain:
  "fst (with_send_queue s act p) = fst (act (send_queue s p) p)"
  "plain_effect env c p0 (snd (with_send_queue s act p)) = plain_effect env c p0 (snd (snd (act (send_queue s p) p)))"
  by (simp_all add: with_send_queue_def send_queue_def case_prod_beta Let_def)

lemma detached_observe_sent:
  "detached env (observe_sent_sni s b l p) = detached env p" "pr_os (observe_sent_sni s b l p) = pr_os p"
  "plain_effect env c (observe_sent_sni s b l p) p' = plain_effect env c p p'"
  by (simp_all add: observe_sent_sni_def detached_def split: option.split)

lemma uplink_plain:
  assumes "detached env p" "case b of Some buf \<Rightarrow> l \<le> length buf | None \<Rightarrow> True"
  shows "fst (uplink_hook env t op s b l p) = rp_value (fst (he_kernel env (uplink_original op s b l) (pr_os p)))
    \<and> plain_effect env (uplink_original op s b l) p (snd (uplink_hook env t op s b l p))"
proof -
  note args = send_args_given [OF assms(2)]
  have body: "fst (with_send_queue s (\<lambda>q. handle_uplink_send env t site s l (sent_payload b l) nb lookup co stage dup q)
        (observe_sent_sni s b l q)) = rp_value (fst (he_kernel env c os))
    \<and> plain_effect env c q (snd (with_send_queue s (\<lambda>q. handle_uplink_send env t site s l (sent_payload b l) nb lookup co stage dup q)
        (observe_sent_sni s b l q)))"
    if "detached env q" "pr_os q = os" "\<And>q. detached env q \<Longrightarrow> lookup q = (None, q)"
      "\<And>q. co (case sent_payload b l of Some x \<Rightarrow> x | None \<Rightarrow> []) q = orig_call env c q" for site nb lookup co stage dup c q os
  proof -
    have d: "detached env (observe_sent_sni s b l q)" using that(1) by (simp add: detached_observe_sent)
    show ?thesis
      using handle_uplink_plain [of env "observe_sent_sni s b l q" lookup co "sent_payload b l" c, OF d that(3) [OF d] that(4)] that(2)
      by (simp add: with_send_queue_plain detached_observe_sent)
  qed
  show ?thesis
  proof (cases op)
    case (Op_Send f)
    show ?thesis unfolding Op_Send uplink_hook.simps uplink_original.simps send_hook_def
      by (rule hook_plain [OF assms(1)], rule body) (simp_all add: detached_fd_config args)
  next
    case Op_Write
    show ?thesis unfolding Op_Write uplink_hook.simps uplink_original.simps write_hook_def
      by (rule hook_plain [OF assms(1)], rule body) (simp_all add: detached_fd_config args)
  next
    case (Op_Sendto f adr n)
    show ?thesis unfolding Op_Sendto uplink_hook.simps uplink_original.simps sendto_hook_def
      by (rule hook_plain [OF assms(1)], rule body) (simp_all add: detached_fd_config args)
  qed
qed

lemma downlink_plain:
  assumes "detached env p" "\<And>q. pr_os q = pr_os p \<Longrightarrow>
      fst (co mem q) = fst x \<and> fst (snd (co mem q)) = snd x \<and> plain_effect env c q (snd (snd (co mem q)))"
  shows "fst (hook env (\<lambda>p. let (res, mem', p') = co mem p in ((res, mem'), p'))
      (\<lambda>p. finish_downlink s (with_recv_queue s (handle_downlink_recv env t site s l nb co snap wr mem) p)) p) = x
    \<and> plain_effect env c p (snd (hook env (\<lambda>p. let (res, mem', p') = co mem p in ((res, mem'), p'))
      (\<lambda>p. finish_downlink s (with_recv_queue s (handle_downlink_recv env t site s l nb co snap wr mem) p)) p))"
proof (rule hook_plain [OF assms(1)])
  fix q assume q: "detached env q" "pr_os q = pr_os p"
  show "fst (finish_downlink s (with_recv_queue s (handle_downlink_recv env t site s l nb co snap wr mem) q)) = x
    \<and> plain_effect env c q (snd (finish_downlink s (with_recv_queue s (handle_downlink_recv env t site s l nb co snap wr mem) q)))"
    using assms(2) [OF q(2)]
    by (simp add: with_recv_queue_def handle_downlink_recv_def detached_fd_config [OF q(1)] finish_downlink_def
        hook_record_stream_bytes_def with_engine_def case_prod_beta Let_def)
qed (use assms(2) [of p] in \<open>simp add: case_prod_beta Let_def\<close>)

lemma recv_orig_plain:
  "fst (recv_orig env k mem q) = rp_value (fst (he_kernel env (k mem) (pr_os q)))"
  "fst (snd (recv_orig env k mem q)) = mem\<lparr>um_buffer := rp_buffer (fst (he_kernel env (k mem) (pr_os q)))\<rparr>"
  "plain_effect env (k mem) q (snd (snd (recv_orig env k mem q)))"
  "fst (recvfrom_orig env k mem q) = rp_value (fst (he_kernel env (k mem) (pr_os q)))"
  "fst (snd (recvfrom_orig env k mem q)) =
     (let r = fst (he_kernel env (k mem) (pr_os q))
      in \<lparr>um_buffer = rp_buffer r, um_addr = rp_addr r, um_addr_len = rp_addr_len r\<rparr>)"
  "plain_effect env (k mem) q (snd (snd (recvfrom_orig env k mem q)))"
  by (simp_all add: recv_orig_def recvfrom_orig_def case_prod_beta Let_def)

lemma recv_plain:
  assumes "detached env p"
  shows "fst (hook env (\<lambda>p. let (res, mem', p') = recv_orig env k mem p in ((res, mem'), p'))
      (\<lambda>p. finish_downlink s (with_recv_queue s (handle_downlink_recv env t site s l nb (recv_orig env k) snap wr mem) p)) p)
      = (rp_value (fst (he_kernel env (k mem) (pr_os p))), mem\<lparr>um_buffer := rp_buffer (fst (he_kernel env (k mem) (pr_os p)))\<rparr>)"
    "plain_effect env (k mem) p (snd (hook env (\<lambda>p. let (res, mem', p') = recv_orig env k mem p in ((res, mem'), p'))
      (\<lambda>p. finish_downlink s (with_recv_queue s (handle_downlink_recv env t site s l nb (recv_orig env k) snap wr mem) p)) p))"
  using downlink_plain [OF assms, of "recv_orig env k" mem
      "(rp_value (fst (he_kernel env (k mem) (pr_os p))), mem\<lparr>um_buffer := rp_buffer (fst (he_kernel env (k mem) (pr_os p)))\<rparr>)"
      "k mem" s t site l nb snap wr]
  by (simp_all add: recv_orig_plain)

lemma recvfrom_plain:
  assumes "detached env p"
  shows "fst (hook env (\<lambda>p. let (res, mem', p') = recvfrom_orig env k mem p in ((res, mem'), p'))
      (\<lambda>p. finish_downlink s (with_recv_queue s (handle_downlink_recv env t site s l nb (recvfrom_orig env k) snap wr mem) p)) p)
      = (let r = fst (he_kernel env (k mem) (pr_os p))
         in (rp_value r, \<lparr>um_buffer = rp_buffer r, um_addr = rp_addr r, um_addr_len = rp_addr_len r\<rparr>))"
    "plain_effect env (k mem) p (snd (hook env (\<lambda>p. let (res, mem', p') = recvfrom_orig env k mem p in ((res, mem'), p'))
      (\<lambda>p. finish_downlink s (with_recv_queue s (handle_downlink_recv env t site s l nb (recvfrom_orig env k) snap wr mem) p)) p))"
  using downlink_plain [OF assms, of "recvfrom_orig env k" mem
      "let r = fst (he_kernel env (k mem) (pr_os p))
         in (rp_value r, \<lparr>um_buffer = rp_buffer r, um_addr = rp_addr r, um_addr_len = rp_addr_len r\<rparr>)"
      "k mem" s t site l nb snap wr]
  by (simp_all add: recv_orig_plain Let_def)

lemma dns_config_detached: "detached env p \<Longrightarrow> dns_config env t name p = (None, p)"
  by (simp add: detached_def dns_config_def with_bridge_def runtime_dns_config_for_query_def
      runtime_dns_config_for_current_thread_def detached_base)

lemma plain_frames [simp]:
  "plain_effect env c (upd_bridge f p) p' = plain_effect env c p p'"
  "plain_effect env c p (upd_bridge f p') = plain_effect env c p p'"
  "plain_effect env c (upd_engine g p) p' = plain_effect env c p p'"
  "plain_effect env c p (upd_engine g p') = plain_effect env c p p'"
  "plain_effect env c (upd_runtime h p) p' = plain_effect env c p p'"
  "plain_effect env c p (upd_runtime h p') = plain_effect env c p p'"
  "plain_effect env c p (after_dup_onto fd out p') = plain_effect env c p p'"
  "pr_os (upd_bridge f p) = pr_os p" "pr_os (upd_engine g p) = pr_os p" "pr_os (upd_runtime h p) = pr_os p"
  by (simp_all add: upd_bridge_def upd_engine_def upd_runtime_def after_dup_onto_def Let_def)

lemma plain_ssl [simp]:
  "plain_effect env c (remember_ssl_sni ssl sni p) p' = plain_effect env c p p'"
  "plain_effect env c (forget_ssl_state ssl p) p' = plain_effect env c p p'"
  "plain_effect env c (forget_ssl_bindings_for_fd s p) p' = plain_effect env c p p'"
  "plain_effect env c (bind_ssl_sni_if_possible env' ssl sni p) p' = plain_effect env c p p'"
  "plain_effect env c p (remember_ssl_fd ssl s p') = plain_effect env c p p'"
  "pr_os (remember_ssl_sni ssl sni p) = pr_os p" "pr_os (forget_ssl_state ssl p) = pr_os p"
  "pr_os (forget_ssl_bindings_for_fd s p) = pr_os p" "pr_os (bind_ssl_sni_if_possible env' ssl sni p) = pr_os p"
  by (simp_all add: remember_ssl_sni_def forget_ssl_state_def forget_ssl_bindings_for_fd_def bind_ssl_sni_if_possible_def
      remember_ssl_fd_def process_observe_sni_def ssl_key_def Let_def split: option.split)

lemma plain_observe_addrs [simp]:
  "plain_effect env c p (observe_addrs env' t name k items p') = plain_effect env c p p'"
  by (induction env' t name k items p' rule: observe_addrs.induct) simp_all

lemma on_shm_none: "shm_pointer st = None \<Longrightarrow> on_shm g st = st"
  by (simp add: on_shm_def)

lemma detached_bind [simp]:
  "detached env p \<Longrightarrow> detached env (upd_bridge (bind_fd_to_current_thread tid s) p)"
  by (simp add: upd_bridge_def bind_fd_to_current_thread_def detached_def assign_rule_to_fd_def on_shm_none)

lemma plain_syscall_from:
  "pr_calls q = pr_calls p \<Longrightarrow> pr_os q = pr_os p \<Longrightarrow> plain_effect env c p (snd (syscall env c q))"
  by (simp add: plain_effect_def syscall_def case_prod_beta Let_def)

lemma calls_frames [simp]:
  "pr_calls (upd_bridge f p) = pr_calls p" "pr_calls (upd_engine g p) = pr_calls p" "pr_calls (upd_runtime h p) = pr_calls p"
  "pr_calls (remember_ssl_sni ssl sni p) = pr_calls p" "pr_calls (forget_ssl_state ssl p) = pr_calls p"
  "pr_calls (forget_ssl_bindings_for_fd s p) = pr_calls p" "pr_calls (bind_ssl_sni_if_possible env ssl sni p) = pr_calls p"
  by (simp_all add: upd_bridge_def upd_engine_def upd_runtime_def remember_ssl_sni_def forget_ssl_state_def
      forget_ssl_bindings_for_fd_def bind_ssl_sni_if_possible_def remember_ssl_fd_def process_observe_sni_def ssl_key_def
      Let_def split: option.split)

text \<open>A hook with an integer result, and its original.\<close>

definition plain_value ::
  "('o, 'l) HookEnv \<Rightarrow> sys_call \<Rightarrow> (('o, 'l) Process \<Rightarrow> int \<times> ('o, 'l) Process) \<Rightarrow> ('o, 'l) Process \<Rightarrow> bool" where
  "plain_value env c h p \<longleftrightarrow> fst (h p) = rp_value (fst (he_kernel env c (pr_os p))) \<and> plain_effect env c p (snd (h p))"

lemma plain_value_hook:
  assumes "detached env p" "\<And>q. detached env q \<Longrightarrow> plain_value env c body q" "plain_value env c original p"
  shows "plain_value env c (hook env original body) p"
  using hook_plain [OF assms(1), of body _ c original] assms(2,3) unfolding plain_value_def by simp

lemma plain_value_orig: "plain_value env c (orig_call env c) p"
  by (simp add: plain_value_def)

lemmas plain_body = plain_value_def case_prod_beta Let_def plain_syscall_from

lemma descriptor_hooks_plain:
  assumes "detached env p"
  shows "plain_value env (SysSocket domain ty proto) (socket_hook env domain ty proto) p"
    "plain_value env (SysClose s) (close_hook env s) p"
    "plain_value env (SysDup s) (dup_hook env s) p"
    "plain_value env (SysDup2 s s') (dup2_hook env s s') p"
    "plain_value env (SysDup3 s s' f) (dup3_hook env s s' f) p"
  unfolding socket_hook_def close_hook_def dup_hook_def dup2_hook_def dup3_hook_def
  by (rule plain_value_hook [OF assms]; simp add: plain_body)+

lemma connect_plain:
  assumes "detached env p"
  shows "plain_value env (SysConnect s a n) (connect_hook env t s a n) p"
  unfolding connect_hook_def
  by (rule plain_value_hook [OF assms]) (simp_all add: plain_body detached_fd_config)

lemma ssl_hooks_plain:
  assumes "detached env p" "he_ssl_ctrl env" "he_ssl_set_fd env"
  shows "plain_value env (SslCtrl ssl cmd larg parg) (SSL_ctrl_hook env ssl cmd larg parg) p"
    "plain_value env (SslSetFd ssl s) (SSL_set_fd_hook env ssl s) p"
  unfolding SSL_ctrl_hook_def SSL_set_fd_hook_def
  by (rule plain_value_hook [OF assms(1)];
      simp add: plain_body call_ssl_ctrl_orig_def call_ssl_set_fd_orig_def assms(2,3) split: option.split)+

lemma ssl_free_plain:
  assumes "detached env p" "he_ssl_free env"
  shows "plain_effect env (SslFree ssl) p (snd (SSL_free_hook env ssl p))"
proof -
  have "fst (SSL_free_hook env ssl p) = () \<and> plain_effect env (SslFree ssl) p (snd (SSL_free_hook env ssl p))"
    unfolding SSL_free_hook_def
    by (rule hook_plain [OF assms(1)]) (simp_all add: call_ssl_free_orig_def assms(2) plain_syscall_from)
  then show ?thesis by simp
qed

lemma setpriority_plain:
  assumes "\<not> is_faultcore_mode which" "he_setpriority env"
  shows "plain_value env (SysSetpriority which who prio) (setpriority_hook env which who prio) p"
  using assms by (simp add: plain_body setpriority_hook_def handle_setpriority_compat_def)

lemma accept_plain:
  assumes "detached env p"
  shows "fst (accept_hook env s adr n p) = fst (he_kernel env (SysAccept s adr n) (pr_os p))
      \<and> plain_effect env (SysAccept s adr n) p (snd (accept_hook env s adr n p))"
    "fst (accept4_hook env s adr n f p) = fst (he_kernel env (SysAccept4 s adr n f) (pr_os p))
      \<and> plain_effect env (SysAccept4 s adr n f) p (snd (accept4_hook env s adr n f p))"
  unfolding accept_hook_def accept4_hook_def
  by (rule hook_plain [OF assms]; simp add: accept_body_def case_prod_beta Let_def)+

lemma getaddrinfo_plain:
  assumes "detached env p"
  shows "fst (getaddrinfo_hook env t node service hints rn p) = Inr (fst (he_kernel env (SysGetaddrinfo node service hints) (pr_os p)))
    \<and> plain_effect env (SysGetaddrinfo node service hints) p (snd (getaddrinfo_hook env t node service hints rn p))"
  unfolding getaddrinfo_hook_def
  by (rule hook_plain [OF assms]) (simp_all add: case_prod_beta Let_def dns_config_detached split: option.split)

lemma run_api_plain:
  assumes "detached env p" "originals_found env" "well_formed_call a"
  shows "fst (run_api env t a p) = result_of a (fst (he_kernel env (original_call a) (pr_os p)))
    \<and> plain_effect env (original_call a) p (snd (run_api env t a p))"
  using assms descriptor_hooks_plain [OF assms(1)] connect_plain [OF assms(1)] ssl_hooks_plain [OF assms(1)]
    ssl_free_plain [OF assms(1)] setpriority_plain [where env = env and p = p] accept_plain [OF assms(1)] getaddrinfo_plain [OF assms(1)]
    uplink_plain [OF assms(1)] recv_plain [OF assms(1), unfolded Let_def] recvfrom_plain [OF assms(1), unfolded Let_def]
  by (cases a) (simp_all add: wrap_def plain_value_def originals_found_def read_hook_def recv_hook_def recvfrom_hook_def Let_def)

section \<open>The properties\<close>

lemma original_guards:
  "pr_guard (snd (orig_call env c p)) = pr_guard p" "pr_guard (snd (syscall env c p)) = pr_guard p"
  "pr_guard (snd (snd (recv_orig env k mem p))) = pr_guard p" "pr_guard (snd (snd (recvfrom_orig env k mem p))) = pr_guard p"
  "pr_guard (snd (call_ssl_ctrl_orig env ssl cmd larg parg p)) = pr_guard p"
  "pr_guard (snd (call_ssl_set_fd_orig env ssl s p)) = pr_guard p" "pr_guard (call_ssl_free_orig env ssl p) = pr_guard p"
  by (simp_all add: syscall_def recv_orig_def recvfrom_orig_def call_ssl_ctrl_orig_def call_ssl_set_fd_orig_def
      call_ssl_free_orig_def case_prod_beta Let_def)

lemma uplink_guard: "pr_guard (snd (uplink_hook env t op s b l p)) = pr_guard p"
  by (cases op) (simp_all only: uplink_hook.simps send_hook_def write_hook_def sendto_hook_def hook_guard original_guards)

lemma setpriority_guard: "pr_guard (snd (setpriority_hook env which who prio p)) = pr_guard p"
  by (simp add: setpriority_hook_def upd_bridge_def set_errno_value_def original_guards Let_def case_prod_beta
      split: SetpriorityCompatOutcome.split)

lemma receive_guards:
  "pr_guard (snd (read_hook env t s l mem p)) = pr_guard p"
  "pr_guard (snd (recv_hook env t s l f mem p)) = pr_guard p"
  "pr_guard (snd (recvfrom_hook env t s l f mem p)) = pr_guard p"
  unfolding read_hook_def recv_hook_def recvfrom_hook_def Let_def
  by (rule hook_guard; simp add: original_guards case_prod_beta)+

lemma descriptor_guards:
  "pr_guard (snd (socket_hook env domain ty proto p)) = pr_guard p" "pr_guard (snd (close_hook env s p)) = pr_guard p"
  "pr_guard (snd (dup_hook env s p)) = pr_guard p" "pr_guard (snd (dup2_hook env s s' p)) = pr_guard p"
  "pr_guard (snd (dup3_hook env s s' f p)) = pr_guard p" "pr_guard (snd (accept_hook env s a n p)) = pr_guard p"
  "pr_guard (snd (accept4_hook env s a n f p)) = pr_guard p" "pr_guard (snd (connect_hook env t s a k p)) = pr_guard p"
  "pr_guard (snd (getaddrinfo_hook env t node service hints rn p)) = pr_guard p"
  "pr_guard (snd (SSL_ctrl_hook env ssl cmd larg parg p)) = pr_guard p"
  "pr_guard (snd (SSL_set_fd_hook env ssl s p)) = pr_guard p" "pr_guard (snd (SSL_free_hook env ssl p)) = pr_guard p"
  unfolding socket_hook_def close_hook_def dup_hook_def dup2_hook_def dup3_hook_def accept_hook_def accept4_hook_def
      connect_hook_def getaddrinfo_hook_def SSL_ctrl_hook_def SSL_set_fd_hook_def SSL_free_hook_def
  by (rule hook_guard; simp only: original_guards case_prod_beta Let_def snd_conv)+

lemma run_api_guard: "pr_guard (snd (run_api env t a p)) = pr_guard p"
  by (cases a) (simp_all only: run_api.simps wrap_def snd_conv uplink_guard setpriority_guard receive_guards descriptor_guards)

fun run_program :: "('o, 'l) HookEnv \<Rightarrow> (HookTimes \<times> api_call) list \<Rightarrow> ('o, 'l) Process \<Rightarrow> api_result list \<times> ('o, 'l) Process" where
  "run_program env [] p = ([], p)"
| "run_program env ((t, a) # calls) p =
     (let (r, p1) = run_api env t a p; (rs, p2) = run_program env calls p1 in (r # rs, p2))"

lemma run_program_guard: "pr_guard (snd (run_program env calls p)) = pr_guard p"
proof (induction calls arbitrary: p)
  case (Cons call calls)
  obtain t a where "call = (t, a)" by (cases call)
  with Cons.IH [of "snd (run_api env t a p)"] show ?case
    by (simp add: run_api_guard case_prod_beta Let_def del: run_api.simps)
qed simp

text \<open>C4. The library is invisible where no policy can apply. A call made from inside another hook, or in a process
  whose shared segment is not mapped and cannot be opened, makes exactly the one call the program asked
  for, with its own arguments, and hands back the kernel's reply unchanged: value, data, address and
  resolver results. A nested call changes nothing else in the process at all. This covers all seventeen hooks.\<close>

theorem hooks_transparent:
  assumes "originals_found env" "well_formed_call a" "pr_guard p \<or> detached env p"
    and "run_api env t a p = (r, p')"
  shows "(let (reply, os) = he_kernel env (original_call a) (pr_os p)
     in r = result_of a reply \<and> pr_os p' = os \<and> pr_calls p' = pr_calls p @ [original_call a] \<and> pr_guard p' = pr_guard p
       \<and> (pr_guard p \<longrightarrow> p' = p\<lparr>pr_calls := pr_calls p @ [original_call a], pr_os := os\<rparr>))"
proof (cases "pr_guard p")
  case True
  then show ?thesis using run_api_nested [of p env a t] assms(1,2,4) by (simp add: case_prod_beta Let_def)
next
  case False
  with assms(3) run_api_plain [of env p a t] run_api_guard [of env t a p] assms(1,2,4) show ?thesis
    by (simp add: plain_effect_def case_prod_beta Let_def)
qed

theorem hooks_transparent_witness:
  "fst (run_api detached_env some_times (A_Connect 5 (Some [2, 0]) 2) fresh_process) = R_Value 0
   \<and> pr_calls (snd (run_api detached_env some_times (A_Connect 5 (Some [2, 0]) 2) fresh_process)) = [SysConnect 5 (Some [2, 0]) 2]"
proof -
  obtain r p' where run: "run_api detached_env some_times (A_Connect 5 (Some [2, 0]) 2) fresh_process = (r, p')" by fastforce
  have "originals_found detached_env" by (simp add: originals_found_def detached_env_def)
  from hooks_transparent [OF this _ _ run] fresh_detached(1) run show ?thesis
    by (simp add: detached_env_def accepting_kernel_def fresh_process_def)
qed

text \<open>The recursion guard is never leaked: whatever hooks a program calls, with whatever policies,
  early errors and replies, the guard is afterwards as it was before. A leaked guard would
  silently turn every later hook of the thread into a plain call.\<close>

lemma guard_released:
  "pr_guard (snd (run_program env calls p)) = pr_guard p"
  by (rule run_program_guard)

end
