(* ===== verification/Downlink_Properties.thy ===== *)
theory Downlink_Properties
  imports Downlink_Hooks Uplink_Properties
begin

text \<open>
  The receiving hooks against an abstract specification. \<open>downlink_step\<close> says which datagram one call may
  hand to the program, given the verdict of the policy, what the kernel delivered during the call and what was
  staged; \<open>read\<close>, \<open>recv\<close> and \<open>recvfrom\<close> refine it, through the locale \<open>downlink_calls\<close>.
\<close>

section \<open>What the kernel delivered\<close>

fun kernel_run :: "('o, 'l) HookEnv \<Rightarrow> sys_call list \<Rightarrow> 'o \<Rightarrow> sys_reply list \<times> 'o" where
  "kernel_run env [] os = ([], os)"
| "kernel_run env (c # cs) os =
     (let (r, os1) = he_kernel env c os; (rs, os2) = kernel_run env cs os1 in (r # rs, os2))"

lemma kernel_run_append:
  "kernel_run env (cs @ cs') os =
     (let (rs, os1) = kernel_run env cs os; (rs', os2) = kernel_run env cs' os1 in (rs @ rs', os2))"
  by (induction cs arbitrary: os) (simp_all add: Let_def case_prod_beta)

text \<open>The data of a reply, if it has any.\<close>

definition delivery :: "sys_reply \<Rightarrow> bytes option" where
  "delivery r = (if rp_value r > 0 then map_option (take (nat (rp_value r))) (rp_buffer r) else None)"

text \<open>Between \<open>p\<close> and \<open>p'\<close> the kernel was called and delivered \<open>ds\<close>.\<close>

definition receives :: "('o, 'l) HookEnv \<Rightarrow> ('o, 'l) Process \<Rightarrow> bytes option list \<Rightarrow> ('o, 'l) Process \<Rightarrow> bool" where
  "receives env p ds p' \<longleftrightarrow>
     (\<exists>cs rs. kernel_calls p' = kernel_calls p @ cs \<and> kernel_run env cs (pr_os p) = (rs, pr_os p') \<and> map delivery rs = ds)"

lemma receives_quiet: "quiet p q \<Longrightarrow> receives env p [] q"
  by (auto simp: receives_def quiet_def intro!: exI [of _ "[]"])

lemma receives_trans:
  assumes "receives env p ds q" "receives env q ds' r"
  shows "receives env p (ds @ ds') r"
proof -
  obtain cs rs cs' rs' where
    "kernel_calls q = kernel_calls p @ cs" "kernel_run env cs (pr_os p) = (rs, pr_os q)" "map delivery rs = ds"
    "kernel_calls r = kernel_calls q @ cs'" "kernel_run env cs' (pr_os q) = (rs', pr_os r)" "map delivery rs' = ds'"
    using assms unfolding receives_def by auto
  then show ?thesis
    unfolding receives_def by (intro exI [of _ "cs @ cs'"] exI [of _ "rs @ rs'"]) (simp add: kernel_run_append)
qed

lemma receives_syscall:
  assumes "\<not> is_sleep c"
  shows "receives env p [delivery (fst (he_kernel env c (pr_os p)))] (snd (syscall env c p))"
  unfolding receives_def using assms
  by (intro exI [of _ "[c]"] exI [of _ "[fst (he_kernel env c (pr_os p))]"])
     (simp add: orig_call_effect case_prod_beta Let_def)

section \<open>The specification\<close>

datatype recv_verdict = D_Unfaulted | D_Queued | D_Rejected | D_Reorder | D_Direct

inductive downlink_step ::
  "recv_verdict \<Rightarrow> bool \<Rightarrow> bytes list \<Rightarrow> bytes option list \<Rightarrow> bytes option \<Rightarrow> bytes list \<Rightarrow> bool" where
  unfaulted: "downlink_step D_Unfaulted non_blocking q [r] r q"
| queued: "downlink_step D_Queued non_blocking (d # q) [] (Some d) q"
| rejected: "downlink_step D_Rejected non_blocking [] [] None []"
| direct: "downlink_step D_Direct non_blocking [] [r] r []"
| empty: "downlink_step D_Reorder non_blocking [] [None] None []"
| swapped: "\<not> non_blocking \<Longrightarrow> downlink_step D_Reorder non_blocking [] [Some d1, Some d2] (Some d2) [d1]"
| alone: "\<not> non_blocking \<Longrightarrow> downlink_step D_Reorder non_blocking [] [Some d1, None] (Some d1) []"
| deferred: "non_blocking \<Longrightarrow> downlink_step D_Reorder non_blocking [] [Some d] None [d]"

text \<open>Every datagram the kernel delivered, and every one staged before, is handed to the program now
  or staged: none is lost, none is doubled.\<close>

lemma downlink_step_conserves:
  assumes "downlink_step v nb q ds ret q'"
  shows "mset (List.map_filter id [ret]) + mset q' = mset q + mset (List.map_filter id ds)"
  using assms by cases (auto simp: List.map_filter_simps split: option.split)

definition recv_verdict ::
  "('o, 'l) HookEnv \<Rightarrow> HookTimes \<Rightarrow> string \<Rightarrow> fd \<Rightarrow> nat \<Rightarrow> queue \<Rightarrow> ('o, 'l) Process \<Rightarrow> recv_verdict" where
  "recv_verdict env t site s l q p =
     (case fd_config env t s p of
        (None, _) \<Rightarrow> D_Unfaulted
      | (Some cfg, p1) \<Rightarrow>
          if q \<noteq> [] then D_Queued
          else
            let d = fst (evaluate_pre env t site s cfg l Downlink p1)
            in if early_return (ht_map t) s d (is_non_blocking env s) (pr_runtime p1) \<noteq> None then D_Rejected
               else if d = StageReorder then D_Reorder else D_Direct)"

text \<open>What the program sees of a datagram: its first \<open>l\<close> bytes, or those of what R7 made of it.\<close>

definition shows_datagram :: "u64 \<Rightarrow> fd \<Rightarrow> nat \<Rightarrow> bytes \<Rightarrow> int \<Rightarrow> bytes option \<Rightarrow> bool" where
  "shows_datagram now s l d res buffer \<longleftrightarrow>
     (\<exists>x y. (y = d \<or> (\<exists>cfg. r7_output now s cfg Downlink d = Some y)) \<and> x = take l y
        \<and> res = int (length x) \<and> map_option (take (length x)) buffer = Some x)"

definition downlink_result :: "u64 \<Rightarrow> fd \<Rightarrow> nat \<Rightarrow> bytes option \<Rightarrow> int \<Rightarrow> bytes option \<Rightarrow> bool" where
  "downlink_result now s l ret res buffer \<longleftrightarrow>
     (case ret of None \<Rightarrow> res \<le> 0 | Some d \<Rightarrow> shows_datagram now s l d res buffer)"

section \<open>The handler\<close>

text \<open>The documented behaviour of an original receiving call: it fills the buffer in place and returns at most its length.\<close>

definition call_fills :: "('o, 'l) HookEnv \<Rightarrow> (UserMem \<Rightarrow> sys_call) \<Rightarrow> nat \<Rightarrow> bool" where
  "call_fills env call l \<longleftrightarrow> (\<forall>mem b os. um_buffer mem = Some b \<longrightarrow> length b = l \<longrightarrow>
     (\<exists>b'. rp_buffer (fst (he_kernel env (call mem) os)) = Some b' \<and> length b' = l)
     \<and> rp_value (fst (he_kernel env (call mem) os)) \<le> int l)"

definition buffer_ok :: "nat \<Rightarrow> UserMem \<Rightarrow> bool" where
  "buffer_ok l mem \<longleftrightarrow> (\<exists>b. um_buffer mem = Some b \<and> length b = l)"

text \<open>What the handler needs of a hook: the original call writes through the buffer, a snapshot is the data
  received, and writing back restores it up to the length of the buffer.\<close>

locale downlink_calls =
  fixes env :: "('o, 'l) HookEnv"
    and l :: nat
    and call :: "UserMem \<Rightarrow> sys_call"
    and co :: "UserMem \<Rightarrow> ('o, 'l) Process \<Rightarrow> int \<times> UserMem \<times> ('o, 'l) Process"
    and snap :: "nat \<Rightarrow> int \<Rightarrow> UserMem \<Rightarrow> PendingDatagram option"
    and wr :: "PendingDatagram \<Rightarrow> UserMem \<Rightarrow> int \<times> UserMem"
  assumes co_reply: "fst (co mem p) = rp_value (fst (he_kernel env (call mem) (pr_os p)))"
      "um_buffer (fst (snd (co mem p))) = rp_buffer (fst (he_kernel env (call mem) (pr_os p)))"
      "snd (snd (co mem p)) = snd (syscall env (call mem) p)"
    and awake: "\<not> is_sleep (call mem)"
    and snap_data: "um_buffer mem = Some b \<Longrightarrow> 0 < v \<Longrightarrow> \<exists>pkt. snap now v mem = Some pkt \<and> dg_data pkt = take (nat v) b"
    and wr_data: "um_buffer mem = Some b \<Longrightarrow> 0 < l \<Longrightarrow>
      fst (wr pkt mem) = int (min l (length (dg_data pkt)))
      \<and> um_buffer (snd (wr pkt mem)) =
          Some (take (min l (length (dg_data pkt))) (dg_data pkt) @ drop (min l (length (dg_data pkt))) b)"
begin

text \<open>The buffer holds the datagram \<open>d\<close> and nothing was mutated yet.\<close>

definition holds :: "bytes \<Rightarrow> int \<Rightarrow> UserMem \<Rightarrow> bool" where
  "holds d res mem \<longleftrightarrow> d \<noteq> [] \<and> length d \<le> l \<and> res = int (length d) \<and> map_option (take (length d)) (um_buffer mem) = Some d"

definition outcome :: "bytes option \<Rightarrow> int \<Rightarrow> UserMem \<Rightarrow> bool" where
  "outcome ret res mem \<longleftrightarrow> buffer_ok l mem \<and> (case ret of None \<Rightarrow> res \<le> 0 | Some d \<Rightarrow> holds d res mem)"

lemma call_step:
  assumes "call_fills env call l" "buffer_ok l mem" "co mem p = (v, mem', p')"
  shows "\<exists>r. receives env p [r] p' \<and> outcome r v mem' \<and> (v > 0 \<longleftrightarrow> r \<noteq> None)"
proof -
  let ?r = "fst (he_kernel env (call mem) (pr_os p))"
  obtain b' where b': "rp_buffer ?r = Some b'" "length b' = l" "rp_value ?r \<le> int l"
    using assms(1,2) unfolding call_fills_def buffer_ok_def by blast
  have c: "v = rp_value ?r" "um_buffer mem' = Some b'" "p' = snd (syscall env (call mem) p)"
    using co_reply [of mem p] assms(3) b'(1) by simp_all
  have "receives env p [delivery ?r] p'" unfolding c(3) by (rule receives_syscall [OF awake])
  moreover have "outcome (delivery ?r) v mem'"
    using b' c by (auto simp: outcome_def delivery_def buffer_ok_def holds_def min_def)
  moreover have "v > 0 \<longleftrightarrow> delivery ?r \<noteq> None" using b' c by (simp add: delivery_def)
  ultimately show ?thesis by blast
qed

lemma snap_of:
  assumes "holds d res mem"
  obtains pkt where "snap now res mem = Some pkt" "dg_data pkt = d"
  using assms snap_data [of mem _ res now] by (auto simp: holds_def)

lemma write_back_holds:
  assumes "dg_data pkt = d" "d \<noteq> []" "length d \<le> l" "buffer_ok l mem" "wr pkt mem = (v, mem')"
  shows "outcome (Some d) v mem'"
proof -
  obtain b where b: "um_buffer mem = Some b" "length b = l" using assms(4) by (auto simp: buffer_ok_def)
  have "0 < l" using assms(2,3) by (cases d) auto
  from wr_data [OF b(1) this, of pkt] assms b show ?thesis
    by (auto simp: outcome_def holds_def buffer_ok_def min_def)
qed

lemma reorder_blocking_step:
  assumes "call_fills env call l" "buffer_ok l mem" "reorder_blocking t co snap wr [] mem p = (res, q', mem', p')"
  shows "\<exists>ds ret. receives env p ds p' \<and> downlink_step D_Reorder False [] ds ret (map dg_data q') \<and> outcome ret res mem'"
proof -
  obtain v1 mem1 p1 where c1: "co mem p = (v1, mem1, p1)" using prod_cases3 by blast
  from call_step [OF assms(1,2) c1] obtain r1 where r1: "receives env p [r1] p1" "outcome r1 v1 mem1" "v1 > 0 \<longleftrightarrow> r1 \<noteq> None" by blast
  show ?thesis
  proof (cases r1)
    case None
    with assms(3) c1 r1 have "q' = []" "res = v1" "mem' = mem1" "p' = p1" by (auto simp: reorder_blocking_def)
    with r1 None show ?thesis by (auto intro: downlink_step.empty)
  next
    case (Some d1)
    with r1 have h1: "holds d1 v1 mem1" "buffer_ok l mem1" by (auto simp: outcome_def)
    obtain pkt where pkt: "snap (ht_stage t) v1 mem1 = Some pkt" "dg_data pkt = d1" by (rule snap_of [OF h1(1)])
    obtain v2 mem2 p2 where c2: "co mem1 p1 = (v2, mem2, p2)" using prod_cases3 by blast
    from call_step [OF assms(1) h1(2) c2] obtain r2 where r2: "receives env p1 [r2] p2" "outcome r2 v2 mem2" "v2 > 0 \<longleftrightarrow> r2 \<noteq> None"
      by blast
    have rcv: "receives env p [Some d1, r2] p2" using receives_trans [OF r1(1) r2(1)] Some by simp
    have "v1 > 0" using r1(3) Some by simp
    note run = assms(3) [unfolded reorder_blocking_def c1 Let_def prod.case]
    show ?thesis
    proof (cases r2)
      case (Some d2)
      with run \<open>v1 > 0\<close> pkt c2 r2(3) have "q' = [pkt]" "res = v2" "mem' = mem2" "p' = p2" by auto
      with rcv r2(2) Some pkt(2) show ?thesis
        by (intro exI [of _ "[Some d1, Some d2]"] exI [of _ "Some d2"]) (auto intro: downlink_step.swapped)
    next
      case None
      obtain w mem3 where wb: "wr pkt mem2 = (w, mem3)" by fastforce
      have "buffer_ok l mem2" using r2(2) by (simp add: outcome_def)
      with write_back_holds [OF pkt(2) _ _ this wb] h1(1) have "outcome (Some d1) w mem3" by (simp add: holds_def)
      moreover from run \<open>v1 > 0\<close> pkt c2 r2(3) None wb have "q' = []" "res = w" "mem' = mem3" "p' = p2" by auto
      ultimately show ?thesis using rcv None
        by (intro exI [of _ "[Some d1, None]"] exI [of _ "Some d1"]) (auto intro: downlink_step.alone)
    qed
  qed
qed

lemma reorder_non_blocking_step:
  assumes "call_fills env call l" "buffer_ok l mem" "reorder_non_blocking t stage co snap [] mem p = (res, q', mem', p')" "stage \<longrightarrow> nb"
  shows "\<exists>ds ret. receives env p ds p' \<and> downlink_step (if stage then D_Reorder else D_Direct) nb [] ds ret (map dg_data q')
    \<and> outcome ret res mem'"
proof -
  obtain v mem1 p1 where c1: "co mem p = (v, mem1, p1)" using prod_cases3 by blast
  from call_step [OF assms(1,2) c1] obtain r where r: "receives env p [r] p1" "outcome r v mem1" "v > 0 \<longleftrightarrow> r \<noteq> None" by blast
  note run = assms(3) [unfolded reorder_non_blocking_def c1 Let_def prod.case]
  show ?thesis
  proof (cases "stage \<and> r \<noteq> None")
    case False
    with run r(3) have "res = v" "q' = []" "mem' = mem1" "p' = p1" by (auto split: if_splits)
    with r False show ?thesis by (cases r) (auto intro: downlink_step.direct downlink_step.empty)
  next
    case True
    then obtain d where d: "r = Some d" by blast
    with r have h: "holds d v mem1" "buffer_ok l mem1" by (auto simp: outcome_def)
    obtain pkt where pkt: "snap (ht_stage t) v mem1 = Some pkt" "dg_data pkt = d" by (rule snap_of [OF h(1)])
    with run True r(3) have q: "res = - 1" "q' = [pkt]" "mem' = mem1" "p' = set_errno_value (RtErrno EAGAIN) p1" by auto
    have "receives env p [r] p'"
      using receives_trans [OF r(1) receives_quiet [OF quiet_set_errno]] q(4) by simp
    with q h True d pkt(2) assms(4) show ?thesis
      by (intro exI [of _ "[r]"] exI [of _ None]) (auto simp: outcome_def intro: downlink_step.deferred)
  qed
qed

lemma holds_shows: "holds d res mem \<Longrightarrow> shows_datagram now s l d res (um_buffer mem)"
  unfolding shows_datagram_def by (intro exI [of _ d]) (simp add: holds_def)

lemma decided_step:
  assumes "call_fills env call l" "buffer_ok l mem" "early \<in> {None, Some (- 1)}"
    and "(case early of
            Some e \<Rightarrow> (e, [], mem, p)
          | None \<Rightarrow>
              if \<not> nb \<and> d = StageReorder then reorder_blocking t co snap wr [] mem p
              else reorder_non_blocking t (nb \<and> d = StageReorder) co snap [] mem p) = (out, q', mem', p')"
  shows "\<exists>ds ret. receives env p ds p' \<and> outcome ret out mem'
    \<and> downlink_step (if early \<noteq> None then D_Rejected else if d = StageReorder then D_Reorder else D_Direct) nb []
         ds ret (map dg_data q')"
proof (cases early)
  case (Some e)
  with assms(2,3,4) receives_quiet [OF quiet_refl] show ?thesis
    by (intro exI [of _ "[]"] exI [of _ None]) (auto simp: outcome_def intro: downlink_step.rejected)
next
  case None
  show ?thesis
  proof (cases "\<not> nb \<and> d = StageReorder")
    case True
    with None assms(4) have "reorder_blocking t co snap wr [] mem p = (out, q', mem', p')" by simp
    from reorder_blocking_step [OF assms(1,2) this] True None show ?thesis by auto
  next
    case False
    with None assms(4) have "reorder_non_blocking t (nb \<and> d = StageReorder) co snap [] mem p = (out, q', mem', p')" by auto
    from reorder_non_blocking_step [where nb = nb, OF assms(1,2) this] obtain ds ret where
      "receives env p ds p'" "downlink_step (if nb \<and> d = StageReorder then D_Reorder else D_Direct) nb [] ds ret (map dg_data q')"
      "outcome ret out mem'" by blast
    with False None show ?thesis by (intro exI [of _ ds] exI [of _ ret]) (auto split: if_splits)
  qed
qed

lemma mutation_step:
  assumes "outcome ret res mem" "downlink_mutation env t s cfg snap wr res mem p = (res', mem', p')"
  shows "quiet p p' \<and> downlink_result (ht_r7 t) s l ret res' (um_buffer mem')"
proof (cases ret)
  case None
  with assms show ?thesis by (auto simp: outcome_def downlink_mutation_def downlink_result_def)
next
  case (Some d)
  with assms(1) have h: "holds d res mem" "buffer_ok l mem" by (auto simp: outcome_def)
  then have res: "res = int (length d)" "0 < res" "length d \<le> l" by (auto simp: holds_def)
  obtain pkt where pkt: "snap (ht_snapshot t) res mem = Some pkt" "dg_data pkt = d" by (rule snap_of [OF h(1)])
  have nb: "of_int res = (of_nat (length d) :: u64)" by (simp add: res(1))
  obtain l6 out p1 where r7: "with_engine (evaluate_r7_with_buffer (ht_r7 t) s cfg Downlink (of_nat (length d)) d) p = ((l6, out), p1)"
    by (metis prod.exhaust)
  then have out: "out = r7_output (ht_r7 t) s cfg Downlink d" and q1: "quiet p p1"
    using r7_output_eq [of "ht_r7 t" s cfg Downlink d "br_engine (pr_bridge p)"]
      quiet_with_engine [of p "evaluate_r7_with_buffer (ht_r7 t) s cfg Downlink (of_nat (length d)) d"]
    by (auto simp: with_engine_def case_prod_beta Let_def)
  let ?p2 = "snd (record_replay_evaluate_or_replay env ''stream_downlink_l6_mutation'' (\<lambda>p. (l6, p)) p1)"
  have "quiet p1 ?p2" by (intro quiet_intros) simp
  with q1 have q2: "quiet p ?p2" by (rule quiet_trans)
  have run: "downlink_mutation env t s cfg snap wr res mem p =
      (case out of
         Some data \<Rightarrow> let (written, m) = wr (pkt\<lparr>dg_data := data\<rparr>) mem
                       in (written, m, record_mutation True (nat written) (length data) ?p2)
       | None \<Rightarrow> (res, mem, record_mutation False (nat res) (nat res) ?p2))"
    using res(2) by (simp add: downlink_mutation_def pkt nb r7 Let_def)
  show ?thesis
  proof (cases out)
    case None
    with run assms(2) Some q2 holds_shows [OF h(1)] show ?thesis
      by (auto simp: downlink_result_def intro: quiet_trans quiet_record_mutation)
  next
    case (Some data)
    obtain w m where wb: "wr (pkt\<lparr>dg_data := data\<rparr>) mem = (w, m)" by fastforce
    obtain b where b: "um_buffer mem = Some b" "length b = l" using h(2) by (auto simp: buffer_ok_def)
    have "0 < l" using res by (cases d) auto
    from wr_data [OF b(1) this, of "pkt\<lparr>dg_data := data\<rparr>"] wb b
    have "w = int (min l (length data))" "um_buffer m = Some (take (min l (length data)) data @ drop (min l (length data)) b)"
      by simp_all
    then have "shows_datagram (ht_r7 t) s l d w (um_buffer m)"
      using Some b(2) unfolding out shows_datagram_def
      by (intro exI [of _ "take l data"] exI [of _ data]) (auto simp: min_def)
    moreover have "res' = w" "mem' = m" "quiet p p'"
      using run Some wb assms(2) q2 by (auto intro: quiet_trans quiet_record_mutation)
    ultimately show ?thesis using \<open>ret = Some d\<close> by (simp add: downlink_result_def)
  qed
qed

lemma handler_fresh:
  assumes "call_fills env call l" "buffer_ok l mem" "fd_config env t s p = (Some c, p1)"
    and "handle_downlink_recv env t site s l (is_non_blocking env s) co snap wr mem [] p = ((res, rec, mem'), q', p')"
  shows "\<exists>ds ret. receives env p ds p'
    \<and> downlink_step (recv_verdict env t site s l [] p) (is_non_blocking env s) [] ds ret (map dg_data q')
    \<and> downlink_result (ht_r7 t) s l ret res (um_buffer mem')"
proof -
  let ?nb = "is_non_blocking env s"
  note look = assms(3)
  have q1: "quiet p p1" using quiet_with_bridge look unfolding fd_config_def by (metis snd_conv)
  obtain d p2 where ev: "evaluate_pre env t site s c l Downlink p1 = (d, p2)" by fastforce
  obtain early p3 where de: "decide_stream t s d ?nb p2 = (early, p3)" by fastforce
  have "pr_runtime p2 = pr_runtime p1" using evaluate_pre_runtime [of env t site s c l Downlink p1] by (simp add: ev)
  then have early: "early = early_return (ht_map t) s d ?nb (pr_runtime p1)"
    using decide_stream_effect(1) [of t s d ?nb p2] by (simp add: de)
  have "quiet p1 p2" "quiet p2 p3"
    using quiet_evaluate_pre [of p1 env t site s c l Downlink] decide_stream_effect(2) [of p2 t s d ?nb] by (simp_all add: ev de)
  with q1 have q3: "quiet p p3" by (blast intro: quiet_trans)
  have v: "recv_verdict env t site s l [] p =
      (if early \<noteq> None then D_Rejected else if d = StageReorder then D_Reorder else D_Direct)"
    by (simp add: recv_verdict_def look ev early)
  have small: "early \<in> {None, Some (- 1)}" unfolding early by (rule early_return_minus)
  obtain out q4 m4 p4 where dec: "(case early of
          Some e \<Rightarrow> (e, [], mem, p3)
        | None \<Rightarrow>
            if \<not> ?nb \<and> d = StageReorder then reorder_blocking t co snap wr [] mem p3
            else reorder_non_blocking t (?nb \<and> d = StageReorder) co snap [] mem p3) = (out, q4, m4, p4)"
    using prod_cases4 by blast
  from decided_step [OF assms(1,2) small dec] obtain ds ret where
    tail: "receives env p3 ds p4" "outcome ret out m4" "downlink_step (recv_verdict env t site s l [] p) ?nb [] ds ret (map dg_data q4)"
    unfolding v by blast
  have mut: "downlink_mutation env t s c snap wr out m4 p4 = (res, mem', p')" "q' = q4"
    using assms(4) [unfolded handle_downlink_recv_def look prod.case Let_def] by (simp_all add: ev de dec split: prod.splits)
  from mutation_step [OF tail(2) mut(1)] have m: "quiet p4 p'" "downlink_result (ht_r7 t) s l ret res (um_buffer mem')" by simp_all
  have "receives env p ds p'"
    using receives_trans [OF receives_trans [OF receives_quiet [OF q3] tail(1)] receives_quiet [OF m(1)]] by simp
  with m(2) tail(3) mut(2) show ?thesis by auto
qed

lemma handler_refines:
  assumes "call_fills env call l" "buffer_ok l mem" "0 < l"
    and "handle_downlink_recv env t site s l (is_non_blocking env s) co snap wr mem q p = ((res, rec, mem'), q', p')"
  shows "\<exists>ds ret. receives env p ds p'
    \<and> downlink_step (recv_verdict env t site s l q p) (is_non_blocking env s) (map dg_data q) ds ret (map dg_data q')
    \<and> downlink_result (ht_r7 t) s l ret res (um_buffer mem')"
proof -
  let ?nb = "is_non_blocking env s"
  obtain cfg p1 where look: "fd_config env t s p = (cfg, p1)" by fastforce
  have q1: "quiet p p1" using quiet_with_bridge look unfolding fd_config_def by (metis snd_conv)
  note run = assms(4) [unfolded handle_downlink_recv_def look Let_def prod.case]
  have direct: "downlink_result (ht_r7 t) s l ret v (um_buffer m)" if "outcome ret v m" for ret v m
    using that by (auto simp: outcome_def downlink_result_def holds_shows split: option.splits)
  consider (unfaulted) "cfg = None" | (queued) c pkt rest where "cfg = Some c" "q = pkt # rest" | (fresh) c where "cfg = Some c" "q = []"
    by (cases cfg; cases q) auto
  then show ?thesis
  proof cases
    case unfaulted
    obtain v mem1 p2 where c: "co mem p1 = (v, mem1, p2)" using prod_cases3 by blast
    from call_step [OF assms(1,2) c] obtain r where r: "receives env p1 [r] p2" "outcome r v mem1" by blast
    from receives_trans [OF receives_quiet [OF q1] r(1)] have "receives env p [r] p2" by simp
    moreover have "recv_verdict env t site s l q p = D_Unfaulted" by (simp add: recv_verdict_def look unfaulted)
    moreover have "res = v" "mem' = mem1" "q' = q" "p' = p2" using run unfaulted c by auto
    ultimately show ?thesis using direct [OF r(2)] by (auto intro: downlink_step.unfaulted)
  next
    case queued
    obtain b where b: "um_buffer mem = Some b" "length b = l" using assms(2) by (auto simp: buffer_ok_def)
    obtain w m where wb: "wr pkt mem = (w, m)" by fastforce
    with run queued have eq: "res = w" "mem' = m" "q' = rest" "p' = p1" by auto
    have "shows_datagram (ht_r7 t) s l (dg_data pkt) w (um_buffer m)"
      using wr_data [OF b(1) assms(3), of pkt] wb b(2) unfolding shows_datagram_def
      by (intro exI [of _ "take l (dg_data pkt)"] exI [of _ "dg_data pkt"]) (auto simp: min_def)
    moreover have "recv_verdict env t site s l q p = D_Queued" by (simp add: recv_verdict_def look queued)
    ultimately show ?thesis using receives_quiet [OF q1] eq queued
      by (intro exI [of _ "[]"] exI [of _ "Some (dg_data pkt)"]) (auto simp: downlink_result_def intro: downlink_step.queued)
  next
    case fresh
    with handler_fresh [OF assms(1,2), of t s p c p1] look assms(4) show ?thesis by simp
  qed
qed

end

section \<open>The three hooks\<close>

interpretation read_calls: downlink_calls env l "\<lambda>mem. SysRead s (um_buffer mem) l"
    "recv_orig env (\<lambda>mem. SysRead s (um_buffer mem) l)"
    "\<lambda>now res mem. snapshot_recv_datagram now (um_buffer mem) res 0" "write_back l" for env s l
  by unfold_locales
     (auto simp: recv_orig_def orig_call_effect snapshot_recv_datagram_def PendingDatagram_new_def write_back_def
       write_pending_recv_result_def copy_over_def case_prod_beta Let_def)

interpretation recv_calls: downlink_calls env l "\<lambda>mem. SysRecv s (um_buffer mem) l f"
    "recv_orig env (\<lambda>mem. SysRecv s (um_buffer mem) l f)"
    "\<lambda>now res mem. snapshot_recv_datagram now (um_buffer mem) res f" "write_back l" for env s l f
  by unfold_locales
     (auto simp: recv_orig_def orig_call_effect snapshot_recv_datagram_def PendingDatagram_new_def write_back_def
       write_pending_recv_result_def copy_over_def case_prod_beta Let_def)

interpretation recvfrom_calls: downlink_calls env l "\<lambda>mem. SysRecvfrom s (um_buffer mem) l f (um_addr mem) (um_addr_len mem)"
    "recvfrom_orig env (\<lambda>mem. SysRecvfrom s (um_buffer mem) l f (um_addr mem) (um_addr_len mem))"
    "\<lambda>now res mem. snapshot_recvfrom_datagram now (um_buffer mem) res f (um_addr mem) (um_addr_len mem)"
    "write_back_from l" for env s l f
  by unfold_locales
     (auto simp: recvfrom_orig_def orig_call_effect snapshot_recvfrom_datagram_def PendingDatagram_new_def write_back_from_def
       write_pending_recvfrom_result_def copy_over_def case_prod_beta Let_def)

datatype downlink_op = Op_Read | Op_Recv int | Op_Recvfrom int

fun downlink_hook ::
  "('o, 'l) HookEnv \<Rightarrow> HookTimes \<Rightarrow> downlink_op \<Rightarrow> fd \<Rightarrow> nat \<Rightarrow> UserMem \<Rightarrow> ('o, 'l) Process
     \<Rightarrow> (int \<times> UserMem) \<times> ('o, 'l) Process" where
  "downlink_hook env t Op_Read s l mem p = read_hook env t s l mem p"
| "downlink_hook env t (Op_Recv f) s l mem p = recv_hook env t s l f mem p"
| "downlink_hook env t (Op_Recvfrom f) s l mem p = recvfrom_hook env t s l f mem p"

fun downlink_site :: "downlink_op \<Rightarrow> string" where
  "downlink_site Op_Read = ''stream_downlink_pre_read''"
| "downlink_site (Op_Recv _) = ''stream_downlink_pre_recv''"
| "downlink_site (Op_Recvfrom _) = ''stream_downlink_pre_recvfrom''"

fun downlink_original :: "downlink_op \<Rightarrow> fd \<Rightarrow> nat \<Rightarrow> UserMem \<Rightarrow> sys_call" where
  "downlink_original Op_Read s l mem = SysRead s (um_buffer mem) l"
| "downlink_original (Op_Recv f) s l mem = SysRecv s (um_buffer mem) l f"
| "downlink_original (Op_Recvfrom f) s l mem = SysRecvfrom s (um_buffer mem) l f (um_addr mem) (um_addr_len mem)"

definition downlink_entry :: "('o, 'l) HookEnv \<Rightarrow> ('o, 'l) Process \<Rightarrow> ('o, 'l) Process" where
  "downlink_entry env p = initialize env (p\<lparr>pr_guard := True\<rparr>)"

definition downlink_contract ::
  "('o, 'l) HookEnv \<Rightarrow> HookTimes \<Rightarrow> string \<Rightarrow> fd \<Rightarrow> nat \<Rightarrow> queue \<Rightarrow> ('o, 'l) Process \<Rightarrow> int \<Rightarrow> UserMem \<Rightarrow> queue
     \<Rightarrow> ('o, 'l) Process \<Rightarrow> bool" where
  "downlink_contract env t site s l q p res mem' q' p' \<longleftrightarrow>
     (\<exists>ds ret. receives env p ds p'
        \<and> downlink_step (recv_verdict env t site s l q p) (is_non_blocking env s) (map dg_data q) ds ret (map dg_data q')
        \<and> downlink_result (ht_r7 t) s l ret res (um_buffer mem'))"

lemma hook_from_recv_handler:
  assumes "\<not> pr_guard p" "he_guard_ok env"
    and "hook env original (\<lambda>p. finish_downlink s (with_recv_queue s h p)) p = ((res, mem'), p')"
    and "\<And>p q r rec m q' p1. h q p = ((r, rec, m), q', p1) \<Longrightarrow> downlink_contract env t site s l q p r m q' p1"
  shows "\<exists>ds ret. receives env p ds p'
    \<and> downlink_step (recv_verdict env t site s l (recv_queue s p) (downlink_entry env p)) (is_non_blocking env s)
        (map dg_data (recv_queue s p)) ds ret (map dg_data (recv_queue s p'))
    \<and> downlink_result (ht_r7 t) s l ret res (um_buffer mem') \<and> \<not> pr_guard p'"
proof -
  let ?p0 = "downlink_entry env p"
  have q0: "quiet (p\<lparr>pr_guard := True\<rparr>) ?p0" unfolding downlink_entry_def by (rule quiet_initialize)
  have e: "receives env p [] ?p0" "recv_queue s ?p0 = recv_queue s p"
    using receives_quiet [OF q0, of env] quiet_queues(2) [OF q0, of s]
    by (simp_all add: receives_def kernel_calls_def recv_queue_def)
  obtain r rec m q' p1 where h: "h (recv_queue s ?p0) ?p0 = ((r, rec, m), q', p1)" by (metis prod.exhaust)
  then obtain p2 where w: "with_recv_queue s h ?p0 = ((r, rec, m), p2)" "kernel_calls p2 = kernel_calls p1" "pr_os p2 = pr_os p1"
    "recv_queue s p2 = q'"
    by (auto simp: with_recv_queue_def recv_queue_def kernel_calls_def Let_def)
  obtain p3 where f: "finish_downlink s ((r, rec, m), p2) = ((r, m), p3)" "quiet p2 p3"
    by (auto simp: finish_downlink_def quiet_record_bytes)
  have out: "res = r" "mem' = m" "p' = exit_hook p3"
    using assms(3) w f by (simp_all add: hook_outer [OF assms(1,2)] downlink_entry_def)
  from assms(4) [OF h] obtain ds ret where c: "receives env ?p0 ds p1"
    "downlink_step (recv_verdict env t site s l (recv_queue s p) ?p0) (is_non_blocking env s) (map dg_data (recv_queue s p)) ds ret (map dg_data q')"
    "downlink_result (ht_r7 t) s l ret r (um_buffer m)" unfolding downlink_contract_def e(2) by blast
  have "receives env p ds p1" using receives_trans [OF e(1) c(1)] by simp
  moreover have "kernel_calls p' = kernel_calls p1" "pr_os p' = pr_os p1" "recv_queue s p' = q'" "\<not> pr_guard p'"
    using f(2) w out by (simp_all add: quiet_def exit_hook_def kernel_calls_def recv_queue_def)
  ultimately show ?thesis using c(2,3) out(1,2) by (auto simp: receives_def)
qed


definition filling_kernel :: "sys_call \<Rightarrow> nat \<Rightarrow> sys_reply \<times> nat" where
  "filling_kernel c n =
     (case c of
        SysRecv _ (Some b) _ _ \<Rightarrow>
          (\<lparr>rp_value = int (length b), rp_buffer = Some (map (\<lambda>_. 9) b), rp_addr = None, rp_addr_len = None, rp_addrs = []\<rparr>, Suc n)
      | _ \<Rightarrow> accepting_kernel c n)"

definition filling_env :: "(nat, RecordReplayEvent) HookEnv" where
  "filling_env = detached_env\<lparr>he_kernel := filling_kernel\<rparr>"


end
