(* ===== verification/Bridge_Properties.thy ===== *)
theory Bridge_Properties
  imports Interceptor_Bridge
begin

text \<open>
  Properties of the bridge: what makes a rule match and how strongly, which rule is selected, that a
  rule set is never combined with a configuration of another generation, and the life of observed
  names.
\<close>

section \<open>When a rule matches\<close>

text \<open>The declarative reading of a name rule: a pattern \<open>*.s\<close> matches the names that end in \<open>.s\<close>
  (strength 1), any other pattern matches itself (strength 2).\<close>

definition name_class :: "bytes \<Rightarrow> bytes \<Rightarrow> u8 \<Rightarrow> bool" where
  "name_class name c k \<longleftrightarrow>
     (if \<exists>s. name = [0x2A, 0x2E] @ s then k = 1 \<and> (\<exists>s p. name = [0x2A, 0x2E] @ s \<and> c = p @ [0x2E] @ s)
      else k = 2 \<and> name = c)"

definition filters_hold :: "TargetRule \<Rightarrow> Endpoint option \<Rightarrow> bool" where
  "filters_hold rule endpoint \<longleftrightarrow>
     (tr_protocol rule \<noteq> 0 \<longrightarrow> (\<exists>ep. endpoint = Some ep \<and> protocol ep = tr_protocol rule)) \<and>
     (tr_port rule \<noteq> 0 \<or> tr_reserved rule \<noteq> 0 \<longrightarrow>
        (\<exists>ep. endpoint = Some ep \<and> unat (tr_port rule) \<le> unat (port ep) \<and>
              unat (port ep) \<le> unat (if tr_reserved rule = 0 then tr_port rule else tr_reserved rule)))"

definition rule_applies :: "TargetRule \<Rightarrow> Endpoint option \<Rightarrow> SemanticContext \<Rightarrow> u8 \<Rightarrow> bool" where
  "rule_applies rule endpoint sem k \<longleftrightarrow> tr_enabled rule \<noteq> 0 \<and> filters_hold rule endpoint \<and>
     (case (rule_name (tr_sni rule), rule_name (tr_hostname rule)) of
        (Some n, None) \<Rightarrow> tr_kind rule = 0 \<and> (\<exists>c s. sem_sni sem = Some c \<and> name_class n c s \<and> k = s + 3)
      | (None, Some n) \<Rightarrow> tr_kind rule = 0 \<and> (\<exists>c s. sem_hostname sem = Some c \<and> name_class n c s \<and> k = s + 1)
      | (Some _, Some _) \<Rightarrow> False
      | (None, None) \<Rightarrow>
          k = 1 \<and> (\<exists>ep. endpoint = Some ep \<and> tr_address_family rule \<noteq> 0 \<and>
            address_family ep = tr_address_family rule \<and>
            (tr_kind rule = 1 \<and> addr ep = tr_addr rule \<or>
             tr_kind rule = 2 \<and>
               (\<forall>i < min (unat (tr_prefix_len rule)) (if tr_address_family rule = 1 then 32 else 128).
                  addr_bit (addr ep) i = addr_bit (tr_addr rule) i))))"

lemma rule_prefix_match_eq: "rule_prefix_match = prefix_match"
  by (intro ext) (simp add: rule_prefix_match_def prefix_match_def)

lemma wildcard_suffix_Some: "wildcard_suffix name = Some s \<longleftrightarrow> name = [0x2A, 0x2E] @ s"
  by (simp add: wildcard_suffix_def str_strip_prefix_Some)

lemma wildcard_matches_iff: "wildcard_matches s c \<longleftrightarrow> (\<exists>p. c = p @ [0x2E] @ s)"
proof (cases "str_strip_suffix s c")
  case None
  then have "c \<noteq> r @ s" for r by (metis option.distinct(1) str_strip_suffix_Some)
  then have "c \<noteq> p @ [0x2E] @ s" for p by (metis append.assoc)
  with None show ?thesis by (simp add: wildcard_matches_def)
next
  case (Some r)
  then have c: "c = r @ s" by (simp add: str_strip_suffix_Some)
  have "c = p @ [0x2E] @ s \<longleftrightarrow> r = p @ [0x2E]" for p
  proof -
    have "c = p @ [0x2E] @ s \<longleftrightarrow> r @ s = (p @ [0x2E]) @ s" by (simp add: c)
    then show ?thesis by (simp only: append_same_eq)
  qed
  with Some c show ?thesis by (auto simp: wildcard_matches_def str_ends_with_iff)
qed

lemma match_name_score_iff:
  "match_name_score name candidate = Some k \<longleftrightarrow> (\<exists>c. candidate = Some c \<and> name_class name c k)"
proof (cases candidate)
  case (Some c)
  show ?thesis
  proof (cases "wildcard_suffix name")
    case None
    then have "name \<noteq> [0x2A, 0x2E] @ s" for s by (metis option.distinct(1) wildcard_suffix_Some)
    with None Some show ?thesis by (auto simp: match_name_score_def name_class_def)
  next
    case (Some s)
    then have "name = [0x2A, 0x2E] @ s" by (simp add: wildcard_suffix_Some)
    with Some \<open>candidate = Some c\<close> show ?thesis
      by (auto simp: match_name_score_def name_class_def wildcard_matches_iff)
  qed
qed (simp add: match_name_score_def)

lemma port_range_iff:
  "ucast q < p \<or> ucast q > e \<longleftrightarrow> \<not> (unat p \<le> unat q \<and> unat q \<le> unat e)" for q :: u16 and p e :: u64
proof -
  have "unat (ucast q :: u64) = unat q" by transfer (simp add: take_bit_take_bit)
  then show ?thesis by (auto simp: word_less_nat_alt)
qed

lemma endpoint_filters_iff: "endpoint_matches_rule_filters rule ep \<longleftrightarrow> filters_hold rule (Some ep)"
  unfolding endpoint_matches_rule_filters_def filters_hold_def rule_port_end_def Let_def port_range_iff
  by auto

lemma filters_hold_trivial:
  "\<not> (tr_protocol rule > 0 \<or> tr_port rule > 0 \<or> tr_reserved rule > 0) \<Longrightarrow> filters_hold rule ep"
  by (simp add: filters_hold_def)

lemma filter_guard_iff:
  "((tr_protocol rule > 0 \<or> tr_port rule > 0 \<or> tr_reserved rule > 0) \<and>
    (case endpoint of None \<Rightarrow> True | Some ep \<Rightarrow> \<not> endpoint_matches_rule_filters rule ep))
   \<longleftrightarrow> \<not> filters_hold rule endpoint"
  by (cases endpoint) (auto simp: endpoint_filters_iff filters_hold_def)

lemma address_rule_iff:
  assumes "length (addr ep) = 16" "length (tr_addr rule) = 16"
  shows "address_rule_matches rule ep \<longleftrightarrow> address_family ep = tr_address_family rule \<and>
    (tr_kind rule = 1 \<and> addr ep = tr_addr rule \<or>
     tr_kind rule = 2 \<and>
       (\<forall>i < min (unat (tr_prefix_len rule)) (if tr_address_family rule = 1 then 32 else 128).
          addr_bit (addr ep) i = addr_bit (tr_addr rule) i))"
proof -
  have "rule_prefix_match (addr ep) (tr_addr rule) p = Some (\<forall>i<p. addr_bit (addr ep) i = addr_bit (tr_addr rule) i)"
    if "p \<le> 128" for p
    unfolding rule_prefix_match_eq using that by (intro prefix_match_bits) (simp_all add: assms)
  then show ?thesis by (auto simp: address_rule_matches_def Let_def)
qed

text \<open>C18. A rule matches a call exactly when the declarative reading says so, with that strength:
  protocol and port range hold of the endpoint, and either its SNI pattern or its host name pattern
  fits the observed name (wildcards cover proper subdomains, at a label boundary, never the bare
  domain), or, for a rule without names, the address or the first bits of it agree. SNI beats host
  name, exact beats wildcard, and names beat addresses: strengths 5, 4, 3, 2 and 1.\<close>

theorem rule_match_is_declarative:
  assumes "length (tr_addr rule) = 16" "\<And>ep. endpoint = Some ep \<Longrightarrow> length (addr ep) = 16"
  shows "rule_match_class rule endpoint sem = Some k \<longleftrightarrow> rule_applies rule endpoint sem k"
  unfolding rule_match_class_def rule_applies_def Let_def filter_guard_iff
  using assms
  by (cases endpoint; cases "rule_name (tr_sni rule)"; cases "rule_name (tr_hostname rule)")
     (auto simp: match_name_score_iff endpoint_filters_iff address_rule_iff filters_hold_def)

definition wild_rule :: TargetRule where
  "wild_rule = TargetRule_default\<lparr>tr_enabled := 1, tr_priority := 10, tr_port := 400, tr_reserved := 500,
     tr_hostname := [0x2A, 0x2E, 0x61, 0x62] @ replicate 28 0\<rparr>"

definition https_endpoint :: Endpoint where
  "https_endpoint = \<lparr>address_family = 1, addr = [10, 1, 2, 3] @ replicate 12 0, ipv4 = 0x0A010203, port = 443,
     protocol = 1\<rparr>"

definition seen_xab :: SemanticContext where
  "seen_xab = \<lparr>sem_hostname = Some [0x78, 0x2E, 0x61, 0x62], sem_sni = None\<rparr>"

theorem rule_match_is_declarative_witness:
  "rule_match_class wild_rule (Some https_endpoint) seen_xab = Some 2 \<and>
   rule_applies wild_rule (Some https_endpoint) seen_xab 2"
proof -
  have m: "rule_match_class wild_rule (Some https_endpoint) seen_xab = Some 2" by code_simp
  have "length (tr_addr wild_rule) = 16" "length (addr https_endpoint) = 16"
    by (simp_all add: wild_rule_def TargetRule_default_def https_endpoint_def)
  with rule_match_is_declarative [of wild_rule "Some https_endpoint" seen_xab 2] m show ?thesis by simp
qed

section \<open>Which rule is selected\<close>

text \<open>The key by which rules compete, lexicographically: priority, then strength.\<close>

definition rule_key_for :: "Endpoint option \<Rightarrow> SemanticContext \<Rightarrow> TargetRule \<Rightarrow> (u64 \<times> u8) option" where
  "rule_key_for endpoint sem r = map_option (Pair (tr_priority r)) (rule_match_class r endpoint sem)"

lemma select_loop_first_max:
  "select_loop endpoint sem idx rules sel = first_max idx (map (rule_key_for endpoint sem) rules) sel"
proof (induction rules arbitrary: idx sel)
  case (Cons r rules)
  have "should_replace sel p c = (case sel of None \<Rightarrow> True | Some (j, m) \<Rightarrow> m < (p, c))" for p c
    by (auto simp: should_replace_def less_prod_def split: option.splits)
  then show ?case using Cons.IH
    by (cases "rule_match_class r endpoint sem"; cases sel) (auto simp: rule_key_for_def)
qed simp


definition plain_rule :: "u64 \<Rightarrow> TargetRule" where
  "plain_rule prio = TargetRule_default\<lparr>tr_enabled := 1, tr_priority := prio, tr_kind := 1,
     tr_address_family := 1, tr_addr := addr https_endpoint\<rparr>"


section \<open>Rules and configuration of one generation\<close>

text \<open>The rounds of the retry loop over a shared memory that others write: the state after a round,
  and the configuration round \<open>k\<close> starts from.\<close>

definition ruleset_round :: "('w \<Rightarrow> TargetRule list option \<times> 'w) \<Rightarrow> ('w \<Rightarrow> Config option \<times> 'w) \<Rightarrow> 'w \<Rightarrow> 'w" where
  "ruleset_round rr rc w = snd (rc (snd (rr w)))"

definition config_seen ::
  "('w \<Rightarrow> TargetRule list option \<times> 'w) \<Rightarrow> ('w \<Rightarrow> Config option \<times> 'w) \<Rightarrow> Config \<Rightarrow> 'w \<Rightarrow> nat \<Rightarrow> Config option" where
  "config_seen rr rc cfg w k =
     (case k of 0 \<Rightarrow> Some cfg | Suc j \<Rightarrow> fst (rc (snd (rr ((ruleset_round rr rc ^^ j) w)))))"

definition rules_seen ::
  "('w \<Rightarrow> TargetRule list option \<times> 'w) \<Rightarrow> ('w \<Rightarrow> Config option \<times> 'w) \<Rightarrow> 'w \<Rightarrow> nat \<Rightarrow> TargetRule list option" where
  "rules_seen rr rc w k = fst (rr ((ruleset_round rr rc ^^ k) w))"

text \<open>Round \<open>k\<close> found the rule set replaced while it read.\<close>

definition generation_moved ::
  "('w \<Rightarrow> TargetRule list option \<times> 'w) \<Rightarrow> ('w \<Rightarrow> Config option \<times> 'w) \<Rightarrow> Config \<Rightarrow> 'w \<Rightarrow> nat \<Rightarrow> bool" where
  "generation_moved rr rc cfg w k \<longleftrightarrow>
     (\<exists>x y. config_seen rr rc cfg w k = Some x \<and> config_seen rr rc cfg w (Suc k) = Some y \<and>
            target_enabled x \<noteq> 0 \<and> rules_seen rr rc w k \<noteq> None \<and>
            ruleset_generation y \<noteq> ruleset_generation x)"

definition round_result ::
  "nat \<Rightarrow> Endpoint option \<Rightarrow> SemanticContext \<Rightarrow> u64 \<Rightarrow> ('w \<Rightarrow> TargetRule list option \<times> 'w) \<Rightarrow>
   ('w \<Rightarrow> Config option \<times> 'w) \<Rightarrow> Config \<Rightarrow> 'w \<Rightarrow> nat \<Rightarrow> Config \<Rightarrow> u64 option \<Rightarrow> bool" where
  "round_result slot endpoint sem now rr rc cfg w k c hit \<longleftrightarrow>
     (\<exists>base. config_seen rr rc cfg w k = Some base \<and>
        (if target_enabled base = 0 then hit = None \<and> runtime_filtered base endpoint now = Some c
         else \<exists>rules refreshed i rule. rules_seen rr rc w k = Some rules \<and>
                config_seen rr rc cfg w (Suc k) = Some refreshed \<and>
                ruleset_generation refreshed = ruleset_generation base \<and>
                select_best_target_rule endpoint sem rules (unat (target_enabled base)) = Some (i, rule) \<and>
                hit = Some (target_rule_id_for_slot_idx slot i) \<and>
                runtime_filtered (retarget rule base) endpoint now = Some c))"

lemma seen_shift:
  assumes "fst (rc (snd (rr w))) = Some refreshed"
  shows "config_seen rr rc cfg w (Suc k) = config_seen rr rc refreshed (ruleset_round rr rc w) k"
    and "rules_seen rr rc w (Suc k) = rules_seen rr rc (ruleset_round rr rc w) k"
  using assms by (simp_all add: config_seen_def rules_seen_def funpow_swap1 split: nat.split)

lemma select_best_min: "select_best_target_rule endpoint sem rules (min n (length rules)) =
    select_best_target_rule endpoint sem rules n"
  by (simp add: select_best_target_rule_def Let_def)

lemma ruleset_loop_sound:
  "ruleset_loop n slot endpoint sem now rr rc cfg (w, m, a) = (Some c, w', m', a') \<Longrightarrow>
   \<exists>k<n. \<exists>hit. (\<forall>j<k. generation_moved rr rc cfg w j) \<and> round_result slot endpoint sem now rr rc cfg w k c hit \<and>
     reload_retry_total m' = reload_retry_total m + of_nat k \<and>
     a' = (case hit of None \<Rightarrow> a | Some h \<Rightarrow> record_target_rule_hit h a)"
proof (induction n arbitrary: cfg w m)
  case (Suc n)
  show ?case
  proof (cases "target_enabled cfg = 0")
    case True
    with Suc.prems show ?thesis
      by (intro exI [of _ 0] conjI exI [of _ None]) (auto simp: round_result_def config_seen_def)
  next
    case enabled: False
    obtain rules w1 where r: "rr w = (Some rules, w1)"
      using Suc.prems enabled by (cases "rr w") (auto split: option.splits)
    obtain refreshed w2 where f: "rc w1 = (Some refreshed, w2)"
      using Suc.prems enabled r by (cases "rc w1") (auto split: option.splits)
    have seen: "fst (rc (snd (rr w))) = Some refreshed" "ruleset_round rr rc w = w2"
      by (simp_all add: r f ruleset_round_def)
    note shift = seen_shift [where rr = rr and rc = rc and w = w and refreshed = refreshed, OF seen(1)]
    show ?thesis
    proof (cases "ruleset_generation refreshed = ruleset_generation cfg")
      case True
      then obtain i rule where s: "select_best_target_rule endpoint sem rules (unat (target_enabled cfg)) = Some (i, rule)"
        using Suc.prems enabled r f by (auto simp: select_best_min split: option.splits)
      with Suc.prems enabled r f True
      have "round_result slot endpoint sem now rr rc cfg w 0 c (Some (target_rule_id_for_slot_idx slot i))"
        by (auto simp: round_result_def config_seen_def rules_seen_def select_best_min)
      with Suc.prems enabled r f True s show ?thesis
        by (intro exI [of _ 0] conjI exI [of _ "Some (target_rule_id_for_slot_idx slot i)"])
           (auto simp: select_best_min)
    next
      case False
      from Suc.prems enabled r f False
      have "ruleset_loop n slot endpoint sem now rr rc refreshed
          (w2, m\<lparr>reload_retry_total := reload_retry_total m + 1\<rparr>, a) = (Some c, w', m', a')" by simp
      from Suc.IH [OF this] obtain k hit where k: "k < n"
        "\<forall>j<k. generation_moved rr rc refreshed w2 j" "round_result slot endpoint sem now rr rc refreshed w2 k c hit"
        "reload_retry_total m' = reload_retry_total m + 1 + of_nat k"
        "a' = (case hit of None \<Rightarrow> a | Some h \<Rightarrow> record_target_rule_hit h a)" by auto
      have "generation_moved rr rc cfg w 0"
        using enabled False r f by (auto simp: generation_moved_def config_seen_def rules_seen_def)
      moreover have "generation_moved rr rc cfg w (Suc j) = generation_moved rr rc refreshed w2 j" for j
        by (simp add: generation_moved_def shift seen(2))
      ultimately have "\<forall>j < Suc k. generation_moved rr rc cfg w j"
        using k(2) by (auto simp: less_Suc_eq_0_disj)
      moreover have "round_result slot endpoint sem now rr rc cfg w (Suc k) c hit"
        using k(3) by (simp only: round_result_def shift seen(2))
      ultimately show ?thesis
        using k(1,4,5) by (intro exI [of _ "Suc k"] conjI exI [of _ hit]) (simp_all add: add.assoc)
    qed
  qed
qed simp

lemma ruleset_loop_gives_up:
  "\<forall>j<n. generation_moved rr rc cfg w j \<Longrightarrow>
   \<exists>w'. ruleset_loop n slot endpoint sem now rr rc cfg (w, m, a) =
     (None, w', m\<lparr>reload_retry_total := reload_retry_total m + of_nat n\<rparr>, a)"
proof (induction n arbitrary: cfg w m)
  case (Suc n)
  from Suc.prems have "generation_moved rr rc cfg w 0" by simp
  then obtain rules w1 refreshed w2 where r: "rr w = (Some rules, w1)" "rc w1 = (Some refreshed, w2)"
    and moved: "target_enabled cfg \<noteq> 0" "ruleset_generation refreshed \<noteq> ruleset_generation cfg"
    by (cases "rr w"; cases "rc (snd (rr w))") (auto simp: generation_moved_def config_seen_def rules_seen_def)
  have seen: "fst (rc (snd (rr w))) = Some refreshed" "ruleset_round rr rc w = w2"
    by (simp_all add: r ruleset_round_def)
  note shift = seen_shift [where rr = rr and rc = rc and w = w and refreshed = refreshed, OF seen(1)]
  have "\<forall>j<n. generation_moved rr rc refreshed w2 j"
    using Suc.prems by (auto simp: generation_moved_def shift seen(2))
  from Suc.IH [OF this, of "m\<lparr>reload_retry_total := reload_retry_total m + 1\<rparr>"] r moved show ?case
    by (simp add: ac_simps)
qed simp

text \<open>C15. A rule set is never mixed with another one's configuration, whatever other processes write
  between the reads: the answer comes from one of at most three rounds, in which the rules were read
  between two readings of the same generation and the best of them selected, every earlier round
  having seen the generation move and been counted as a retry; if it moves in all three rounds the
  call gives up, without faults.\<close>

theorem ruleset_read_consistent:
  fixes rr :: "'w \<Rightarrow> TargetRule list option \<times> 'w"
  assumes "apply_multi_target_for_tid_with_reader slot endpoint sem now rr rc cfg (w, m, a) = (r, w', m', a')"
  shows "(\<forall>c. r = Some c \<longrightarrow>
      (\<exists>k<3. \<exists>hit. (\<forall>j<k. generation_moved rr rc cfg w j) \<and>
         round_result slot endpoint sem now rr rc cfg w k c hit \<and>
         reload_retry_total m' = reload_retry_total m + of_nat k \<and>
         a' = (case hit of None \<Rightarrow> a | Some h \<Rightarrow> record_target_rule_hit h a)))
    \<and> ((\<forall>j<3. generation_moved rr rc cfg w j) \<longrightarrow>
         r = None \<and> a' = a \<and> reload_retry_total m' = reload_retry_total m + 3)"
  using assms ruleset_loop_sound [of 3 slot endpoint sem now rr rc cfg w m a _ w' m' a']
    ruleset_loop_gives_up [of 3 rr rc cfg w slot endpoint sem now m a]
  by (auto simp: apply_multi_target_for_tid_with_reader_def RULESET_READ_RETRY_LIMIT_def)

text \<open>A memory that is replaced once: readers over a list of snapshots, each reading taking one.\<close>

definition snapshot_rules :: "(TargetRule list \<times> Config) list \<Rightarrow> TargetRule list option \<times> (TargetRule list \<times> Config) list" where
  "snapshot_rules w = (case w of [] \<Rightarrow> (None, w) | (rules, _) # _ \<Rightarrow> (Some rules, w))"

definition snapshot_config :: "(TargetRule list \<times> Config) list \<Rightarrow> Config option \<times> (TargetRule list \<times> Config) list" where
  "snapshot_config w = (case w of [] \<Rightarrow> (None, w) | (_, c) # w' \<Rightarrow> (Some c, w'))"

definition generation_config :: "u64 \<Rightarrow> Config" where
  "generation_config g = Config_default\<lparr>target_enabled := 2, ruleset_generation := g, latency_ns := g\<rparr>"

theorem ruleset_read_consistent_witness:
  "\<exists>k<3. \<exists>hit. (\<forall>j<k. generation_moved snapshot_rules snapshot_config (generation_config 2)
        [([plain_rule 1], generation_config 4), ([plain_rule 7], generation_config 4)] j) \<and>
     round_result 9 (Some https_endpoint) seen_xab 0 snapshot_rules snapshot_config (generation_config 2)
        [([plain_rule 1], generation_config 4), ([plain_rule 7], generation_config 4)] k
        (retarget (plain_rule 7) (generation_config 4)) hit"
proof -
  let ?w = "[([plain_rule 1], generation_config 4), ([plain_rule 7], generation_config 4)]"
  let ?m = "\<lparr>reload_applied_total = 0, reload_retry_total = 0\<rparr>"
  have s: "select_best_target_rule (Some https_endpoint) seen_xab [plain_rule 7] 1 = Some (0, plain_rule 7)"
    by code_simp
  have g: "ruleset_generation (generation_config x) = x" "target_enabled (generation_config x) = 2"
    "runtime_filtered (retarget rule (generation_config x)) endpoint now = Some (retarget rule (generation_config x))"
    for x rule endpoint now
    by (simp_all add: generation_config_def runtime_filtered_def matches_target_def retarget_def apply_schedule_def
        Config_default_def)
  have "fst (apply_multi_target_for_tid_with_reader 9 (Some https_endpoint) seen_xab 0 snapshot_rules snapshot_config
      (generation_config 2) (?w, ?m, AdvancedMetrics_new)) = Some (retarget (plain_rule 7) (generation_config 4))"
    using s by (simp add: apply_multi_target_for_tid_with_reader_def RULESET_READ_RETRY_LIMIT_def numeral_3_eq_3
        snapshot_rules_def snapshot_config_def g)
  then obtain w' m' a' where "apply_multi_target_for_tid_with_reader 9 (Some https_endpoint) seen_xab 0
      snapshot_rules snapshot_config (generation_config 2) (?w, ?m, AdvancedMetrics_new) =
      (Some (retarget (plain_rule 7) (generation_config 4)), w', m', a')"
    by (metis prod.collapse)
  from ruleset_read_consistent [OF this] show ?thesis by blast
qed

section \<open>Observed host names\<close>

definition hostname_inv :: "hostname_map \<Rightarrow> bool" where
  "hostname_inv m \<longleftrightarrow> distinct (map fst m) \<and> length m \<le> HOSTNAME_OBSERVATION_MAX_ENTRIES"

lemma fold_delete: "fold (\<lambda>(key, _) m. AList.delete key m) ks m = filter (\<lambda>(k, _). k \<notin> fst ` set ks) m"
proof (induction ks arbitrary: m)
  case (Cons x ks)
  obtain k v where x: "x = (k, v)" by (cases x)
  have "filter (\<lambda>(k, _). k \<notin> fst ` set ks) (AList.delete k m) = filter (\<lambda>(k', _). k' \<notin> fst ` set (x # ks)) m"
    unfolding AList.delete_eq by (auto simp: x intro: filter_cong)
  with Cons.IH [of "AList.delete k m"] show ?case by (simp add: x)
qed simp

lemma length_filter_keys:
  assumes "distinct (map fst m)" "distinct ks" "set ks \<subseteq> fst ` set m"
  shows "length (filter (\<lambda>(k, _). k \<notin> set ks) m) = length m - length ks"
proof -
  let ?r = "filter (\<lambda>(k, _). k \<notin> set ks) m"
  have "map fst ?r = filter (\<lambda>k. k \<notin> set ks) (map fst m)"
    by (induction m) auto
  moreover have "distinct (filter (\<lambda>k. k \<notin> set ks) (map fst m))" using assms(1) by simp
  moreover have "set (filter (\<lambda>k. k \<notin> set ks) (map fst m)) = fst ` set m - set ks" by auto
  ultimately have "length ?r = card (fst ` set m - set ks)" using distinct_card by (metis length_map)
  also have "\<dots> = card (fst ` set m) - card (set ks)"
    by (rule card_Diff_subset) (use assms(3) in simp_all)
  finally show ?thesis using assms(1,2) by (metis distinct_card length_map list.set_map)
qed

definition eviction_order :: "hostname_map \<Rightarrow> (HostnameObservationKey \<times> u64) list" where
  "eviction_order m = sort_key snd (map (\<lambda>(key, item). (key, observed_at_ns item)) m)"

lemma eviction_order_keys:
  "length (eviction_order m) = length m" "distinct (map fst m) \<Longrightarrow> distinct (map fst (eviction_order m))"
  "fst ` set (eviction_order m) = fst ` set m"
proof -
  have "mset (map fst (eviction_order m)) = mset (map fst m)"
    by (simp add: eviction_order_def mset_map image_mset.compositionality o_def case_prod_beta)
  then show "length (eviction_order m) = length m"
    and "distinct (map fst m) \<Longrightarrow> distinct (map fst (eviction_order m))"
    and "fst ` set (eviction_order m) = fst ` set m"
    by (metis length_map mset_eq_length, metis mset_eq_imp_distinct_iff, metis list.set_map mset_eq_setD)
qed

lemma evicted_keys:
  assumes "distinct (map fst m)"
  shows "distinct (map fst (take n (eviction_order m)))" "set (map fst (take n (eviction_order m))) \<subseteq> fst ` set m"
proof -
  show "distinct (map fst (take n (eviction_order m)))"
    using eviction_order_keys(2) [OF assms] by (metis distinct_take take_map)
  have "set (map fst (take n (eviction_order m))) \<subseteq> fst ` set (eviction_order m)"
    by (auto dest: in_set_takeD)
  then show "set (map fst (take n (eviction_order m))) \<subseteq> fst ` set m" by (simp only: eviction_order_keys(3))
qed

lemma prune_eq:
  fixes m :: hostname_map and now :: u64
  defines "f \<equiv> filter (\<lambda>(_, item). fresh_name now item) m"
  shows "prune_hostname_observations m now =
    filter (\<lambda>(k, _). k \<notin> set (map fst (take (length f - HOSTNAME_OBSERVATION_MAX_ENTRIES) (eviction_order f)))) f"
  by (auto simp: prune_hostname_observations_def Let_def fold_delete eviction_order_def f_def [symmetric])

lemma prune_inv:
  assumes "distinct (map fst m)"
  shows "hostname_inv (prune_hostname_observations m now)"
proof -
  let ?f = "filter (\<lambda>(_, item). fresh_name now item) m"
  let ?n = "length ?f - HOSTNAME_OBSERVATION_MAX_ENTRIES"
  have d: "distinct (map fst ?f)" using assms by (simp add: distinct_map_filter)
  have "length (prune_hostname_observations m now) = length ?f - ?n"
    unfolding prune_eq length_filter_keys [OF d evicted_keys [OF d]] by (simp add: eviction_order_keys)
  moreover have "distinct (map fst (prune_hostname_observations m now))"
    unfolding prune_eq by (rule distinct_map_filter [OF d])
  ultimately show ?thesis by (simp add: hostname_inv_def)
qed

lemma prune_subset: "set (prune_hostname_observations m now) \<subseteq> set m"
  unfolding prune_eq by auto

lemma update_new: "key \<notin> fst ` set m \<Longrightarrow> AList.update key v m = m @ [(key, v)]"
  by (induction m) auto

lemma length_update_le: "length (AList.update key v m) \<le> Suc (length m)"
  by (metis update_keys length_map length_append_singleton le_SucI order_refl)

lemma eviction_head:
  assumes "e \<in> set m" "take 1 (eviction_order m) = [h]"
  shows "snd h \<le> observed_at_ns (snd e)" "\<exists>item. (fst h, item) \<in> set m \<and> observed_at_ns item = snd h"
proof -
  have sorted: "sorted (map snd (eviction_order m))" by (simp add: eviction_order_def)
  obtain rest where h: "eviction_order m = h # rest" using assms(2) by (cases "eviction_order m") auto
  have s: "set (eviction_order m) = (\<lambda>(key, item). (key, observed_at_ns item)) ` set m"
    by (simp add: eviction_order_def)
  have "(fst e, observed_at_ns (snd e)) \<in> set (eviction_order m)"
    unfolding s using assms(1) by (force simp: case_prod_beta)
  with h sorted show "snd h \<le> observed_at_ns (snd e)" by (auto simp: prod_eq_iff)
  have "h \<in> set (eviction_order m)" by (simp add: h)
  then show "\<exists>item. (fst h, item) \<in> set m \<and> observed_at_ns item = snd h" unfolding s by auto
qed

lemma newest_survives:
  assumes inv: "hostname_inv m" and v: "observed_at_ns v = now"
    and room: "length m < HOSTNAME_OBSERVATION_MAX_ENTRIES \<or> (\<exists>e \<in> set m. observed_at_ns (snd e) < now)"
  shows "map_of (prune_hostname_observations (AList.update key v m) now) key = Some v"
proof -
  let ?m = "AList.update key v m"
  let ?f = "filter (\<lambda>(_, item). fresh_name now item) ?m"
  let ?n = "length ?f - HOSTNAME_OBSERVATION_MAX_ENTRIES"
  have d: "distinct (map fst ?m)" using inv by (simp add: hostname_inv_def distinct_update)
  have "map_of ?m key = Some v" by (simp add: update_conv')
  then have key: "(key, v) \<in> set ?m" by (rule map_of_SomeD)
  then have f: "(key, v) \<in> set ?f" by (simp add: fresh_name_def v saturating_sub_def)
  have "key \<notin> set (map fst (take ?n (eviction_order ?f)))"
  proof (cases "?n = 0")
    case False
    have le: "length ?f \<le> length ?m" "length ?m \<le> Suc (length m)" "length m \<le> HOSTNAME_OBSERVATION_MAX_ENTRIES"
      using inv by (simp_all add: length_update_le hostname_inv_def)
    with False have n: "?n = 1" and full: "length ?f = length ?m" "length m = HOSTNAME_OBSERVATION_MAX_ENTRIES"
      "length ?m = Suc (length m)" by linarith+
    have all: "?f = ?m" using full(1) by (metis filter_True length_filter_less less_irrefl)
    have "key \<notin> fst ` set m"
    proof
      assume "key \<in> fst ` set m"
      then have "map fst ?m = map fst m" by (simp add: update_keys)
      then show False using full(3) by (metis length_map n_not_Suc_n)
    qed
    then have m: "?m = m @ [(key, v)]" by (rule update_new)
    obtain e where e: "e \<in> set m" "observed_at_ns (snd e) < now" using room full(2) by auto
    obtain h where h: "take 1 (eviction_order ?f) = [h]"
      using eviction_order_keys(1) [of ?f] full by (cases "eviction_order ?f") auto
    have "snd h \<le> observed_at_ns (snd e)"
      by (rule eviction_head [OF _ h]) (simp only: all, simp add: m e(1))
    then have old: "snd h < now" using e(2) by (rule order_le_less_trans)
    obtain item where "(fst h, item) \<in> set ?m" "observed_at_ns item = snd h"
      using eviction_head(2) [OF f h] by (auto simp: all)
    with old v d key have "fst h \<noteq> key" by (metis eq_key_imp_eq_value order_less_irrefl)
    with h show ?thesis unfolding n by simp
  qed simp
  then have "(key, v) \<in> set (prune_hostname_observations ?m now)" unfolding prune_eq using f by auto
  then show ?thesis using prune_inv [OF d] by (simp add: hostname_inv_def)
qed

lemma latest_observation_member: "latest_observation m = Some e \<Longrightarrow> e \<in> set m"
  by (induction m arbitrary: e) (auto split: option.splits if_splits)

lemma age_le_iff: "saturating_sub now t \<le> HOSTNAME_OBSERVATION_TTL_NS \<longleftrightarrow> unat now \<le> unat t + 30000000000"
  by (auto simp: HOSTNAME_OBSERVATION_TTL_NS_def word_le_nat_alt sat_simps)

lemma hostname_lookup_sound:
  assumes "observed_hostname_for_slot_endpoint slot ep now m = (Some h, m')"
  shows "m' = m \<and> (\<exists>key item. (key, item) \<in> set m \<and> on_hostname item = h \<and> same_address slot ep key \<and>
    unat now \<le> unat (observed_at_ns item) + 30000000000)"
proof -
  obtain key where key: "hostname_observation_key slot ep = Some key"
    using assms by (auto simp: observed_hostname_for_slot_endpoint_def split: option.splits)
  then have same: "same_address slot ep key"
    by (auto simp: hostname_observation_key_def same_address_def split: if_splits)
  show ?thesis
  proof (cases "map_of m key")
    case None
    then obtain k item where l: "latest_observation (filter (\<lambda>(candidate, _). same_address slot ep candidate) m) = Some (k, item)"
      using assms key by (auto simp: observed_hostname_for_slot_endpoint_def split: option.splits)
    with None assms key latest_observation_member [OF l] show ?thesis
      by (auto simp: observed_hostname_for_slot_endpoint_def not_less age_le_iff split: if_splits)
  next
    case (Some item)
    with assms key same map_of_SomeD [OF Some] show ?thesis
      by (auto simp: observed_hostname_for_slot_endpoint_def not_less age_le_iff split: if_splits)
  qed
qed

lemma observe_hostname_inv:
  "hostname_inv m \<Longrightarrow> hostname_inv (observe_hostname_for_slot_endpoint slot ep name now m)"
  by (auto simp: observe_hostname_for_slot_endpoint_def hostname_inv_def distinct_update
      split: option.splits intro!: prune_inv [unfolded hostname_inv_def])

text \<open>C34. Observed host names. A name observed for an endpoint is found, normalised, for the next 30
  seconds, as long as the cache has room or holds an older entry; the cache never exceeds 4096 entries;
  and whatever a lookup returns was observed for the same thread slot and address at most 30 seconds
  ago.\<close>

theorem observed_hostname_found:
  fixes slot :: nat
  assumes "hostname_inv m" "normalize_semantic_name name = Some n" "address_family ep = 1 \<or> address_family ep = 2"
    and "length m < HOSTNAME_OBSERVATION_MAX_ENTRIES \<or> (\<exists>e \<in> set m. observed_at_ns (snd e) < t)"
    and "unat t' \<le> unat t + 30000000000"
  defines "m' \<equiv> observe_hostname_for_slot_endpoint slot ep name t m"
  shows "fst (observed_hostname_for_slot_endpoint slot ep t' m') = Some n \<and> hostname_inv m'
    \<and> (\<forall>slot2 ep2 now h m2. observed_hostname_for_slot_endpoint slot2 ep2 now m' = (Some h, m2) \<longrightarrow>
         (\<exists>key item. (key, item) \<in> set m' \<and> on_hostname item = h \<and> same_address slot2 ep2 key \<and>
            unat now \<le> unat (observed_at_ns item) + 30000000000))"
proof -
  obtain key where key: "hostname_observation_key slot ep = Some key"
    using assms(3) by (auto simp: hostname_observation_key_def)
  let ?v = "\<lparr>on_hostname = n, observed_at_ns = t\<rparr>"
  have "map_of m' key = Some ?v"
    unfolding m'_def using newest_survives [OF assms(1) _ assms(4), of ?v key]
    by (simp add: observe_hostname_for_slot_endpoint_def assms(2) key)
  then have "fst (observed_hostname_for_slot_endpoint slot ep t' m') = Some n"
    using assms(5) by (simp add: observed_hostname_for_slot_endpoint_def key not_less age_le_iff)
  moreover have "hostname_inv m'" unfolding m'_def using assms(1) by (rule observe_hostname_inv)
  ultimately show ?thesis using hostname_lookup_sound by metis
qed

theorem observed_hostname_found_witness:
  "fst (observed_hostname_for_slot_endpoint 3 https_endpoint 29
     (observe_hostname_for_slot_endpoint 3 https_endpoint [0x20, 0x41, 0x2E, 0x42, 0x2E] 5 [])) =
   Some [0x61, 0x2E, 0x62]"
proof -
  have "hostname_inv []" by (simp add: hostname_inv_def)
  moreover have "normalize_semantic_name [0x20, 0x41, 0x2E, 0x42, 0x2E] = Some [0x61, 0x2E, 0x62]" by code_simp
  ultimately show ?thesis
    using observed_hostname_found [of "[]" "[0x20, 0x41, 0x2E, 0x42, 0x2E]" "[0x61, 0x2E, 0x62]" https_endpoint 5 29 3]
    by (simp add: https_endpoint_def HOSTNAME_OBSERVATION_MAX_ENTRIES_def)
qed

end
