(* ===== verification/Socket_Properties.thy ===== *)
theory Socket_Properties
  imports Hook_Transparency Downlink_Properties Engine_Properties Bridge_Properties
begin

text \<open>
  What the hooks on descriptors, names and OpenSSL handles leave behind: a closed descriptor starts afresh,
  a server name reaches its descriptor in whichever order it was announced.
\<close>

section \<open>Closing\<close>

definition process_engine :: "('o, 'l) Process \<Rightarrow> ChaosEngine" where
  "process_engine p = br_engine (pr_bridge p)"

text \<open>The state kept for one descriptor outside the engine.\<close>

definition fd_state :: "('o, 'l) Process \<Rightarrow> fd \<Rightarrow> queue \<times> queue \<times> nat option \<times> bytes option \<times> nat set" where
  "fd_state p f =
     (send_queue f p, recv_queue f p, latency_start_by_fd (pr_runtime p) f, br_sni (pr_bridge p) f,
      {key. pr_ssl_fd p key = Some f})"

lemma initialize_frame [simp]:
  "pr_runtime (initialize env p) = pr_runtime p" "pr_ssl_fd (initialize env p) = pr_ssl_fd p"
  "pr_ssl_sni (initialize env p) = pr_ssl_sni p" "br_sni (pr_bridge (initialize env p)) = br_sni (pr_bridge p)"
  "br_engine (pr_bridge (initialize env p)) = br_engine (pr_bridge p)" "pr_os (initialize env p) = pr_os p"
  by (simp_all add: initialize_def with_bridge_def init_runtime_shm_def case_prod_beta Let_def)

lemma close_hook_state:
  assumes "\<not> pr_guard p" "he_guard_ok env" "0 \<le> f" "close_hook env f p = (r, p')"
  shows "fd_state p' g = (if g = f then ([], [], None, None, {}) else fd_state p g)"
    "process_engine p' = clear_fd_state f (process_engine p)"
    "shm_pointer (br_shm (pr_bridge p')) =
       shm_pointer (clear_rule_for_fd f (br_shm (pr_bridge (initialize env (p\<lparr>pr_guard := True\<rparr>)))))"
proof -
  let ?p0 = "initialize env (p\<lparr>pr_guard := True\<rparr>)"
  let ?p4 = "upd_bridge (clear_fd_binding f) (forget_ssl_bindings_for_fd f
      (upd_runtime (runtime_clear_fd_state f) (upd_engine (clear_fd_state f) ?p0)))"
  have p': "p' = exit_hook (snd (syscall env (SysClose f) ?p4))"
    using assms(4) by (simp add: close_hook_def hook_outer [OF assms(1,2)])
  note defs = p' exit_hook_def syscall_def upd_bridge_def upd_runtime_def upd_engine_def forget_ssl_bindings_for_fd_def
    clear_fd_binding_def runtime_clear_fd_state_def clear_observed_semantic_for_fd_def case_prod_beta Let_def
  show "fd_state p' g = (if g = f then ([], [], None, None, {}) else fd_state p g)"
    using assms(3) by (auto simp: defs fd_state_def send_queue_def recv_queue_def)
  show "process_engine p' = clear_fd_state f (process_engine p)"
    using assms(3) by (simp add: defs process_engine_def)
  show "shm_pointer (br_shm (pr_bridge p')) = shm_pointer (clear_rule_for_fd f (br_shm (pr_bridge ?p0)))"
    using assms(3) by (simp add: defs)
qed



section \<open>Server names\<close>

text \<open>The name the descriptor has once it is observed.\<close>

lemma observed_name:
  assumes "0 \<le> f" "normalize_semantic_name sni = Some name"
  shows "br_sni (pr_bridge (process_observe_sni f sni p)) f = Some name"
  using assms by (simp add: process_observe_sni_def observe_sni_for_fd_def)

lemma set_fd_effect:
  assumes "\<not> pr_guard p" "he_guard_ok env" "ssl \<noteq> 0" "0 \<le> f" "he_ssl_set_fd env"
    and "\<forall>os. rp_value (fst (he_kernel env (SslSetFd ssl f) os)) = 1" "normalize_semantic_name sni = Some name"
  shows "pr_ssl_fd (snd (SSL_set_fd_hook env ssl f p)) ssl = Some f"
    "pr_ssl_sni p ssl = Some sni \<Longrightarrow> br_sni (pr_bridge (snd (SSL_set_fd_hook env ssl f p))) f = Some name"
proof -
  let ?p0 = "initialize env (p\<lparr>pr_guard := True\<rparr>)"
  let ?p1 = "snd (syscall env (SslSetFd ssl f) ?p0)"
  have hk: "snd (SSL_set_fd_hook env ssl f p) = exit_hook (remember_ssl_fd ssl f ?p1)"
    using assms(6) by (simp add: SSL_set_fd_hook_def hook_outer [OF assms(1,2)] call_ssl_set_fd_orig_def assms(5)
        case_prod_beta Let_def orig_call_effect)
  have keep: "pr_ssl_sni ?p1 = pr_ssl_sni p" by (simp add: syscall_def case_prod_beta Let_def)
  show "pr_ssl_fd (snd (SSL_set_fd_hook env ssl f p)) ssl = Some f"
    using assms(3,4) by (simp add: hk exit_hook_def remember_ssl_fd_def ssl_key_def process_observe_sni_def Let_def split: option.split)
  show "br_sni (pr_bridge (snd (SSL_set_fd_hook env ssl f p))) f = Some name" if "pr_ssl_sni p ssl = Some sni"
    using assms(3,4,7) that
    by (simp add: hk exit_hook_def remember_ssl_fd_def ssl_key_def keep observed_name Let_def)
qed

lemma ctrl_effect:
  assumes "\<not> pr_guard p" "he_guard_ok env" "ssl \<noteq> 0" "0 \<le> f"
    and "\<forall>get_fd. he_ssl_get_fd env = Some get_fd \<longrightarrow> get_fd ssl < 0 \<or> get_fd ssl = f"
    and "normalized_name_from_cstr host = Some sni" "normalize_semantic_name sni = Some name"
    and "p' = snd (SSL_ctrl_hook env ssl SSL_CTRL_SET_TLSEXT_HOSTNAME TLSEXT_NAMETYPE_HOST_NAME host p)"
  shows "pr_ssl_sni p' ssl = Some sni" "pr_ssl_fd p ssl = Some f \<Longrightarrow> br_sni (pr_bridge p') f = Some name"
proof -
  let ?p0 = "initialize env (p\<lparr>pr_guard := True\<rparr>)"
  let ?p1 = "bind_ssl_sni_if_possible env ssl sni ?p0"
  have hk: "pr_ssl_sni p' = (pr_ssl_sni ?p1)(ssl \<mapsto> sni)" "pr_bridge p' = pr_bridge ?p1"
    using assms(3,6,8) by (simp_all add: SSL_ctrl_hook_def hook_outer [OF assms(1,2)] call_ssl_ctrl_orig_def
        remember_ssl_sni_def ssl_key_def exit_hook_def syscall_def case_prod_beta Let_def)
  show "pr_ssl_sni p' ssl = Some sni" by (simp add: hk)
  show "br_sni (pr_bridge p') f = Some name" if "pr_ssl_fd p ssl = Some f"
  proof -
    have "\<exists>q. ?p1 = process_observe_sni f sni q"
      using assms(3,5) that by (auto simp: bind_ssl_sni_if_possible_def ssl_key_def split: option.split)
    then show ?thesis using assms(4,7) by (auto simp: hk observed_name)
  qed
qed

lemma run_program_two:
  "run_program env [(t, a), (t, b)] p = (rs, p') \<Longrightarrow> p' = snd (run_api env t b (snd (run_api env t a p)))"
  by (simp add: Let_def case_prod_beta del: run_api.simps)

text \<open>C26. The server name set on an OpenSSL handle reaches the handle's descriptor in either order of the two
  announcements: \<open>SSL_ctrl\<close> with the host name before \<open>SSL_set_fd\<close>, as most programs do, or after it. The name is the one the
  rules are matched against, normalised. It holds with and without a usable \<open>SSL_get_fd\<close>, which, as
  documented, gives the handle's descriptor or a negative number.\<close>

theorem sni_reaches_descriptor:
  assumes "\<not> pr_guard p" "he_guard_ok env" "ssl \<noteq> 0" "0 \<le> f"
    and "he_ssl_set_fd env" "\<forall>os. rp_value (fst (he_kernel env (SslSetFd ssl f) os)) = 1"
    and "\<forall>get_fd. he_ssl_get_fd env = Some get_fd \<longrightarrow> get_fd ssl < 0 \<or> get_fd ssl = f"
    and "normalized_name_from_cstr host = Some sni" "normalize_semantic_name sni = Some name"
    and "calls = [A_SslCtrl ssl SSL_CTRL_SET_TLSEXT_HOSTNAME TLSEXT_NAMETYPE_HOST_NAME host, A_SslSetFd ssl f]
       \<or> calls = [A_SslSetFd ssl f, A_SslCtrl ssl SSL_CTRL_SET_TLSEXT_HOSTNAME TLSEXT_NAMETYPE_HOST_NAME host]"
    and "run_program env (map (\<lambda>a. (t, a)) calls) p = (rs, p')"
  shows "observed_sni_for_fd f (br_sni (pr_bridge p')) = Some name"
proof -
  let ?ctrl = "\<lambda>p. snd (SSL_ctrl_hook env ssl SSL_CTRL_SET_TLSEXT_HOSTNAME TLSEXT_NAMETYPE_HOST_NAME host p)"
    and ?set = "\<lambda>p. snd (SSL_set_fd_hook env ssl f p)"
  have g: "\<not> pr_guard (?ctrl p)" "\<not> pr_guard (?set p)" using assms(1) by (simp_all add: descriptor_guards)
  from assms(10,11) have "p' = ?set (?ctrl p) \<or> p' = ?ctrl (?set p)"
    by (auto dest!: run_program_two simp del: run_program.simps simp: wrap_def)
  then have "br_sni (pr_bridge p') f = Some name"
  proof
    assume "p' = ?set (?ctrl p)"
    with set_fd_effect(2) [OF g(1) assms(2-6,9)] ctrl_effect(1) [OF assms(1-4,7-9) refl] show ?thesis by simp
  next
    assume "p' = ?ctrl (?set p)"
    with ctrl_effect(2) [OF g(2) assms(2-4,7-9)] set_fd_effect(1) [OF assms(1-6,9)] show ?thesis by simp
  qed
  then show ?thesis using assms(4) by (simp add: observed_sni_for_fd_def)
qed

theorem sni_reaches_descriptor_witness:
  "observed_sni_for_fd 5 (br_sni (pr_bridge (snd (run_program detached_env
     (map (\<lambda>a. (some_times, a)) [A_SslCtrl 9 55 0 (Some [0x41, 0x2E, 0x62, 0]), A_SslSetFd 9 5]) fresh_process)))) =
   Some [0x61, 0x2E, 0x62]"
proof -
  let ?calls = "[A_SslCtrl 9 55 0 (Some [0x41, 0x2E, 0x62, 0]), A_SslSetFd 9 5]"
  obtain rs p' where run: "run_program detached_env (map (\<lambda>a. (some_times, a)) ?calls) fresh_process = (rs, p')" by fastforce
  have n: "normalized_name_from_cstr (Some [0x41, 0x2E, 0x62, 0]) = Some [0x61, 0x2E, 0x62]"
    "normalize_semantic_name [0x61, 0x2E, 0x62] = Some [0x61, 0x2E, 0x62]" by code_simp+
  have "observed_sni_for_fd 5 (br_sni (pr_bridge p')) = Some [0x61, 0x2E, 0x62]"
    by (rule sni_reaches_descriptor [OF fresh_detached(2,3) _ _ _ _ _ n _ run, of 9])
       (simp_all add: detached_env_def accepting_kernel_def SSL_CTRL_SET_TLSEXT_HOSTNAME_def TLSEXT_NAMETYPE_HOST_NAME_def)
  with run show ?thesis by simp
qed

end
