(* ===== verification/Shm_Seqlock.thy ===== *)
theory Shm_Seqlock
  imports Shm_Runtime
begin

text \<open>
  The generation protocol of a configuration row (\<open>shm_runtime.rs\<close>: \<open>read_stable_config\<close> and
  \<open>write_config_with_generation_publish\<close>) at the granularity of single memory cells: one writer makes
  the generation odd, stores the cells of the new row one by one in any order, and makes the
  generation even again; a reader in another process loads the generation, the cells in any order, and
  the generation again. The fences of the source are sequentially consistent, so the steps interleave.

  The row is a function from cell numbers below \<open>cells_per_row\<close>; its generation word, which the
  writer stores with the value it already has, is kept apart. \<open>sl_published\<close> is a ghost: the rows published so far,
  the oldest first.
\<close>

type_synonym 'v row_cells = "nat \<Rightarrow> 'v"

datatype 'v seq_reader =
    RetryRead
  | Reading u64 "nat set" "'v row_cells" nat
  | Accepted "'v row_cells" nat

record 'v seqlock =
  sl_generation :: u64
  sl_cells :: "'v row_cells"
  sl_writer :: "('v row_cells \<times> nat set) option"
  sl_reader :: "'v seq_reader"
  sl_published :: "'v row_cells list"

definition start_generation :: "u64 \<Rightarrow> u64" where
  "start_generation g = g OR 1"

definition published_generation :: "u64 \<Rightarrow> u64" where
  "published_generation g = (g + 1) AND NOT 1"

definition seq_initial :: "u64 \<Rightarrow> 'v row_cells \<Rightarrow> 'v seqlock" where
  "seq_initial g row = \<lparr>sl_generation = g, sl_cells = row, sl_writer = None, sl_reader = RetryRead, sl_published = [row]\<rparr>"

inductive seq_step :: "nat \<Rightarrow> 'v seqlock \<Rightarrow> 'v seqlock \<Rightarrow> bool" for N :: nat where
  write_begin: "sl_writer s = None \<Longrightarrow>
    seq_step N s (s\<lparr>sl_generation := start_generation (sl_generation s), sl_writer := Some (new, {..<N})\<rparr>)"
| write_cell: "sl_writer s = Some (new, todo) \<Longrightarrow> i \<in> todo \<Longrightarrow>
    seq_step N s (s\<lparr>sl_cells := (sl_cells s)(i := new i), sl_writer := Some (new, todo - {i})\<rparr>)"
| write_end: "sl_writer s = Some (new, {}) \<Longrightarrow>
    seq_step N s (s\<lparr>sl_generation := published_generation (sl_generation s), sl_writer := None,
                    sl_published := sl_published s @ [new]\<rparr>)"
| read_begin: "sl_reader s = RetryRead \<Longrightarrow> sl_generation s mod 2 = 0 \<Longrightarrow>
    seq_step N s (s\<lparr>sl_reader := Reading (sl_generation s) {..<N} buf (length (sl_published s))\<rparr>)"
| read_cell: "sl_reader s = Reading g todo buf k \<Longrightarrow> i \<in> todo \<Longrightarrow>
    seq_step N s (s\<lparr>sl_reader := Reading g (todo - {i}) (buf(i := sl_cells s i)) k\<rparr>)"
| read_end: "sl_reader s = Reading g {} buf k \<Longrightarrow>
    seq_step N s (s\<lparr>sl_reader := (if sl_generation s = g then Accepted buf k else RetryRead)\<rparr>)"
| read_again: "sl_reader s = Accepted buf k \<Longrightarrow> seq_step N s (s\<lparr>sl_reader := RetryRead\<rparr>)"

inductive_cases seq_stepE: "seq_step N s s'"

lemma publish_generation:
  "ruleset_generation (write_config_with_generation_publish mutate row) =
     published_generation (start_generation (ruleset_generation row))"
  by (simp add: write_config_with_generation_publish_def start_generation_def published_generation_def Let_def)

section \<open>The invariant\<close>

text \<open>The generation is \<open>g0\<close> plus twice the number of publications, plus one while a write is open; the cells
  still to store hold the last published row; and what a reader has copied is that row as long as its
  generation has not moved.\<close>

definition stamp :: "u64 \<Rightarrow> nat \<Rightarrow> u64" where
  "stamp g0 n = g0 + 2 * of_nat n"

definition writer_inv :: "nat \<Rightarrow> u64 \<Rightarrow> 'v seqlock \<Rightarrow> bool" where
  "writer_inv N g0 s \<longleftrightarrow> sl_published s \<noteq> [] \<and> (case sl_writer s of
     None \<Rightarrow> sl_generation s = stamp g0 (length (sl_published s)) \<and>
             (\<forall>i<N. sl_cells s i = last (sl_published s) i)
   | Some (new, todo) \<Rightarrow> sl_generation s = stamp g0 (length (sl_published s)) + 1 \<and> todo \<subseteq> {..<N} \<and>
             (\<forall>i<N. sl_cells s i = (if i \<in> todo then last (sl_published s) i else new i)))"

definition reader_inv :: "nat \<Rightarrow> u64 \<Rightarrow> 'v seqlock \<Rightarrow> bool" where
  "reader_inv N g0 s \<longleftrightarrow> (case sl_reader s of
     RetryRead \<Rightarrow> True
   | Reading g todo buf k \<Rightarrow> 0 < k \<and> k \<le> length (sl_published s) \<and> g = stamp g0 k \<and> todo \<subseteq> {..<N} \<and>
       (k = length (sl_published s) \<and> sl_writer s = None \<longrightarrow>
          (\<forall>i<N. i \<notin> todo \<longrightarrow> buf i = last (sl_published s) i))
   | Accepted buf k \<Rightarrow> 0 < k \<and> k \<le> length (sl_published s) \<and> (\<forall>i<N. buf i = (sl_published s ! (k - 1)) i))"

lemma stamp_even: "g0 mod 2 = 0 \<Longrightarrow> even (stamp g0 n)"
  by (simp add: stamp_def even_iff_mod_2_eq_zero [symmetric])

lemma generation_steps:
  assumes "even g"
  shows "start_generation g = g + 1" "published_generation (g + 1) = g + 2"
proof -
  show "start_generation g = g + 1" using assms by (simp add: start_generation_def or_one_eq)
  have "x AND NOT 1 = x" if "even x" for x :: u64
    by (rule bit_word_eqI) (use that in \<open>auto simp: bit_simps bit_0 simp flip: bit_0\<close>)
  from this [of "g + 2"] show "published_generation (g + 1) = g + 2"
    using assms by (simp add: published_generation_def add.assoc)
qed

lemma stamp_Suc: "stamp g0 (Suc n) = stamp g0 n + 2"
  by (simp add: stamp_def algebra_simps)

lemma stamp_inj:
  assumes "stamp g0 k = stamp g0 n" "k \<le> n" "n < 2 ^ 63"
  shows "k = n"
proof -
  have "(2 * of_nat k :: u64) = 2 * of_nat n" using assms(1) by (simp add: stamp_def)
  then have "unat (of_nat (2 * k) :: u64) = unat (of_nat (2 * n) :: u64)" by simp
  moreover have "2 * k < 2 ^ 64" "2 * n < 2 ^ 64" using assms(2,3) by simp_all
  ultimately have "2 * k = 2 * n" by (simp only: unat_of_nat_u64)
  then show ?thesis by simp
qed

lemma step_published: "seq_step N s s' \<Longrightarrow> length (sl_published s) \<le> length (sl_published s')"
  by (erule seq_stepE) simp_all

lemma writer_inv_reader [simp]: "writer_inv N g0 (s\<lparr>sl_reader := r\<rparr>) = writer_inv N g0 s"
  by (cases "sl_writer s") (auto simp: writer_inv_def)

lemma writer_inv_step:
  assumes "seq_step N s s'" "writer_inv N g0 s" "g0 mod 2 = 0"
  shows "writer_inv N g0 s'"
  using assms(1)
proof cases
  case (write_cell new todo i)
  with assms(2) show ?thesis by (auto simp: writer_inv_def)
next
  case (write_begin new)
  with assms(2) stamp_even [OF assms(3), of "length (sl_published s)"] show ?thesis
    by (auto simp: writer_inv_def generation_steps)
next
  case (write_end new)
  with assms(2) stamp_even [OF assms(3), of "length (sl_published s)"] show ?thesis
    by (auto simp: writer_inv_def generation_steps stamp_Suc)
qed (use assms(2) in simp_all)

lemma reader_inv_step:
  assumes "seq_step N s s'" "writer_inv N g0 s" "reader_inv N g0 s" "g0 mod 2 = 0"
    "length (sl_published s') < 2 ^ 63"
  shows "reader_inv N g0 s'"
  using assms(1)
proof cases
  case (write_cell new todo i)
  with assms(3) show ?thesis by (auto simp: reader_inv_def split: seq_reader.splits)
next
  case (write_begin new)
  with assms(3) show ?thesis by (auto simp: reader_inv_def split: seq_reader.splits)
next
  case (write_end new)
  with assms(3) show ?thesis by (auto simp: reader_inv_def nth_append split: seq_reader.splits)
next
  case (read_begin buf)
  moreover have "sl_writer s = None"
    using read_begin(3) assms(2) stamp_even [OF assms(4), of "length (sl_published s)"]
    by (auto simp: writer_inv_def even_iff_mod_2_eq_zero [symmetric] split: option.splits)
  ultimately show ?thesis using assms(2) by (auto simp: reader_inv_def writer_inv_def Suc_le_eq)
next
  case (read_cell g todo buf k i)
  with assms(2,3) show ?thesis by (auto simp: reader_inv_def writer_inv_def)
next
  case (read_end g buf k)
  show ?thesis
  proof (cases "sl_generation s = g")
    case True
    have k: "0 < k" "k \<le> length (sl_published s)" "g = stamp g0 k" using assms(3) read_end by (auto simp: reader_inv_def)
    have idle: "sl_writer s = None"
      using True k(3) assms(2) stamp_even [OF assms(4)]
      by (auto simp: writer_inv_def split: option.splits) (metis even_plus_one_iff)
    then have "stamp g0 k = stamp g0 (length (sl_published s))"
      using True k(3) assms(2) by (simp add: writer_inv_def)
    then have "k = length (sl_published s)"
      using k(2) assms(5) read_end(1) by (intro stamp_inj) auto
    with idle read_end assms(2,3) True k show ?thesis
      by (auto simp: reader_inv_def writer_inv_def last_conv_nth)
  qed (simp add: read_end reader_inv_def)
next
  case read_again
  then show ?thesis by (simp add: reader_inv_def)
qed

lemma seqlock_invariant:
  assumes "(seq_step N)\<^sup>*\<^sup>* (seq_initial g row) s" "g mod 2 = 0" "length (sl_published s) < 2 ^ 63"
  shows "writer_inv N (g - 2) s \<and> reader_inv N (g - 2) s"
  using assms(1,3)
proof (induction rule: rtranclp_induct)
  case base
  show ?case by (simp add: seq_initial_def writer_inv_def reader_inv_def stamp_def)
next
  case (step s s')
  have "(g - 2) mod 2 = 0" using assms(2) by (simp add: even_iff_mod_2_eq_zero [symmetric])
  then show ?case
    using step step_published [OF step.hyps(2)] writer_inv_step [OF step.hyps(2)] reader_inv_step [OF step.hyps(2)]
    by auto
qed

text \<open>C10. No torn reads: whatever the interleaving of one writer's and a reader's single-cell accesses,
  a row that the reader accepts is, cell for cell, one of the rows that were published as a whole, the
  one that was current when the read began, as long as fewer than \<open>2\<^sup>6\<^sup>3\<close> rows are published (then
  the generation would have wrapped around).\<close>

theorem accepted_row_not_torn:
  assumes "(seq_step N)\<^sup>*\<^sup>* (seq_initial g row) s" "g mod 2 = 0"
    and "sl_reader s = Accepted buf k" "length (sl_published s) < 2 ^ 63"
  shows "0 < k \<and> k \<le> length (sl_published s) \<and> (\<forall>i<N. buf i = (sl_published s ! (k - 1)) i)"
  using seqlock_invariant [OF assms(1,2,4)] assms(3) by (simp add: reader_inv_def)

theorem accepted_row_not_torn_witness:
  "\<exists>s buf. (seq_step 1)\<^sup>*\<^sup>* (seq_initial 4 (\<lambda>_. 0 :: nat)) s \<and> sl_reader s = Accepted buf 2 \<and> buf 0 = 7"
proof -
  let ?new = "\<lambda>_. 7 :: nat" and ?old = "\<lambda>_. 0 :: nat"
  define s1 where "s1 = \<lparr>sl_generation = 5, sl_cells = ?old, sl_writer = Some (?new, {..<1}), sl_reader = RetryRead,
    sl_published = [?old]\<rparr>"
  define s2 where "s2 = s1\<lparr>sl_cells := ?old(0 := 7), sl_writer := Some (?new, {})\<rparr>"
  define s3 where "s3 = s2\<lparr>sl_generation := 6, sl_writer := None, sl_published := [?old, ?new]\<rparr>"
  define s4 where "s4 = s3\<lparr>sl_reader := Reading 6 {..<1} ?old 2\<rparr>"
  define s5 where "s5 = s4\<lparr>sl_reader := Reading 6 {} (?old(0 := 7)) 2\<rparr>"
  define s6 where "s6 = s5\<lparr>sl_reader := Accepted (?old(0 := 7)) 2\<rparr>"
  note s = s1_def s2_def s3_def s4_def s5_def s6_def
  have st1: "seq_step 1 (seq_initial 4 ?old) s1"
    using seq_step.write_begin [of "seq_initial 4 ?old" 1 ?new] by (simp add: seq_initial_def s start_generation_def)
  have st2: "seq_step 1 s1 s2" using seq_step.write_cell [of s1 ?new "{..<1}" 0 1] by (simp add: s lessThan_Suc)
  have st3: "seq_step 1 s2 s3" using seq_step.write_end [of s2 ?new 1] by (simp add: s published_generation_def)
  have st4: "seq_step 1 s3 s4" using seq_step.read_begin [of s3 1 ?old] by (simp add: s numeral_2_eq_2)
  have st5: "seq_step 1 s4 s5" using seq_step.read_cell [of s4 6 "{..<1}" ?old 2 0 1] by (simp add: s lessThan_Suc)
  have st6: "seq_step 1 s5 s6" using seq_step.read_end [of s5 6 "?old(0 := 7)" 2 1] by (simp add: s)
  have run: "(seq_step 1)\<^sup>*\<^sup>* (seq_initial 4 ?old) s6"
    using st1 st2 st3 st4 st5 st6 by (meson rtranclp.rtrancl_into_rtrancl rtranclp.rtrancl_refl)
  have "sl_reader s6 = Accepted (?old(0 := 7)) 2" "length (sl_published s6) < 2 ^ 63" by (simp_all add: s)
  with accepted_row_not_torn [OF run _ this] run show ?thesis by auto
qed

end
