(* ===== verification/Symbol_Lookup.thy ===== *)
theory Symbol_Lookup
  imports Faultcore_Prelude
begin

text \<open>
  How the interceptor finds the functions it wraps (\<open>faultcore_interceptor/src/lib.rs\<close>: \<open>get_original_fn\<close>,
  \<open>is_excluded_symbol\<close>, \<open>get_optional_ssl_original_fn\<close>).

  A symbol address is a number, 0 the null pointer, and so is a library handle. The dynamic
  linker is the record \<open>DynLinker\<close>, a parameter. The events are the \<open>dlopen\<close> calls that gave a handle and the
  \<open>dlclose\<close> calls.
\<close>

record DynLinker =
  dl_next :: "string \<Rightarrow> nat"
  dl_open :: "string \<Rightarrow> nat"
  dl_sym :: "nat \<Rightarrow> string \<Rightarrow> nat"

datatype lookup_error = CStringPanic | Aborted

datatype dl_event = DlOpened nat | DlClosed nat

definition has_nul :: "string \<Rightarrow> bool" where
  "has_nul name \<longleftrightarrow> char_of (0 :: nat) \<in> set name"

definition get_original_fn :: "DynLinker \<Rightarrow> string \<Rightarrow> lookup_error + nat" where
  "get_original_fn dl name =
     (if has_nul name then Inl CStringPanic
      else let fn_ptr = dl_next dl name in if fn_ptr = 0 then Inl Aborted else Inr fn_ptr)"

definition is_excluded_symbol :: "nat \<Rightarrow> nat option \<Rightarrow> bool" where
  "is_excluded_symbol symbol exclude = (case exclude of None \<Rightarrow> False | Some excluded \<Rightarrow> symbol = excluded)"

fun search_libs :: "DynLinker \<Rightarrow> string \<Rightarrow> nat option \<Rightarrow> string list \<Rightarrow> nat option \<times> dl_event list" where
  "search_libs dl name exclude [] = (None, [])"
| "search_libs dl name exclude (lib_name # libs) =
     (let handle = dl_open dl lib_name
      in if handle = 0 then search_libs dl name exclude libs
         else
           let ptr = dl_sym dl handle name
           in if ptr \<noteq> 0 \<and> \<not> is_excluded_symbol ptr exclude then (Some ptr, [DlOpened handle])
              else let (res, evs) = search_libs dl name exclude libs
                   in (res, DlOpened handle # DlClosed handle # evs))"

definition ssl_library_names :: "string list" where
  "ssl_library_names = [''libssl.so.3'', ''libssl.so.1.1'', ''libssl.so'']"

definition get_optional_ssl_original_fn ::
  "DynLinker \<Rightarrow> string \<Rightarrow> nat option \<Rightarrow> lookup_error + nat option \<times> dl_event list" where
  "get_optional_ssl_original_fn dl name exclude =
     (if has_nul name then Inl CStringPanic
      else
        let next_ptr = dl_next dl name
        in if next_ptr \<noteq> 0 \<and> \<not> is_excluded_symbol next_ptr exclude then Inr (Some next_ptr, [])
           else Inr (search_libs dl name exclude ssl_library_names))"

section \<open>The wrapped function is never the wrapper\<close>

definition closes_at_once :: "dl_event list \<Rightarrow> bool" where
  "closes_at_once evs \<longleftrightarrow> (\<exists>hs. evs = concat (map (\<lambda>h. [DlOpened h, DlClosed h]) hs))"

lemma closes_at_once_intros:
  "closes_at_once []"
  "closes_at_once evs \<Longrightarrow> closes_at_once (DlOpened h # DlClosed h # evs)"
  unfolding closes_at_once_def
  by (rule exI [of _ "[]"], simp) (elim exE, rule_tac x = "h # hs" in exI, simp)

lemma search_libs_sound:
  assumes "search_libs dl name exclude libs = (res, evs)"
  shows "case res of
      None \<Rightarrow> closes_at_once evs
    | Some ptr \<Rightarrow> ptr \<noteq> 0 \<and> exclude \<noteq> Some ptr \<and>
        (\<exists>tried h lib. evs = tried @ [DlOpened h] \<and> closes_at_once tried \<and> lib \<in> set libs
           \<and> dl_open dl lib = h \<and> dl_sym dl h name = ptr)"
  using assms
proof (induction libs arbitrary: res evs)
  case Nil
  then show ?case by (auto simp: closes_at_once_intros)
next
  case (Cons lib libs)
  let ?h = "dl_open dl lib" and ?ptr = "dl_sym dl (dl_open dl lib) name"
  obtain res' evs' where rest: "search_libs dl name exclude libs = (res', evs')" by fastforce
  consider (closed) "?h = 0" | (found) "?h \<noteq> 0" "?ptr \<noteq> 0" "\<not> is_excluded_symbol ?ptr exclude"
    | (tried) "?h \<noteq> 0" "?ptr = 0 \<or> is_excluded_symbol ?ptr exclude" by auto
  then show ?case
  proof cases
    case closed
    with Cons.prems have "search_libs dl name exclude libs = (res, evs)" by simp
    from Cons.IH [OF this] show ?thesis by (auto split: option.splits)
  next
    case found
    with Cons.prems have "res = Some ?ptr" "evs = [] @ [DlOpened ?h]" by (auto simp: Let_def)
    with found show ?thesis
      by (auto simp: is_excluded_symbol_def closes_at_once_intros split: option.splits)
  next
    case tried
    with Cons.prems rest have "res = res'" "evs = DlOpened ?h # DlClosed ?h # evs'" by (auto simp: Let_def)
    with Cons.IH [OF rest] show ?thesis
      by (auto split: option.splits intro: closes_at_once_intros)
  qed
qed

text \<open>Looking up the original of an OpenSSL function never yields the wrapper itself, so a wrapper
  that calls what was found does not call itself for ever, and never yields a null pointer. Every
  library that was opened without giving the symbol is closed again before the next is tried; the
  one that stays open is the one the symbol comes from.\<close>

lemma ssl_original_not_wrapper:
  assumes "get_optional_ssl_original_fn dl name (Some wrapper) = Inr (res, evs)"
  shows "res \<noteq> Some wrapper \<and> res \<noteq> Some 0
    \<and> (closes_at_once evs \<or>
       (\<exists>tried h lib ptr. evs = tried @ [DlOpened h] \<and> closes_at_once tried \<and> lib \<in> set ssl_library_names
          \<and> dl_open dl lib = h \<and> res = Some ptr \<and> dl_sym dl h name = ptr))"
proof (cases "dl_next dl name \<noteq> 0 \<and> dl_next dl name \<noteq> wrapper")
  case True
  with assms have "res = Some (dl_next dl name)" "evs = []"
    by (auto simp: get_optional_ssl_original_fn_def is_excluded_symbol_def split: if_splits)
  with True show ?thesis by (auto simp: closes_at_once_intros)
next
  case False
  with assms have "search_libs dl name (Some wrapper) ssl_library_names = (res, evs)"
    by (auto simp: get_optional_ssl_original_fn_def is_excluded_symbol_def split: if_splits)
  from search_libs_sound [OF this] show ?thesis by (auto split: option.splits)
qed

definition wrapped_linker :: DynLinker where
  "wrapped_linker =
     \<lparr>dl_next = (\<lambda>_. 100), dl_open = (\<lambda>lib. if lib = ''libssl.so.3'' then 1 else 2),
      dl_sym = (\<lambda>h _. if h = 1 then 100 else 200)\<rparr>"

end
