(* ===== verification/R3_Concurrency.thy ===== *)
theory R3_Concurrency
  imports R3_Flow_Control
begin

text \<open>
  The token bucket under concurrent callers (\<open>layers/r3_flow_control.rs\<close>: \<open>refill\<close> and the loop of
  \<open>try_acquire\<close>), at the granularity of its atomic accesses. Each of \<open>N\<close> threads makes one request. A refill loads
  the counter and stores the new value under the lock of \<open>last_refill\<close>; the acquisitions do not take that lock. The flag \<open>weak\<close>
  allows \<open>compare_exchange_weak\<close> to fail spuriously; \<open>cap\<close> is the capacity and \<open>gain\<close> the most one refill may add.
\<close>

datatype fc_pc =
    FcRefill u64
  | FcStore u64 u64
  | FcLoad u64
  | FcCas u64 u64
  | FcGranted u64
  | FcDenied u64

record fc_state =
  fc_tokens :: u64
  fc_lock :: "nat option"
  fc_pc :: "nat \<Rightarrow> fc_pc"

text \<open>The value a refill stores, computed from what it loaded.\<close>

definition refilled :: "rat \<Rightarrow> rat \<Rightarrow> u64 \<Rightarrow> u64" where
  "refilled new_tokens cap current = f64_as_u64 (min (fl (f64_of_u64 current + new_tokens)) cap)"

lemma refill_refilled:
  "refill rate cap t1 t2 s =
     (if rate = 0 \<or> as_secs_f64 (t1 - last_refill s) \<le> 0 then s
      else s\<lparr>last_refill := t2,
             tokens := refilled (fl (as_secs_f64 (t1 - last_refill s) * f64_of_u64 rate)) cap (tokens s)\<rparr>)"
  by (simp add: refill_def refilled_def Let_def)

inductive fc_step :: "nat \<Rightarrow> bool \<Rightarrow> rat \<Rightarrow> rat \<Rightarrow> fc_state \<Rightarrow> fc_state \<Rightarrow> bool" for N :: nat and weak :: bool and cap gain :: rat where
  refill_skip: "t < N \<Longrightarrow> fc_pc s t = FcRefill need \<Longrightarrow>
    fc_step N weak cap gain s (s\<lparr>fc_pc := (fc_pc s)(t := FcLoad need)\<rparr>)"
| refill_load: "t < N \<Longrightarrow> fc_pc s t = FcRefill need \<Longrightarrow> fc_lock s = None \<Longrightarrow> 0 < new_tokens \<Longrightarrow> new_tokens \<le> gain \<Longrightarrow>
    fc_step N weak cap gain s (s\<lparr>fc_lock := Some t,
      fc_pc := (fc_pc s)(t := FcStore need (refilled new_tokens cap (fc_tokens s)))\<rparr>)"
| refill_store: "t < N \<Longrightarrow> fc_pc s t = FcStore need v \<Longrightarrow> fc_lock s = Some t \<Longrightarrow>
    fc_step N weak cap gain s (s\<lparr>fc_tokens := v, fc_lock := None, fc_pc := (fc_pc s)(t := FcLoad need)\<rparr>)"
| load_enough: "t < N \<Longrightarrow> fc_pc s t = FcLoad need \<Longrightarrow> need \<le> fc_tokens s \<Longrightarrow>
    fc_step N weak cap gain s (s\<lparr>fc_pc := (fc_pc s)(t := FcCas need (fc_tokens s))\<rparr>)"
| load_short: "t < N \<Longrightarrow> fc_pc s t = FcLoad need \<Longrightarrow> fc_tokens s < need \<Longrightarrow>
    fc_step N weak cap gain s (s\<lparr>fc_pc := (fc_pc s)(t := FcDenied need)\<rparr>)"
| cas_ok: "t < N \<Longrightarrow> fc_pc s t = FcCas need current \<Longrightarrow> fc_tokens s = current \<Longrightarrow>
    fc_step N weak cap gain s (s\<lparr>fc_tokens := current - need, fc_pc := (fc_pc s)(t := FcGranted need)\<rparr>)"
| cas_fail: "t < N \<Longrightarrow> fc_pc s t = FcCas need current \<Longrightarrow> fc_tokens s \<noteq> current \<or> weak \<Longrightarrow>
    fc_step N weak cap gain s (s\<lparr>fc_pc := (fc_pc s)(t := FcLoad need)\<rparr>)"

inductive_cases fc_stepE: "fc_step N weak cap gain s s'"

section \<open>The retries end\<close>

fun phase :: "fc_pc \<Rightarrow> nat" where
  "phase (FcRefill _) = 3"
| "phase (FcStore _ _) = 2"
| "phase (FcLoad _) = 1"
| "phase (FcCas _ _) = 1"
| "phase (FcGranted _) = 0"
| "phase (FcDenied _) = 0"

text \<open>Within a phase: a failed exchange leads back to the load, and a value just loaded is current.\<close>

fun staleness :: "u64 \<Rightarrow> fc_pc \<Rightarrow> nat" where
  "staleness now (FcCas _ current) = (if current = now then 0 else 2)"
| "staleness now (FcLoad _) = 1"
| "staleness now _ = 0"

definition phases_left :: "nat \<Rightarrow> fc_state \<Rightarrow> nat" where
  "phases_left N s = (\<Sum>t<N. phase (fc_pc s t))"

definition stale_left :: "nat \<Rightarrow> fc_state \<Rightarrow> nat" where
  "stale_left N s = (\<Sum>t<N. staleness (fc_tokens s) (fc_pc s t))"

lemma sum_upd:
  fixes g :: "'a \<Rightarrow> nat"
  assumes "t < (N :: nat)"
  shows "(\<Sum>i<N. g ((f(t := x)) i)) + g (f t) = (\<Sum>i<N. g (f i)) + g x"
proof -
  have "(\<Sum>i<N. g ((f(t := x)) i)) = g x + (\<Sum>i\<in>{..<N} - {t}. g (f i))"
    using assms by (subst sum.remove [of _ t]) (auto intro!: sum.cong)
  moreover have "(\<Sum>i<N. g (f i)) = g (f t) + (\<Sum>i\<in>{..<N} - {t}. g (f i))"
    using assms by (subst sum.remove [of _ t]) auto
  ultimately show ?thesis by simp
qed

lemma fc_step_decreases:
  assumes "fc_step N False cap gain s s'"
  shows "(s', s) \<in> measures [phases_left N, stale_left N]"
  using assms
proof cases
  case (load_enough t need)
  then show ?thesis
    using sum_upd [of t N phase "fc_pc s" "FcCas need (fc_tokens s)"]
      sum_upd [of t N "staleness (fc_tokens s)" "fc_pc s" "FcCas need (fc_tokens s)"]
    by (simp add: phases_left_def stale_left_def)
next
  case (cas_fail t need current)
  then show ?thesis
    using sum_upd [of t N phase "fc_pc s" "FcLoad need"]
      sum_upd [of t N "staleness (fc_tokens s)" "fc_pc s" "FcLoad need"]
    by (simp add: phases_left_def stale_left_def)
next
  case (refill_skip t need)
  then show ?thesis using sum_upd [of t N phase "fc_pc s" "FcLoad need"] by (simp add: phases_left_def)
next
  case (refill_load t need new_tokens)
  then show ?thesis
    using sum_upd [of t N phase "fc_pc s" "FcStore need (refilled new_tokens cap (fc_tokens s))"] by (simp add: phases_left_def)
next
  case (refill_store t need v)
  then show ?thesis using sum_upd [of t N phase "fc_pc s" "FcLoad need"] by (simp add: phases_left_def)
next
  case (load_short t need)
  then show ?thesis using sum_upd [of t N phase "fc_pc s" "FcDenied need"] by (simp add: phases_left_def)
next
  case (cas_ok t need current)
  then show ?thesis using sum_upd [of t N phase "fc_pc s" "FcGranted need"] by (simp add: phases_left_def)
qed

section \<open>Tokens spent once\<close>

fun granted_bits :: "fc_pc \<Rightarrow> nat" where
  "granted_bits (FcGranted need) = unat need"
| "granted_bits _ = 0"

definition granted_total :: "nat \<Rightarrow> fc_state \<Rightarrow> nat" where
  "granted_total N s = (\<Sum>t<N. granted_bits (fc_pc s t))"

text \<open>No thread is refilling or will; an exchange is only tried with enough tokens.\<close>

fun past_refill :: "fc_pc \<Rightarrow> bool" where
  "past_refill (FcRefill _) = False"
| "past_refill (FcStore _ _) = False"
| "past_refill (FcCas need current) = (need \<le> current)"
| "past_refill _ = True"

definition acquiring :: "nat \<Rightarrow> fc_state \<Rightarrow> bool" where
  "acquiring N s \<longleftrightarrow> (\<forall>t<N. past_refill (fc_pc s t))"

lemma acquire_step:
  assumes "fc_step N weak cap gain s s'" "acquiring N s"
  shows "acquiring N s' \<and> unat (fc_tokens s') + granted_total N s' = unat (fc_tokens s) + granted_total N s"
  using assms(1)
proof cases
  case (cas_ok t need current)
  then have le: "need \<le> fc_tokens s" using assms(2) by (force simp: acquiring_def)
  have "granted_total N s' = granted_total N s + unat need"
    using cas_ok sum_upd [of t N granted_bits "fc_pc s" "FcGranted need"] by (simp add: granted_total_def)
  moreover have "unat (fc_tokens s - need) + unat need = unat (fc_tokens s)"
    using le by (simp add: unat_sub word_le_nat_alt)
  ultimately show ?thesis using cas_ok assms(2) by (auto simp: acquiring_def)
next
  case (load_enough t need)
  then show ?thesis using assms(2) sum_upd [of t N granted_bits "fc_pc s" "FcCas need (fc_tokens s)"]
    by (auto simp: acquiring_def granted_total_def)
next
  case (load_short t need)
  then show ?thesis using assms(2) sum_upd [of t N granted_bits "fc_pc s" "FcDenied need"]
    by (auto simp: acquiring_def granted_total_def)
next
  case (cas_fail t need current)
  then show ?thesis using assms(2) sum_upd [of t N granted_bits "fc_pc s" "FcLoad need"]
    by (auto simp: acquiring_def granted_total_def)
qed (use assms(2) in \<open>force simp: acquiring_def\<close>)+

lemma acquire_run:
  assumes "(fc_step N weak cap gain)\<^sup>*\<^sup>* s s'" "acquiring N s"
  shows "acquiring N s' \<and> unat (fc_tokens s') + granted_total N s' = unat (fc_tokens s) + granted_total N s"
  using assms by (induction rule: rtranclp_induct) (use acquire_step in force)+

section \<open>Nobody is stuck\<close>

fun storing :: "fc_pc \<Rightarrow> bool" where
  "storing (FcStore _ _) = True"
| "storing _ = False"

definition lock_inv :: "nat \<Rightarrow> fc_state \<Rightarrow> bool" where
  "lock_inv N s \<longleftrightarrow> (\<forall>t<N. storing (fc_pc s t) \<longleftrightarrow> fc_lock s = Some t) \<and> (\<forall>t. fc_lock s = Some t \<longrightarrow> t < N)"

lemma lock_inv_step: "fc_step N weak cap gain s s' \<Longrightarrow> lock_inv N s \<Longrightarrow> lock_inv N s'"
  by (induction rule: fc_step.induct) (auto simp: lock_inv_def)

lemma lock_inv_run: "(fc_step N weak cap gain)\<^sup>*\<^sup>* s s' \<Longrightarrow> lock_inv N s \<Longrightarrow> lock_inv N s'"
  by (induction rule: rtranclp_induct) (auto intro: lock_inv_step)

lemma unfinished_can_step:
  assumes "lock_inv N s" "t < N" "phase (fc_pc s t) \<noteq> 0"
  shows "\<exists>s'. fc_step N False cap gain s s'"
proof (cases "fc_pc s t")
  case (FcRefill need)
  then show ?thesis using fc_step.refill_skip [OF assms(2)] by blast
next
  case (FcStore need v)
  then have "fc_lock s = Some t" using assms(1,2) by (auto simp: lock_inv_def)
  then show ?thesis using fc_step.refill_store [OF assms(2) FcStore] by blast
next
  case (FcLoad need)
  then show ?thesis
    using fc_step.load_enough [OF assms(2) FcLoad] fc_step.load_short [OF assms(2) FcLoad] by (cases "need \<le> fc_tokens s") (auto simp: not_le)
next
  case (FcCas need current)
  then show ?thesis
    using fc_step.cas_ok [OF assms(2) FcCas] fc_step.cas_fail [OF assms(2) FcCas] by (cases "fc_tokens s = current") auto
qed (use assms(3) in auto)

section \<open>The properties\<close>

text \<open>C29. The retry loop of \<open>try_acquire\<close> ends under any interleaving: there is no infinite run of the callers, refills
  included, as long as the exchange does not fail spuriously, and when no caller can move every one of
  them has its answer. An exchange fails only because another caller was served in between.\<close>

theorem acquire_loop_terminates:
  "wf {(s', s). fc_step N False cap gain s s'}
   \<and> (\<forall>s s'. lock_inv N s \<and> (fc_step N False cap gain)\<^sup>*\<^sup>* s s' \<and> (\<nexists>s''. fc_step N False cap gain s' s'')
        \<longrightarrow> (\<forall>t<N. phase (fc_pc s' t) = 0))"
proof
  show "wf {(s', s). fc_step N False cap gain s s'}"
    by (rule wf_subset [OF wf_measures]) (auto dest: fc_step_decreases)
  show "\<forall>s s'. lock_inv N s \<and> (fc_step N False cap gain)\<^sup>*\<^sup>* s s' \<and> (\<nexists>s''. fc_step N False cap gain s' s'')
        \<longrightarrow> (\<forall>t<N. phase (fc_pc s' t) = 0)"
    using lock_inv_run unfinished_can_step by blast
qed

definition two_callers :: fc_state where
  "two_callers = \<lparr>fc_tokens = 100, fc_lock = None, fc_pc = (\<lambda>_. FcLoad 100)(0 := FcRefill 100)\<rparr>"

theorem acquire_loop_terminates_witness:
  "lock_inv 2 two_callers \<and> (\<exists>s'. (fc_step 2 False 100 1)\<^sup>*\<^sup>* two_callers s'
     \<and> (\<nexists>s''. fc_step 2 False 100 1 s' s'') \<and> phase (fc_pc s' 0) = 0 \<and> phase (fc_pc s' 1) = 0)"
proof -
  let ?reached = "{s'. (fc_step 2 False 100 1)\<^sup>*\<^sup>* two_callers s'}"
  have inv: "lock_inv 2 two_callers" by (auto simp: lock_inv_def two_callers_def less_2_cases_iff)
  have "two_callers \<in> ?reached" by simp
  then obtain s' where run: "s' \<in> ?reached" and least: "\<And>s''. (s'', s') \<in> {(s', s). fc_step 2 False 100 1 s s'} \<Longrightarrow> s'' \<notin> ?reached"
    by (rule wfE_min [OF conjunct1 [OF acquire_loop_terminates [of 2 100 1]]]) blast
  have stuck: "\<nexists>s''. fc_step 2 False 100 1 s' s''"
    using run least by (auto intro: rtranclp.rtrancl_into_rtrancl)
  have "\<forall>t<2. phase (fc_pc s' t) = 0"
    using conjunct2 [OF acquire_loop_terminates [of 2 100 1]] inv run stuck by blast
  with inv run stuck show ?thesis by auto
qed

text \<open>C30. Tokens are spent once: while no refill is under way, whatever the interleaving and however often the exchange fails, the
  bits granted to all callers together with the tokens left are the tokens there were.\<close>

theorem tokens_spent_once:
  assumes "acquiring N s" "(fc_step N weak cap gain)\<^sup>*\<^sup>* s s'"
  shows "unat (fc_tokens s') + granted_total N s' = unat (fc_tokens s) + granted_total N s"
  using acquire_run [OF assms(2,1)] by simp

theorem tokens_spent_once_witness:
  "\<exists>s'. (fc_step 1 True 100 1)\<^sup>*\<^sup>* (two_callers\<lparr>fc_pc := \<lambda>_. FcLoad 30\<rparr>) s' \<and> unat (fc_tokens s') + granted_total 1 s' = 100"
proof -
  let ?s = "two_callers\<lparr>fc_pc := \<lambda>_. FcLoad 30\<rparr>"
  let ?s1 = "?s\<lparr>fc_pc := (fc_pc ?s)(0 := FcCas 30 (fc_tokens ?s))\<rparr>"
  have "fc_step 1 True 100 1 ?s ?s1" by (rule fc_step.load_enough) (simp_all add: two_callers_def)
  then have run: "(fc_step 1 True 100 1)\<^sup>*\<^sup>* ?s ?s1" by simp
  have "acquiring 1 ?s" by (simp add: acquiring_def)
  from tokens_spent_once [OF this run] run show ?thesis
    by (intro exI [of _ ?s1]) (simp add: two_callers_def granted_total_def)
qed

lemma full_bucket_refill: "refilled 1 100 100 = 100"
proof -
  have "fl 100 = 100" "fl (100 + 1) = 101" using fl_exact [of 100] fl_exact [of 101] by simp_all
  then have "refilled 1 100 100 = f64_as_u64 100" by (simp add: refilled_def f64_of_u64_def)
  also have "\<dots> = 100" by (simp add: f64_as_u64_def)
  finally show ?thesis .
qed

definition race_state :: "u64 \<Rightarrow> nat option \<Rightarrow> fc_pc \<Rightarrow> fc_pc \<Rightarrow> fc_state" where
  "race_state k l p q = \<lparr>fc_tokens = k, fc_lock = l, fc_pc = (\<lambda>_. FcLoad 100)(0 := p, Suc 0 := q)\<rparr>"

lemma race_state_sel [simp]:
  "fc_tokens (race_state k l p q) = k" "fc_lock (race_state k l p q) = l" "fc_pc (race_state k l p q) 0 = p"
  "fc_pc (race_state k l p q) (Suc 0) = q"
  by (simp_all add: race_state_def)

lemma race_state_upd [simp]:
  "(race_state k l p q)\<lparr>fc_pc := (fc_pc (race_state k l p q))(0 := p')\<rparr> = race_state k l p' q"
  "(race_state k l p q)\<lparr>fc_pc := (fc_pc (race_state k l p q))(Suc 0 := q')\<rparr> = race_state k l p q'"
  "(race_state k l p q)\<lparr>fc_lock := l', fc_pc := (fc_pc (race_state k l p q))(0 := p')\<rparr> = race_state k l' p' q"
  "(race_state k l p q)\<lparr>fc_tokens := k', fc_pc := (fc_pc (race_state k l p q))(0 := p')\<rparr> = race_state k' l p' q"
  "(race_state k l p q)\<lparr>fc_tokens := k', fc_pc := (fc_pc (race_state k l p q))(Suc 0 := q')\<rparr> = race_state k' l p q'"
  "(race_state k l p q)\<lparr>fc_tokens := k', fc_lock := l', fc_pc := (fc_pc (race_state k l p q))(0 := p')\<rparr> = race_state k' l' p' q"
  by (simp_all add: race_state_def fun_upd_twist)

text \<open>C39. A refill that races with an acquisition undoes it. The refill loads the counter, another caller
  takes the tokens, and the refill stores what it had computed: a full bucket of 100 bits grants 200, with a refill that may
  add one bit and added none.\<close>

theorem refill_race_overspends:
  "\<exists>s'. (fc_step 2 False 100 1)\<^sup>*\<^sup>* two_callers s' \<and> granted_total 2 s' = 200 \<and> refilled 1 100 (fc_tokens two_callers) = 100"
proof -
  let ?R = "fc_step 2 False 100 1" and ?s = "\<lambda>k l p q. race_state k l p q"
  let ?s0 = "?s 100 None (FcRefill 100) (FcLoad 100)" and ?s1 = "?s 100 (Some 0) (FcStore 100 100) (FcLoad 100)"
    and ?s2 = "?s 100 (Some 0) (FcStore 100 100) (FcCas 100 100)" and ?s3 = "?s 0 (Some 0) (FcStore 100 100) (FcGranted 100)"
    and ?s4 = "?s 100 None (FcLoad 100) (FcGranted 100)" and ?s5 = "?s 100 None (FcCas 100 100) (FcGranted 100)"
    and ?s6 = "?s 0 None (FcGranted 100) (FcGranted 100)"
  have "?R ?s0 ?s1" using fc_step.refill_load [of 0 2 ?s0 100 1 1 False 100] by (simp add: full_bucket_refill)
  moreover have "?R ?s1 ?s2" using fc_step.load_enough [of 1 2 ?s1 100 False 100 1] by simp
  moreover have "?R ?s2 ?s3" using fc_step.cas_ok [of 1 2 ?s2 100 100 False 100 1] by simp
  moreover have "?R ?s3 ?s4" using fc_step.refill_store [of 0 2 ?s3 100 100 False 100 1] by simp
  moreover have "?R ?s4 ?s5" using fc_step.load_enough [of 0 2 ?s4 100 False 100 1] by simp
  moreover have "?R ?s5 ?s6" using fc_step.cas_ok [of 0 2 ?s5 100 100 False 100 1] by simp
  ultimately have "?R\<^sup>*\<^sup>* ?s0 ?s6" by (meson converse_rtranclp_into_rtranclp rtranclp.rtrancl_refl)
  moreover have "two_callers = ?s0" by (simp add: two_callers_def race_state_def fun_eq_iff)
  moreover have "fc_tokens two_callers = 100" by (simp add: two_callers_def)
  moreover have "{..<2} = {0, Suc 0}" by auto
  then have "granted_total 2 ?s6 = 200" by (simp add: granted_total_def)
  ultimately show ?thesis using full_bucket_refill by (intro exI [of _ ?s6]) simp
qed

end
