(* ===== verification/Python_Values.thy ===== *)
theory Python_Values
  imports F64_Rounding "HOL-Library.AList"
begin

text \<open>
  What the Python package (\<open>src/faultcore\<close>) uses of its language: dynamic values, exceptions as
  results, dictionaries in insertion order, and the conversions \<open>int\<close> and \<open>float\<close>.

  A \<open>str\<close> is a list of characters with code points below 256; on that range \<open>strip\<close> and \<open>lower\<close> are
  closed and given exactly. A \<open>float\<close> is a rational that binary64 represents, or one of the three
  special values; \<open>to_f64\<close> rounds to it, subnormal numbers and overflow included. Exceptions carry
  their class, not their message.
\<close>

section \<open>Values and results\<close>

datatype py_exc =
    ValueError | TypeError | AttributeError | KeyError | OverflowError | StructError | OSError | CalleeError

type_synonym 'a py = "py_exc + 'a"

datatype pyfloat = Fin rat | PosInf | NegInf | NaN

datatype pyval =
    VNone
  | VBool bool
  | VInt int
  | VFloat pyfloat
  | VStr string
  | VBytes bytes
  | VList "pyval list"
  | VTuple "pyval list"
  | VDict "(string \<times> pyval) list"

type_synonym pydict = "(string \<times> pyval) list"

definition py_bind :: "'a py \<Rightarrow> ('a \<Rightarrow> 'b py) \<Rightarrow> 'b py" where
  "py_bind r k = (case r of Inl e \<Rightarrow> Inl e | Inr v \<Rightarrow> k v)"

definition py_guard :: "bool \<Rightarrow> py_exc \<Rightarrow> 'a py \<Rightarrow> 'a py" where
  "py_guard ok e r = (if ok then r else Inl e)"

fun py_map :: "('a \<Rightarrow> 'b py) \<Rightarrow> 'a list \<Rightarrow> 'b list py" where
  "py_map f [] = Inr []"
| "py_map f (x # xs) = py_bind (f x) (\<lambda>y. py_bind (py_map f xs) (\<lambda>ys. Inr (y # ys)))"

text \<open>\<open>d.get(k, default)\<close>, \<open>d.get(k) is not None\<close> and truth.\<close>

definition py_get :: "pydict \<Rightarrow> string \<Rightarrow> pyval \<Rightarrow> pyval" where
  "py_get d k dflt = (case map_of d k of Some v \<Rightarrow> v | None \<Rightarrow> dflt)"

definition py_has :: "pydict \<Rightarrow> string \<Rightarrow> bool" where
  "py_has d k \<longleftrightarrow> py_get d k VNone \<noteq> VNone"

fun py_truth :: "pyval \<Rightarrow> bool" where
  "py_truth VNone = False"
| "py_truth (VBool b) = b"
| "py_truth (VInt i) = (i \<noteq> 0)"
| "py_truth (VFloat f) = (f \<noteq> Fin 0)"
| "py_truth (VStr s) = (s \<noteq> [])"
| "py_truth (VBytes s) = (s \<noteq> [])"
| "py_truth (VList xs) = (xs \<noteq> [])"
| "py_truth (VTuple xs) = (xs \<noteq> [])"
| "py_truth (VDict d) = (d \<noteq> [])"

section \<open>Strings\<close>

definition code_point :: "char \<Rightarrow> nat" where
  "code_point c = of_char c"

definition py_space :: "char \<Rightarrow> bool" where
  "py_space c \<longleftrightarrow> (let n = code_point c in 9 \<le> n \<and> n \<le> 13 \<or> 28 \<le> n \<and> n \<le> 32 \<or> n = 133 \<or> n = 160)"

definition py_strip :: "string \<Rightarrow> string" where
  "py_strip s = rev (dropWhile py_space (rev (dropWhile py_space s)))"

definition py_lower_char :: "char \<Rightarrow> char" where
  "py_lower_char c =
     (let n = code_point c in if 65 \<le> n \<and> n \<le> 90 \<or> 192 \<le> n \<and> n \<le> 214 \<or> 216 \<le> n \<and> n \<le> 222
                        then char_of (n + 32) else c)"

definition py_lower :: "string \<Rightarrow> string" where
  "py_lower s = map py_lower_char s"

definition py_startswith :: "string \<Rightarrow> string \<Rightarrow> bool" where
  "py_startswith s p \<longleftrightarrow> take (length p) s = p"

definition py_endswith :: "string \<Rightarrow> string \<Rightarrow> bool" where
  "py_endswith s p \<longleftrightarrow> length p \<le> length s \<and> drop (length s - length p) s = p"

text \<open>\<open>s[:-n]\<close>, \<open>s.rstrip(c)\<close>, \<open>s.count(c)\<close>.\<close>

definition py_drop_last :: "nat \<Rightarrow> string \<Rightarrow> string" where
  "py_drop_last n s = take (length s - n) s"

definition py_rstrip :: "char \<Rightarrow> string \<Rightarrow> string" where
  "py_rstrip c s = rev (dropWhile (\<lambda>d. d = c) (rev s))"

definition py_count :: "char \<Rightarrow> string \<Rightarrow> nat" where
  "py_count c s = length (filter (\<lambda>d. d = c) s)"

fun py_split :: "char \<Rightarrow> string \<Rightarrow> string list" where
  "py_split c [] = [[]]"
| "py_split c (d # s) = (if d = c then [] # py_split c s else (case py_split c s of [] \<Rightarrow> [[d]] | w # ws \<Rightarrow> (d # w) # ws))"

definition is_ascii :: "string \<Rightarrow> bool" where
  "is_ascii s \<longleftrightarrow> (\<forall>c \<in> set s. code_point c < 128)"

definition ascii_bytes :: "string \<Rightarrow> bytes" where
  "ascii_bytes s = map (\<lambda>c. of_nat (code_point c)) s"

text \<open>\<open>s.encode("utf-8")\<close> for code points below 256.\<close>

definition utf8_encode :: "string \<Rightarrow> bytes" where
  "utf8_encode s = concat (map (\<lambda>c. let n = code_point c in
     if n < 128 then [of_nat n] else [of_nat (192 + n div 64), of_nat (128 + n mod 64)]) s)"

section \<open>Numerals\<close>

definition digit_value :: "nat \<Rightarrow> char \<Rightarrow> nat option" where
  "digit_value base c =
     (let n = code_point c;
          d = (if 48 \<le> n \<and> n \<le> 57 then n - 48 else if 97 \<le> n \<and> n \<le> 102 then n - 87
               else if 65 \<le> n \<and> n \<le> 70 then n - 55 else 99)
      in if d < base then Some d else None)"

text \<open>Digits with single underscores between them; the flag tells whether a digit was just read.\<close>

fun digits_value :: "nat \<Rightarrow> nat \<Rightarrow> bool \<Rightarrow> string \<Rightarrow> nat option" where
  "digits_value base acc seen [] = (if seen then Some acc else None)"
| "digits_value base acc seen (c # s) =
     (if c = CHR ''_'' then if seen then digits_value base acc False s else None
      else case digit_value base c of
        Some d \<Rightarrow> digits_value base (acc * base + d) True s
      | None \<Rightarrow> None)"

definition split_sign :: "string \<Rightarrow> bool \<times> string" where
  "split_sign s = (case s of c # t \<Rightarrow> if c = CHR ''-'' then (True, t) else if c = CHR ''+'' then (False, t) else (False, s)
                   | [] \<Rightarrow> (False, []))"

text \<open>\<open>int(s, base)\<close> for base 10, 16 and 2: a base prefix may precede the digits, and one underscore
  after it; decimal numerals are limited to 4300 digits.\<close>

definition int_literal :: "nat \<Rightarrow> string \<Rightarrow> int option" where
  "int_literal base s =
     (let (neg, t) = split_sign (py_strip s);
          pre = (if base = 16 then ''x'' else if base = 2 then ''b'' else []);
          u = (if pre \<noteq> [] \<and> py_lower (take 2 t) = CHR ''0'' # pre
               then (case drop 2 t of c # r \<Rightarrow> if c = CHR ''_'' then r else c # r | [] \<Rightarrow> [])
               else t)
      in if base = 10 \<and> 4300 < length (filter (\<lambda>c. c \<noteq> CHR ''_'') u) then None
         else map_option (\<lambda>n. if neg then - int n else int n) (digits_value base 0 False u))"

fun py_int :: "pyval \<Rightarrow> int py" where
  "py_int (VInt i) = Inr i"
| "py_int (VBool b) = Inr (if b then 1 else 0)"
| "py_int (VFloat (Fin x)) = Inr (if 0 \<le> x then \<lfloor>x\<rfloor> else \<lceil>x\<rceil>)"
| "py_int (VFloat NaN) = Inl ValueError"
| "py_int (VFloat PosInf) = Inl OverflowError"
| "py_int (VFloat NegInf) = Inl OverflowError"
| "py_int (VStr s) = (case int_literal 10 s of Some i \<Rightarrow> Inr i | None \<Rightarrow> Inl ValueError)"
| "py_int (VBytes b) = (case int_literal 10 (map (\<lambda>w. char_of (unat w)) b) of Some i \<Rightarrow> Inr i | None \<Rightarrow> Inl ValueError)"
| "py_int VNone = Inl TypeError"
| "py_int (VList xs) = Inl TypeError"
| "py_int (VTuple xs) = Inl TypeError"
| "py_int (VDict d) = Inl TypeError"

section \<open>Floating point\<close>

text \<open>Rounding a positive rational to binary64: 53 significant bits, but no bit below \<open>2\<^sup>-\<^sup>1\<^sup>0\<^sup>7\<^sup>4\<close>.\<close>

definition round64 :: "rat \<Rightarrow> rat" where
  "round64 x = (let e = max (rat_exponent x - 52) (- 1074) in of_int (round_half_even (x / 2 powi e)) * 2 powi e)"

definition to_f64 :: "rat \<Rightarrow> pyfloat" where
  "to_f64 x =
     (if x = 0 then Fin 0
      else if 0 < x then (let y = round64 x in if 2 ^ 1024 \<le> y then PosInf else Fin y)
      else (let y = round64 (- x) in if 2 ^ 1024 \<le> y then NegInf else Fin (- y)))"

definition is_digit :: "char \<Rightarrow> bool" where
  "is_digit c \<longleftrightarrow> 48 \<le> code_point c \<and> code_point c \<le> 57"

text \<open>Underscores are allowed between digits only.\<close>

fun underscores_ok :: "bool \<Rightarrow> string \<Rightarrow> bool" where
  "underscores_ok seen [] = True"
| "underscores_ok seen (c # s) =
     (if c = CHR ''_'' then seen \<and> s \<noteq> [] \<and> is_digit (hd s) \<and> underscores_ok False s
      else underscores_ok (is_digit c) s)"

definition decimal_value :: "string \<Rightarrow> nat" where
  "decimal_value s = fold (\<lambda>c n. 10 * n + (code_point c - 48)) s 0"

definition exponent_value :: "string \<Rightarrow> int option" where
  "exponent_value s =
     (case s of
        [] \<Rightarrow> Some 0
      | c # t \<Rightarrow>
          if c \<noteq> CHR ''e'' \<and> c \<noteq> CHR ''E'' then None
          else let (neg, ds) = split_sign t
               in if ds = [] \<or> \<not> list_all is_digit ds then None
                  else Some (if neg then - int (decimal_value ds) else int (decimal_value ds)))"

definition float_literal :: "string \<Rightarrow> pyfloat option" where
  "float_literal s =
     (let t = py_strip s; (neg, u0) = split_sign (filter (\<lambda>c. c \<noteq> CHR ''_'') t); w = py_lower u0 in
      if \<not> underscores_ok False t then None
      else if w = ''inf'' \<or> w = ''infinity'' then Some (if neg then NegInf else PosInf)
      else if w = ''nan'' then Some NaN
      else
        let whole = takeWhile is_digit u0; r = dropWhile is_digit u0;
            (frac, r2) = (case r of c # q \<Rightarrow> if c = CHR ''.'' then (takeWhile is_digit q, dropWhile is_digit q) else ([], r)
                          | [] \<Rightarrow> ([], []))
        in if whole = [] \<and> frac = [] then None
           else map_option
             (\<lambda>e. let x = of_nat (decimal_value (whole @ frac)) * 10 powi (e - int (length frac))
                  in to_f64 (if neg then - x else x))
             (exponent_value r2))"

definition py_float :: "string \<Rightarrow> pyfloat py" where
  "py_float s = (case float_literal s of Some f \<Rightarrow> Inr f | None \<Rightarrow> Inl ValueError)"

text \<open>Comparison (false with NaN) and the product with a positive integer that a float holds exactly.\<close>

fun pf_le :: "pyfloat \<Rightarrow> pyfloat \<Rightarrow> bool" where
  "pf_le NaN y = False"
| "pf_le x NaN = False"
| "pf_le NegInf y = True"
| "pf_le x PosInf = True"
| "pf_le PosInf y = False"
| "pf_le x NegInf = False"
| "pf_le (Fin x) (Fin y) = (x \<le> y)"

fun pf_mul :: "pyfloat \<Rightarrow> int \<Rightarrow> pyfloat" where
  "pf_mul (Fin x) k = to_f64 (x * of_int k)"
| "pf_mul f k = f"

section \<open>Lemmas\<close>

lemma py_bind_simps [simp]: "py_bind (Inl e) k = Inl e" "py_bind (Inr v) k = k v"
  by (simp_all add: py_bind_def)

lemma py_bind_eq_Inr: "py_bind r k = Inr w \<longleftrightarrow> (\<exists>v. r = Inr v \<and> k v = Inr w)"
  by (cases r) simp_all

lemma py_guard_simps [simp]: "py_guard True e r = r" "py_guard False e r = Inl e"
  by (simp_all add: py_guard_def)

lemma py_guard_eq_Inr: "py_guard ok e r = Inr w \<longleftrightarrow> ok \<and> r = Inr w"
  by (simp add: py_guard_def)

lemma py_get_update [simp]: "py_get (AList.update k v d) j dflt = (if j = k then v else py_get d j dflt)"
  by (simp add: py_get_def update_conv)

lemma round64_normal:
  assumes "- 1022 \<le> rat_exponent x" "0 < x"
  shows "round64 x = fl x"
proof -
  have "max (rat_exponent x - 52) (- 1074) = rat_exponent x - 52" using assms(1) by simp
  with assms(2) show ?thesis unfolding round64_def fl_def Let_def by simp
qed

lemma round64_nonneg: "0 \<le> x \<Longrightarrow> 0 \<le> round64 x"
proof -
  assume "0 \<le> x"
  then have "0 \<le> round_half_even (x / 2 powi e)" for e
    using round_half_even_ge_int [of 0 "x / 2 powi e"] by simp
  then show ?thesis by (simp add: round64_def Let_def)
qed

text \<open>Rounding does not cross an integer that binary64 represents.\<close>

lemma round64_le_nat:
  assumes "0 < x" "x \<le> of_nat n" "0 < n" "n \<le> 2 ^ 53"
  shows "round64 x \<le> of_nat n"
proof (cases "- 1022 \<le> rat_exponent x")
  case True
  then have "round64 x \<le> fl (of_nat n)" using assms(1,2) by (simp add: round64_normal fl_mono)
  also have "\<dots> = of_nat n" using assms(4) by (rule fl_exact)
  finally show ?thesis .
next
  case False
  then have e: "max (rat_exponent x - 52) (- 1074) = - 1074" by simp
  have "x < 2 powi (rat_exponent x + 1)" using rat_exponent_bounds(2) [OF assms(1)] .
  also have "\<dots> \<le> (2 :: rat) powi (- 1022)" using False by (simp only: powi2_le_iff)
  finally have "x / 2 powi (- 1074) \<le> 2 powi (- 1022) / 2 powi (- 1074)" by (simp add: divide_right_mono)
  also have "\<dots> = (2 :: rat) powi (- 1022 - - 1074)" by (rule power_int_diff [symmetric]) simp
  also have "\<dots> = of_int (2 ^ 52)" by (simp add: power_int_def)
  finally have "round_half_even (x / 2 powi (- 1074)) \<le> 2 ^ 52" by (rule round_half_even_le_int)
  then have "(of_int (round_half_even (x / 2 powi (- 1074))) :: rat) \<le> of_int (2 ^ 52)" by (simp only: of_int_le_iff)
  then have "round64 x \<le> of_int (2 ^ 52) * 2 powi (- 1074)"
    unfolding round64_def Let_def e by (rule mult_right_mono) simp
  also have "\<dots> = (2 :: rat) powi (52 + - 1074)" by (subst power_int_add) (simp_all add: power_int_def)
  also have "\<dots> \<le> 2 powi 0" by (simp only: powi2_le_iff)
  also have "\<dots> = 1" by simp
  also have "\<dots> \<le> (of_nat n :: rat)" using assms(3) by simp
  finally show ?thesis .
qed

lemma to_f64_bounds:
  assumes "0 \<le> x" "x \<le> of_nat n" "0 < n" "n \<le> 2 ^ 53"
  shows "\<exists>y. to_f64 x = Fin y \<and> 0 \<le> y \<and> y \<le> of_nat n"
proof (cases "x = 0")
  case False
  then have x: "0 < x" using assms(1) by simp
  have le: "round64 x \<le> of_nat n" by (rule round64_le_nat [OF x assms(2-4)])
  also have "\<dots> \<le> of_nat (2 ^ 53)" using assms(4) by (simp only: of_nat_le_iff)
  also have "\<dots> < (2 ^ 1024 :: rat)" by simp
  finally have "\<not> 2 ^ 1024 \<le> round64 x" by simp
  then show ?thesis using x le round64_nonneg [OF assms(1)] by (simp add: to_f64_def Let_def)
qed (simp add: to_f64_def)

lemma py_int_nonneg: "py_int (VFloat f) = Inr i \<Longrightarrow> pf_le (Fin 0) f \<Longrightarrow> 0 \<le> i"
  by (cases f) (auto split: if_splits)

lemma py_int_bounded:
  assumes "py_int (VFloat (Fin y)) = Inr i" "0 \<le> y" "y \<le> of_nat n"
  shows "0 \<le> i \<and> i \<le> int n"
  using assms by (auto simp: floor_le_iff)

lemma rat_exponent_ge_0: "1 \<le> x \<Longrightarrow> 0 \<le> rat_exponent x"
proof (rule ccontr)
  assume "1 \<le> x" "\<not> 0 \<le> rat_exponent x"
  then have "x < 2 powi (rat_exponent x + 1)" using rat_exponent_bounds(2) [of x] by simp
  also have "\<dots> \<le> (2 :: rat) powi 0" using \<open>\<not> 0 \<le> rat_exponent x\<close> by (simp only: powi2_le_iff)
  finally show False using \<open>1 \<le> x\<close> by simp
qed

text \<open>Integers up to \<open>2\<^sup>5\<^sup>3\<close> are floats.\<close>

lemma to_f64_of_nat: "n \<le> 2 ^ 53 \<Longrightarrow> to_f64 (of_nat n) = Fin (of_nat n)"
proof (cases "n = 0")
  case False
  assume n: "n \<le> 2 ^ 53"
  have "1 \<le> (of_nat n :: rat)" using False by simp
  from rat_exponent_ge_0 [OF this] have "round64 (of_nat n) = fl (of_nat n)" using False by (intro round64_normal) simp_all
  also have "\<dots> = of_nat n" using n by (rule fl_exact)
  finally have r: "round64 (of_nat n) = of_nat n" .
  have "(of_nat n :: rat) \<le> of_nat (2 ^ 53)" using n by (simp only: of_nat_le_iff)
  also have "\<dots> < (2 ^ 1024 :: rat)" by simp
  finally show ?thesis using False r by (simp add: to_f64_def)
qed (simp add: to_f64_def)

lemma to_f64_numeral: "(numeral k :: nat) \<le> 2 ^ 53 \<Longrightarrow> to_f64 (numeral k) = Fin (numeral k)"
  using to_f64_of_nat [of "numeral k"] by simp

text \<open>Evaluating string functions on literals.\<close>

lemmas py_string_eval = py_strip_def py_space_def py_lower_def py_lower_char_def code_point_def py_endswith_def py_startswith_def
  py_drop_last_def

lemmas py_number_eval = py_float_def float_literal_def split_sign_def is_digit_def decimal_value_def exponent_value_def to_f64_numeral
  int_literal_def digit_value_def

end
