(* ===== verification/Target_Rule_Helpers.thy ===== *)
theory Target_Rule_Helpers
  imports Python_Values
begin

text \<open>
  Target rules on the Python side (\<open>target_name_helpers.py\<close>, \<open>target_rule_helpers.py\<close>): host names and
  their 32-byte form, addresses, port ranges, and the validation of a rule before it is written. A rule
  is a dictionary. The IDNA codec is given for ASCII names; on other names it is the parameter
  \<open>idna_ext\<close>, with \<^const>\<open>None\<close> for \<open>UnicodeError\<close>.
\<close>

section \<open>Names\<close>

definition TARGET_NAME_MAX_BYTES :: nat where
  "TARGET_NAME_MAX_BYTES = 32"

definition idna_encode :: "(string \<Rightarrow> string option) \<Rightarrow> string \<Rightarrow> string option" where
  "idna_encode idna_ext s =
     (if is_ascii s then
        let labels = py_split (CHR ''.'') s
        in if list_all (\<lambda>l. l \<noteq> [] \<and> length l < 64) (butlast labels) \<and> length (last labels) < 64
           then Some s else None
      else idna_ext s)"

definition normalize_target_name :: "(string \<Rightarrow> string option) \<Rightarrow> string \<Rightarrow> string py" where
  "normalize_target_name idna_ext value =
     (let raw = py_strip value; has_wildcard = py_startswith raw ''*.'' in
      if raw = [] then Inl ValueError
      else if CHR ''*'' \<in> set raw \<and> \<not> has_wildcard then Inl ValueError
      else if py_count (CHR ''*'') raw > 1 then Inl ValueError
      else
        let core = (if has_wildcard then drop 2 raw else raw) in
        if core = [] then Inl ValueError
        else case idna_encode idna_ext core of
          None \<Rightarrow> Inl ValueError
        | Some enc \<Rightarrow>
            let normalized_core = py_rstrip (CHR ''.'') (py_lower enc) in
            if normalized_core = [] then Inl ValueError
            else if has_wildcard \<and> CHR ''.'' \<notin> set normalized_core then Inl ValueError
            else
              let normalized = (if has_wildcard then ''*.'' @ normalized_core else normalized_core)
              in if length normalized > TARGET_NAME_MAX_BYTES then Inl ValueError else Inr normalized)"

definition ljust :: "nat \<Rightarrow> bytes \<Rightarrow> bytes" where
  "ljust n bs = bs @ replicate (n - length bs) 0"

definition encode_target_name_bytes :: "(string \<Rightarrow> string option) \<Rightarrow> pyval \<Rightarrow> bytes py" where
  "encode_target_name_bytes idna_ext value =
     (case value of
        VNone \<Rightarrow> Inr (replicate TARGET_NAME_MAX_BYTES 0)
      | VStr s \<Rightarrow> py_bind (normalize_target_name idna_ext s) (\<lambda>n. Inr (ljust TARGET_NAME_MAX_BYTES (ascii_bytes n)))
      | _ \<Rightarrow> Inl ValueError)"

section \<open>Addresses and ports\<close>

definition rule_int :: "pydict \<Rightarrow> string \<Rightarrow> int \<Rightarrow> int py" where
  "rule_int rule key dflt =
     (case py_int (py_get rule key (VInt dflt)) of
        Inl TypeError \<Rightarrow> Inl ValueError
      | r \<Rightarrow> r)"

text \<open>\<open>bytes(int(v) & 0xFF for v in values)\<close>.\<close>

definition byte_of_value :: "pyval \<Rightarrow> u8 py" where
  "byte_of_value v =
     (case py_int v of Inl TypeError \<Rightarrow> Inl ValueError | Inl e \<Rightarrow> Inl e | Inr i \<Rightarrow> Inr (word_of_int i))"

definition addr16_of_values :: "pyval list \<Rightarrow> bytes py" where
  "addr16_of_values values = py_guard (length values = 16) ValueError (py_map byte_of_value values)"

definition addr16_from_rule :: "pydict \<Rightarrow> bytes py" where
  "addr16_from_rule rule =
     (case py_get rule ''addr'' VNone of
        VNone \<Rightarrow> Inr (replicate 16 0)
      | VBytes raw \<Rightarrow> py_guard (length raw = 16) ValueError (Inr raw)
      | VList values \<Rightarrow> addr16_of_values values
      | VTuple values \<Rightarrow> addr16_of_values values
      | VStr s \<Rightarrow> addr16_of_values (map (\<lambda>c. VStr [c]) s)
      | _ \<Rightarrow> Inl ValueError)"

definition be_bytes4 :: "int \<Rightarrow> bytes" where
  "be_bytes4 v = map (\<lambda>k. word_of_int (v div 256 ^ k)) [3, 2, 1, 0]"

definition normalize_target_address :: "pydict \<Rightarrow> (int \<times> bytes) py" where
  "normalize_target_address rule =
     py_bind (rule_int rule ''ipv4'' 0) (\<lambda>ipv4.
     py_guard (0 \<le> ipv4 \<and> ipv4 \<le> 0xFFFFFFFF) ValueError (
     py_bind (rule_int rule ''kind'' 0) (\<lambda>kind.
     py_bind (rule_int rule ''address_family'' 0) (\<lambda>family0.
     py_guard (family0 \<in> {0, 1, 2}) ValueError (
       let has_addr = py_has rule ''addr'';
           family = (if family0 = 0 \<and> kind \<in> {1, 2} \<and> \<not> has_addr then 1 else family0)
       in if family = 1 then
            if has_addr then py_bind (addr16_from_rule rule) (\<lambda>a. Inr (family, a))
            else Inr (family, be_bytes4 ipv4 @ replicate 12 0)
          else if family = 2 then py_bind (addr16_from_rule rule) (\<lambda>a. Inr (family, a))
          else Inr (0, replicate 16 0))))))"

definition valid_port :: "int \<Rightarrow> bool" where
  "valid_port p \<longleftrightarrow> 0 \<le> p \<and> p \<le> 65535"

definition resolve_port_range :: "pydict \<Rightarrow> (int \<times> int) py" where
  "resolve_port_range rule =
     (let has_port = py_has rule ''port''; has_start = py_has rule ''port_start''; has_end = py_has rule ''port_end'';
          check = (\<lambda>start end'. py_guard (valid_port start \<and> valid_port end' \<and> start \<le> end') ValueError (Inr (start, end')))
      in if has_port \<and> (has_start \<or> has_end) then Inl ValueError
         else if has_start \<noteq> has_end then Inl ValueError
         else if has_start \<and> has_end then
           py_bind (rule_int rule ''port_start'' 0) (\<lambda>start. py_bind (rule_int rule ''port_end'' 0) (check start))
         else py_bind (rule_int rule ''port'' 0) (\<lambda>port. if port = 0 then Inr (0, 0) else check port port))"

definition validate_target_rule :: "(string \<Rightarrow> string option) \<Rightarrow> pydict \<Rightarrow> unit py" where
  "validate_target_rule idna_ext rule =
     py_bind (rule_int rule ''enabled'' 0) (\<lambda>enabled.
     py_guard (enabled \<in> {0, 1}) ValueError (
     py_bind (rule_int rule ''priority'' 100) (\<lambda>priority.
     py_guard (0 \<le> priority \<and> priority \<le> 0xFFFFFFFFFFFFFFFF) ValueError (
     py_bind (rule_int rule ''kind'' 0) (\<lambda>kind.
     py_guard (kind \<in> {0, 1, 2}) ValueError (
     py_bind (encode_target_name_bytes idna_ext (py_get rule ''hostname'' VNone)) (\<lambda>hostname_bytes.
     py_bind (encode_target_name_bytes idna_ext (py_get rule ''sni'' VNone)) (\<lambda>sni_bytes.
       let has_hostname = list_ex (\<lambda>b. b \<noteq> 0) hostname_bytes; has_sni = list_ex (\<lambda>b. b \<noteq> 0) sni_bytes in
       py_guard (\<not> (has_hostname \<and> has_sni)) ValueError (
       py_guard (\<not> ((has_hostname \<or> has_sni) \<and> kind \<noteq> 0)) ValueError (
       py_guard (\<not> (enabled = 1 \<and> \<not> (has_hostname \<or> has_sni) \<and> kind = 0)) ValueError (
       py_bind (normalize_target_address rule) (\<lambda>(address_family, _).
       py_bind (rule_int rule ''prefix_len'' 0) (\<lambda>prefix_len.
       py_guard (0 \<le> prefix_len \<and> prefix_len \<le> (if address_family = 2 then 128 else 32)) ValueError (
       py_bind (rule_int rule ''protocol'' 0) (\<lambda>protocol.
       py_guard (protocol \<in> {0, 1, 2}) ValueError (
       py_bind (resolve_port_range rule) (\<lambda>_. Inr ())))))))))))))))))"

section \<open>Lemmas\<close>

lemma length_ljust [simp]: "length bs \<le> n \<Longrightarrow> length (ljust n bs) = n"
  by (simp add: ljust_def)

lemma normalize_target_name_short: "normalize_target_name ext s = Inr n \<Longrightarrow> n \<noteq> [] \<and> length n \<le> 32"
  by (auto simp: normalize_target_name_def TARGET_NAME_MAX_BYTES_def Let_def split: if_splits option.splits)

lemma length_encode_target_name:
  "encode_target_name_bytes ext v = Inr bs \<Longrightarrow> length bs = 32"
  using normalize_target_name_short [of ext]
  by (auto simp: encode_target_name_bytes_def TARGET_NAME_MAX_BYTES_def py_bind_eq_Inr ascii_bytes_def split: pyval.splits)

lemma length_py_map: "py_map f xs = Inr ys \<Longrightarrow> length ys = length xs"
  by (induction xs arbitrary: ys) (auto simp: py_bind_eq_Inr)

lemma length_addr16: "addr16_from_rule rule = Inr a \<Longrightarrow> length a = 16"
  by (auto simp: addr16_from_rule_def addr16_of_values_def py_guard_eq_Inr dest: length_py_map split: pyval.splits)

lemma normalize_target_address_shape:
  "normalize_target_address rule = Inr (f, a) \<Longrightarrow> length a = 16 \<and> f \<in> {0, 1, 2}"
  by (auto simp: normalize_target_address_def py_bind_eq_Inr py_guard_eq_Inr Let_def be_bytes4_def
      dest: length_addr16 split: if_splits)

lemma resolve_port_range_bounds:
  "resolve_port_range rule = Inr (s, e) \<Longrightarrow> 0 \<le> s \<and> s \<le> e \<and> e \<le> 65535"
  by (auto simp: resolve_port_range_def py_bind_eq_Inr py_guard_eq_Inr valid_port_def Let_def split: if_splits)

end
