(* ===== verification/Profile_Parsers.thy ===== *)
theory Profile_Parsers
  imports Target_Rule_Helpers
begin

text \<open>
  The parsers of user-facing fault profiles (\<open>profile_parsers.py\<close>): durations, sizes, rates, losses,
  seeds and ports given as strings, and the builders that turn the arguments of a decorator or a policy
  into dictionaries of integers. Arguments are dynamic values; a byte string where the code
  expects a \<open>str\<close> counts as a \<open>TypeError\<close>. The module \<open>ipaddress\<close> and the IDNA codec are the fields of
  \<open>PyLib\<close>: an address is its version (true for four) and its packed bytes, a network also its prefix length.
\<close>

record PyLib =
  pl_idna :: "string \<Rightarrow> string option"
  pl_ip_address :: "pyval \<Rightarrow> (bool \<times> bytes) option"
  pl_ip_network :: "pyval \<Rightarrow> (bool \<times> bytes \<times> nat) option"

section \<open>Scalars\<close>

definition stripped :: "pyval \<Rightarrow> string py" where
  "stripped v = (case v of VStr s \<Rightarrow> Inr (py_strip s) | VBytes b \<Rightarrow> Inl TypeError | _ \<Rightarrow> Inl AttributeError)"

definition non_empty_normalized :: "pyval \<Rightarrow> string py" where
  "non_empty_normalized v =
     py_bind (stripped v) (\<lambda>s. let n = py_lower s in py_guard (n \<noteq> []) ValueError (Inr n))"

definition ensure_range :: "pyfloat \<Rightarrow> pyfloat \<Rightarrow> pyfloat \<Rightarrow> 'a py \<Rightarrow> 'a py" where
  "ensure_range value lo hi r = py_guard (pf_le lo value \<and> pf_le value hi) ValueError r"

definition parse_duration :: "pyval \<Rightarrow> int py" where
  "parse_duration t =
     py_bind (non_empty_normalized t) (\<lambda>n.
       if py_endswith n ''ms'' then
         py_bind (py_float (py_drop_last 2 n)) (\<lambda>value. ensure_range value (Fin 0) PosInf (py_int (VFloat value)))
       else if py_endswith n ''s'' then
         py_bind (py_float (py_drop_last 1 n)) (\<lambda>value. ensure_range value (Fin 0) PosInf (py_int (VFloat (pf_mul value 1000))))
       else Inl ValueError)"

fun match_suffix_multiplier :: "string \<Rightarrow> (string \<times> int) list \<Rightarrow> (string \<times> int) option" where
  "match_suffix_multiplier value [] = None"
| "match_suffix_multiplier value ((suffix, k) # ms) =
     (if py_endswith value suffix then Some (py_drop_last (length suffix) value, k) else match_suffix_multiplier value ms)"

definition RATE_SUFFIX_MULTIPLIERS :: "(string \<times> int) list" where
  "RATE_SUFFIX_MULTIPLIERS = [(''gbps'', 1000000000), (''mbps'', 1000000), (''kbps'', 1000), (''bps'', 1)]"

definition SIZE_SUFFIX_MULTIPLIERS :: "(string \<times> int) list" where
  "SIZE_SUFFIX_MULTIPLIERS =
     [(''gb'', 1000000000), (''mb'', 1000000), (''kb'', 1000),
      (''gbps'', 1000000000), (''mbps'', 1000000), (''kbps'', 1000), (''bps'', 1)]"

definition parse_size :: "pyval \<Rightarrow> int py" where
  "parse_size t =
     py_bind (non_empty_normalized t) (\<lambda>n.
       case match_suffix_multiplier n SIZE_SUFFIX_MULTIPLIERS of
         Some (value_str, k) \<Rightarrow>
           py_bind (py_float value_str) (\<lambda>value. ensure_range value (Fin 0) PosInf (py_int (VFloat (pf_mul value k))))
       | None \<Rightarrow> Inl ValueError)"

text \<open>\<open>float(value) < 0\<close> is the only test of a rate, so NaN reaches the conversion to \<open>int\<close>.\<close>

definition rate_to_bps :: "string \<Rightarrow> int \<Rightarrow> int py" where
  "rate_to_bps value k =
     py_bind (py_float value) (\<lambda>f.
       py_guard (\<not> (pf_le f (Fin 0) \<and> f \<noteq> Fin 0)) ValueError (py_int (VFloat (pf_mul f k))))"

definition parse_rate :: "pyval \<Rightarrow> int py" where
  "parse_rate rate =
     (case rate of
        VStr _ \<Rightarrow>
          py_bind (non_empty_normalized rate) (\<lambda>n.
            case match_suffix_multiplier n RATE_SUFFIX_MULTIPLIERS of
              Some (value, k) \<Rightarrow> rate_to_bps value k
            | None \<Rightarrow> Inl ValueError)
      | _ \<Rightarrow> Inl TypeError)"

definition parse_packet_loss :: "pyval \<Rightarrow> int py" where
  "parse_packet_loss loss =
     (case loss of
        VStr _ \<Rightarrow>
          py_bind (non_empty_normalized loss) (\<lambda>raw.
            if py_endswith raw ''%'' then
              py_bind (py_float (py_drop_last 1 raw)) (\<lambda>value. ensure_range value (Fin 0) (Fin 100) (py_int (VFloat (pf_mul value 10000))))
            else if py_endswith raw ''ppm'' then
              py_bind (py_float (py_drop_last 3 raw)) (\<lambda>value. ensure_range value (Fin 0) (Fin 1000000) (py_int (VFloat value)))
            else Inl ValueError)
      | _ \<Rightarrow> Inl TypeError)"

definition parse_int_value :: "nat \<Rightarrow> string \<Rightarrow> int py" where
  "parse_int_value base s = (case int_literal base s of Some i \<Rightarrow> Inr i | None \<Rightarrow> Inl ValueError)"

definition parse_burst_loss :: "pyval \<Rightarrow> int py" where
  "parse_burst_loss value =
     py_bind (non_empty_normalized value) (\<lambda>n.
     py_bind (parse_int_value 10 n) (\<lambda>i. py_guard (0 \<le> i) ValueError (Inr i)))"

definition as_non_negative_int :: "pyval \<Rightarrow> int py" where
  "as_non_negative_int v = py_bind (py_int v) (\<lambda>i. py_guard (0 \<le> i) ValueError (Inr i))"

definition parse_seed :: "pyval \<Rightarrow> int py" where
  "parse_seed value =
     (case value of
        VInt i \<Rightarrow> as_non_negative_int value
      | VBool b \<Rightarrow> as_non_negative_int value
      | VStr s \<Rightarrow>
          let n = py_strip s in
          if py_startswith n ''0x'' \<or> py_startswith n ''0X'' then parse_int_value 16 n
          else if py_startswith n ''0b'' \<or> py_startswith n ''0B'' then parse_int_value 2 n
          else py_bind (parse_int_value 10 n) (\<lambda>i. as_non_negative_int (VInt i))
      | _ \<Rightarrow> Inl TypeError)"

definition parse_single_port :: "string \<Rightarrow> int py" where
  "parse_single_port raw = py_bind (parse_int_value 10 raw) (\<lambda>p. py_guard (valid_port p) ValueError (Inr p))"

text \<open>\<open>s.split(sep, 1)\<close> when \<open>sep\<close> occurs.\<close>

fun split_once :: "string \<Rightarrow> string \<Rightarrow> (string \<times> string) option" where
  "split_once sep [] = None"
| "split_once sep (c # s) =
     (if py_startswith (c # s) sep then Some ([], drop (length sep) (c # s))
      else map_option (\<lambda>(a, b). (c # a, b)) (split_once sep s))"

definition parse_port :: "pyval \<Rightarrow> (int \<times> int option \<times> int option) py" where
  "parse_port value =
     (let of_int = (\<lambda>i. py_guard (valid_port i) ValueError (Inr (i, None, None))) in
      case value of
        VInt i \<Rightarrow> of_int i
      | VBool b \<Rightarrow> of_int (if b then 1 else 0)
      | VStr _ \<Rightarrow>
          py_bind (non_empty_normalized value) (\<lambda>n.
            case split_once ''-'' n of
              Some (a, b) \<Rightarrow>
                py_bind (parse_single_port a) (\<lambda>start. py_bind (parse_single_port b) (\<lambda>end'.
                  py_guard (start \<le> end') ValueError (Inr (0, Some start, Some end'))))
            | None \<Rightarrow>
                if CHR '','' \<in> set n then Inl ValueError
                else py_bind (parse_single_port n) (\<lambda>p. Inr (p, None, None)))
      | _ \<Rightarrow> Inl TypeError)"

text \<open>\<open>list(dict.fromkeys(xs))\<close>.\<close>

definition unique_in_order :: "'a list \<Rightarrow> 'a list" where
  "unique_in_order xs = rev (remdups (rev xs))"

definition parse_port_list :: "pyval \<Rightarrow> int list option py" where
  "parse_port_list value =
     (case value of
        VNone \<Rightarrow> Inr None
      | VInt i \<Rightarrow> Inr None
      | VBool b \<Rightarrow> Inr None
      | VStr _ \<Rightarrow>
          py_bind (non_empty_normalized value) (\<lambda>n.
            if CHR '','' \<notin> set n then Inr None
            else
              let parts = map py_strip (py_split (CHR '','') n) in
              py_guard ([] \<notin> set parts) ValueError
                (py_bind (py_map parse_single_port parts) (\<lambda>ports. Inr (Some (unique_in_order ports)))))
      | _ \<Rightarrow> Inl TypeError)"

section \<open>Profiles\<close>

text \<open>An entry of a profile, when its argument is given.\<close>

definition opt_entry :: "string \<Rightarrow> (pyval \<Rightarrow> int py) \<Rightarrow> pyval \<Rightarrow> pydict py" where
  "opt_entry key parse v = (if v = VNone then Inr [] else py_bind (parse v) (\<lambda>i. Inr [(key, VInt i)]))"

definition concat_entries :: "pydict py list \<Rightarrow> pydict py" where
  "concat_entries es = py_bind (py_map (\<lambda>e. e) es) (\<lambda>ds. Inr (concat ds))"

definition build_timeout_profile :: "pyval \<Rightarrow> pyval \<Rightarrow> pydict py" where
  "build_timeout_profile connect recv =
     concat_entries [opt_entry ''connect_ms'' parse_duration connect, opt_entry ''recv_ms'' parse_duration recv]"

definition build_direction_profile :: "pyval \<Rightarrow> pyval \<Rightarrow> pyval \<Rightarrow> pyval \<Rightarrow> pyval \<Rightarrow> pydict py" where
  "build_direction_profile latency jitter packet_loss burst_loss rate =
     concat_entries
       [opt_entry ''latency'' parse_duration latency, opt_entry ''jitter'' parse_duration jitter,
        opt_entry ''packet_loss_ppm'' parse_packet_loss packet_loss, opt_entry ''burst_loss'' parse_burst_loss burst_loss,
        opt_entry ''rate'' parse_rate rate]"

definition build_correlated_loss_profile :: "pyval \<Rightarrow> pyval \<Rightarrow> pyval \<Rightarrow> pyval \<Rightarrow> pydict py" where
  "build_correlated_loss_profile p_good_to_bad p_bad_to_good loss_good loss_bad =
     py_bind (parse_packet_loss p_good_to_bad) (\<lambda>gb. py_bind (parse_packet_loss p_bad_to_good) (\<lambda>bg.
     py_bind (parse_packet_loss loss_good) (\<lambda>lg. py_bind (parse_packet_loss loss_bad) (\<lambda>lb.
       Inr [(''enabled'', VInt 1), (''p_good_to_bad_ppm'', VInt gb), (''p_bad_to_good_ppm'', VInt bg),
            (''loss_good_ppm'', VInt lg), (''loss_bad_ppm'', VInt lb)]))))"

definition parse_error_kind :: "pyval \<Rightarrow> int py" where
  "parse_error_kind kind =
     py_bind (stripped kind) (\<lambda>s.
       case map_of [(''reset'', 1), (''refused'', 2), (''unreachable'', 3)] (py_lower s) of
         Some k \<Rightarrow> Inr k
       | None \<Rightarrow> Inl ValueError)"

definition build_connection_error_profile :: "pyval \<Rightarrow> pyval \<Rightarrow> pydict py" where
  "build_connection_error_profile kind prob =
     py_bind (parse_error_kind kind) (\<lambda>k. py_bind (parse_packet_loss prob) (\<lambda>p.
       Inr [(''kind'', VInt k), (''prob_ppm'', VInt p)]))"

definition build_half_open_profile :: "pyval \<Rightarrow> pyval \<Rightarrow> pydict py" where
  "build_half_open_profile after error =
     py_bind (parse_size after) (\<lambda>threshold.
     py_guard (0 < threshold) ValueError
       (py_bind (parse_error_kind error) (\<lambda>k. Inr [(''after'', VInt threshold), (''err_kind'', VInt k)])))"

definition build_packet_duplicate_profile :: "pyval \<Rightarrow> pyval \<Rightarrow> pydict py" where
  "build_packet_duplicate_profile prob max_extra =
     py_bind (py_int max_extra) (\<lambda>extra.
     py_guard (0 < extra) ValueError
       (py_bind (parse_packet_loss prob) (\<lambda>p. Inr [(''prob_ppm'', VInt p), (''max_extra'', VInt extra)])))"

definition build_packet_reorder_profile :: "pyval \<Rightarrow> pyval \<Rightarrow> pyval \<Rightarrow> pydict py" where
  "build_packet_reorder_profile prob max_delay window =
     py_bind (parse_duration max_delay) (\<lambda>delay_ms. py_bind (py_int window) (\<lambda>reorder_window'.
     py_guard (0 < reorder_window') ValueError
       (py_bind (parse_packet_loss prob) (\<lambda>p.
         Inr [(''prob_ppm'', VInt p), (''max_delay_ns'', VInt (delay_ms * 1000000)), (''window'', VInt reorder_window')]))))"

definition MUTATION_TYPE_MAP :: "(string \<times> int) list" where
  "MUTATION_TYPE_MAP =
     [(''none'', 0), (''truncate'', 1), (''corrupt_bytes'', 2), (''inject_bytes'', 3), (''replace_pattern'', 4),
      (''corrupt_encoding'', 5), (''swap_bytes'', 6)]"

definition MUTATION_TARGET_MAP :: "(string \<times> int) list" where
  "MUTATION_TARGET_MAP =
     [(''both'', 0), (''uplink'', 1), (''uplink_only'', 1), (''downlink'', 2), (''downlink_only'', 2)]"

text \<open>A name looked up in a table, in lower case and without surrounding space.\<close>

definition parse_named :: "(string \<times> int) list \<Rightarrow> pyval \<Rightarrow> int py" where
  "parse_named tab value =
     py_bind (non_empty_normalized value) (\<lambda>n. case map_of tab n of Some k \<Rightarrow> Inr k | None \<Rightarrow> Inl ValueError)"

definition parse_mutation_type :: "pyval \<Rightarrow> int py" where
  "parse_mutation_type = parse_named MUTATION_TYPE_MAP"

definition parse_mutation_target :: "pyval \<Rightarrow> int py" where
  "parse_mutation_target = parse_named MUTATION_TARGET_MAP"

definition parse_mutation_bytes :: "nat \<Rightarrow> pyval \<Rightarrow> (bytes \<times> int) py" where
  "parse_mutation_bytes max_len value =
     (let clip = (\<lambda>d. let c = take max_len d in Inr (c, int (length c))) in
      case value of
        VNone \<Rightarrow> Inr ([], 0)
      | VBytes d \<Rightarrow> clip d
      | VStr s \<Rightarrow> clip (utf8_encode s)
      | _ \<Rightarrow> Inl TypeError)"

definition size_or_zero :: "pyval \<Rightarrow> int py" where
  "size_or_zero v = (if v = VNone then Inr 0 else parse_size v)"

definition count_or_zero :: "pyval \<Rightarrow> int py" where
  "count_or_zero v = as_non_negative_int (if py_truth v then v else VInt 0)"

definition build_payload_mutation_profile :: "pydict \<Rightarrow> pydict py" where
  "build_payload_mutation_profile args =
     (let a = (\<lambda>k. py_get args k VNone) in
      py_bind (parse_mutation_bytes 64 (a ''inject_data'')) (\<lambda>(inject_bytes, inject_len).
      py_bind (parse_mutation_bytes 32 (a ''replace_find'')) (\<lambda>(find_bytes, find_len).
      py_bind (parse_mutation_bytes 32 (a ''replace_with'')) (\<lambda>(with_bytes, with_len).
      py_bind (parse_packet_loss (py_get args ''prob'' (VStr ''100%''))) (\<lambda>prob.
      py_bind (parse_mutation_type (a ''type'')) (\<lambda>type'.
      py_bind (parse_mutation_target (py_get args ''target'' (VStr ''both''))) (\<lambda>target.
      py_bind (size_or_zero (a ''truncate_size'')) (\<lambda>truncate_size.
      py_bind (count_or_zero (a ''corrupt_count'')) (\<lambda>corrupt_count.
      py_bind (parse_seed (if py_truth (a ''corrupt_seed'') then a ''corrupt_seed'' else VInt 0)) (\<lambda>corrupt_seed.
      py_bind (count_or_zero (a ''inject_position'')) (\<lambda>inject_position.
      py_bind (count_or_zero (a ''swap_pos1'')) (\<lambda>swap_pos1.
      py_bind (count_or_zero (a ''swap_pos2'')) (\<lambda>swap_pos2.
      py_bind (size_or_zero (a ''min_size'')) (\<lambda>min_size.
      py_bind (size_or_zero (a ''max_size'')) (\<lambda>max_size.
      py_bind (as_non_negative_int (py_get args ''every_n_packets'' (VInt 1))) (\<lambda>every_n_packets.
      py_bind (parse_size (py_get args ''max_buffer_size'' (VStr ''64kb''))) (\<lambda>max_buffer_size.
        Inr [(''enabled'', VInt (if py_truth (a ''enabled'') then 1 else 0)), (''prob_ppm'', VInt prob), (''type'', VInt type'),
             (''target'', VInt target), (''truncate_size'', VInt truncate_size), (''corrupt_count'', VInt corrupt_count),
             (''corrupt_seed'', VInt corrupt_seed), (''inject_position'', VInt inject_position),
             (''inject_data'', VBytes inject_bytes), (''inject_len'', VInt inject_len),
             (''replace_find'', VBytes find_bytes), (''replace_find_len'', VInt find_len),
             (''replace_with'', VBytes with_bytes), (''replace_with_len'', VInt with_len),
             (''swap_pos1'', VInt swap_pos1), (''swap_pos2'', VInt swap_pos2), (''min_size'', VInt min_size),
             (''max_size'', VInt max_size), (''every_n_packets'', VInt every_n_packets),
             (''dry_run'', VInt (if py_truth (a ''dry_run'') then 1 else 0)),
             (''max_buffer_size'', VInt max_buffer_size)])))))))))))))))))"

definition build_dns_profile :: "pyval \<Rightarrow> pyval \<Rightarrow> pyval \<Rightarrow> pydict py" where
  "build_dns_profile delay timeout nxdomain =
     concat_entries
       [opt_entry ''delay_ms'' parse_duration delay, opt_entry ''timeout_ms'' parse_duration timeout,
        opt_entry ''nxdomain_ppm'' parse_packet_loss nxdomain]"

section \<open>Schedules and session budgets\<close>

definition duration_ms_to_ns :: "pyval \<Rightarrow> int py" where
  "duration_ms_to_ns d = py_bind (parse_duration d) (\<lambda>ms. Inr (ms * 1000000))"

definition schedule_profile :: "int \<Rightarrow> int \<Rightarrow> int \<Rightarrow> pydict" where
  "schedule_profile ty a b =
     [(''schedule_type'', VInt ty), (''param_a_ns'', VInt a), (''param_b_ns'', VInt b), (''param_c_ns'', VInt 0)]"

definition build_schedule_profile :: "pydict \<Rightarrow> pydict py" where
  "build_schedule_profile args =
     (let a = (\<lambda>k. py_get args k VNone) in
      py_bind (non_empty_normalized (py_get args ''kind'' (VStr []))) (\<lambda>kind.
        if kind = ''spike'' then
          py_guard (a ''every'' \<noteq> VNone \<and> a ''duration'' \<noteq> VNone) ValueError (
          py_bind (duration_ms_to_ns (a ''every'')) (\<lambda>cycle_ns. py_bind (duration_ms_to_ns (a ''duration'')) (\<lambda>active_ns.
          py_guard (0 < cycle_ns \<and> 0 < active_ns \<and> active_ns \<le> cycle_ns) ValueError
            (Inr (schedule_profile 2 cycle_ns active_ns)))))
        else if kind = ''flapping'' then
          py_guard (a ''on'' \<noteq> VNone \<and> a ''off'' \<noteq> VNone) ValueError (
          py_bind (duration_ms_to_ns (a ''on'')) (\<lambda>on_ns. py_bind (duration_ms_to_ns (a ''off'')) (\<lambda>off_ns.
          py_guard (0 < on_ns \<and> 0 < off_ns) ValueError (Inr (schedule_profile 3 on_ns off_ns)))))
        else if kind = ''ramp'' then
          py_guard (a ''ramp'' \<noteq> VNone) ValueError (
          py_bind (duration_ms_to_ns (a ''ramp'')) (\<lambda>ramp_ns.
          py_guard (0 < ramp_ns) ValueError (Inr (schedule_profile 1 ramp_ns 0))))
        else Inl ValueError))"

text \<open>\<open>max_ops <= 0\<close>.\<close>

definition not_positive :: "pyval \<Rightarrow> bool py" where
  "not_positive v =
     (case v of VInt i \<Rightarrow> Inr (i \<le> 0) | VBool b \<Rightarrow> Inr (\<not> b) | VFloat f \<Rightarrow> Inr (pf_le f (Fin 0)) | _ \<Rightarrow> Inl TypeError)"

definition max_ops_entry :: "pyval \<Rightarrow> pydict py" where
  "max_ops_entry v =
     (if v = VNone then Inr []
      else py_bind (not_positive v) (\<lambda>np. py_guard (\<not> np) ValueError (Inr [(''max_ops'', v)])))"

definition build_session_budget_profile :: "pydict \<Rightarrow> pydict py" where
  "build_session_budget_profile args =
     (let a = (\<lambda>k. py_get args k VNone) in
      py_bind (concat_entries
        [opt_entry ''max_bytes_tx'' parse_size (a ''max_tx''), opt_entry ''max_bytes_rx'' parse_size (a ''max_rx''),
         max_ops_entry (a ''max_ops''), opt_entry ''max_duration'' parse_duration (a ''max_duration'')]) (\<lambda>profile.
      py_guard (profile \<noteq> []) ValueError (
      py_bind (non_empty_normalized (py_get args ''action'' (VStr ''drop''))) (\<lambda>action.
        if action = ''drop'' then
          py_guard (a ''budget_timeout'' = VNone \<and> a ''error'' = VNone) ValueError (Inr (profile @ [(''action'', VInt 1)]))
        else if action = ''timeout'' then
          py_guard (a ''budget_timeout'' \<noteq> VNone) ValueError (
          py_bind (parse_duration (a ''budget_timeout'')) (\<lambda>timeout_ms.
          py_guard (0 < timeout_ms \<and> a ''error'' = VNone) ValueError
            (Inr (profile @ [(''action'', VInt 2), (''budget_timeout'', VInt timeout_ms)]))))
        else if action = ''connection_error'' then
          py_bind (parse_error_kind (if py_truth (a ''error'') then a ''error'' else VStr ''reset'')) (\<lambda>k.
          py_guard (a ''budget_timeout'' = VNone) ValueError
            (Inr (profile @ [(''action'', VInt 3), (''error_kind'', VInt k)])))
        else Inl ValueError))))"

section \<open>Targets\<close>

definition parse_target_protocol :: "pyval \<Rightarrow> int py" where
  "parse_target_protocol protocol' =
     (if protocol' = VNone then Inr 0 else parse_named [(''any'', 0), (''tcp'', 1), (''udp'', 2)] protocol')"

definition parse_target_host_port :: "string \<Rightarrow> (string \<times> int) py" where
  "parse_target_host_port raw =
     (if raw = [] then Inl ValueError
      else if py_startswith raw ''['' then
        (case split_once '']'' raw of
           None \<Rightarrow> Inl ValueError
         | Some (before, tail) \<Rightarrow>
             let host = drop 1 before in
             if tail = [] then Inr (host, 0)
             else if \<not> py_startswith tail '':'' then Inl ValueError
             else py_bind (parse_int_value 10 (drop 1 tail)) (\<lambda>p. Inr (host, p)))
      else if py_count (CHR '':'') raw > 1 then Inl ValueError
      else case split_once '':'' raw of
        Some (host, port_str) \<Rightarrow> py_bind (parse_int_value 10 port_str) (\<lambda>p. Inr (host, p))
      | None \<Rightarrow> Inr (raw, 0))"

text \<open>The protocol, the host or the network, and the port of a target string.\<close>

definition parse_target_string ::
  "pyval \<Rightarrow> int \<Rightarrow> int \<Rightarrow> int option \<Rightarrow> int option \<Rightarrow> (int \<times> string option \<times> string option \<times> int) py" where
  "parse_target_string target parsed_protocol parsed_port port_start' port_end' =
     py_bind (stripped target) (\<lambda>raw0.
     py_guard (raw0 \<noteq> []) ValueError (
     py_bind (case split_once ''://'' raw0 of
         Some (proto_raw, rest) \<Rightarrow>
           py_bind (parse_target_protocol (VStr proto_raw)) (\<lambda>p.
             py_guard (\<not> (parsed_protocol \<noteq> 0 \<and> parsed_protocol \<noteq> p)) ValueError (Inr (p, rest)))
       | None \<Rightarrow> Inr (parsed_protocol, raw0)) (\<lambda>(proto, raw).
       if CHR ''/'' \<in> set raw then Inr (proto, None, Some raw, parsed_port)
       else
         py_bind (parse_target_host_port raw) (\<lambda>(host, target_port').
         py_guard (\<not> (parsed_port \<noteq> 0 \<and> target_port' \<noteq> 0 \<and> parsed_port \<noteq> target_port')) ValueError (
         py_guard (\<not> (target_port' \<noteq> 0 \<and> (port_start' \<noteq> None \<or> port_end' \<noteq> None))) ValueError
           (Inr (proto, Some host, None, if target_port' \<noteq> 0 then target_port' else parsed_port)))))))"

definition target_profile_base ::
  "int \<Rightarrow> int \<Rightarrow> int \<Rightarrow> int \<Rightarrow> int \<Rightarrow> int \<Rightarrow> int \<Rightarrow> pyval list \<Rightarrow> pydict" where
  "target_profile_base kind' ip prefix_len' port' protocol' priority' family' addr' =
     [(''enabled'', VInt 1), (''kind'', VInt kind'), (''ipv4'', VInt ip), (''prefix_len'', VInt prefix_len'),
      (''port'', VInt port'), (''protocol'', VInt protocol'), (''priority'', VInt priority'),
      (''address_family'', VInt family'), (''addr'', VList addr')]"

definition be_value :: "bytes \<Rightarrow> int" where
  "be_value bs = fold (\<lambda>b n. 256 * n + uint b) bs 0"

definition network_target_profile :: "bool \<times> bytes \<times> nat \<Rightarrow> int \<Rightarrow> int \<Rightarrow> int \<Rightarrow> int \<Rightarrow> pydict" where
  "network_target_profile network kind' port' protocol' priority' =
     (case network of (is_ipv4, packed, prefixlen) \<Rightarrow>
        target_profile_base kind' (if is_ipv4 then be_value packed else 0) (int prefixlen) port' protocol' priority'
          (if is_ipv4 then 1 else 2)
          (map (\<lambda>b. VInt (uint b)) (packed @ replicate (16 - length packed) 0)))"

definition semantic_target_profile :: "string option \<Rightarrow> string option \<Rightarrow> int \<Rightarrow> int \<Rightarrow> int \<Rightarrow> pydict" where
  "semantic_target_profile hostname' sni' port' protocol' priority' =
     target_profile_base 0 0 0 port' protocol' priority' 0 (replicate 16 (VInt 0))
     @ (case hostname' of Some h \<Rightarrow> [(''hostname'', VStr h)] | None \<Rightarrow> [])
     @ (case sni' of Some s \<Rightarrow> [(''sni'', VStr s)] | None \<Rightarrow> [])"

definition apply_port_range :: "int option \<Rightarrow> int option \<Rightarrow> pydict \<Rightarrow> pydict" where
  "apply_port_range port_start' port_end' profile =
     (case (port_start', port_end') of
        (Some s, Some e) \<Rightarrow> profile @ [(''port_start'', VInt s), (''port_end'', VInt e)]
      | _ \<Rightarrow> profile)"

definition parse_priority :: "pyval \<Rightarrow> int py" where
  "parse_priority p =
     (if p = VNone then Inr 100
      else py_bind (py_int p) (\<lambda>i. py_guard (0 \<le> i \<and> i \<le> 65535) ValueError (Inr i)))"

definition optional_name :: "PyLib \<Rightarrow> pyval \<Rightarrow> string option py" where
  "optional_name lib v =
     (case v of
        VNone \<Rightarrow> Inr None
      | VStr s \<Rightarrow> py_bind (normalize_target_name (pl_idna lib) s) (\<lambda>n. Inr (Some n))
      | VBytes b \<Rightarrow> Inl TypeError
      | _ \<Rightarrow> Inl AttributeError)"

definition build_target_profile :: "PyLib \<Rightarrow> pydict \<Rightarrow> pydict py" where
  "build_target_profile lib args =
     (let a = (\<lambda>k. py_get args k VNone) in
      py_bind (parse_target_protocol (a ''protocol'')) (\<lambda>protocol0.
      py_bind (if a ''port'' \<noteq> VNone then parse_port (a ''port'') else Inr (0, None, None)) (\<lambda>(port0, start, end').
      py_bind (optional_name lib (a ''hostname'')) (\<lambda>hostname'.
      py_bind (optional_name lib (a ''sni'')) (\<lambda>sni'.
      py_bind (if a ''target'' \<noteq> VNone
               then py_bind (parse_target_string (a ''target'') protocol0 port0 start end') (\<lambda>(pr, h, c, po).
                 Inr (pr, (case h of Some s \<Rightarrow> VStr s | None \<Rightarrow> a ''host''), (case c of Some s \<Rightarrow> VStr s | None \<Rightarrow> a ''cidr''), po))
               else Inr (protocol0, a ''host'', a ''cidr'', port0)) (\<lambda>(protocol', host, cidr, port').
      py_guard (valid_port port') ValueError (
      py_bind (parse_priority (a ''priority'')) (\<lambda>priority'.
        let has_semantic_name = (hostname' \<noteq> None \<or> sni' \<noteq> None) in
        py_guard (\<not> (hostname' \<noteq> None \<and> sni' \<noteq> None)) ValueError (
        py_guard (\<not> (py_truth host \<and> py_truth cidr)) ValueError (
        py_guard (\<not> (has_semantic_name \<and> (py_truth host \<or> py_truth cidr))) ValueError (
        py_guard (py_truth host \<or> py_truth cidr \<or> has_semantic_name) ValueError (
          if has_semantic_name then
            Inr (apply_port_range start end' (semantic_target_profile hostname' sni' port' protocol' priority'))
          else if py_truth host then
            (case pl_ip_address lib host of
               None \<Rightarrow> Inl ValueError
             | Some (v4, packed) \<Rightarrow>
                 Inr (apply_port_range start end'
                   (network_target_profile (v4, packed, if v4 then 32 else 128) 1 port' protocol' priority')))
          else
            (case pl_ip_network lib cidr of
               None \<Rightarrow> Inl ValueError
             | Some (v4, packed, plen) \<Rightarrow>
                 py_guard (plen \<le> (if v4 then 32 else 128)) ValueError
                   (Inr (apply_port_range start end'
                     (network_target_profile (v4, packed, plen) 2 port' protocol' priority'))))))))))))))))"

section \<open>Evaluation\<close>

lemmas parse_eval = non_empty_normalized_def stripped_def ensure_range_def parse_duration_def parse_packet_loss_def
  parse_burst_loss_def parse_int_value_def parse_size_def parse_rate_def Let_def py_string_eval py_number_eval

end
