(* ===== verification/Policy_Registry.thy ===== *)
theory Policy_Registry
  imports Profile_Parsers "HOL-Library.List_Lexorder"
begin

text \<open>
  Named policies (\<open>policy_registry.py\<close>): building a policy from the keyword arguments of
  \<open>register_policy\<close>, the registry, loading policies from a file, and the policy of the current context.

  The registry is a dictionary in insertion order; \<open>_POLICY_LOCK\<close> makes each access atomic, so it is explicit
  state. Reading a file is the parameter \<open>PyFiles\<close>: it gives the items of the top-level mapping, or
  \<^const>\<open>None\<close> when the document is not a mapping. Absent keyword arguments are \<^const>\<open>VNone\<close>, their default.
\<close>

section \<open>Policies\<close>

definition REGISTERABLE_FIELDS :: "string list" where
  "REGISTERABLE_FIELDS =
     [''seed'', ''latency'', ''jitter'', ''packet_loss'', ''burst_loss'', ''rate'', ''timeout'', ''uplink'', ''downlink'',
      ''correlated_loss'', ''connection_error'', ''half_open'', ''packet_duplicate'', ''packet_reorder'', ''dns'',
      ''targets'', ''schedule'', ''session_budget'', ''payload_mutation'']"

definition TRANSPORT_EFFECT_POLICY_KEYS :: "string list" where
  "TRANSPORT_EFFECT_POLICY_KEYS =
     [''latency'', ''jitter'', ''packet_loss_ppm'', ''burst_loss'', ''rate'', ''timeouts'', ''uplink_profile'',
      ''downlink_profile'', ''correlated_loss_profile'', ''connection_error_profile'', ''half_open_profile'',
      ''packet_duplicate_profile'', ''packet_reorder_profile'', ''schedule_profile'', ''session_budget_profile'',
      ''payload_mutation_profile'']"

text \<open>\<open>_as_mapping\<close> followed by the use of the mapping: \<open>None\<close> contributes nothing.\<close>

definition as_mapping :: "pyval \<Rightarrow> pydict option py" where
  "as_mapping v = (case v of VNone \<Rightarrow> Inr None | VDict d \<Rightarrow> Inr (Some d) | _ \<Rightarrow> Inl ValueError)"

definition mapping_entry :: "string \<Rightarrow> (pydict \<Rightarrow> pydict py) \<Rightarrow> pyval \<Rightarrow> pydict py" where
  "mapping_entry key build v =
     py_bind (as_mapping v) (\<lambda>c. case c of
       None \<Rightarrow> Inr []
     | Some d \<Rightarrow> py_bind (build d) (\<lambda>p. Inr [(key, VDict p)]))"

definition set_scalar_policy_values :: "pydict \<Rightarrow> pydict py" where
  "set_scalar_policy_values args =
     concat_entries
       [opt_entry ''seed'' parse_seed (py_get args ''seed'' VNone),
        opt_entry ''latency'' parse_duration (py_get args ''latency'' VNone),
        opt_entry ''jitter'' parse_duration (py_get args ''jitter'' VNone),
        opt_entry ''packet_loss_ppm'' parse_packet_loss (py_get args ''packet_loss'' VNone),
        opt_entry ''burst_loss'' parse_burst_loss (py_get args ''burst_loss'' VNone),
        opt_entry ''rate'' parse_rate (py_get args ''rate'' VNone)]"

definition duration_or_zero :: "pyval \<Rightarrow> int py" where
  "duration_or_zero v = (if v = VNone then Inr 0 else parse_duration v)"

definition coerce_timeout_pair :: "pyval \<Rightarrow> (int \<times> int) py" where
  "coerce_timeout_pair timeout =
     (case timeout of
        VNone \<Rightarrow> Inr (0, 0)
      | VDict d \<Rightarrow>
          py_bind (duration_or_zero (py_get d ''connect'' VNone)) (\<lambda>connect_ms.
          py_bind (duration_or_zero (py_get d ''recv'' VNone)) (\<lambda>recv_ms. Inr (connect_ms, recv_ms)))
      | _ \<Rightarrow> Inl AttributeError)"

definition timeout_entry :: "pyval \<Rightarrow> pydict py" where
  "timeout_entry v =
     (if v = VNone then Inr []
      else py_bind (coerce_timeout_pair v) (\<lambda>(c, r). Inr [(''timeouts'', VTuple [VInt c, VInt r])]))"

definition build_direction_policy :: "pydict \<Rightarrow> pydict py" where
  "build_direction_policy d =
     build_direction_profile (py_get d ''latency'' VNone) (py_get d ''jitter'' VNone) (py_get d ''packet_loss'' VNone)
       (py_get d ''burst_loss'' VNone) (py_get d ''rate'' VNone)"

text \<open>The five builders of \<open>_OPTIONAL_MAPPING_PROFILE_SPECS\<close> with their defaults, and the payload mutation.\<close>

definition correlated_loss_policy :: "pydict \<Rightarrow> pydict py" where
  "correlated_loss_policy d =
     build_correlated_loss_profile (py_get d ''p_good_to_bad'' (VInt 0)) (py_get d ''p_bad_to_good'' (VInt 0))
       (py_get d ''loss_good'' (VInt 0)) (py_get d ''loss_bad'' (VInt 0))"

definition connection_error_policy :: "pydict \<Rightarrow> pydict py" where
  "connection_error_policy d =
     build_connection_error_profile (py_get d ''kind'' (VStr ''reset'')) (py_get d ''prob'' (VStr ''100%''))"

definition half_open_policy :: "pydict \<Rightarrow> pydict py" where
  "half_open_policy d = build_half_open_profile (py_get d ''after'' (VStr ''0'')) (py_get d ''error'' (VStr ''reset''))"

definition packet_duplicate_policy :: "pydict \<Rightarrow> pydict py" where
  "packet_duplicate_policy d =
     build_packet_duplicate_profile (py_get d ''prob'' (VStr ''100%'')) (py_get d ''max_extra'' (VInt 1))"

definition packet_reorder_policy :: "pydict \<Rightarrow> pydict py" where
  "packet_reorder_policy d =
     build_packet_reorder_profile (py_get d ''prob'' (VStr ''100%'')) (py_get d ''max_delay'' (VStr ''0ms''))
       (py_get d ''window'' (VInt 1))"

definition payload_mutation_policy :: "pydict \<Rightarrow> pydict py" where
  "payload_mutation_policy d =
     py_bind (py_int (py_get d ''every_n_packets'' (VInt 1))) (\<lambda>every_n.
       build_payload_mutation_profile
         ([(''enabled'', VBool (py_truth (py_get d ''enabled'' (VBool False)))),
           (''prob'', py_get d ''prob'' (VStr ''100%'')),
           (''type'', py_get d ''type'' (VStr ''none'')),
           (''target'', py_get d ''target'' (VStr ''both'')),
           (''every_n_packets'', VInt every_n),
           (''dry_run'', VBool (py_truth (py_get d ''dry_run'' (VBool False)))),
           (''max_buffer_size'', py_get d ''max_buffer_size'' (VStr ''64kb''))]
          @ map (\<lambda>k. (k, py_get d k VNone))
              [''truncate_size'', ''corrupt_count'', ''corrupt_seed'', ''inject_position'', ''inject_data'', ''replace_find'',
               ''replace_with'', ''swap_pos1'', ''swap_pos2'', ''min_size'', ''max_size'']))"

definition build_optional_mapping_profiles :: "pydict \<Rightarrow> pydict py" where
  "build_optional_mapping_profiles args =
     concat_entries
       [mapping_entry ''correlated_loss_profile'' correlated_loss_policy (py_get args ''correlated_loss'' VNone),
        mapping_entry ''connection_error_profile'' connection_error_policy (py_get args ''connection_error'' VNone),
        mapping_entry ''half_open_profile'' half_open_policy (py_get args ''half_open'' VNone),
        mapping_entry ''packet_duplicate_profile'' packet_duplicate_policy (py_get args ''packet_duplicate'' VNone),
        mapping_entry ''packet_reorder_profile'' packet_reorder_policy (py_get args ''packet_reorder'' VNone),
        mapping_entry ''payload_mutation_profile'' payload_mutation_policy (py_get args ''payload_mutation'' VNone)]"

text \<open>An empty DNS profile is not stored.\<close>

definition dns_entry :: "pyval \<Rightarrow> pydict py" where
  "dns_entry v =
     py_bind (as_mapping v) (\<lambda>c. case c of
       None \<Rightarrow> Inr []
     | Some d \<Rightarrow>
         py_bind (build_dns_profile (py_get d ''delay'' VNone) (py_get d ''timeout'' VNone) (py_get d ''nxdomain'' VNone))
           (\<lambda>p. Inr (if p = [] then [] else [(''dns_profile'', VDict p)])))"

section \<open>Targets\<close>

definition TARGET_KEYS :: "string list" where
  "TARGET_KEYS = [''target'', ''host'', ''cidr'', ''hostname'', ''sni'', ''protocol'', ''priority'']"

definition target_arguments :: "pydict \<Rightarrow> pyval \<Rightarrow> pydict" where
  "target_arguments target port' = (''port'', port') # map (\<lambda>k. (k, py_get target k VNone)) TARGET_KEYS"

definition build_target_rule_list :: "PyLib \<Rightarrow> pyval \<Rightarrow> pydict list py" where
  "build_target_rule_list lib target =
     (case target of
        VStr s \<Rightarrow> py_bind (build_target_profile lib [(''target'', VStr s)]) (\<lambda>p. Inr [p])
      | VDict d \<Rightarrow>
          py_bind (parse_port_list (py_get d ''port'' VNone)) (\<lambda>ports.
            case ports of
              None \<Rightarrow> py_bind (build_target_profile lib (target_arguments d (py_get d ''port'' VNone))) (\<lambda>p. Inr [p])
            | Some ps \<Rightarrow> py_map (\<lambda>p. build_target_profile lib (target_arguments d (VInt p))) ps)
      | _ \<Rightarrow> Inl ValueError)"

text \<open>The sort key of a built rule; its priority is always an integer.\<close>

definition profile_priority :: "pydict \<Rightarrow> int" where
  "profile_priority profile = (case py_get profile ''priority'' (VInt 100) of VInt i \<Rightarrow> i | _ \<Rightarrow> 100)"

text \<open>\<open>sorted(..., reverse=True)\<close> keeps the order of equal keys.\<close>

definition build_target_profiles :: "PyLib \<Rightarrow> pyval list \<Rightarrow> pydict list py" where
  "build_target_profiles lib targets =
     py_guard (targets \<noteq> []) ValueError
       (py_bind (py_map (build_target_rule_list lib) targets) (\<lambda>rules.
          Inr (sort_key (\<lambda>profile. - profile_priority profile) (concat rules))))"

definition targets_entry :: "PyLib \<Rightarrow> pyval \<Rightarrow> pydict py" where
  "targets_entry lib v =
     (case v of
        VNone \<Rightarrow> Inr []
      | VList ts \<Rightarrow> py_bind (build_target_profiles lib ts) (\<lambda>rs. Inr [(''target_profiles'', VList (map VDict rs))])
      | _ \<Rightarrow> Inl ValueError)"

text \<open>\<open>any\<close> over conditions that may raise.\<close>

fun py_any :: "('a \<Rightarrow> bool py) \<Rightarrow> 'a list \<Rightarrow> bool py" where
  "py_any f [] = Inr False"
| "py_any f (x # xs) = py_bind (f x) (\<lambda>b. if b then Inr True else py_any f xs)"

definition rule_is_dns_observable :: "pydict \<Rightarrow> bool py" where
  "rule_is_dns_observable rule =
     (if \<not> py_has rule ''hostname'' then Inr False
      else py_bind (py_int (py_get rule ''protocol'' (VInt 0))) (\<lambda>proto.
        if proto \<noteq> 0 then Inr False
        else py_bind (py_int (py_get rule ''port'' (VInt 0))) (\<lambda>p.
          Inr (p = 0 \<and> map_of rule ''port_start'' = None \<and> map_of rule ''port_end'' = None))))"

definition rule_is_transport_observable :: "pydict \<Rightarrow> bool py" where
  "rule_is_transport_observable rule =
     (if py_has rule ''hostname'' \<or> py_has rule ''sni'' then Inr True
      else py_bind (py_int (py_get rule ''kind'' (VInt 0))) (\<lambda>k. Inr (k \<in> {1, 2})))"

definition iter_policy_target_rules :: "pydict \<Rightarrow> pydict list" where
  "iter_policy_target_rules policy =
     (case py_get policy ''target_profile'' VNone of VDict d \<Rightarrow> [d] | _ \<Rightarrow> [])
     @ (case py_get policy ''target_profiles'' VNone of
          VList vs \<Rightarrow> concat (map (\<lambda>v. case v of VDict d \<Rightarrow> [d] | _ \<Rightarrow> []) vs)
        | _ \<Rightarrow> [])"

definition validate_target_observability :: "pydict \<Rightarrow> unit py" where
  "validate_target_observability policy =
     (let rules = iter_policy_target_rules policy;
          has_dns_effects = (map_of policy ''dns_profile'' \<noteq> None);
          has_transport_effects = list_ex (\<lambda>k. map_of policy k \<noteq> None) TRANSPORT_EFFECT_POLICY_KEYS
      in if rules = [] \<or> \<not> has_dns_effects \<and> \<not> has_transport_effects then Inr ()
         else
           py_bind (py_any rule_is_dns_observable rules) (\<lambda>dns_observable.
           py_bind (py_any rule_is_transport_observable rules) (\<lambda>transport_observable.
             py_guard (\<not> (has_dns_effects \<and> \<not> dns_observable)) ValueError
               (py_guard (\<not> (has_transport_effects \<and> \<not> transport_observable)) ValueError (Inr ())))))"

section \<open>Registration\<close>

definition schedule_policy :: "pydict \<Rightarrow> pydict py" where
  "schedule_policy d =
     build_schedule_profile ((''kind'', py_get d ''kind'' (VStr [])) #
       map (\<lambda>k. (k, py_get d k VNone)) [''every'', ''duration'', ''on'', ''off'', ''ramp''])"

text \<open>\<open>config.get(a) or config.get(b)\<close>.\<close>

definition get_or :: "pydict \<Rightarrow> string \<Rightarrow> string \<Rightarrow> pyval" where
  "get_or d a b = (if py_truth (py_get d a VNone) then py_get d a VNone else py_get d b VNone)"

definition session_budget_policy :: "pydict \<Rightarrow> pydict py" where
  "session_budget_policy d =
     build_session_budget_profile
       [(''max_tx'', get_or d ''max_tx'' ''max_bytes_tx''), (''max_rx'', get_or d ''max_rx'' ''max_bytes_rx''),
        (''max_ops'', py_get d ''max_ops'' VNone), (''max_duration'', py_get d ''max_duration'' VNone),
        (''action'', py_get d ''action'' (VStr ''drop'')), (''budget_timeout'', py_get d ''budget_timeout'' VNone),
        (''error'', py_get d ''error'' VNone)]"

definition build_policy :: "PyLib \<Rightarrow> pydict \<Rightarrow> pydict py" where
  "build_policy lib args =
     py_bind (concat_entries
       [set_scalar_policy_values args,
        timeout_entry (py_get args ''timeout'' VNone),
        mapping_entry ''uplink_profile'' build_direction_policy (py_get args ''uplink'' VNone),
        mapping_entry ''downlink_profile'' build_direction_policy (py_get args ''downlink'' VNone),
        build_optional_mapping_profiles args,
        dns_entry (py_get args ''dns'' VNone),
        targets_entry lib (py_get args ''targets'' VNone),
        mapping_entry ''schedule_profile'' schedule_policy (py_get args ''schedule'' VNone),
        mapping_entry ''session_budget_profile'' session_budget_policy (py_get args ''session_budget'' VNone)]) (\<lambda>policy.
     py_bind (validate_target_observability policy) (\<lambda>_. Inr policy))"

record Registry =
  pr_policies :: "(string \<times> pydict) list"
  pr_thread_policy :: "string option"

text \<open>An unknown keyword is refused by the call itself.\<close>

definition register_policy :: "PyLib \<Rightarrow> string \<Rightarrow> pydict \<Rightarrow> Registry \<Rightarrow> unit py \<times> Registry" where
  "register_policy lib name args r =
     (if \<not> list_all (\<lambda>(k, v). k \<in> set REGISTERABLE_FIELDS) args then (Inl TypeError, r)
      else if name = [] then (Inl ValueError, r)
      else case build_policy lib args of
        Inl e \<Rightarrow> (Inl e, r)
      | Inr policy \<Rightarrow> (Inr (), r\<lparr>pr_policies := AList.update name policy (pr_policies r)\<rparr>))"

definition get_policy_for_apply :: "string \<Rightarrow> Registry \<Rightarrow> pydict option" where
  "get_policy_for_apply name r = map_of (pr_policies r) name"

definition clear_policies :: "Registry \<Rightarrow> Registry" where
  "clear_policies r = r\<lparr>pr_policies := []\<rparr>"

definition list_policies :: "Registry \<Rightarrow> string list" where
  "list_policies r = sort_key (map code_point) (map fst (pr_policies r))"

definition get_policy :: "string \<Rightarrow> Registry \<Rightarrow> pydict option" where
  "get_policy name r = map_of (pr_policies r) name"

definition unregister_policy :: "string \<Rightarrow> Registry \<Rightarrow> bool \<times> Registry" where
  "unregister_policy name r =
     (map_of (pr_policies r) name \<noteq> None, r\<lparr>pr_policies := AList.delete name (pr_policies r)\<rparr>)"

section \<open>Policy files\<close>

record PyFiles =
  pf_json :: "string \<Rightarrow> (pyval \<times> pyval) list option py"
  pf_yaml :: "(string \<Rightarrow> (pyval \<times> pyval) list option py) option"

text \<open>\<open>Path(path).suffix\<close>: what follows the last dot of the last component, unless the dot is its first or
  its last character.\<close>

definition path_name :: "string \<Rightarrow> string" where
  "path_name path =
     (case filter (\<lambda>p. p \<noteq> [] \<and> p \<noteq> ''.'') (py_split (CHR ''/'') path) of [] \<Rightarrow> [] | ps \<Rightarrow> last ps)"

definition path_suffix :: "string \<Rightarrow> string" where
  "path_suffix path =
     (let name = path_name path; ext = rev (takeWhile (\<lambda>c. c \<noteq> CHR ''.'') (rev name)) in
      if CHR ''.'' \<in> set name \<and> ext \<noteq> [] \<and> length ext + 1 < length name then CHR ''.'' # ext else [])"

definition read_policy_file :: "PyFiles \<Rightarrow> string \<Rightarrow> (pyval \<times> pyval) list py" where
  "read_policy_file files path =
     (let extension = py_lower (path_suffix path) in
      py_bind (if extension = ''.json'' then pf_json files path
               else if extension = ''.yaml'' \<or> extension = ''.yml''
               then (case pf_yaml files of Some read \<Rightarrow> read path | None \<Rightarrow> Inl ValueError)
               else Inl ValueError) (\<lambda>raw.
        case raw of Some items \<Rightarrow> Inr items | None \<Rightarrow> Inl ValueError))"

text \<open>Policies are registered one by one: those before a bad entry stay.\<close>

fun register_all :: "PyLib \<Rightarrow> (pyval \<times> pyval) list \<Rightarrow> nat \<Rightarrow> Registry \<Rightarrow> nat py \<times> Registry" where
  "register_all lib [] loaded r = (Inr loaded, r)"
| "register_all lib ((k, v) # items) loaded r =
     (case (k, v) of
        (VStr name, VDict cfg) \<Rightarrow>
          (case register_policy lib name (map (\<lambda>f. (f, py_get cfg f VNone)) REGISTERABLE_FIELDS) r of
             (Inl e, r1) \<Rightarrow> (Inl e, r1)
           | (Inr _, r1) \<Rightarrow> register_all lib items (Suc loaded) r1)
      | _ \<Rightarrow> (Inl ValueError, r))"

definition load_policies :: "PyLib \<Rightarrow> PyFiles \<Rightarrow> string \<Rightarrow> Registry \<Rightarrow> nat py \<times> Registry" where
  "load_policies lib files path r =
     (case read_policy_file files path of
        Inl e \<Rightarrow> (Inl e, r)
      | Inr items \<Rightarrow> register_all lib items 0 r)"

definition set_thread_policy :: "string option \<Rightarrow> Registry \<Rightarrow> Registry" where
  "set_thread_policy policy_name r = r\<lparr>pr_thread_policy := policy_name\<rparr>"

definition get_thread_policy :: "Registry \<Rightarrow> string option" where
  "get_thread_policy r = pr_thread_policy r"

end
