(* ===== verification/Shm_Layout.thy ===== *)
theory Shm_Layout
  imports Shm_Runtime
begin

text \<open>
  The shared segment as the bytes both languages see (\<open>shm_contract.rs\<close>, the region offsets of
  \<open>shm_runtime.rs\<close>). A memory is a function from addresses to bytes; integers are little-endian.
  A \<open>repr(C)\<close> struct is laid out field by field, each at the next multiple of its alignment, a
  \<open>repr(C, packed)\<close> one without gaps; \<open>config_at\<close> and \<open>rule_at\<close> read a row and a rule from the
  offsets this gives, and \<open>shm_of\<close> is the table of \<open>Shm_Runtime\<close> that the bytes stand for.
\<close>

section \<open>Bytes\<close>

type_synonym memory = "nat \<Rightarrow> u8"

definition peek :: "memory \<Rightarrow> nat \<Rightarrow> nat \<Rightarrow> bytes" where
  "peek m a n = map m [a..<a + n]"

definition poke :: "nat \<Rightarrow> bytes \<Rightarrow> memory \<Rightarrow> memory" where
  "poke a bs m = (\<lambda>i. if a \<le> i \<and> i < a + length bs then bs ! (i - a) else m i)"

fun le_bytes :: "nat \<Rightarrow> nat \<Rightarrow> bytes" where
  "le_bytes 0 v = []"
| "le_bytes (Suc n) v = of_nat v # le_bytes n (v div 256)"

fun le_nat :: "bytes \<Rightarrow> nat" where
  "le_nat [] = 0"
| "le_nat (b # bs) = unat b + 256 * le_nat bs"

definition u64_at :: "memory \<Rightarrow> nat \<Rightarrow> u64" where
  "u64_at m a = of_nat (le_nat (peek m a 8))"

definition u32_at :: "memory \<Rightarrow> nat \<Rightarrow> u32" where
  "u32_at m a = of_nat (le_nat (peek m a 4))"

section \<open>Struct layout\<close>

text \<open>A field has a name, a size and an alignment.\<close>

type_synonym c_field = "string \<times> nat \<times> nat"

definition align_up :: "nat \<Rightarrow> nat \<Rightarrow> nat" where
  "align_up p al = (p + al - 1) div al * al"

fun layout :: "nat \<Rightarrow> c_field list \<Rightarrow> (string \<times> nat) list" where
  "layout p [] = []"
| "layout p ((n, sz, al) # fs) = (let q = align_up p al in (n, q) # layout (q + sz) fs)"

fun layout_end :: "nat \<Rightarrow> c_field list \<Rightarrow> nat" where
  "layout_end p [] = p"
| "layout_end p ((n, sz, al) # fs) = layout_end (align_up p al + sz) fs"

definition size_of :: "c_field list \<Rightarrow> nat" where
  "size_of fs = align_up (layout_end 0 fs) (fold max (map (\<lambda>(n, sz, al). al) fs) 1)"

definition offset_in :: "c_field list \<Rightarrow> string \<Rightarrow> nat" where
  "offset_in fs n = (case map_of (layout 0 fs) n of Some p \<Rightarrow> p | None \<Rightarrow> 0)"

text \<open>\<open>#[repr(C, packed)] struct FaultcoreConfig\<close>.\<close>

definition config_fields :: "c_field list" where
  "config_fields = [
     (''magic'', 4, 1), (''version'', 8, 1), (''latency_ns'', 8, 1), (''jitter_ns'', 8, 1),
     (''packet_loss_ppm'', 8, 1), (''burst_loss_len'', 8, 1), (''bandwidth_bps'', 8, 1),
     (''connect_timeout_ms'', 8, 1), (''recv_timeout_ms'', 8, 1), (''uplink_latency_ns'', 8, 1),
     (''uplink_jitter_ns'', 8, 1), (''uplink_packet_loss_ppm'', 8, 1), (''uplink_burst_loss_len'', 8, 1),
     (''uplink_bandwidth_bps'', 8, 1), (''downlink_latency_ns'', 8, 1), (''downlink_jitter_ns'', 8, 1),
     (''downlink_packet_loss_ppm'', 8, 1), (''downlink_burst_loss_len'', 8, 1), (''downlink_bandwidth_bps'', 8, 1),
     (''ge_enabled'', 8, 1), (''ge_p_good_to_bad_ppm'', 8, 1), (''ge_p_bad_to_good_ppm'', 8, 1),
     (''ge_loss_good_ppm'', 8, 1), (''ge_loss_bad_ppm'', 8, 1), (''conn_err_kind'', 8, 1),
     (''conn_err_prob_ppm'', 8, 1), (''half_open_after_bytes'', 8, 1), (''half_open_err_kind'', 8, 1),
     (''dup_prob_ppm'', 8, 1), (''dup_max_extra'', 8, 1), (''reorder_prob_ppm'', 8, 1),
     (''reorder_max_delay_ns'', 8, 1), (''reorder_window'', 8, 1), (''dns_delay_ns'', 8, 1),
     (''dns_timeout_ms'', 8, 1), (''dns_nxdomain_ppm'', 8, 1), (''target_enabled'', 8, 1), (''target_kind'', 8, 1),
     (''target_ipv4'', 8, 1), (''target_prefix_len'', 8, 1), (''target_port'', 8, 1), (''target_protocol'', 8, 1),
     (''schedule_type'', 8, 1), (''schedule_param_a_ns'', 8, 1), (''schedule_param_b_ns'', 8, 1),
     (''schedule_param_c_ns'', 8, 1), (''schedule_started_monotonic_ns'', 8, 1), (''reserved'', 4, 1),
     (''ruleset_generation'', 8, 1), (''target_address_family'', 8, 1), (''target_addr'', 16, 1),
     (''target_hostname'', 32, 1), (''target_sni'', 32, 1), (''session_budget_enabled'', 8, 1),
     (''session_max_bytes_tx'', 8, 1), (''session_max_bytes_rx'', 8, 1), (''session_max_ops'', 8, 1),
     (''session_max_duration_ms'', 8, 1), (''session_action'', 8, 1), (''session_budget_timeout_ms'', 8, 1),
     (''session_error_kind'', 8, 1), (''policy_seed'', 8, 1), (''payload_mutation_enabled'', 8, 1),
     (''payload_mutation_prob_ppm'', 8, 1), (''payload_mutation_type'', 8, 1), (''payload_mutation_target'', 8, 1),
     (''payload_mutation_truncate_size'', 8, 1), (''payload_mutation_corrupt_count'', 8, 1),
     (''payload_mutation_corrupt_seed'', 8, 1), (''payload_mutation_inject_position'', 8, 1),
     (''payload_mutation_inject_data'', 64, 1), (''payload_mutation_inject_len'', 8, 1),
     (''payload_mutation_replace_find'', 32, 1), (''payload_mutation_replace_find_len'', 8, 1),
     (''payload_mutation_replace_with'', 32, 1), (''payload_mutation_replace_with_len'', 8, 1),
     (''payload_mutation_swap_pos1'', 8, 1), (''payload_mutation_swap_pos2'', 8, 1),
     (''payload_mutation_min_size'', 8, 1), (''payload_mutation_max_size'', 8, 1),
     (''payload_mutation_every_n_packets'', 8, 1), (''payload_mutation_dry_run'', 8, 1),
     (''payload_mutation_max_buffer_size'', 8, 1), (''payload_mutation_reserved'', 64, 1)]"

text \<open>\<open>#[repr(C)] struct PolicyState\<close> and \<open>struct TargetRule\<close>.\<close>

definition policy_fields :: "c_field list" where
  "policy_fields =
     [(''magic'', 4, 4), (''name'', 32, 1), (''enabled'', 1, 1), (''total_calls'', 8, 8), (''total_failures'', 8, 8)]"

definition rule_fields :: "c_field list" where
  "rule_fields = [
     (''enabled'', 8, 8), (''priority'', 8, 8), (''kind'', 8, 8), (''ipv4'', 8, 8), (''prefix_len'', 8, 8),
     (''port'', 8, 8), (''protocol'', 8, 8), (''reserved'', 8, 8), (''address_family'', 8, 8), (''addr'', 16, 1),
     (''hostname'', 32, 1), (''sni'', 32, 1)]"

definition config_offset :: "string \<Rightarrow> nat" where
  "config_offset = offset_in config_fields"

definition rule_offset :: "string \<Rightarrow> nat" where
  "rule_offset = offset_in rule_fields"

definition config_at :: "memory \<Rightarrow> nat \<Rightarrow> FaultcoreConfig" where
  "config_at m base =
     (let c = (\<lambda>n. base + config_offset n) in \<lparr>
       latency_ns = u64_at m (c ''latency_ns''), jitter_ns = u64_at m (c ''jitter_ns''),
       packet_loss_ppm = u64_at m (c ''packet_loss_ppm''), burst_loss_len = u64_at m (c ''burst_loss_len''),
       bandwidth_bps = u64_at m (c ''bandwidth_bps''), connect_timeout_ms = u64_at m (c ''connect_timeout_ms''),
       recv_timeout_ms = u64_at m (c ''recv_timeout_ms''), uplink_latency_ns = u64_at m (c ''uplink_latency_ns''),
       uplink_jitter_ns = u64_at m (c ''uplink_jitter_ns''),
       uplink_packet_loss_ppm = u64_at m (c ''uplink_packet_loss_ppm''),
       uplink_burst_loss_len = u64_at m (c ''uplink_burst_loss_len''),
       uplink_bandwidth_bps = u64_at m (c ''uplink_bandwidth_bps''),
       downlink_latency_ns = u64_at m (c ''downlink_latency_ns''),
       downlink_jitter_ns = u64_at m (c ''downlink_jitter_ns''),
       downlink_packet_loss_ppm = u64_at m (c ''downlink_packet_loss_ppm''),
       downlink_burst_loss_len = u64_at m (c ''downlink_burst_loss_len''),
       downlink_bandwidth_bps = u64_at m (c ''downlink_bandwidth_bps''), ge_enabled = u64_at m (c ''ge_enabled''),
       ge_p_good_to_bad_ppm = u64_at m (c ''ge_p_good_to_bad_ppm''),
       ge_p_bad_to_good_ppm = u64_at m (c ''ge_p_bad_to_good_ppm''),
       ge_loss_good_ppm = u64_at m (c ''ge_loss_good_ppm''), ge_loss_bad_ppm = u64_at m (c ''ge_loss_bad_ppm''),
       conn_err_kind = u64_at m (c ''conn_err_kind''), conn_err_prob_ppm = u64_at m (c ''conn_err_prob_ppm''),
       half_open_after_bytes = u64_at m (c ''half_open_after_bytes''),
       half_open_err_kind = u64_at m (c ''half_open_err_kind''), dup_prob_ppm = u64_at m (c ''dup_prob_ppm''),
       dup_max_extra = u64_at m (c ''dup_max_extra''), reorder_prob_ppm = u64_at m (c ''reorder_prob_ppm''),
       reorder_max_delay_ns = u64_at m (c ''reorder_max_delay_ns''), reorder_window = u64_at m (c ''reorder_window''),
       dns_delay_ns = u64_at m (c ''dns_delay_ns''), dns_timeout_ms = u64_at m (c ''dns_timeout_ms''),
       dns_nxdomain_ppm = u64_at m (c ''dns_nxdomain_ppm''), target_enabled = u64_at m (c ''target_enabled''),
       target_kind = u64_at m (c ''target_kind''), target_ipv4 = u64_at m (c ''target_ipv4''),
       target_prefix_len = u64_at m (c ''target_prefix_len''), target_port = u64_at m (c ''target_port''),
       target_protocol = u64_at m (c ''target_protocol''),
       target_address_family = u64_at m (c ''target_address_family''), target_addr = peek m (c ''target_addr'') 16,
       target_hostname = peek m (c ''target_hostname'') 32, target_sni = peek m (c ''target_sni'') 32,
       session_budget_enabled = u64_at m (c ''session_budget_enabled''),
       session_max_bytes_tx = u64_at m (c ''session_max_bytes_tx''),
       session_max_bytes_rx = u64_at m (c ''session_max_bytes_rx''),
       session_max_ops = u64_at m (c ''session_max_ops''),
       session_max_duration_ms = u64_at m (c ''session_max_duration_ms''),
       session_action = u64_at m (c ''session_action''),
       session_budget_timeout_ms = u64_at m (c ''session_budget_timeout_ms''),
       session_error_kind = u64_at m (c ''session_error_kind''), policy_seed = u64_at m (c ''policy_seed''),
       payload_mutation_enabled = u64_at m (c ''payload_mutation_enabled''),
       payload_mutation_prob_ppm = u64_at m (c ''payload_mutation_prob_ppm''),
       payload_mutation_type = u64_at m (c ''payload_mutation_type''),
       payload_mutation_target = u64_at m (c ''payload_mutation_target''),
       payload_mutation_truncate_size = u64_at m (c ''payload_mutation_truncate_size''),
       payload_mutation_corrupt_count = u64_at m (c ''payload_mutation_corrupt_count''),
       payload_mutation_corrupt_seed = u64_at m (c ''payload_mutation_corrupt_seed''),
       payload_mutation_inject_position = u64_at m (c ''payload_mutation_inject_position''),
       payload_mutation_inject_data = peek m (c ''payload_mutation_inject_data'') 64,
       payload_mutation_inject_len = u64_at m (c ''payload_mutation_inject_len''),
       payload_mutation_replace_find = peek m (c ''payload_mutation_replace_find'') 32,
       payload_mutation_replace_find_len = u64_at m (c ''payload_mutation_replace_find_len''),
       payload_mutation_replace_with = peek m (c ''payload_mutation_replace_with'') 32,
       payload_mutation_replace_with_len = u64_at m (c ''payload_mutation_replace_with_len''),
       payload_mutation_swap_pos1 = u64_at m (c ''payload_mutation_swap_pos1''),
       payload_mutation_swap_pos2 = u64_at m (c ''payload_mutation_swap_pos2''),
       payload_mutation_min_size = u64_at m (c ''payload_mutation_min_size''),
       payload_mutation_max_size = u64_at m (c ''payload_mutation_max_size''),
       payload_mutation_every_n_packets = u64_at m (c ''payload_mutation_every_n_packets''),
       payload_mutation_dry_run = u64_at m (c ''payload_mutation_dry_run''),
       payload_mutation_max_buffer_size = u64_at m (c ''payload_mutation_max_buffer_size''),
       ruleset_generation = u64_at m (c ''ruleset_generation''), schedule_type = u64_at m (c ''schedule_type''),
       schedule_param_a_ns = u64_at m (c ''schedule_param_a_ns''),
       schedule_param_b_ns = u64_at m (c ''schedule_param_b_ns''),
       schedule_param_c_ns = u64_at m (c ''schedule_param_c_ns''),
       schedule_started_monotonic_ns = u64_at m (c ''schedule_started_monotonic_ns''), magic = u32_at m (c ''magic''),
       version = u64_at m (c ''version''), reserved = u32_at m (c ''reserved''),
       payload_mutation_reserved = map (\<lambda>i. u64_at m (c ''payload_mutation_reserved'' + 8 * i)) [0..<8]\<rparr>)"

definition rule_at :: "memory \<Rightarrow> nat \<Rightarrow> TargetRule" where
  "rule_at m base =
     (let r = (\<lambda>n. base + rule_offset n) in \<lparr>
       tr_enabled = u64_at m (r ''enabled''), tr_priority = u64_at m (r ''priority''),
       tr_kind = u64_at m (r ''kind''), tr_ipv4 = u64_at m (r ''ipv4''), tr_prefix_len = u64_at m (r ''prefix_len''),
       tr_port = u64_at m (r ''port''), tr_protocol = u64_at m (r ''protocol''),
       tr_reserved = u64_at m (r ''reserved''), tr_address_family = u64_at m (r ''address_family''),
       tr_addr = peek m (r ''addr'') 16, tr_hostname = peek m (r ''hostname'') 32, tr_sni = peek m (r ''sni'') 32\<rparr>)"

section \<open>Regions\<close>

definition POLICY_REGION_OFFSET :: nat where
  "POLICY_REGION_OFFSET = (MAX_FDS + MAX_TIDS) * size_of config_fields"

definition TARGET_RULES_REGION_OFFSET :: nat where
  "TARGET_RULES_REGION_OFFSET = POLICY_REGION_OFFSET + MAX_POLICIES * size_of policy_fields"

definition FD_OWNER_REGION_OFFSET :: nat where
  "FD_OWNER_REGION_OFFSET =
     TARGET_RULES_REGION_OFFSET + MAX_TIDS * MAX_TARGET_RULES_PER_TID * size_of rule_fields"

definition FAULTCORE_SHM_SIZE :: nat where
  "FAULTCORE_SHM_SIZE =
     (MAX_FDS + MAX_TIDS) * size_of config_fields + MAX_POLICIES * size_of policy_fields
     + MAX_TIDS * MAX_TARGET_RULES_PER_TID * size_of rule_fields + MAX_FDS * 8"

text \<open>\<open>get_config_ptr\<close>, \<open>get_target_rules_base_ptr\<close> and \<open>get_fd_owner_base_ptr\<close>, as addresses relative
  to the start of the mapping.\<close>

definition config_ptr :: "nat \<Rightarrow> nat" where
  "config_ptr idx = idx * size_of config_fields"

definition target_rules_base_ptr :: "nat \<Rightarrow> nat" where
  "target_rules_base_ptr idx = TARGET_RULES_REGION_OFFSET + idx * size_of rule_fields"

definition fd_owner_base_ptr :: "nat \<Rightarrow> nat" where
  "fd_owner_base_ptr f = FD_OWNER_REGION_OFFSET + f * 8"

text \<open>The table the bytes stand for; indices outside a region, which the code never uses, read as
  zeros.\<close>

definition shm_of :: "memory \<Rightarrow> Shm" where
  "shm_of m =
     \<lparr>sh_configs = (\<lambda>i. if i < MAX_FDS + MAX_TIDS then config_at m (config_ptr i) else FaultcoreConfig_default),
      sh_policy_name = peek m (POLICY_REGION_OFFSET + offset_in policy_fields ''name'') 32,
      sh_rules = (\<lambda>i. if i < MAX_TIDS * MAX_TARGET_RULES_PER_TID then rule_at m (target_rules_base_ptr i)
                      else TargetRule_default),
      sh_owners = (\<lambda>i. if i < MAX_FDS then u64_at m (fd_owner_base_ptr i) else 0)\<rparr>"

section \<open>Reading what was written\<close>

lemma length_peek [simp]: "length (peek m a n) = n"
  by (simp add: peek_def)

lemma peek_poke_same [simp]: "n = length bs \<Longrightarrow> peek (poke a bs m) a n = bs"
  by (auto simp: peek_def poke_def intro: nth_equalityI)

lemma peek_cong: "(\<And>i. a \<le> i \<Longrightarrow> i < a + n \<Longrightarrow> m i = m' i) \<Longrightarrow> peek m a n = peek m' a n"
  by (simp add: peek_def)

lemma peek_poke_apart: "a + length bs \<le> b \<or> b + n \<le> a \<Longrightarrow> peek (poke a bs m) b n = peek m b n"
  by (rule peek_cong) (auto simp: poke_def)

lemma length_le_bytes [simp]: "length (le_bytes n v) = n"
  by (induction n arbitrary: v) simp_all

lemma le_nat_le_bytes [simp]: "le_nat (le_bytes n v) = v mod 256 ^ n"
proof (induction n arbitrary: v)
  case (Suc n)
  have "unat (of_nat v :: u8) = v mod 256" by (simp add: unat_of_nat)
  with Suc show ?case by (simp add: mod_mult2_eq [symmetric] add.commute mod_mult2_eq)
qed simp

lemma u64_at_poke_same [simp]: "v < 2 ^ 64 \<Longrightarrow> u64_at (poke a (le_bytes 8 v) m) a = of_nat v"
  by (simp add: u64_at_def)

lemma u32_at_poke_same [simp]: "v < 2 ^ 32 \<Longrightarrow> u32_at (poke a (le_bytes 4 v) m) a = of_nat v"
  by (simp add: u32_at_def)

lemma u64_at_poke_apart: "a + length bs \<le> b \<or> b + 8 \<le> a \<Longrightarrow> u64_at (poke a bs m) b = u64_at m b"
  by (simp add: u64_at_def peek_poke_apart)

lemma u32_at_poke_apart: "a + length bs \<le> b \<or> b + 4 \<le> a \<Longrightarrow> u32_at (poke a bs m) b = u32_at m b"
  by (simp add: u32_at_def peek_poke_apart)

lemmas poke_apart = peek_poke_apart u64_at_poke_apart u32_at_poke_apart

section \<open>The offsets\<close>

lemma config_layout:
  "layout 0 config_fields = [
     (''magic'', 0), (''version'', 4), (''latency_ns'', 12), (''jitter_ns'', 20), (''packet_loss_ppm'', 28),
     (''burst_loss_len'', 36), (''bandwidth_bps'', 44), (''connect_timeout_ms'', 52), (''recv_timeout_ms'', 60),
     (''uplink_latency_ns'', 68), (''uplink_jitter_ns'', 76), (''uplink_packet_loss_ppm'', 84),
     (''uplink_burst_loss_len'', 92), (''uplink_bandwidth_bps'', 100), (''downlink_latency_ns'', 108),
     (''downlink_jitter_ns'', 116), (''downlink_packet_loss_ppm'', 124), (''downlink_burst_loss_len'', 132),
     (''downlink_bandwidth_bps'', 140), (''ge_enabled'', 148), (''ge_p_good_to_bad_ppm'', 156),
     (''ge_p_bad_to_good_ppm'', 164), (''ge_loss_good_ppm'', 172), (''ge_loss_bad_ppm'', 180),
     (''conn_err_kind'', 188), (''conn_err_prob_ppm'', 196), (''half_open_after_bytes'', 204),
     (''half_open_err_kind'', 212), (''dup_prob_ppm'', 220), (''dup_max_extra'', 228), (''reorder_prob_ppm'', 236),
     (''reorder_max_delay_ns'', 244), (''reorder_window'', 252), (''dns_delay_ns'', 260), (''dns_timeout_ms'', 268),
     (''dns_nxdomain_ppm'', 276), (''target_enabled'', 284), (''target_kind'', 292), (''target_ipv4'', 300),
     (''target_prefix_len'', 308), (''target_port'', 316), (''target_protocol'', 324), (''schedule_type'', 332),
     (''schedule_param_a_ns'', 340), (''schedule_param_b_ns'', 348), (''schedule_param_c_ns'', 356),
     (''schedule_started_monotonic_ns'', 364), (''reserved'', 372), (''ruleset_generation'', 376),
     (''target_address_family'', 384), (''target_addr'', 392), (''target_hostname'', 408), (''target_sni'', 440),
     (''session_budget_enabled'', 472), (''session_max_bytes_tx'', 480), (''session_max_bytes_rx'', 488),
     (''session_max_ops'', 496), (''session_max_duration_ms'', 504), (''session_action'', 512),
     (''session_budget_timeout_ms'', 520), (''session_error_kind'', 528), (''policy_seed'', 536),
     (''payload_mutation_enabled'', 544), (''payload_mutation_prob_ppm'', 552), (''payload_mutation_type'', 560),
     (''payload_mutation_target'', 568), (''payload_mutation_truncate_size'', 576),
     (''payload_mutation_corrupt_count'', 584), (''payload_mutation_corrupt_seed'', 592),
     (''payload_mutation_inject_position'', 600), (''payload_mutation_inject_data'', 608),
     (''payload_mutation_inject_len'', 672), (''payload_mutation_replace_find'', 680),
     (''payload_mutation_replace_find_len'', 712), (''payload_mutation_replace_with'', 720),
     (''payload_mutation_replace_with_len'', 752), (''payload_mutation_swap_pos1'', 760),
     (''payload_mutation_swap_pos2'', 768), (''payload_mutation_min_size'', 776),
     (''payload_mutation_max_size'', 784), (''payload_mutation_every_n_packets'', 792),
     (''payload_mutation_dry_run'', 800), (''payload_mutation_max_buffer_size'', 808),
     (''payload_mutation_reserved'', 816)]"
  by (simp add: config_fields_def align_up_def Let_def)

lemma sizes [simp]: "size_of config_fields = 880" "size_of policy_fields = 56" "size_of rule_fields = 152"
  by (simp_all add: size_of_def config_fields_def policy_fields_def rule_fields_def align_up_def)

text \<open>Field names are distinct, so every field is found where the layout puts it.\<close>

lemma layout_found: "distinct (map fst xs) \<Longrightarrow> list_all (\<lambda>(n, p). map_of xs n = Some p) xs"
  by (auto simp: list_all_iff map_of_eq_Some_iff)

lemma distinct_config_fields: "distinct (map fst (layout 0 config_fields))"
  by (simp add: config_layout)

lemma config_offset_layout: "list_all (\<lambda>(n, p). config_offset n = p) (layout 0 config_fields)"
  using layout_found [OF distinct_config_fields] by (auto simp: list_all_iff config_offset_def offset_in_def)

lemmas config_offsets [simp] = config_offset_layout [unfolded config_layout list.pred_inject prod.case]

lemma rule_offsets [simp]:
  "rule_offset ''enabled'' = 0" "rule_offset ''priority'' = 8" "rule_offset ''kind'' = 16" "rule_offset ''ipv4'' = 24" "rule_offset ''prefix_len'' = 32" "rule_offset ''port'' = 40"
  "rule_offset ''protocol'' = 48" "rule_offset ''reserved'' = 56" "rule_offset ''address_family'' = 64" "rule_offset ''addr'' = 72" "rule_offset ''hostname'' = 88" "rule_offset ''sni'' = 120"
  by (simp_all add: rule_offset_def offset_in_def rule_fields_def align_up_def Let_def)

lemma policy_offsets [simp]: "offset_in policy_fields ''name'' = 4"
  by (simp add: offset_in_def policy_fields_def align_up_def Let_def)

lemma regions [simp]:
  "POLICY_REGION_OFFSET = 173015040" "TARGET_RULES_REGION_OFFSET = 173072384"
  "FD_OWNER_REGION_OFFSET = 252764160" "FAULTCORE_SHM_SIZE = 253812736"
  by (simp_all add: POLICY_REGION_OFFSET_def TARGET_RULES_REGION_OFFSET_def FD_OWNER_REGION_OFFSET_def
      FAULTCORE_SHM_SIZE_def MAX_FDS_def MAX_TIDS_def MAX_POLICIES_def MAX_TARGET_RULES_PER_TID_def)

lemma pointers:
  "config_ptr i = i * 880" "target_rules_base_ptr i = 173072384 + i * 152" "fd_owner_base_ptr i = 252764160 + i * 8"
  by (simp_all add: config_ptr_def target_rules_base_ptr_def fd_owner_base_ptr_def)

section \<open>What a write leaves alone\<close>

definition same_outside :: "nat \<Rightarrow> nat \<Rightarrow> memory \<Rightarrow> memory \<Rightarrow> bool" where
  "same_outside a n m m' \<longleftrightarrow> (\<forall>i. i < a \<or> a + n \<le> i \<longrightarrow> m' i = m i)"

lemma same_outside_poke: "a \<le> b \<Longrightarrow> b + length bs \<le> a + n \<Longrightarrow> same_outside a n m (poke b bs m)"
  by (auto simp: same_outside_def poke_def)

lemma same_outside_refl [simp]: "same_outside a n m m"
  by (simp add: same_outside_def)

lemma same_outside_trans: "same_outside a n m m' \<Longrightarrow> same_outside a n m' m'' \<Longrightarrow> same_outside a n m m''"
  by (simp add: same_outside_def)

lemma same_outside_peek:
  assumes "same_outside a n m m'" "b + k \<le> a \<or> a + n \<le> b"
  shows "peek m' b k = peek m b k"
  by (rule peek_cong) (use assms in \<open>auto simp: same_outside_def\<close>)

lemma config_at_cong:
  assumes "\<And>b k. base \<le> b \<Longrightarrow> b + k \<le> base + 880 \<Longrightarrow> peek m b k = peek m' b k"
  shows "config_at m base = config_at m' base"
proof -
  have "u64_at m b = u64_at m' b" "u32_at m b = u32_at m' b" if "base \<le> b" "b + 8 \<le> base + 880" for b
    using that assms [of b 8] assms [of b 4] by (simp_all add: u64_at_def u32_at_def)
  then show ?thesis using assms by (simp add: config_at_def Let_def)
qed

lemma rule_at_cong:
  assumes "\<And>b k. base \<le> b \<Longrightarrow> b + k \<le> base + 152 \<Longrightarrow> peek m b k = peek m' b k"
  shows "rule_at m base = rule_at m' base"
proof -
  have "u64_at m b = u64_at m' b" if "base \<le> b" "b + 8 \<le> base + 152" for b
    using that assms [of b 8] by (simp add: u64_at_def)
  then show ?thesis using assms by (simp add: rule_at_def Let_def)
qed

lemma rows_apart: "i \<noteq> j \<Longrightarrow> i * n + n \<le> j * n \<or> j * n + n \<le> i * (n :: nat)"
proof -
  assume "i \<noteq> j"
  then consider "Suc i \<le> j" | "Suc j \<le> i" by linarith
  then show ?thesis by cases (metis add.commute mult_Suc mult_le_mono1)+
qed

lemma shm_of_row_write:
  assumes "same_outside (config_ptr i) 880 m m'" "i < MAX_FDS + MAX_TIDS"
  shows "shm_of m' = (shm_of m)\<lparr>sh_configs := (sh_configs (shm_of m))(i := config_at m' (config_ptr i))\<rparr>"
proof -
  have i: "config_ptr i + 880 \<le> 173015040" using assms(2) by (simp add: pointers MAX_FDS_def MAX_TIDS_def)
  have high: "peek m' b k = peek m b k" if "173015040 \<le> b" for b k
    by (rule same_outside_peek [OF assms(1)]) (use i that in simp)
  have "config_at m' (config_ptr j) = config_at m (config_ptr j)" if "j \<noteq> i" for j
    by (rule config_at_cong, rule same_outside_peek [OF assms(1)])
       (use rows_apart [OF that, of 880] in \<open>auto simp: pointers\<close>)
  moreover have "rule_at m' (target_rules_base_ptr j) = rule_at m (target_rules_base_ptr j)" for j
    by (rule rule_at_cong, rule high) (simp add: pointers)
  ultimately show ?thesis using assms(2) by (auto simp: shm_of_def u64_at_def high pointers)
qed

lemma shm_of_rules_write:
  assumes "same_outside (target_rules_base_ptr (slot * 8)) (8 * 152) m m'" "slot < MAX_TIDS"
  shows "shm_of m' = (shm_of m)\<lparr>sh_rules := (\<lambda>i. if slot * 8 \<le> i \<and> i < slot * 8 + 8 then rule_at m' (target_rules_base_ptr i)
           else sh_rules (shm_of m) i)\<rparr>"
proof -
  let ?a = "173072384 + 1216 * slot"
  have out: "peek m' b k = peek m b k" if "b + k \<le> ?a \<or> ?a + 1216 \<le> b" for b k
    by (rule same_outside_peek [OF assms(1)]) (use that in \<open>simp add: pointers\<close>)
  have s: "1216 * slot + 1216 \<le> 79691776" using assms(2) by (simp add: MAX_TIDS_def)
  have "rule_at m' (target_rules_base_ptr j) = rule_at m (target_rules_base_ptr j)"
    if "\<not> (slot * 8 \<le> j \<and> j < slot * 8 + 8)" for j
    by (rule rule_at_cong, rule out) (use that in \<open>auto simp: pointers\<close>)
  moreover have "config_at m' (config_ptr j) = config_at m (config_ptr j)" if "j < MAX_FDS + MAX_TIDS" for j
    by (rule config_at_cong, rule out) (use that in \<open>simp add: pointers MAX_FDS_def MAX_TIDS_def\<close>)
  moreover have "j < MAX_TIDS * 8" if "j < slot * 8 + 8" for j using that assms(2) by simp
  ultimately show ?thesis using s
    by (auto simp: shm_of_def u64_at_def out pointers MAX_TARGET_RULES_PER_TID_def)
qed

end
