(* ===== verification/Shm_Writer.thy ===== *)
theory Shm_Writer
  imports Shm_Layout Target_Rule_Helpers
begin

text \<open>
  The writer of the shared segment on the Python side (\<open>shm_writer.py\<close>), byte by byte: opening, the
  generation protocol around every update of a row, the \<open>write_*\<close> methods, the table of target rules and
  \<open>clear\<close>.

  An update of the mapped bytes is a function from memories to a result and a memory: an exception
  leaves the bytes written so far in place. \<open>struct.pack_into\<close> raises for what is not an integer of
  the width. The mapped file has the full size of the segment; \<open>_lock\<close> makes each update atomic
  with respect to the other threads of the process, so the object is explicit state.
\<close>

section \<open>Constants\<close>

definition PY_MAX_FDS :: int where
  "PY_MAX_FDS = 131072"

definition PY_MAX_TIDS :: int where
  "PY_MAX_TIDS = 65536"

definition PY_MAX_POLICIES :: int where
  "PY_MAX_POLICIES = 1024"

definition PY_MAX_TARGET_RULES :: nat where
  "PY_MAX_TARGET_RULES = 8"

definition CONFIG_SIZE :: int where
  "CONFIG_SIZE = 880"

definition POLICY_STATE_SIZE :: int where
  "POLICY_STATE_SIZE = 56"

definition TARGET_RULE_SIZE :: nat where
  "TARGET_RULE_SIZE = 152"

definition PY_POLICY_REGION :: int where
  "PY_POLICY_REGION = (PY_MAX_FDS + PY_MAX_TIDS) * CONFIG_SIZE"

definition PY_TARGET_RULES_REGION :: int where
  "PY_TARGET_RULES_REGION = PY_POLICY_REGION + PY_MAX_POLICIES * POLICY_STATE_SIZE"

definition PY_TARGET_RULES_REGION_SIZE :: nat where
  "PY_TARGET_RULES_REGION_SIZE = PY_MAX_TARGET_RULES * TARGET_RULE_SIZE"

definition PY_FAULTCORE_MAGIC :: int where
  "PY_FAULTCORE_MAGIC = 0xFACC0DE"

text \<open>The offsets of the fields of a row.\<close>

definition OFFSET_MAGIC :: nat where
  "OFFSET_MAGIC = 0"

definition OFFSET_LATENCY_NS :: nat where
  "OFFSET_LATENCY_NS = 12"

definition OFFSET_JITTER_NS :: nat where
  "OFFSET_JITTER_NS = 20"

definition OFFSET_PACKET_LOSS_PPM :: nat where
  "OFFSET_PACKET_LOSS_PPM = 28"

definition OFFSET_BURST_LOSS_LEN :: nat where
  "OFFSET_BURST_LOSS_LEN = 36"

definition OFFSET_BANDWIDTH_BPS :: nat where
  "OFFSET_BANDWIDTH_BPS = 44"

definition OFFSET_CONNECT_TIMEOUT_MS :: nat where
  "OFFSET_CONNECT_TIMEOUT_MS = 52"

definition OFFSET_RECV_TIMEOUT_MS :: nat where
  "OFFSET_RECV_TIMEOUT_MS = 60"

definition OFFSET_UPLINK_LATENCY_NS :: nat where
  "OFFSET_UPLINK_LATENCY_NS = 68"

definition OFFSET_UPLINK_JITTER_NS :: nat where
  "OFFSET_UPLINK_JITTER_NS = 76"

definition OFFSET_UPLINK_PACKET_LOSS_PPM :: nat where
  "OFFSET_UPLINK_PACKET_LOSS_PPM = 84"

definition OFFSET_UPLINK_BURST_LOSS_LEN :: nat where
  "OFFSET_UPLINK_BURST_LOSS_LEN = 92"

definition OFFSET_UPLINK_BANDWIDTH_BPS :: nat where
  "OFFSET_UPLINK_BANDWIDTH_BPS = 100"

definition OFFSET_DOWNLINK_LATENCY_NS :: nat where
  "OFFSET_DOWNLINK_LATENCY_NS = 108"

definition OFFSET_DOWNLINK_JITTER_NS :: nat where
  "OFFSET_DOWNLINK_JITTER_NS = 116"

definition OFFSET_DOWNLINK_PACKET_LOSS_PPM :: nat where
  "OFFSET_DOWNLINK_PACKET_LOSS_PPM = 124"

definition OFFSET_DOWNLINK_BURST_LOSS_LEN :: nat where
  "OFFSET_DOWNLINK_BURST_LOSS_LEN = 132"

definition OFFSET_DOWNLINK_BANDWIDTH_BPS :: nat where
  "OFFSET_DOWNLINK_BANDWIDTH_BPS = 140"

definition OFFSET_GE_ENABLED :: nat where
  "OFFSET_GE_ENABLED = 148"

definition OFFSET_GE_P_GOOD_TO_BAD_PPM :: nat where
  "OFFSET_GE_P_GOOD_TO_BAD_PPM = 156"

definition OFFSET_GE_P_BAD_TO_GOOD_PPM :: nat where
  "OFFSET_GE_P_BAD_TO_GOOD_PPM = 164"

definition OFFSET_GE_LOSS_GOOD_PPM :: nat where
  "OFFSET_GE_LOSS_GOOD_PPM = 172"

definition OFFSET_GE_LOSS_BAD_PPM :: nat where
  "OFFSET_GE_LOSS_BAD_PPM = 180"

definition OFFSET_CONN_ERR_KIND :: nat where
  "OFFSET_CONN_ERR_KIND = 188"

definition OFFSET_CONN_ERR_PROB_PPM :: nat where
  "OFFSET_CONN_ERR_PROB_PPM = 196"

definition OFFSET_HALF_OPEN_AFTER_BYTES :: nat where
  "OFFSET_HALF_OPEN_AFTER_BYTES = 204"

definition OFFSET_HALF_OPEN_ERR_KIND :: nat where
  "OFFSET_HALF_OPEN_ERR_KIND = 212"

definition OFFSET_DUP_PROB_PPM :: nat where
  "OFFSET_DUP_PROB_PPM = 220"

definition OFFSET_DUP_MAX_EXTRA :: nat where
  "OFFSET_DUP_MAX_EXTRA = 228"

definition OFFSET_REORDER_PROB_PPM :: nat where
  "OFFSET_REORDER_PROB_PPM = 236"

definition OFFSET_REORDER_MAX_DELAY_NS :: nat where
  "OFFSET_REORDER_MAX_DELAY_NS = 244"

definition OFFSET_REORDER_WINDOW :: nat where
  "OFFSET_REORDER_WINDOW = 252"

definition OFFSET_DNS_DELAY_NS :: nat where
  "OFFSET_DNS_DELAY_NS = 260"

definition OFFSET_DNS_TIMEOUT_MS :: nat where
  "OFFSET_DNS_TIMEOUT_MS = 268"

definition OFFSET_DNS_NXDOMAIN_PPM :: nat where
  "OFFSET_DNS_NXDOMAIN_PPM = 276"

definition OFFSET_TARGET_ENABLED :: nat where
  "OFFSET_TARGET_ENABLED = 284"

definition OFFSET_TARGET_KIND :: nat where
  "OFFSET_TARGET_KIND = 292"

definition OFFSET_TARGET_IPV4 :: nat where
  "OFFSET_TARGET_IPV4 = 300"

definition OFFSET_TARGET_PREFIX_LEN :: nat where
  "OFFSET_TARGET_PREFIX_LEN = 308"

definition OFFSET_TARGET_PORT :: nat where
  "OFFSET_TARGET_PORT = 316"

definition OFFSET_TARGET_PROTOCOL :: nat where
  "OFFSET_TARGET_PROTOCOL = 324"

definition OFFSET_SCHEDULE_TYPE :: nat where
  "OFFSET_SCHEDULE_TYPE = 332"

definition OFFSET_SCHEDULE_PARAM_A :: nat where
  "OFFSET_SCHEDULE_PARAM_A = 340"

definition OFFSET_SCHEDULE_PARAM_B :: nat where
  "OFFSET_SCHEDULE_PARAM_B = 348"

definition OFFSET_SCHEDULE_PARAM_C :: nat where
  "OFFSET_SCHEDULE_PARAM_C = 356"

definition OFFSET_SCHEDULE_STARTED_MONOTONIC_NS :: nat where
  "OFFSET_SCHEDULE_STARTED_MONOTONIC_NS = 364"

definition OFFSET_RULESET_GENERATION :: nat where
  "OFFSET_RULESET_GENERATION = 376"

definition OFFSET_TARGET_ADDRESS_FAMILY :: nat where
  "OFFSET_TARGET_ADDRESS_FAMILY = 384"

definition OFFSET_TARGET_ADDR :: nat where
  "OFFSET_TARGET_ADDR = 392"

definition OFFSET_TARGET_HOSTNAME :: nat where
  "OFFSET_TARGET_HOSTNAME = 408"

definition OFFSET_TARGET_SNI :: nat where
  "OFFSET_TARGET_SNI = 440"

definition OFFSET_SESSION_BUDGET_ENABLED :: nat where
  "OFFSET_SESSION_BUDGET_ENABLED = 472"

definition OFFSET_SESSION_MAX_BYTES_TX :: nat where
  "OFFSET_SESSION_MAX_BYTES_TX = 480"

definition OFFSET_SESSION_MAX_BYTES_RX :: nat where
  "OFFSET_SESSION_MAX_BYTES_RX = 488"

definition OFFSET_SESSION_MAX_OPS :: nat where
  "OFFSET_SESSION_MAX_OPS = 496"

definition OFFSET_SESSION_MAX_DURATION_MS :: nat where
  "OFFSET_SESSION_MAX_DURATION_MS = 504"

definition OFFSET_SESSION_ACTION :: nat where
  "OFFSET_SESSION_ACTION = 512"

definition OFFSET_SESSION_BUDGET_TIMEOUT_MS :: nat where
  "OFFSET_SESSION_BUDGET_TIMEOUT_MS = 520"

definition OFFSET_SESSION_ERROR_KIND :: nat where
  "OFFSET_SESSION_ERROR_KIND = 528"

definition OFFSET_POLICY_SEED :: nat where
  "OFFSET_POLICY_SEED = 536"

definition OFFSET_PAYLOAD_MUTATION_ENABLED :: nat where
  "OFFSET_PAYLOAD_MUTATION_ENABLED = 544"

definition OFFSET_PAYLOAD_MUTATION_PROB_PPM :: nat where
  "OFFSET_PAYLOAD_MUTATION_PROB_PPM = 552"

definition OFFSET_PAYLOAD_MUTATION_TYPE :: nat where
  "OFFSET_PAYLOAD_MUTATION_TYPE = 560"

definition OFFSET_PAYLOAD_MUTATION_TARGET :: nat where
  "OFFSET_PAYLOAD_MUTATION_TARGET = 568"

definition OFFSET_PAYLOAD_MUTATION_TRUNCATE_SIZE :: nat where
  "OFFSET_PAYLOAD_MUTATION_TRUNCATE_SIZE = 576"

definition OFFSET_PAYLOAD_MUTATION_CORRUPT_COUNT :: nat where
  "OFFSET_PAYLOAD_MUTATION_CORRUPT_COUNT = 584"

definition OFFSET_PAYLOAD_MUTATION_CORRUPT_SEED :: nat where
  "OFFSET_PAYLOAD_MUTATION_CORRUPT_SEED = 592"

definition OFFSET_PAYLOAD_MUTATION_INJECT_POSITION :: nat where
  "OFFSET_PAYLOAD_MUTATION_INJECT_POSITION = 600"

definition OFFSET_PAYLOAD_MUTATION_INJECT_DATA :: nat where
  "OFFSET_PAYLOAD_MUTATION_INJECT_DATA = 608"

definition OFFSET_PAYLOAD_MUTATION_INJECT_LEN :: nat where
  "OFFSET_PAYLOAD_MUTATION_INJECT_LEN = 672"

definition OFFSET_PAYLOAD_MUTATION_REPLACE_FIND :: nat where
  "OFFSET_PAYLOAD_MUTATION_REPLACE_FIND = 680"

definition OFFSET_PAYLOAD_MUTATION_REPLACE_FIND_LEN :: nat where
  "OFFSET_PAYLOAD_MUTATION_REPLACE_FIND_LEN = 712"

definition OFFSET_PAYLOAD_MUTATION_REPLACE_WITH :: nat where
  "OFFSET_PAYLOAD_MUTATION_REPLACE_WITH = 720"

definition OFFSET_PAYLOAD_MUTATION_REPLACE_WITH_LEN :: nat where
  "OFFSET_PAYLOAD_MUTATION_REPLACE_WITH_LEN = 752"

definition OFFSET_PAYLOAD_MUTATION_SWAP_POS1 :: nat where
  "OFFSET_PAYLOAD_MUTATION_SWAP_POS1 = 760"

definition OFFSET_PAYLOAD_MUTATION_SWAP_POS2 :: nat where
  "OFFSET_PAYLOAD_MUTATION_SWAP_POS2 = 768"

definition OFFSET_PAYLOAD_MUTATION_MIN_SIZE :: nat where
  "OFFSET_PAYLOAD_MUTATION_MIN_SIZE = 776"

definition OFFSET_PAYLOAD_MUTATION_MAX_SIZE :: nat where
  "OFFSET_PAYLOAD_MUTATION_MAX_SIZE = 784"

definition OFFSET_PAYLOAD_MUTATION_EVERY_N_PACKETS :: nat where
  "OFFSET_PAYLOAD_MUTATION_EVERY_N_PACKETS = 792"

definition OFFSET_PAYLOAD_MUTATION_DRY_RUN :: nat where
  "OFFSET_PAYLOAD_MUTATION_DRY_RUN = 800"

definition OFFSET_PAYLOAD_MUTATION_MAX_BUFFER_SIZE :: nat where
  "OFFSET_PAYLOAD_MUTATION_MAX_BUFFER_SIZE = 808"

section \<open>Updates of the mapped bytes\<close>

type_synonym update = "memory \<Rightarrow> unit py \<times> memory"

definition upd_ok :: update where
  "upd_ok m = (Inr (), m)"

definition upd_then :: "update \<Rightarrow> update \<Rightarrow> update" where
  "upd_then a b m = (case a m of (Inl e, m') \<Rightarrow> (Inl e, m') | (Inr u, m') \<Rightarrow> b m')"

definition upd_with :: "'a py \<Rightarrow> ('a \<Rightarrow> update) \<Rightarrow> update" where
  "upd_with r k m = (case r of Inl e \<Rightarrow> (Inl e, m) | Inr v \<Rightarrow> k v m)"

definition store_bytes :: "nat \<Rightarrow> bytes \<Rightarrow> update" where
  "store_bytes a bs m = (Inr (), poke a bs m)"

text \<open>\<open>struct.pack_into("<Q", ...)\<close> and \<open>"<I"\<close>.\<close>

definition pack_uint :: "nat \<Rightarrow> nat \<Rightarrow> pyval \<Rightarrow> update" where
  "pack_uint width a v m =
     (let put = (\<lambda>i :: int. if 0 \<le> i \<and> i < 256 ^ width then (Inr (), poke a (le_bytes width (nat i)) m)
                            else (Inl StructError, m))
      in case v of VInt i \<Rightarrow> put i | VBool b \<Rightarrow> put (if b then 1 else 0) | _ \<Rightarrow> (Inl StructError, m))"

definition pack_q :: "nat \<Rightarrow> pyval \<Rightarrow> update" where
  "pack_q = pack_uint 8"

fun pack_u64_fields :: "nat \<Rightarrow> (nat \<times> pyval) list \<Rightarrow> update" where
  "pack_u64_fields base [] = upd_ok"
| "pack_u64_fields base ((rel, v) # fs) = upd_then (pack_q (base + rel) v) (pack_u64_fields base fs)"

fun write_optional_u64_fields :: "nat \<Rightarrow> (nat \<times> pyval) list \<Rightarrow> update" where
  "write_optional_u64_fields base [] = upd_ok"
| "write_optional_u64_fields base ((rel, v) # fs) =
     (if v = VNone then write_optional_u64_fields base fs
      else upd_then (pack_q (base + rel) v) (write_optional_u64_fields base fs))"

text \<open>\<open>milliseconds * 1_000_000\<close>: sequences are repeated.\<close>

definition ms_to_ns :: "pyval \<Rightarrow> pyval py" where
  "ms_to_ns milliseconds =
     (case milliseconds of
        VInt i \<Rightarrow> Inr (VInt (i * 1000000))
      | VBool b \<Rightarrow> Inr (VInt (if b then 1000000 else 0))
      | VFloat f \<Rightarrow> Inr (VFloat (pf_mul f 1000000))
      | VStr s \<Rightarrow> Inr (VStr (concat (replicate 1000000 s)))
      | VBytes s \<Rightarrow> Inr (VBytes (concat (replicate 1000000 s)))
      | VList xs \<Rightarrow> Inr (VList (concat (replicate 1000000 xs)))
      | VTuple xs \<Rightarrow> Inr (VTuple (concat (replicate 1000000 xs)))
      | _ \<Rightarrow> Inl TypeError)"

definition optional_ms_to_ns :: "pyval \<Rightarrow> pyval py" where
  "optional_ms_to_ns v = (if v = VNone then Inr VNone else ms_to_ns v)"

section \<open>The object\<close>

record SHMWriter =
  sw_raw_name :: "string option"
  sw_fd :: "int option"
  sw_mmap :: "memory option"

record PyOs =
  po_env :: "string \<Rightarrow> string option"
  po_default_name :: string
  po_open :: "string \<Rightarrow> bool \<Rightarrow> int option"
  po_ftruncate_ok :: bool
  po_mmap :: "bool \<Rightarrow> memory py"

definition try_open :: "PyOs \<Rightarrow> SHMWriter \<Rightarrow> unit py \<times> SHMWriter" where
  "try_open os w =
     (if sw_mmap w \<noteq> None then (Inr (), w)
      else
        let env_name = (case po_env os ''FAULTCORE_CONFIG_SHM'' of Some n \<Rightarrow> n | None \<Rightarrow> po_default_name os);
            raw_name = (case sw_raw_name w of Some n \<Rightarrow> if n = [] then env_name else n | None \<Rightarrow> env_name);
            name = dropWhile (\<lambda>c. c = CHR ''/'') raw_name;
            mode = (case po_env os ''FAULTCORE_SHM_OPEN_MODE'' of Some v \<Rightarrow> v | None \<Rightarrow> []);
            creator_mode = (py_lower (py_strip mode) = ''creator'');
            closed = w\<lparr>sw_fd := None, sw_mmap := None\<rparr>
        in case po_open os (''/dev/shm/'' @ name) creator_mode of
             None \<Rightarrow> (Inr (), closed)
           | Some f \<Rightarrow>
               if creator_mode \<and> \<not> po_ftruncate_ok os then (Inr (), closed)
               else case po_mmap os creator_mode of
                 Inl OSError \<Rightarrow> (Inr (), closed)
               | Inl e \<Rightarrow> (Inl e, w\<lparr>sw_fd := Some f\<rparr>)
               | Inr m \<Rightarrow> (Inr (), w\<lparr>sw_fd := Some f, sw_mmap := Some m\<rparr>))"

definition ensure_mapped :: "PyOs \<Rightarrow> SHMWriter \<Rightarrow> unit py \<times> SHMWriter" where
  "ensure_mapped os w = (if sw_mmap w \<noteq> None then (Inr (), w) else try_open os w)"

definition py_tid_slot :: "int \<Rightarrow> int" where
  "py_tid_slot tid =
     (let hash_val = ((tid XOR drop_bit 16 tid) * 0x45D9F3B) XOR drop_bit 16 tid in hash_val mod PY_MAX_TIDS)"

definition get_offset :: "int \<Rightarrow> nat" where
  "get_offset tid = nat ((PY_MAX_FDS + py_tid_slot tid) * CONFIG_SIZE)"

definition target_rules_offset_for_slot :: "int \<Rightarrow> nat" where
  "target_rules_offset_for_slot slot = nat (PY_TARGET_RULES_REGION + slot * int PY_TARGET_RULES_REGION_SIZE)"

definition publish :: "nat \<Rightarrow> (nat \<Rightarrow> update) \<Rightarrow> update" where
  "publish offset writer m =
     (let start_generation = uint (u64_at m (offset + OFFSET_RULESET_GENERATION)) OR 1 in
      upd_then (pack_q (offset + OFFSET_RULESET_GENERATION) (VInt start_generation))
     (upd_then (pack_uint 4 (offset + OFFSET_MAGIC) (VInt PY_FAULTCORE_MAGIC))
     (upd_then (writer offset)
       (pack_q (offset + OFFSET_RULESET_GENERATION) (VInt ((start_generation + 1) AND NOT 1))))) m)"

text \<open>An update of the mapped bytes, once they are mapped.\<close>

definition with_mmap :: "PyOs \<Rightarrow> update \<Rightarrow> SHMWriter \<Rightarrow> unit py \<times> SHMWriter" where
  "with_mmap os u w =
     (case ensure_mapped os w of
        (Inl e, w1) \<Rightarrow> (Inl e, w1)
      | (Inr _, w1) \<Rightarrow>
          (case sw_mmap w1 of
             None \<Rightarrow> (Inr (), w1)
           | Some m \<Rightarrow> (case u m of (r, m') \<Rightarrow> (r, w1\<lparr>sw_mmap := Some m'\<rparr>))))"

definition write_with_generation_publish ::
  "PyOs \<Rightarrow> int \<Rightarrow> (nat \<Rightarrow> update) \<Rightarrow> SHMWriter \<Rightarrow> unit py \<times> SHMWriter" where
  "write_with_generation_publish os tid writer w = with_mmap os (publish (get_offset tid) writer) w"

definition write_fields :: "PyOs \<Rightarrow> int \<Rightarrow> (nat \<times> pyval) list \<Rightarrow> SHMWriter \<Rightarrow> unit py \<times> SHMWriter" where
  "write_fields os tid fs w = write_with_generation_publish os tid (\<lambda>offset. pack_u64_fields offset fs) w"

section \<open>Target rules\<close>

definition clear_target_rules_table :: "int \<Rightarrow> update" where
  "clear_target_rules_table slot =
     store_bytes (target_rules_offset_for_slot slot) (replicate PY_TARGET_RULES_REGION_SIZE 0)"

definition write_target_rule_row :: "(string \<Rightarrow> string option) \<Rightarrow> nat \<Rightarrow> nat \<Rightarrow> pydict \<Rightarrow> update" where
  "write_target_rule_row ext target_rules_offset idx rule =
     (let base = target_rules_offset + idx * TARGET_RULE_SIZE in
      upd_then (store_bytes base (replicate TARGET_RULE_SIZE 0))
     (upd_with (normalize_target_address rule) (\<lambda>(address_family, addr).
      upd_with (resolve_port_range rule) (\<lambda>(port_start, port_end).
      upd_with (encode_target_name_bytes ext (py_get rule ''hostname'' VNone)) (\<lambda>hostname.
      upd_with (encode_target_name_bytes ext (py_get rule ''sni'' VNone)) (\<lambda>sni.
      upd_with (py_int (py_get rule ''priority'' (VInt 100))) (\<lambda>priority.
      upd_with (py_int (py_get rule ''kind'' (VInt 0))) (\<lambda>kind.
      upd_with (py_int (py_get rule ''ipv4'' (VInt 0))) (\<lambda>ipv4.
      upd_with (py_int (py_get rule ''prefix_len'' (VInt 0))) (\<lambda>prefix_len.
      upd_with (py_int (py_get rule ''protocol'' (VInt 0))) (\<lambda>protocol.
      upd_then (pack_u64_fields base
        [(0, VInt (if py_truth (py_get rule ''enabled'' (VInt 0)) then 1 else 0)),
         (8, VInt priority), (16, VInt kind), (24, VInt ipv4), (32, VInt prefix_len), (40, VInt port_start),
         (48, VInt protocol), (56, VInt port_end), (64, VInt address_family)])
     (upd_then (store_bytes (base + 72) addr)
     (upd_then (store_bytes (base + 88) hostname)
       (store_bytes (base + 120) sni))))))))))))))"

definition build_target_rule ::
  "pyval \<Rightarrow> pyval \<Rightarrow> pyval \<Rightarrow> pyval \<Rightarrow> pyval \<Rightarrow> pyval \<Rightarrow> pyval \<Rightarrow> pyval \<Rightarrow> pyval \<Rightarrow> pyval \<Rightarrow> pyval \<Rightarrow> pyval \<Rightarrow> pydict" where
  "build_target_rule enabled kind' ipv4' prefix_len' port' port_start' port_end' protocol' address_family' addr' hostname' sni' =
     [(''enabled'', VInt (if py_truth enabled then 1 else 0)), (''priority'', VInt 100), (''kind'', kind'),
      (''ipv4'', ipv4'), (''prefix_len'', prefix_len'), (''port'', port'), (''port_start'', port_start'),
      (''port_end'', port_end'), (''protocol'', protocol'), (''address_family'', address_family'), (''addr'', addr'),
      (''hostname'', hostname'), (''sni'', sni')]"

definition write_single_target_fields :: "(string \<Rightarrow> string option) \<Rightarrow> nat \<Rightarrow> pydict \<Rightarrow> update" where
  "write_single_target_fields ext offset rule =
     upd_with (normalize_target_address rule) (\<lambda>(address_family, addr).
     upd_with (encode_target_name_bytes ext (py_get rule ''hostname'' VNone)) (\<lambda>hostname.
     upd_with (encode_target_name_bytes ext (py_get rule ''sni'' VNone)) (\<lambda>sni.
     upd_with (py_int (py_get rule ''kind'' (VInt 0))) (\<lambda>kind.
     upd_with (py_int (py_get rule ''ipv4'' (VInt 0))) (\<lambda>ipv4.
     upd_with (py_int (py_get rule ''prefix_len'' (VInt 0))) (\<lambda>prefix_len.
     upd_with (py_int (py_get rule ''port'' (VInt 0))) (\<lambda>port.
     upd_with (py_int (py_get rule ''protocol'' (VInt 0))) (\<lambda>protocol.
     upd_then (pack_u64_fields offset
       [(OFFSET_TARGET_KIND, VInt kind), (OFFSET_TARGET_IPV4, VInt ipv4),
        (OFFSET_TARGET_PREFIX_LEN, VInt prefix_len), (OFFSET_TARGET_PORT, VInt port),
        (OFFSET_TARGET_PROTOCOL, VInt protocol), (OFFSET_TARGET_ADDRESS_FAMILY, VInt address_family)])
    (upd_then (store_bytes (offset + OFFSET_TARGET_ADDR) addr)
    (upd_then (store_bytes (offset + OFFSET_TARGET_HOSTNAME) hostname)
      (store_bytes (offset + OFFSET_TARGET_SNI) sni)))))))))))"

definition clear_single_target_fields :: "nat \<Rightarrow> update" where
  "clear_single_target_fields offset =
     upd_then (pack_u64_fields offset
       [(OFFSET_TARGET_KIND, VInt 0), (OFFSET_TARGET_IPV4, VInt 0), (OFFSET_TARGET_PREFIX_LEN, VInt 0),
        (OFFSET_TARGET_PORT, VInt 0), (OFFSET_TARGET_PROTOCOL, VInt 0), (OFFSET_TARGET_ADDRESS_FAMILY, VInt 0)])
    (upd_then (store_bytes (offset + OFFSET_TARGET_ADDR) (replicate 16 0))
    (upd_then (store_bytes (offset + OFFSET_TARGET_HOSTNAME) (replicate 32 0))
      (store_bytes (offset + OFFSET_TARGET_SNI) (replicate 32 0))))"

definition write_primary_target_fields :: "nat \<Rightarrow> pyval \<Rightarrow> pydict \<Rightarrow> update" where
  "write_primary_target_fields offset enabled rule =
     upd_with (normalize_target_address
       [(''kind'', py_get rule ''kind'' VNone), (''ipv4'', py_get rule ''ipv4'' VNone),
        (''address_family'', py_get rule ''address_family'' VNone), (''addr'', py_get rule ''addr'' VNone)])
       (\<lambda>(normalized_family, addr_value).
     upd_with (resolve_port_range rule) (\<lambda>(port_start_value, _).
     upd_with (py_int (py_get rule ''kind'' VNone)) (\<lambda>kind.
     upd_with (py_int (py_get rule ''ipv4'' VNone)) (\<lambda>ipv4.
     upd_with (py_int (py_get rule ''prefix_len'' VNone)) (\<lambda>prefix_len.
     upd_with (py_int (py_get rule ''protocol'' VNone)) (\<lambda>protocol.
     upd_then (pack_u64_fields offset
       [(OFFSET_TARGET_ENABLED, VInt (if py_truth enabled then 1 else 0)), (OFFSET_TARGET_KIND, VInt kind),
        (OFFSET_TARGET_IPV4, VInt ipv4), (OFFSET_TARGET_PREFIX_LEN, VInt prefix_len),
        (OFFSET_TARGET_PORT, VInt port_start_value), (OFFSET_TARGET_PROTOCOL, VInt protocol),
        (OFFSET_TARGET_ADDRESS_FAMILY, VInt normalized_family)])
       (store_bytes (offset + OFFSET_TARGET_ADDR) addr_value)))))))"

fun write_rule_rows :: "(string \<Rightarrow> string option) \<Rightarrow> nat \<Rightarrow> nat \<Rightarrow> pydict list \<Rightarrow> update" where
  "write_rule_rows ext target_rules_offset idx [] = upd_ok"
| "write_rule_rows ext target_rules_offset idx (rule # rules) =
     upd_then (write_target_rule_row ext target_rules_offset idx rule)
       (write_rule_rows ext target_rules_offset (Suc idx) rules)"

definition write_target ::
  "PyOs \<Rightarrow> (string \<Rightarrow> string option) \<Rightarrow> int \<Rightarrow> pyval \<Rightarrow> pydict \<Rightarrow> SHMWriter \<Rightarrow> unit py \<times> SHMWriter" where
  "write_target os ext tid enabled rule w =
     (case validate_target_rule ext rule of
        Inl e \<Rightarrow> (Inl e, w)
      | Inr _ \<Rightarrow>
          write_with_generation_publish os tid (\<lambda>offset.
            upd_then (write_primary_target_fields offset enabled rule)
           (upd_then (clear_target_rules_table (py_tid_slot tid))
              (if py_truth enabled
               then write_target_rule_row ext (target_rules_offset_for_slot (py_tid_slot tid)) 0 rule else upd_ok))) w)"

definition targets_writer :: "(string \<Rightarrow> string option) \<Rightarrow> int \<Rightarrow> pydict list \<Rightarrow> nat \<Rightarrow> update" where
  "targets_writer ext slot rules offset =
     upd_then (clear_target_rules_table slot)
    (upd_then (write_rule_rows ext (target_rules_offset_for_slot slot) 0 rules)
    (upd_then (pack_q (offset + OFFSET_TARGET_ENABLED) (VInt (int (length rules))))
       (if length rules = 1 then write_single_target_fields ext offset (hd rules)
        else clear_single_target_fields offset)))"

text \<open>\<open>isinstance(rule, dict)\<close> and the validation, rule by rule.\<close>

fun validate_rules :: "(string \<Rightarrow> string option) \<Rightarrow> pyval list \<Rightarrow> pydict list py" where
  "validate_rules ext [] = Inr []"
| "validate_rules ext (v # vs) =
     (case v of
        VDict rule \<Rightarrow> py_bind (validate_target_rule ext rule) (\<lambda>_. py_bind (validate_rules ext vs) (\<lambda>rs. Inr (rule # rs)))
      | _ \<Rightarrow> Inl ValueError)"

definition write_targets ::
  "PyOs \<Rightarrow> (string \<Rightarrow> string option) \<Rightarrow> int \<Rightarrow> pyval list \<Rightarrow> SHMWriter \<Rightarrow> unit py \<times> SHMWriter" where
  "write_targets os ext tid rules w =
     (case ensure_mapped os w of
        (Inl e, w1) \<Rightarrow> (Inl e, w1)
      | (Inr _, w1) \<Rightarrow>
          if sw_mmap w1 = None then (Inr (), w1)
          else if length rules > PY_MAX_TARGET_RULES then (Inl ValueError, w1)
          else case validate_rules ext rules of
            Inl e \<Rightarrow> (Inl e, w1)
          | Inr ds \<Rightarrow> write_with_generation_publish os tid (targets_writer ext (py_tid_slot tid) ds) w1)"

section \<open>The \<open>write_*\<close> methods\<close>

text \<open>A scalar given in milliseconds is converted before the row is touched.\<close>

definition write_ms_field :: "PyOs \<Rightarrow> int \<Rightarrow> nat \<Rightarrow> pyval \<Rightarrow> SHMWriter \<Rightarrow> unit py \<times> SHMWriter" where
  "write_ms_field os tid off v w =
     (case ms_to_ns v of Inl e \<Rightarrow> (Inl e, w) | Inr ns \<Rightarrow> write_fields os tid [(off, ns)] w)"

definition write_latency :: "PyOs \<Rightarrow> int \<Rightarrow> pyval \<Rightarrow> SHMWriter \<Rightarrow> unit py \<times> SHMWriter" where
  "write_latency os tid latency_ms w = write_ms_field os tid OFFSET_LATENCY_NS latency_ms w"

definition write_packet_loss :: "PyOs \<Rightarrow> int \<Rightarrow> pyval \<Rightarrow> SHMWriter \<Rightarrow> unit py \<times> SHMWriter" where
  "write_packet_loss os tid ppm w = write_fields os tid [(OFFSET_PACKET_LOSS_PPM, ppm)] w"

definition write_jitter :: "PyOs \<Rightarrow> int \<Rightarrow> pyval \<Rightarrow> SHMWriter \<Rightarrow> unit py \<times> SHMWriter" where
  "write_jitter os tid jitter_ms w = write_ms_field os tid OFFSET_JITTER_NS jitter_ms w"

definition write_burst_loss :: "PyOs \<Rightarrow> int \<Rightarrow> pyval \<Rightarrow> SHMWriter \<Rightarrow> unit py \<times> SHMWriter" where
  "write_burst_loss os tid burst_loss_len' w = write_fields os tid [(OFFSET_BURST_LOSS_LEN, burst_loss_len')] w"

definition write_bandwidth :: "PyOs \<Rightarrow> int \<Rightarrow> pyval \<Rightarrow> SHMWriter \<Rightarrow> unit py \<times> SHMWriter" where
  "write_bandwidth os tid bps w = write_fields os tid [(OFFSET_BANDWIDTH_BPS, bps)] w"

definition write_timeouts :: "PyOs \<Rightarrow> int \<Rightarrow> pyval \<Rightarrow> pyval \<Rightarrow> SHMWriter \<Rightarrow> unit py \<times> SHMWriter" where
  "write_timeouts os tid connect_ms recv_ms w =
     write_fields os tid [(OFFSET_CONNECT_TIMEOUT_MS, connect_ms), (OFFSET_RECV_TIMEOUT_MS, recv_ms)] w"

text \<open>The five offsets of a direction, and the values \<open>None\<close> leaves alone.\<close>

definition direction_offsets :: "bool \<Rightarrow> nat list" where
  "direction_offsets uplink =
     (if uplink
      then [OFFSET_UPLINK_LATENCY_NS, OFFSET_UPLINK_JITTER_NS, OFFSET_UPLINK_PACKET_LOSS_PPM, OFFSET_UPLINK_BURST_LOSS_LEN, OFFSET_UPLINK_BANDWIDTH_BPS]
      else [OFFSET_DOWNLINK_LATENCY_NS, OFFSET_DOWNLINK_JITTER_NS, OFFSET_DOWNLINK_PACKET_LOSS_PPM, OFFSET_DOWNLINK_BURST_LOSS_LEN, OFFSET_DOWNLINK_BANDWIDTH_BPS])"

definition write_direction_profile ::
  "nat list \<Rightarrow> pyval \<Rightarrow> pyval \<Rightarrow> pyval \<Rightarrow> pyval \<Rightarrow> pyval \<Rightarrow> nat \<Rightarrow> update" where
  "write_direction_profile offs latency_ms jitter_ms packet_loss_ppm' burst_loss_len' bandwidth_bps' offset =
     upd_with (optional_ms_to_ns latency_ms) (\<lambda>l. upd_with (optional_ms_to_ns jitter_ms) (\<lambda>j.
       write_optional_u64_fields offset (zip offs [l, j, packet_loss_ppm', burst_loss_len', bandwidth_bps'])))"

definition write_direction ::
  "bool \<Rightarrow> PyOs \<Rightarrow> int \<Rightarrow> pyval \<Rightarrow> pyval \<Rightarrow> pyval \<Rightarrow> pyval \<Rightarrow> pyval \<Rightarrow> SHMWriter \<Rightarrow> unit py \<times> SHMWriter" where
  "write_direction uplink os tid latency_ms jitter_ms packet_loss_ppm' burst_loss_len' bandwidth_bps' w =
     write_with_generation_publish os tid
       (write_direction_profile (direction_offsets uplink) latency_ms jitter_ms packet_loss_ppm' burst_loss_len' bandwidth_bps') w"

definition write_correlated_loss ::
  "PyOs \<Rightarrow> int \<Rightarrow> pyval \<Rightarrow> pyval \<Rightarrow> pyval \<Rightarrow> pyval \<Rightarrow> pyval \<Rightarrow> SHMWriter \<Rightarrow> unit py \<times> SHMWriter" where
  "write_correlated_loss os tid enabled p_good_to_bad_ppm p_bad_to_good_ppm loss_good_ppm loss_bad_ppm w =
     write_fields os tid
       [(OFFSET_GE_ENABLED, VInt (if py_truth enabled then 1 else 0)), (OFFSET_GE_P_GOOD_TO_BAD_PPM, p_good_to_bad_ppm),
        (OFFSET_GE_P_BAD_TO_GOOD_PPM, p_bad_to_good_ppm), (OFFSET_GE_LOSS_GOOD_PPM, loss_good_ppm),
        (OFFSET_GE_LOSS_BAD_PPM, loss_bad_ppm)] w"

definition write_connection_error :: "PyOs \<Rightarrow> int \<Rightarrow> pyval \<Rightarrow> pyval \<Rightarrow> SHMWriter \<Rightarrow> unit py \<times> SHMWriter" where
  "write_connection_error os tid kind prob_ppm w =
     write_fields os tid [(OFFSET_CONN_ERR_KIND, kind), (OFFSET_CONN_ERR_PROB_PPM, prob_ppm)] w"

definition write_half_open :: "PyOs \<Rightarrow> int \<Rightarrow> pyval \<Rightarrow> pyval \<Rightarrow> SHMWriter \<Rightarrow> unit py \<times> SHMWriter" where
  "write_half_open os tid after_bytes err_kind w =
     write_fields os tid [(OFFSET_HALF_OPEN_AFTER_BYTES, after_bytes), (OFFSET_HALF_OPEN_ERR_KIND, err_kind)] w"

definition write_packet_duplicate :: "PyOs \<Rightarrow> int \<Rightarrow> pyval \<Rightarrow> pyval \<Rightarrow> SHMWriter \<Rightarrow> unit py \<times> SHMWriter" where
  "write_packet_duplicate os tid prob_ppm max_extra w =
     write_fields os tid [(OFFSET_DUP_PROB_PPM, prob_ppm), (OFFSET_DUP_MAX_EXTRA, max_extra)] w"

definition write_packet_reorder :: "PyOs \<Rightarrow> int \<Rightarrow> pyval \<Rightarrow> pyval \<Rightarrow> pyval \<Rightarrow> SHMWriter \<Rightarrow> unit py \<times> SHMWriter" where
  "write_packet_reorder os tid prob_ppm max_delay_ns window w =
     write_fields os tid
       [(OFFSET_REORDER_PROB_PPM, prob_ppm), (OFFSET_REORDER_MAX_DELAY_NS, max_delay_ns), (OFFSET_REORDER_WINDOW, window)] w"

definition write_dns :: "PyOs \<Rightarrow> int \<Rightarrow> pyval \<Rightarrow> pyval \<Rightarrow> pyval \<Rightarrow> SHMWriter \<Rightarrow> unit py \<times> SHMWriter" where
  "write_dns os tid delay_ms timeout_ms nxdomain_ppm w =
     write_with_generation_publish os tid (\<lambda>offset.
       upd_with (optional_ms_to_ns delay_ms) (\<lambda>d.
         write_optional_u64_fields offset
           [(OFFSET_DNS_DELAY_NS, d), (OFFSET_DNS_TIMEOUT_MS, timeout_ms), (OFFSET_DNS_NXDOMAIN_PPM, nxdomain_ppm)])) w"

definition write_schedule ::
  "PyOs \<Rightarrow> int \<Rightarrow> pyval \<Rightarrow> pyval \<Rightarrow> pyval \<Rightarrow> pyval \<Rightarrow> pyval \<Rightarrow> SHMWriter \<Rightarrow> unit py \<times> SHMWriter" where
  "write_schedule os tid schedule_type' param_a_ns param_b_ns param_c_ns started_ns w =
     write_fields os tid
       [(OFFSET_SCHEDULE_TYPE, schedule_type'), (OFFSET_SCHEDULE_PARAM_A, param_a_ns),
        (OFFSET_SCHEDULE_PARAM_B, param_b_ns), (OFFSET_SCHEDULE_PARAM_C, param_c_ns),
        (OFFSET_SCHEDULE_STARTED_MONOTONIC_NS, started_ns)] w"

definition require_in_range :: "int \<Rightarrow> int \<Rightarrow> pyval \<Rightarrow> int py" where
  "require_in_range lower upper value =
     py_bind (py_int value) (\<lambda>n. py_guard (lower \<le> n \<and> n \<le> upper) ValueError (Inr n))"

text \<open>\<open>int(value or 0)\<close>, positive when given.\<close>

definition require_optional_positive :: "pyval \<Rightarrow> int py" where
  "require_optional_positive value =
     py_bind (py_int (if py_truth value then value else VInt 0))
       (\<lambda>n. py_guard (\<not> (value \<noteq> VNone \<and> n \<le> 0)) ValueError (Inr n))"

definition write_session_budget ::
  "PyOs \<Rightarrow> int \<Rightarrow> pyval \<Rightarrow> pyval \<Rightarrow> pyval \<Rightarrow> pyval \<Rightarrow> pyval \<Rightarrow> pyval \<Rightarrow> pyval \<Rightarrow> SHMWriter \<Rightarrow> unit py \<times> SHMWriter" where
  "write_session_budget os tid max_bytes_tx max_bytes_rx max_ops max_duration_ms action budget_timeout_ms error_kind w =
     (case py_bind (require_in_range 1 3 action) (\<lambda>normalized_action.
           py_bind (if error_kind \<noteq> VNone then require_in_range 1 3 error_kind else Inr 0) (\<lambda>normalized_error_kind.
           py_bind (py_map require_optional_positive [max_bytes_tx, max_bytes_rx, max_ops, max_duration_ms, budget_timeout_ms])
             (\<lambda>limits. Inr (normalized_action, normalized_error_kind, limits)))) of
        Inl e \<Rightarrow> (Inl e, w)
      | Inr (normalized_action, normalized_error_kind, limits) \<Rightarrow>
          write_fields os tid
            [(OFFSET_SESSION_BUDGET_ENABLED, VInt 1), (OFFSET_SESSION_MAX_BYTES_TX, VInt (limits ! 0)),
             (OFFSET_SESSION_MAX_BYTES_RX, VInt (limits ! 1)), (OFFSET_SESSION_MAX_OPS, VInt (limits ! 2)),
             (OFFSET_SESSION_MAX_DURATION_MS, VInt (limits ! 3)), (OFFSET_SESSION_ACTION, VInt normalized_action),
             (OFFSET_SESSION_BUDGET_TIMEOUT_MS, VInt (limits ! 4)), (OFFSET_SESSION_ERROR_KIND, VInt normalized_error_kind)] w)"

definition write_policy_seed :: "PyOs \<Rightarrow> int \<Rightarrow> pyval \<Rightarrow> SHMWriter \<Rightarrow> unit py \<times> SHMWriter" where
  "write_policy_seed os tid seed w =
     (case py_bind (py_int seed) (\<lambda>n. py_guard (0 \<le> n) ValueError (Inr n)) of
        Inl e \<Rightarrow> (Inl e, w)
      | Inr normalized_seed \<Rightarrow> write_fields os tid [(OFFSET_POLICY_SEED, VInt normalized_seed)] w)"

text \<open>\<open>bytes(data[:n]).ljust(n)\<close>.\<close>

definition clipped_bytes :: "nat \<Rightarrow> pyval \<Rightarrow> bytes py" where
  "clipped_bytes n data =
     (let of_ints = (\<lambda>vs. py_bind (py_map (\<lambda>v. case v of
            VInt i \<Rightarrow> py_guard (0 \<le> i \<and> i < 256) ValueError (Inr (word_of_int i :: u8))
          | VBool b \<Rightarrow> Inr (if b then 1 else 0)
          | _ \<Rightarrow> Inl TypeError) (take n vs)) (\<lambda>bs. Inr (ljust n bs)))
      in case data of
           VBytes bs \<Rightarrow> Inr (ljust n (take n bs))
         | VList vs \<Rightarrow> of_ints vs
         | VTuple vs \<Rightarrow> of_ints vs
         | _ \<Rightarrow> Inl TypeError)"

text \<open>The eighteen integer fields of a payload mutation with their keyword names, and its three byte
  strings.\<close>

definition mutation_int_fields :: "(string \<times> nat) list" where
  "mutation_int_fields =
     [(''enabled'', OFFSET_PAYLOAD_MUTATION_ENABLED), (''prob_ppm'', OFFSET_PAYLOAD_MUTATION_PROB_PPM),
      (''type'', OFFSET_PAYLOAD_MUTATION_TYPE), (''target'', OFFSET_PAYLOAD_MUTATION_TARGET),
      (''truncate_size'', OFFSET_PAYLOAD_MUTATION_TRUNCATE_SIZE),
      (''corrupt_count'', OFFSET_PAYLOAD_MUTATION_CORRUPT_COUNT),
      (''corrupt_seed'', OFFSET_PAYLOAD_MUTATION_CORRUPT_SEED),
      (''inject_position'', OFFSET_PAYLOAD_MUTATION_INJECT_POSITION),
      (''inject_len'', OFFSET_PAYLOAD_MUTATION_INJECT_LEN),
      (''replace_find_len'', OFFSET_PAYLOAD_MUTATION_REPLACE_FIND_LEN),
      (''replace_with_len'', OFFSET_PAYLOAD_MUTATION_REPLACE_WITH_LEN),
      (''swap_pos1'', OFFSET_PAYLOAD_MUTATION_SWAP_POS1), (''swap_pos2'', OFFSET_PAYLOAD_MUTATION_SWAP_POS2),
      (''min_size'', OFFSET_PAYLOAD_MUTATION_MIN_SIZE), (''max_size'', OFFSET_PAYLOAD_MUTATION_MAX_SIZE),
      (''every_n_packets'', OFFSET_PAYLOAD_MUTATION_EVERY_N_PACKETS), (''dry_run'', OFFSET_PAYLOAD_MUTATION_DRY_RUN),
      (''max_buffer_size'', OFFSET_PAYLOAD_MUTATION_MAX_BUFFER_SIZE)]"

definition write_payload_mutation :: "PyOs \<Rightarrow> int \<Rightarrow> pydict \<Rightarrow> SHMWriter \<Rightarrow> unit py \<times> SHMWriter" where
  "write_payload_mutation os tid args w =
     (case py_bind (clipped_bytes 64 (py_get args ''inject_data'' VNone)) (\<lambda>inject_bs.
           py_bind (clipped_bytes 32 (py_get args ''replace_find'' VNone)) (\<lambda>find_bs.
           py_bind (clipped_bytes 32 (py_get args ''replace_with'' VNone)) (\<lambda>with_bs. Inr (inject_bs, find_bs, with_bs)))) of
        Inl e \<Rightarrow> (Inl e, w)
      | Inr (inject_bs, find_bs, with_bs) \<Rightarrow>
          write_with_generation_publish os tid (\<lambda>offset.
            upd_with (py_map (\<lambda>(k, off). py_bind (py_int (py_get args k VNone)) (\<lambda>i. Inr (off, VInt i))) mutation_int_fields)
              (\<lambda>fs.
            upd_then (pack_u64_fields offset fs)
           (upd_then (store_bytes (offset + OFFSET_PAYLOAD_MUTATION_INJECT_DATA) inject_bs)
           (upd_then (store_bytes (offset + OFFSET_PAYLOAD_MUTATION_REPLACE_FIND) find_bs)
              (store_bytes (offset + OFFSET_PAYLOAD_MUTATION_REPLACE_WITH) with_bs))))) w)"

definition write_policy_name :: "PyOs \<Rightarrow> string \<Rightarrow> SHMWriter \<Rightarrow> unit py \<times> SHMWriter" where
  "write_policy_name os name w =
     with_mmap os (store_bytes (nat PY_POLICY_REGION + 4) (ljust 32 (take 32 (utf8_encode name)))) w"

definition clear :: "PyOs \<Rightarrow> int \<Rightarrow> SHMWriter \<Rightarrow> unit py \<times> SHMWriter" where
  "clear os tid w =
     write_with_generation_publish os tid (\<lambda>offset.
       upd_then (store_bytes offset (replicate (nat CONFIG_SIZE) 0)) (clear_target_rules_table (py_tid_slot tid))) w"

definition close_writer :: "SHMWriter \<Rightarrow> SHMWriter" where
  "close_writer w = w\<lparr>sw_fd := None, sw_mmap := None\<rparr>"

end
