(* ===== verification/Fault_Decorator.thy ===== *)
theory Fault_Decorator
  imports Policy_Registry Shm_Writer
begin

text \<open>
  Applying profiles (\<open>decorator_helpers.py\<close>), decorated functions (\<open>decorator.py\<close>) and policy contexts
  (\<open>policy_context.py\<close>).

  A decorated function is user code that may do anything to the state of the package, for example call
  other decorated functions: it is a function of the state, and its result is a value or an
  awaitable, which is run later. \<open>getattr(shm, writer)(tid, **values)\<close> is a call with keywords: it raises
  \<open>TypeError\<close> when a keyword is not a parameter of the method or a required parameter has no keyword.
\<close>

section \<open>Calls with keywords\<close>

datatype profile_writer =
    WriteUplink | WriteDownlink | WriteCorrelatedLoss | WriteConnectionError | WriteHalfOpen | WritePacketDuplicate
  | WritePacketReorder | WriteDns | WritePayloadMutation

text \<open>The keyword parameters of the methods: the required ones, and those with a default.\<close>

fun writer_required :: "profile_writer \<Rightarrow> string list" where
  "writer_required WriteUplink = []"
| "writer_required WriteDownlink = []"
| "writer_required WriteCorrelatedLoss =
     [''enabled'', ''p_good_to_bad_ppm'', ''p_bad_to_good_ppm'', ''loss_good_ppm'', ''loss_bad_ppm'']"
| "writer_required WriteConnectionError = [''kind'', ''prob_ppm'']"
| "writer_required WriteHalfOpen = [''after_bytes'', ''err_kind'']"
| "writer_required WritePacketDuplicate = [''prob_ppm'', ''max_extra'']"
| "writer_required WritePacketReorder = [''prob_ppm'']"
| "writer_required WriteDns = []"
| "writer_required WritePayloadMutation =
     [''enabled'', ''prob_ppm'', ''type'', ''target'', ''truncate_size'', ''corrupt_count'', ''corrupt_seed'',
      ''inject_position'', ''inject_data'', ''inject_len'', ''replace_find'', ''replace_find_len'', ''replace_with'',
      ''replace_with_len'', ''swap_pos1'', ''swap_pos2'', ''min_size'', ''max_size'', ''every_n_packets'', ''dry_run'',
      ''max_buffer_size'']"

fun writer_optional :: "profile_writer \<Rightarrow> string list" where
  "writer_optional WriteUplink = [''latency_ms'', ''jitter_ms'', ''packet_loss_ppm'', ''burst_loss_len'', ''bandwidth_bps'']"
| "writer_optional WriteDownlink = [''latency_ms'', ''jitter_ms'', ''packet_loss_ppm'', ''burst_loss_len'', ''bandwidth_bps'']"
| "writer_optional WritePacketReorder = [''max_delay_ns'', ''window'']"
| "writer_optional WriteDns = [''delay_ms'', ''timeout_ms'', ''nxdomain_ppm'']"
| "writer_optional _ = []"

definition accepts_keywords :: "profile_writer \<Rightarrow> string list \<Rightarrow> bool" where
  "accepts_keywords wr ks \<longleftrightarrow>
     list_all (\<lambda>k. k \<in> set (writer_required wr @ writer_optional wr)) ks \<and> list_all (\<lambda>k. k \<in> set ks) (writer_required wr)"

definition direction_call :: "bool \<Rightarrow> PyOs \<Rightarrow> int \<Rightarrow> pydict \<Rightarrow> SHMWriter \<Rightarrow> unit py \<times> SHMWriter" where
  "direction_call uplink os tid kw =
     (let a = (\<lambda>k. py_get kw k VNone) in
      write_direction uplink os tid (a ''latency_ms'') (a ''jitter_ms'') (a ''packet_loss_ppm'') (a ''burst_loss_len'')
        (a ''bandwidth_bps''))"

fun run_writer :: "PyOs \<Rightarrow> int \<Rightarrow> profile_writer \<Rightarrow> pydict \<Rightarrow> SHMWriter \<Rightarrow> unit py \<times> SHMWriter" where
  "run_writer os tid WriteUplink kw = direction_call True os tid kw"
| "run_writer os tid WriteDownlink kw = direction_call False os tid kw"
| "run_writer os tid WriteCorrelatedLoss kw =
     write_correlated_loss os tid (py_get kw ''enabled'' VNone) (py_get kw ''p_good_to_bad_ppm'' VNone)
       (py_get kw ''p_bad_to_good_ppm'' VNone) (py_get kw ''loss_good_ppm'' VNone) (py_get kw ''loss_bad_ppm'' VNone)"
| "run_writer os tid WriteConnectionError kw =
     write_connection_error os tid (py_get kw ''kind'' VNone) (py_get kw ''prob_ppm'' VNone)"
| "run_writer os tid WriteHalfOpen kw =
     write_half_open os tid (py_get kw ''after_bytes'' VNone) (py_get kw ''err_kind'' VNone)"
| "run_writer os tid WritePacketDuplicate kw =
     write_packet_duplicate os tid (py_get kw ''prob_ppm'' VNone) (py_get kw ''max_extra'' VNone)"
| "run_writer os tid WritePacketReorder kw =
     write_packet_reorder os tid (py_get kw ''prob_ppm'' VNone) (py_get kw ''max_delay_ns'' (VInt 0)) (py_get kw ''window'' (VInt 1))"
| "run_writer os tid WriteDns kw =
     write_dns os tid (py_get kw ''delay_ms'' VNone) (py_get kw ''timeout_ms'' VNone) (py_get kw ''nxdomain_ppm'' VNone)"
| "run_writer os tid WritePayloadMutation kw = write_payload_mutation os tid kw"

definition call_writer :: "PyOs \<Rightarrow> int \<Rightarrow> profile_writer \<Rightarrow> pydict \<Rightarrow> SHMWriter \<Rightarrow> unit py \<times> SHMWriter" where
  "call_writer os tid wr kw w = (if accepts_keywords wr (map fst kw) then run_writer os tid wr kw w else (Inl TypeError, w))"

section \<open>Applying profiles\<close>

definition DIRECTIONAL_FIELDS :: "string list" where
  "DIRECTIONAL_FIELDS = [''latency'', ''jitter'', ''packet_loss_ppm'', ''burst_loss'', ''rate'']"

definition write_directional_profile :: "PyOs \<Rightarrow> int \<Rightarrow> profile_writer \<Rightarrow> pydict \<Rightarrow> SHMWriter \<Rightarrow> unit py \<times> SHMWriter" where
  "write_directional_profile os tid wr profile w =
     call_writer os tid wr (map (\<lambda>name. (name, py_get profile name VNone)) DIRECTIONAL_FIELDS) w"

definition write_profile_with_defaults ::
  "PyOs \<Rightarrow> int \<Rightarrow> profile_writer \<Rightarrow> pydict \<Rightarrow> pydict \<Rightarrow> SHMWriter \<Rightarrow> unit py \<times> SHMWriter" where
  "write_profile_with_defaults os tid wr defaults profile w =
     call_writer os tid wr (map (\<lambda>(name, dflt). (name, py_get profile name dflt)) defaults) w"

definition DIRECTIONAL_WRITERS :: "(string \<times> profile_writer) list" where
  "DIRECTIONAL_WRITERS = [(''uplink_profile'', WriteUplink), (''downlink_profile'', WriteDownlink)]"

definition PROFILE_WRITERS :: "(string \<times> profile_writer \<times> pydict) list" where
  "PROFILE_WRITERS =
     [(''correlated_loss_profile'', WriteCorrelatedLoss,
         [(''enabled'', VInt 0), (''p_good_to_bad_ppm'', VInt 0), (''p_bad_to_good_ppm'', VInt 0),
          (''loss_good_ppm'', VInt 0), (''loss_bad_ppm'', VInt 0)]),
      (''connection_error_profile'', WriteConnectionError, [(''kind'', VInt 0), (''prob_ppm'', VInt 0)]),
      (''half_open_profile'', WriteHalfOpen, [(''after'', VInt 0), (''err_kind'', VInt 0)]),
      (''packet_duplicate_profile'', WritePacketDuplicate, [(''prob_ppm'', VInt 0), (''max_extra'', VInt 1)]),
      (''packet_reorder_profile'', WritePacketReorder,
         [(''prob_ppm'', VInt 0), (''max_delay_ns'', VInt 0), (''window'', VInt 1)]),
      (''dns_profile'', WriteDns, [(''delay_ms'', VNone), (''timeout_ms'', VNone), (''nxdomain_ppm'', VNone)]),
      (''payload_mutation_profile'', WritePayloadMutation,
         [(''enabled'', VInt 0), (''prob_ppm'', VInt 0), (''type'', VInt 0), (''target'', VInt 0), (''truncate_size'', VInt 0),
          (''corrupt_count'', VInt 0), (''corrupt_seed'', VInt 0), (''inject_position'', VInt 0), (''inject_data'', VBytes []),
          (''inject_len'', VInt 0), (''replace_find'', VBytes []), (''replace_find_len'', VInt 0), (''replace_with'', VBytes []),
          (''replace_with_len'', VInt 0), (''swap_pos1'', VInt 0), (''swap_pos2'', VInt 0), (''min_size'', VInt 0),
          (''max_size'', VInt 0), (''every_n_packets'', VInt 1), (''dry_run'', VInt 0), (''max_buffer_size'', VInt 65536)])]"

text \<open>Steps on the writer, one after the other until one raises.\<close>

type_synonym writer_step = "SHMWriter \<Rightarrow> unit py \<times> SHMWriter"

fun run_writer_steps :: "writer_step list \<Rightarrow> writer_step" where
  "run_writer_steps [] w = (Inr (), w)"
| "run_writer_steps (s # ss) w = (case s w of (Inl e, w1) \<Rightarrow> (Inl e, w1) | (Inr _, w1) \<Rightarrow> run_writer_steps ss w1)"

text \<open>\<open>if (value := profiles.get(field)) is not None\<close>, and \<open>if profile := profiles.get(field)\<close> followed by \<open>.get\<close>.\<close>

definition on_given :: "pydict \<Rightarrow> string \<Rightarrow> (pyval \<Rightarrow> writer_step) \<Rightarrow> writer_step" where
  "on_given profiles field f w =
     (let v = py_get profiles field VNone in if v = VNone then (Inr (), w) else f v w)"

definition on_mapping :: "pydict \<Rightarrow> string \<Rightarrow> (pydict \<Rightarrow> writer_step) \<Rightarrow> writer_step" where
  "on_mapping profiles field f w =
     (let v = py_get profiles field VNone in
      if \<not> py_truth v then (Inr (), w) else case v of VDict d \<Rightarrow> f d w | _ \<Rightarrow> (Inl AttributeError, w))"

text \<open>The elements of an iterable, for \<open>len(rules)\<close> and \<open>enumerate(rules)\<close>.\<close>

fun py_elements :: "pyval \<Rightarrow> pyval list option" where
  "py_elements (VList xs) = Some xs"
| "py_elements (VTuple xs) = Some xs"
| "py_elements (VStr s) = Some (map (\<lambda>c. VStr [c]) s)"
| "py_elements (VBytes b) = Some (map (\<lambda>x. VInt (uint x)) b)"
| "py_elements (VDict d) = Some (map (\<lambda>kv. VStr (fst kv)) d)"
| "py_elements _ = None"

definition targets_step :: "PyOs \<Rightarrow> (string \<Rightarrow> string option) \<Rightarrow> int \<Rightarrow> pydict \<Rightarrow> writer_step" where
  "targets_step os ext tid profiles w =
     (let v = py_get profiles ''target_profiles'' VNone in
      if \<not> py_truth v then (Inr (), w)
      else case py_elements v of
        Some rules \<Rightarrow> write_targets os ext tid rules w
      | None \<Rightarrow> with_mmap os (\<lambda>m. (Inl TypeError, m)) w)"

definition scalar_steps :: "PyOs \<Rightarrow> int \<Rightarrow> pydict \<Rightarrow> writer_step list" where
  "scalar_steps os tid profiles =
     [on_given profiles ''seed'' (write_policy_seed os tid),
      on_given profiles ''latency'' (write_latency os tid),
      on_given profiles ''jitter'' (write_jitter os tid),
      on_given profiles ''packet_loss_ppm'' (write_packet_loss os tid),
      on_given profiles ''burst_loss'' (write_burst_loss os tid),
      on_given profiles ''rate'' (write_bandwidth os tid)]"

definition timeouts_step :: "PyOs \<Rightarrow> int \<Rightarrow> pydict \<Rightarrow> writer_step" where
  "timeouts_step os tid profiles =
     on_mapping profiles ''timeouts'' (\<lambda>t. write_timeouts os tid (py_get t ''connect_ms'' (VInt 0)) (py_get t ''recv_ms'' (VInt 0)))"

definition schedule_step :: "PyOs \<Rightarrow> int \<Rightarrow> pydict \<Rightarrow> int \<Rightarrow> writer_step" where
  "schedule_step os tid profiles started_ns =
     on_mapping profiles ''schedule_profile'' (\<lambda>s.
       write_schedule os tid (py_get s ''schedule_type'' (VInt 0)) (py_get s ''param_a_ns'' (VInt 0))
         (py_get s ''param_b_ns'' (VInt 0)) (py_get s ''param_c_ns'' (VInt 0)) (VInt started_ns))"

definition budget_step :: "PyOs \<Rightarrow> int \<Rightarrow> pydict \<Rightarrow> writer_step" where
  "budget_step os tid profiles =
     on_mapping profiles ''session_budget_profile'' (\<lambda>b.
       write_session_budget os tid (py_get b ''max_bytes_tx'' VNone) (py_get b ''max_bytes_rx'' VNone) (py_get b ''max_ops'' VNone)
         (py_get b ''max_duration'' VNone) (py_get b ''action'' (VInt 0)) (py_get b ''budget_timeout'' VNone)
         (py_get b ''error_kind'' VNone))"

definition apply_fault_profiles ::
  "PyOs \<Rightarrow> (string \<Rightarrow> string option) \<Rightarrow> int \<Rightarrow> pydict \<Rightarrow> int \<Rightarrow> writer_step" where
  "apply_fault_profiles os ext tid profiles started_ns =
     run_writer_steps
       (scalar_steps os tid profiles
        @ [timeouts_step os tid profiles]
        @ map (\<lambda>(field, wr). on_mapping profiles field (write_directional_profile os tid wr)) DIRECTIONAL_WRITERS
        @ map (\<lambda>(field, wr, defaults). on_mapping profiles field (write_profile_with_defaults os tid wr defaults)) PROFILE_WRITERS
        @ [targets_step os ext tid profiles, schedule_step os tid profiles started_ns, budget_step os tid profiles])"

section \<open>Decorated functions\<close>

record PyWorld =
  pw_shm :: SHMWriter
  pw_registry :: Registry

datatype 'r outcome = Value 'r | Awaitable "PyWorld \<Rightarrow> 'r py \<times> PyWorld"

type_synonym 'r callee = "PyWorld \<Rightarrow> 'r outcome py \<times> PyWorld"

text \<open>What a call reads of its surroundings.\<close>

record PyEnv =
  pe_os :: PyOs
  pe_lib :: PyLib
  pe_native_id :: int
  pe_monotonic_ns :: int

definition on_shm_writer :: "writer_step \<Rightarrow> PyWorld \<Rightarrow> unit py \<times> PyWorld" where
  "on_shm_writer s p = (case s (pw_shm p) of (r, w) \<Rightarrow> (r, p\<lparr>pw_shm := w\<rparr>))"

text \<open>\<open>try: ... finally: shm.clear(tid)\<close>: an exception of \<open>clear\<close> replaces the result.\<close>

definition finally_clear :: "PyEnv \<Rightarrow> int \<Rightarrow> 'a py \<times> PyWorld \<Rightarrow> 'a py \<times> PyWorld" where
  "finally_clear env tid rp =
     (case on_shm_writer (clear (pe_os env) tid) (snd rp) of
        (Inl e, p) \<Rightarrow> (Inl e, p)
      | (Inr _, p) \<Rightarrow> (fst rp, p))"

definition run_async :: "PyEnv \<Rightarrow> int \<Rightarrow> (PyWorld \<Rightarrow> 'r py \<times> PyWorld) \<Rightarrow> PyWorld \<Rightarrow> 'r py \<times> PyWorld" where
  "run_async env tid awaitable p = finally_clear env tid (awaitable p)"

definition apply_then_call :: "PyEnv \<Rightarrow> pydict \<Rightarrow> 'r callee \<Rightarrow> 'r callee" where
  "apply_then_call env profiles func p =
     (case on_shm_writer (apply_fault_profiles (pe_os env) (pl_idna (pe_lib env)) (pe_native_id env) profiles (pe_monotonic_ns env)) p of
        (Inl e, p1) \<Rightarrow> (Inl e, p1)
      | (Inr _, p1) \<Rightarrow> func p1)"

definition policy_name_step :: "PyEnv \<Rightarrow> string option \<Rightarrow> PyWorld \<Rightarrow> unit py \<times> PyWorld" where
  "policy_name_step env policy_name p =
     (case policy_name of
        Some name \<Rightarrow> if name = [] then (Inr (), p) else on_shm_writer (write_policy_name (pe_os env) name) p
      | None \<Rightarrow> (Inr (), p))"

definition FaultWrapper_call :: "PyEnv \<Rightarrow> string option \<Rightarrow> pydict \<Rightarrow> 'r callee \<Rightarrow> 'r callee" where
  "FaultWrapper_call env policy_name profiles func p =
     (case policy_name_step env policy_name p of
        (Inl e, p1) \<Rightarrow> (Inl e, p1)
      | (Inr _, p1) \<Rightarrow>
          (case apply_then_call env profiles func p1 of
             (Inr (Awaitable k), p2) \<Rightarrow> (Inr (Awaitable (run_async env (pe_native_id env) k)), p2)
           | rp \<Rightarrow> finally_clear env (pe_native_id env) rp))"

section \<open>Decorators\<close>

text \<open>A decorator is the profiles of its wrapper.\<close>

definition int_profile :: "string \<Rightarrow> int py \<Rightarrow> pydict py" where
  "int_profile key r = py_bind r (\<lambda>i. Inr [(key, VInt i)])"

definition dict_profile :: "string \<Rightarrow> pydict py \<Rightarrow> pydict py" where
  "dict_profile key r = py_bind r (\<lambda>d. Inr [(key, VDict d)])"

definition latency :: "pyval \<Rightarrow> pydict py" where
  "latency t = int_profile ''latency'' (parse_duration t)"

definition jitter :: "pyval \<Rightarrow> pydict py" where
  "jitter t = int_profile ''jitter'' (parse_duration t)"

definition packet_loss :: "pyval \<Rightarrow> pydict py" where
  "packet_loss p = int_profile ''packet_loss_ppm'' (parse_packet_loss p)"

definition burst_loss :: "pyval \<Rightarrow> pydict py" where
  "burst_loss n = int_profile ''burst_loss'' (parse_burst_loss n)"

definition rate :: "pyval \<Rightarrow> pydict py" where
  "rate r = int_profile ''rate'' (parse_rate r)"

definition timeout :: "pyval \<Rightarrow> pyval \<Rightarrow> pydict py" where
  "timeout connect recv = dict_profile ''timeouts'' (build_timeout_profile connect recv)"

definition dns :: "pyval \<Rightarrow> pyval \<Rightarrow> pyval \<Rightarrow> pydict py" where
  "dns delay timeout' nxdomain = dict_profile ''dns_profile'' (build_dns_profile delay timeout' nxdomain)"

definition session_budget :: "pydict \<Rightarrow> pydict py" where
  "session_budget args = dict_profile ''session_budget_profile'' (build_session_budget_profile args)"

definition with_directional_profile :: "string \<Rightarrow> pyval \<Rightarrow> pyval \<Rightarrow> pyval \<Rightarrow> pyval \<Rightarrow> pyval \<Rightarrow> pydict py" where
  "with_directional_profile field latency' jitter' packet_loss' burst_loss' rate' =
     dict_profile field (concat_entries
       [opt_entry ''latency'' parse_duration latency', opt_entry ''jitter'' parse_duration jitter',
        opt_entry ''packet_loss_ppm'' parse_packet_loss packet_loss', opt_entry ''burst_loss'' parse_burst_loss burst_loss',
        opt_entry ''rate'' parse_rate rate'])"

definition uplink :: "pyval \<Rightarrow> pyval \<Rightarrow> pyval \<Rightarrow> pyval \<Rightarrow> pyval \<Rightarrow> pydict py" where
  "uplink = with_directional_profile ''uplink_profile''"

definition downlink :: "pyval \<Rightarrow> pyval \<Rightarrow> pyval \<Rightarrow> pyval \<Rightarrow> pyval \<Rightarrow> pydict py" where
  "downlink = with_directional_profile ''downlink_profile''"

definition correlated_loss :: "pyval \<Rightarrow> pyval \<Rightarrow> pyval \<Rightarrow> pyval \<Rightarrow> pydict py" where
  "correlated_loss p_good_to_bad p_bad_to_good loss_good loss_bad =
     dict_profile ''correlated_loss_profile'' (build_correlated_loss_profile p_good_to_bad p_bad_to_good loss_good loss_bad)"

definition connection_error :: "pyval \<Rightarrow> pyval \<Rightarrow> pydict py" where
  "connection_error kind prob = dict_profile ''connection_error_profile'' (build_connection_error_profile kind prob)"

definition half_open :: "pyval \<Rightarrow> pyval \<Rightarrow> pydict py" where
  "half_open after error = dict_profile ''half_open_profile'' (build_half_open_profile after error)"

definition packet_duplicate :: "pyval \<Rightarrow> pyval \<Rightarrow> pydict py" where
  "packet_duplicate prob max_extra = dict_profile ''packet_duplicate_profile'' (build_packet_duplicate_profile prob max_extra)"

definition packet_reorder :: "pyval \<Rightarrow> pyval \<Rightarrow> pyval \<Rightarrow> pydict py" where
  "packet_reorder prob max_delay window =
     dict_profile ''packet_reorder_profile'' (build_packet_reorder_profile prob max_delay window)"

definition payload_mutation :: "pydict \<Rightarrow> pydict py" where
  "payload_mutation args = dict_profile ''payload_mutation_profile'' (build_payload_mutation_profile args)"

definition POLICY_FIELDS :: "string list" where
  "POLICY_FIELDS =
     [''seed'', ''latency'', ''jitter'', ''packet_loss_ppm'', ''burst_loss'', ''rate'', ''timeouts'', ''uplink_profile'',
      ''downlink_profile'', ''correlated_loss_profile'', ''connection_error_profile'', ''half_open_profile'',
      ''packet_duplicate_profile'', ''packet_reorder_profile'', ''dns_profile'', ''target_profiles'', ''schedule_profile'',
      ''session_budget_profile'', ''payload_mutation_profile'']"

definition policy_profiles :: "pydict \<Rightarrow> pydict" where
  "policy_profiles policy =
     concat (map (\<lambda>field. case map_of policy field of Some v \<Rightarrow> [(field, v)] | None \<Rightarrow> []) POLICY_FIELDS)"

definition fault :: "PyEnv \<Rightarrow> string \<Rightarrow> 'r callee \<Rightarrow> 'r callee" where
  "fault env policy_name func p =
     (let resolved_policy_name =
            (if policy_name \<noteq> ''auto'' then policy_name
             else case get_thread_policy (pw_registry p) of Some n \<Rightarrow> n | None \<Rightarrow> []);
          policy = (if resolved_policy_name = [] then None else get_policy_for_apply resolved_policy_name (pw_registry p))
      in case policy of
           None \<Rightarrow> func p
         | Some pol \<Rightarrow>
             if pol = [] then func p
             else FaultWrapper_call env (Some resolved_policy_name) (policy_profiles pol) func p)"

section \<open>Policy contexts\<close>

record policy_context =
  pc_policy_name :: "string option"
  pc_policy_kwargs :: pydict
  pc_previous :: "string option"
  pc_temporary_policy :: "string option"

definition policy_context_init :: "string option \<Rightarrow> pydict \<Rightarrow> policy_context py" where
  "policy_context_init policy_name kwargs =
     py_guard (\<not> (policy_name \<noteq> None \<and> kwargs \<noteq> [])) ValueError
       (Inr \<lparr>pc_policy_name = policy_name, pc_policy_kwargs = kwargs, pc_previous = None, pc_temporary_policy = None\<rparr>)"

text \<open>\<open>uuid\<close> is the hexadecimal text of \<open>uuid.uuid4()\<close>.\<close>

definition temporary_name :: "string \<Rightarrow> string" where
  "temporary_name uuid = ''__faultcore_temp_'' @ uuid"

definition resolve_policy_name ::
  "PyLib \<Rightarrow> string \<Rightarrow> policy_context \<Rightarrow> Registry \<Rightarrow> string option py \<times> policy_context \<times> Registry" where
  "resolve_policy_name lib uuid c r =
     (if pc_policy_name c \<noteq> None then (Inr (pc_policy_name c), c, r)
      else if pc_policy_kwargs c = [] then (Inr None, c, r)
      else
        let name = temporary_name uuid; c1 = c\<lparr>pc_temporary_policy := Some name\<rparr>
        in case register_policy lib name (pc_policy_kwargs c) r of
             (Inl e, r1) \<Rightarrow> (Inl e, c1, r1)
           | (Inr _, r1) \<Rightarrow> (Inr (Some name), c1, r1))"

definition context_exit :: "policy_context \<Rightarrow> Registry \<Rightarrow> policy_context \<times> Registry" where
  "context_exit c r =
     (let r1 = set_thread_policy (pc_previous c) r in
      (c\<lparr>pc_temporary_policy := None\<rparr>,
       case pc_temporary_policy c of None \<Rightarrow> r1 | Some name \<Rightarrow> snd (unregister_policy name r1)))"

definition context_enter :: "PyLib \<Rightarrow> string \<Rightarrow> policy_context \<Rightarrow> Registry \<Rightarrow> unit py \<times> policy_context \<times> Registry" where
  "context_enter lib uuid c r =
     (let c0 = c\<lparr>pc_previous := get_thread_policy r\<rparr> in
      case resolve_policy_name lib uuid c0 r of
        (Inr name, c1, r1) \<Rightarrow> (Inr (), c1, set_thread_policy name r1)
      | (Inl e, c1, r1) \<Rightarrow> (case context_exit c1 r1 of (c2, r2) \<Rightarrow> (Inl e, c2, r2)))"

text \<open>\<open>with policy_context(...): body\<close>.\<close>

definition with_policy_context ::
  "PyLib \<Rightarrow> string \<Rightarrow> policy_context \<Rightarrow> (Registry \<Rightarrow> 'a py \<times> Registry) \<Rightarrow> Registry \<Rightarrow> 'a py \<times> Registry" where
  "with_policy_context lib uuid c body r =
     (case context_enter lib uuid c r of
        (Inl e, _, r1) \<Rightarrow> (Inl e, r1)
      | (Inr _, c1, r1) \<Rightarrow> (case body r1 of (res, r2) \<Rightarrow> (res, snd (context_exit c1 r2))))"

end
