(* ===== verification/Policy_Properties.thy ===== *)
theory Policy_Properties
  imports Policy_Registry
begin

text \<open>
  Properties of policies: where the parts of a policy are found, the ranges of parsed values, the
  order and the validity of target rules, and contexts.
\<close>

section \<open>The parts of a policy\<close>

text \<open>Which keys the parts of a policy may have.\<close>

definition keys_within :: "string set \<Rightarrow> pydict py \<Rightarrow> bool" where
  "keys_within ks r \<longleftrightarrow> (\<forall>d. r = Inr d \<longrightarrow> fst ` set d \<subseteq> ks)"

lemma keys_within_absent: "keys_within ks (Inr d) \<Longrightarrow> k \<notin> ks \<Longrightarrow> map_of d k = None"
  by (auto simp: keys_within_def map_of_eq_None_iff)

lemma concat_entries_Cons:
  "concat_entries [] = Inr []"
  "concat_entries (e # es) = py_bind e (\<lambda>d. py_bind (concat_entries es) (\<lambda>ds. Inr (d @ ds)))"
  by (cases e; cases "py_map (\<lambda>e. e) es"; simp add: concat_entries_def)+

lemma keys_within_concat: "list_all (keys_within ks) es \<Longrightarrow> keys_within ks (concat_entries es)"
proof (induction es)
  case (Cons e es)
  have "fst ` set d \<subseteq> ks" if d: "concat_entries (e # es) = Inr d" for d
  proof -
    obtain da ds where "e = Inr da" "concat_entries es = Inr ds" "d = da @ ds"
      using d by (auto simp: concat_entries_Cons py_bind_eq_Inr)
    then show ?thesis using Cons by (simp add: keys_within_def image_Un)
  qed
  then show ?case by (simp add: keys_within_def)
qed (simp add: keys_within_def concat_entries_Cons)

lemma keys_within_entries:
  "key \<in> ks \<Longrightarrow> keys_within ks (opt_entry key parse v)"
  "key \<in> ks \<Longrightarrow> keys_within ks (mapping_entry key build v)"
  "''timeouts'' \<in> ks \<Longrightarrow> keys_within ks (timeout_entry v)"
  "''dns_profile'' \<in> ks \<Longrightarrow> keys_within ks (dns_entry v)"
  "''target_profiles'' \<in> ks \<Longrightarrow> keys_within ks (targets_entry lib v)"
  by (auto simp: keys_within_def opt_entry_def mapping_entry_def timeout_entry_def dns_entry_def targets_entry_def py_bind_eq_Inr
      split: if_splits option.splits pyval.splits)

text \<open>A key that only one part may have is looked up in that part.\<close>

lemma concat_entries_absent:
  assumes "concat_entries (map snd ts) = Inr d" "list_all (\<lambda>(ks, e). keys_within ks e) ts" "filter (\<lambda>t. k \<in> fst t) ts = []"
  shows "map_of d k = None"
  using assms
proof (induction ts arbitrary: d)
  case (Cons t ts)
  then obtain da ds where d: "snd t = Inr da" "concat_entries (map snd ts) = Inr ds" "d = da @ ds"
    by (auto simp: concat_entries_Cons py_bind_eq_Inr)
  moreover have "map_of da k = None"
    using Cons.prems(2,3) d(1) by (cases t) (simp add: keys_within_absent split: if_splits)
  ultimately show ?case using Cons.IH [OF d(2)] Cons.prems(2,3) by (simp add: map_add_def split: if_splits)
qed (simp add: concat_entries_Cons)

lemma concat_entries_lookup:
  assumes "concat_entries (map snd ts) = Inr d" "list_all (\<lambda>(ks, e). keys_within ks e) ts" "filter (\<lambda>t. k \<in> fst t) ts = [(ks, Inr di)]"
  shows "map_of d k = map_of di k"
  using assms
proof (induction ts arbitrary: d)
  case (Cons t ts)
  then obtain da ds where d: "snd t = Inr da" "concat_entries (map snd ts) = Inr ds" "d = da @ ds"
    by (auto simp: concat_entries_Cons py_bind_eq_Inr)
  show ?case
  proof (cases "k \<in> fst t")
    case True
    then have "t = (ks, Inr di)" "filter (\<lambda>t. k \<in> fst t) ts = []" using Cons.prems(3) by simp_all
    with concat_entries_absent [OF d(2) _ this(2)] Cons.prems(2) d show ?thesis by (simp add: map_add_def split: option.split)
  next
    case False
    then have "map_of da k = None" using Cons.prems(2) d(1) by (cases t) (auto dest: keys_within_absent)
    with Cons.IH [OF d(2)] Cons.prems(2,3) False d(3) show ?thesis by (simp add: map_add_def split: option.split)
  qed
qed simp

lemma keys_within_parts:
  "keys_within {''seed'', ''latency'', ''jitter'', ''packet_loss_ppm'', ''burst_loss'', ''rate''} (set_scalar_policy_values args)"
  "keys_within {''correlated_loss_profile'', ''connection_error_profile'', ''half_open_profile'', ''packet_duplicate_profile'',
     ''packet_reorder_profile'', ''payload_mutation_profile''} (build_optional_mapping_profiles args)"
  unfolding set_scalar_policy_values_def build_optional_mapping_profiles_def
  by (rule keys_within_concat; simp add: keys_within_entries)+

definition policy_parts :: "PyLib \<Rightarrow> pydict \<Rightarrow> (string set \<times> pydict py) list" where
  "policy_parts lib args =
     [({''seed'', ''latency'', ''jitter'', ''packet_loss_ppm'', ''burst_loss'', ''rate''}, set_scalar_policy_values args),
      ({''timeouts''}, timeout_entry (py_get args ''timeout'' VNone)),
      ({''uplink_profile''}, mapping_entry ''uplink_profile'' build_direction_policy (py_get args ''uplink'' VNone)),
      ({''downlink_profile''}, mapping_entry ''downlink_profile'' build_direction_policy (py_get args ''downlink'' VNone)),
      ({''correlated_loss_profile'', ''connection_error_profile'', ''half_open_profile'', ''packet_duplicate_profile'',
        ''packet_reorder_profile'', ''payload_mutation_profile''}, build_optional_mapping_profiles args),
      ({''dns_profile''}, dns_entry (py_get args ''dns'' VNone)),
      ({''target_profiles''}, targets_entry lib (py_get args ''targets'' VNone)),
      ({''schedule_profile''}, mapping_entry ''schedule_profile'' schedule_policy (py_get args ''schedule'' VNone)),
      ({''session_budget_profile''}, mapping_entry ''session_budget_profile'' session_budget_policy (py_get args ''session_budget'' VNone))]"

lemma build_policy_parts:
  assumes "build_policy lib args = Inr policy"
  shows "concat_entries (map snd (policy_parts lib args)) = Inr policy" "list_all (\<lambda>(ks, e). keys_within ks e) (policy_parts lib args)"
  using assms keys_within_parts [of args]
  by (simp_all add: policy_parts_def build_policy_def py_bind_eq_Inr keys_within_entries)

definition has_direction :: "pyval \<Rightarrow> bool" where
  "has_direction v =
     (case v of VDict d \<Rightarrow> list_ex (py_has d) [''latency'', ''jitter'', ''packet_loss'', ''burst_loss'', ''rate''] | _ \<Rightarrow> False)"

lemma direction_nonempty:
  assumes "build_direction_profile l j p b r = Inr d" "l \<noteq> VNone \<or> j \<noteq> VNone \<or> p \<noteq> VNone \<or> b \<noteq> VNone \<or> r \<noteq> VNone"
  shows "d \<noteq> []"
  using assms by (auto simp: build_direction_profile_def concat_entries_Cons opt_entry_def py_bind_eq_Inr split: if_splits)

lemma direction_entry:
  assumes "mapping_entry key build_direction_policy v = Inr e" "has_direction v"
  shows "\<exists>d. e = [(key, VDict d)] \<and> d \<noteq> []"
proof -
  obtain c where v: "v = VDict c" using assms(2) by (cases v) (simp_all add: has_direction_def)
  then obtain d where d: "build_direction_policy c = Inr d" "e = [(key, VDict d)]"
    using assms(1) by (auto simp: mapping_entry_def as_mapping_def py_bind_eq_Inr)
  have "d \<noteq> []"
    using direction_nonempty [OF d(1) [unfolded build_direction_policy_def]] assms(2)
    by (auto simp: has_direction_def v py_has_def)
  with d(2) show ?thesis by blast
qed

lemma part_returns: "concat_entries es = Inr d \<Longrightarrow> e \<in> set es \<Longrightarrow> \<exists>di. e = Inr di"
  by (induction es arbitrary: d) (auto simp: concat_entries_Cons py_bind_eq_Inr)

text \<open>The part of a policy that may have a key has returned, and the key is looked up there.\<close>

lemma policy_lookup:
  assumes "build_policy lib args = Inr policy" "filter (\<lambda>t. k \<in> fst t) (policy_parts lib args) = [(ks, e)]"
  obtains d where "e = Inr d" "map_of policy k = map_of d k"
proof -
  have "(ks, e) \<in> set (filter (\<lambda>t. k \<in> fst t) (policy_parts lib args))" by (simp add: assms(2))
  then have "e \<in> set (map snd (policy_parts lib args))" by force
  from part_returns [OF build_policy_parts(1) [OF assms(1)] this] obtain d where "e = Inr d" by blast
  with concat_entries_lookup [OF build_policy_parts [OF assms(1)]] assms(2) show ?thesis by (intro that) auto
qed

lemma policy_timeouts:
  assumes "build_policy lib args = Inr policy" "py_get args ''timeout'' VNone \<noteq> VNone"
  shows "\<exists>c r. map_of policy ''timeouts'' = Some (VTuple [VInt c, VInt r])"
proof -
  obtain d where "timeout_entry (py_get args ''timeout'' VNone) = Inr d" "map_of policy ''timeouts'' = map_of d ''timeouts''"
    by (rule policy_lookup [OF assms(1), of "''timeouts''"]) (simp add: policy_parts_def)
  with assms(2) show ?thesis by (auto simp: timeout_entry_def py_bind_eq_Inr)
qed

lemma policy_direction:
  assumes "build_policy lib args = Inr policy"
  shows "has_direction (py_get args ''uplink'' VNone) \<Longrightarrow> \<exists>d. map_of policy ''uplink_profile'' = Some (VDict d) \<and> d \<noteq> []"
    and "has_direction (py_get args ''downlink'' VNone) \<Longrightarrow> \<exists>d. map_of policy ''downlink_profile'' = Some (VDict d) \<and> d \<noteq> []"
proof -
  obtain u where u: "mapping_entry ''uplink_profile'' build_direction_policy (py_get args ''uplink'' VNone) = Inr u"
    "map_of policy ''uplink_profile'' = map_of u ''uplink_profile''"
    by (rule policy_lookup [OF assms, of "''uplink_profile''"]) (simp add: policy_parts_def)
  then show "has_direction (py_get args ''uplink'' VNone) \<Longrightarrow> \<exists>d. map_of policy ''uplink_profile'' = Some (VDict d) \<and> d \<noteq> []"
    by (auto dest: direction_entry)
  obtain w where w: "mapping_entry ''downlink_profile'' build_direction_policy (py_get args ''downlink'' VNone) = Inr w"
    "map_of policy ''downlink_profile'' = map_of w ''downlink_profile''"
    by (rule policy_lookup [OF assms, of "''downlink_profile''"]) (simp add: policy_parts_def)
  then show "has_direction (py_get args ''downlink'' VNone) \<Longrightarrow> \<exists>d. map_of policy ''downlink_profile'' = Some (VDict d) \<and> d \<noteq> []"
    by (auto dest: direction_entry)
qed

lemma policy_half_open:
  assumes "build_policy lib args = Inr policy" "py_get args ''half_open'' VNone \<noteq> VNone"
  shows "\<exists>d. map_of policy ''half_open_profile'' = Some (VDict d) \<and> d \<noteq> []"
proof -
  obtain o' where o': "build_optional_mapping_profiles args = Inr o'" "map_of policy ''half_open_profile'' = map_of o' ''half_open_profile''"
    by (rule policy_lookup [OF assms(1), of "''half_open_profile''"]) (simp add: policy_parts_def)
  from o'(1) obtain d1 d2 d3 ds where
    parts: "mapping_entry ''correlated_loss_profile'' correlated_loss_policy (py_get args ''correlated_loss'' VNone) = Inr d1"
      "mapping_entry ''connection_error_profile'' connection_error_policy (py_get args ''connection_error'' VNone) = Inr d2"
      "mapping_entry ''half_open_profile'' half_open_policy (py_get args ''half_open'' VNone) = Inr d3" "o' = d1 @ d2 @ d3 @ ds"
    unfolding build_optional_mapping_profiles_def concat_entries_Cons py_bind_eq_Inr by auto
  then have "map_of d1 ''half_open_profile'' = None" "map_of d2 ''half_open_profile'' = None"
    by (auto simp: mapping_entry_def py_bind_eq_Inr split: option.splits)
  moreover obtain d where "d3 = [(''half_open_profile'', VDict d)]" "d \<noteq> []"
    using parts(3) assms(2)
    by (auto simp: mapping_entry_def as_mapping_def py_bind_eq_Inr half_open_policy_def build_half_open_profile_def py_guard_eq_Inr
        split: option.splits pyval.splits)
  ultimately show ?thesis by (simp add: o'(2) parts(4) map_add_def)
qed

section \<open>Ranges\<close>

lemma ensure_range_eq_Inr: "ensure_range v lo hi r = Inr w \<longleftrightarrow> pf_le lo v \<and> pf_le v hi \<and> r = Inr w"
  by (auto simp: ensure_range_def py_guard_eq_Inr)

lemma pf_between: "pf_le (Fin a) f \<Longrightarrow> pf_le f (Fin b) \<Longrightarrow> \<exists>x. f = Fin x \<and> a \<le> x \<and> x \<le> b"
  by (cases f) simp_all

lemma scaled_int_bounds:
  assumes "pf_le (Fin 0) f" "pf_le f (Fin (of_nat a))" "py_int (VFloat (pf_mul f (int k))) = Inr i" "0 < a" "0 < k" "a * k \<le> 2 ^ 53"
  shows "0 \<le> i \<and> i \<le> int (a * k)"
proof -
  obtain x where x: "f = Fin x" "0 \<le> x" "x \<le> of_nat a" using pf_between [OF assms(1,2)] by blast
  then have "x * of_nat k \<le> of_nat (a * k)" by (simp add: mult_right_mono)
  with x(2) assms(4-6) obtain y where "to_f64 (x * of_nat k) = Fin y" "0 \<le> y" "y \<le> of_nat (a * k)"
    using to_f64_bounds [of "x * of_nat k" "a * k"] by auto
  with assms(3) x(1) show ?thesis using py_int_bounded [of y i "a * k"] by simp
qed

lemma parse_packet_loss_bounds: "parse_packet_loss v = Inr i \<Longrightarrow> 0 \<le> i \<and> i \<le> 1000000"
proof -
  assume p: "parse_packet_loss v = Inr i"
  then obtain s where v: "v = VStr s" by (cases v) (simp_all add: parse_packet_loss_def)
  from p consider f where "pf_le (Fin 0) f" "pf_le f (Fin 100)" "py_int (VFloat (pf_mul f 10000)) = Inr i"
    | f where "pf_le (Fin 0) f" "pf_le f (Fin 1000000)" "py_int (VFloat f) = Inr i"
    by (auto simp: v parse_packet_loss_def py_bind_eq_Inr ensure_range_eq_Inr split: if_splits)
  then show ?thesis
  proof cases
    case 1
    then show ?thesis using scaled_int_bounds [of f 100 10000 i] by simp
  next
    case 2
    with pf_between [OF 2(1,2)] obtain x where "f = Fin x" "0 \<le> x" "x \<le> 1000000" by blast
    with 2(3) show ?thesis using py_int_bounded [of x i 1000000] by simp
  qed
qed

text \<open>The values under the keys whose names end in \<open>ppm\<close>.\<close>

definition ppm_within :: "pydict \<Rightarrow> bool" where
  "ppm_within d \<longleftrightarrow> (\<forall>k i. (k, VInt i) \<in> set d \<and> py_endswith k ''ppm'' \<longrightarrow> 0 \<le> i \<and> i \<le> 1000000)"

lemma ppm_within_simps [simp]:
  "ppm_within []"
  "ppm_within (a @ b) \<longleftrightarrow> ppm_within a \<and> ppm_within b"
  "ppm_within ((k, v) # d) \<longleftrightarrow> (py_endswith k ''ppm'' \<longrightarrow> (\<forall>i. v = VInt i \<longrightarrow> 0 \<le> i \<and> i \<le> 1000000)) \<and> ppm_within d"
  by (auto simp: ppm_within_def)

definition ppm_result :: "pydict py \<Rightarrow> bool" where
  "ppm_result r \<longleftrightarrow> (\<forall>d. r = Inr d \<longrightarrow> ppm_within d)"

lemma ppm_result_bind: "(\<And>x. r = Inr x \<Longrightarrow> ppm_result (k x)) \<Longrightarrow> ppm_result (py_bind r k)"
  by (auto simp: ppm_result_def py_bind_eq_Inr)

lemma ppm_result_guard: "(ok \<Longrightarrow> ppm_result r) \<Longrightarrow> ppm_result (py_guard ok e r)"
  by (auto simp: ppm_result_def py_guard_eq_Inr)

lemma ppm_result_concat: "list_all ppm_result es \<Longrightarrow> ppm_result (concat_entries es)"
  by (induction es) (fastforce simp: concat_entries_Cons ppm_result_def py_bind_eq_Inr)+

lemma ppm_result_opt:
  "\<not> py_endswith k ''ppm'' \<Longrightarrow> ppm_result (opt_entry k parse v)"
  "ppm_result (opt_entry k parse_packet_loss v)"
  using parse_packet_loss_bounds [of v] by (auto simp: opt_entry_def ppm_result_def py_bind_eq_Inr split: if_splits)

lemma ppm_result_Inr: "ppm_within d \<Longrightarrow> ppm_result (Inr d)"
  by (simp add: ppm_result_def)

lemma ppm_builders:
  "ppm_result (build_direction_profile l j p b r)"
  "ppm_result (build_dns_profile delay timeout nxdomain)"
  unfolding build_direction_profile_def build_dns_profile_def
  by (rule ppm_result_concat; simp add: ppm_result_opt py_endswith_def)+

lemma ppm_loss_builders:
  "ppm_result (build_correlated_loss_profile gb bg lg lb)"
  "ppm_result (build_connection_error_profile kind prob)"
  "ppm_result (build_half_open_profile after error)"
  "ppm_result (build_packet_duplicate_profile prob max_extra)"
  "ppm_result (build_packet_reorder_profile prob max_delay window)"
  unfolding build_correlated_loss_profile_def build_connection_error_profile_def build_half_open_profile_def
    build_packet_duplicate_profile_def build_packet_reorder_profile_def
  by (intro ppm_result_bind ppm_result_guard ppm_result_Inr; auto simp: py_endswith_def dest!: parse_packet_loss_bounds)+

lemma ppm_mutation_builder: "ppm_result (build_payload_mutation_profile args)"
  unfolding build_payload_mutation_profile_def Let_def case_prod_beta
  by (intro ppm_result_bind ppm_result_guard ppm_result_Inr)
     (auto simp: py_endswith_def dest!: parse_packet_loss_bounds)

lemma ppm_schedule_builder: "ppm_result (build_schedule_profile args)"
  unfolding build_schedule_profile_def Let_def
  by (intro ppm_result_bind)
     (auto simp: ppm_result_def py_bind_eq_Inr py_guard_eq_Inr schedule_profile_def py_endswith_def split: if_splits)

lemma ppm_session_builder: "ppm_result (build_session_budget_profile args)"
proof -
  have "list_all ppm_result
      [opt_entry ''max_bytes_tx'' parse_size tx, opt_entry ''max_bytes_rx'' parse_size rx, max_ops_entry ops,
       opt_entry ''max_duration'' parse_duration dur]" for tx rx ops dur
    by (simp add: ppm_result_opt py_endswith_def) (auto simp: max_ops_entry_def ppm_result_def py_bind_eq_Inr py_guard_eq_Inr
        py_endswith_def split: if_splits)
  from ppm_result_concat [OF this] show ?thesis
    unfolding build_session_budget_profile_def Let_def
    by (intro ppm_result_bind ppm_result_guard)
       (auto simp: ppm_result_def py_bind_eq_Inr py_guard_eq_Inr py_endswith_def split: if_splits)
qed

section \<open>Well-formed policies\<close>

definition ppm_deep :: "pydict \<Rightarrow> bool" where
  "ppm_deep d \<longleftrightarrow> ppm_within d \<and> (\<forall>k e. (k, VDict e) \<in> set d \<longrightarrow> ppm_within e)"

definition deep_result :: "pydict py \<Rightarrow> bool" where
  "deep_result r \<longleftrightarrow> (\<forall>d. r = Inr d \<longrightarrow> ppm_deep d)"

lemma deep_result_entries:
  "ppm_result (opt_entry k parse v) \<Longrightarrow> deep_result (opt_entry k parse v)"
  "(\<And>d. ppm_result (build d)) \<Longrightarrow> \<not> py_endswith key ''ppm'' \<Longrightarrow> deep_result (mapping_entry key build v)"
  "deep_result (timeout_entry v)"
  "deep_result (dns_entry v)"
  "deep_result (targets_entry lib v)"
  using ppm_builders(2)
  by (auto simp: deep_result_def ppm_deep_def ppm_result_def opt_entry_def mapping_entry_def timeout_entry_def dns_entry_def
      targets_entry_def py_bind_eq_Inr py_endswith_def split: if_splits option.splits pyval.splits)

lemma deep_result_concat: "list_all deep_result es \<Longrightarrow> deep_result (concat_entries es)"
proof (induction es)
  case (Cons e es)
  have "ppm_deep d" if d: "concat_entries (e # es) = Inr d" for d
  proof -
    obtain da ds where d: "e = Inr da" "concat_entries es = Inr ds" "d = da @ ds"
      using d by (auto simp: concat_entries_Cons py_bind_eq_Inr)
    then have "ppm_deep da" "ppm_deep ds" using Cons by (simp_all add: deep_result_def)
    then show ?thesis by (auto simp: ppm_deep_def d(3))
  qed
  then show ?case by (simp add: deep_result_def)
qed (simp add: concat_entries_Cons deep_result_def ppm_deep_def)

lemma ppm_policies:
  "ppm_result (build_direction_policy d)" "ppm_result (correlated_loss_policy d)" "ppm_result (connection_error_policy d)"
  "ppm_result (half_open_policy d)" "ppm_result (packet_duplicate_policy d)" "ppm_result (packet_reorder_policy d)"
  "ppm_result (payload_mutation_policy d)" "ppm_result (schedule_policy d)" "ppm_result (session_budget_policy d)"
  by (simp_all add: build_direction_policy_def correlated_loss_policy_def connection_error_policy_def half_open_policy_def
      packet_duplicate_policy_def packet_reorder_policy_def payload_mutation_policy_def schedule_policy_def session_budget_policy_def
      ppm_builders ppm_loss_builders ppm_mutation_builder ppm_schedule_builder ppm_session_builder ppm_result_bind)

lemma ppm_deep_policy: "build_policy lib args = Inr policy \<Longrightarrow> ppm_deep policy"
proof -
  assume b: "build_policy lib args = Inr policy"
  have "deep_result (set_scalar_policy_values args)" unfolding set_scalar_policy_values_def
    by (rule deep_result_concat) (simp add: deep_result_entries ppm_result_opt py_endswith_def)
  moreover have "deep_result (build_optional_mapping_profiles args)" unfolding build_optional_mapping_profiles_def
    by (rule deep_result_concat) (simp add: deep_result_entries ppm_policies py_endswith_def)
  ultimately have "list_all deep_result (map snd (policy_parts lib args))"
    by (simp add: policy_parts_def deep_result_entries ppm_policies py_endswith_def)
  from deep_result_concat [OF this] build_policy_parts(1) [OF b] show "ppm_deep policy" by (simp add: deep_result_def)
qed

text \<open>The rules of a policy, highest priority first.\<close>

definition targets_ordered :: "pydict \<Rightarrow> bool" where
  "targets_ordered policy \<longleftrightarrow>
     (\<forall>v. map_of policy ''target_profiles'' = Some v \<longrightarrow>
        (\<exists>ds. v = VList (map VDict ds) \<and> sorted_wrt (\<lambda>a b. profile_priority b \<le> profile_priority a) ds))"

lemma targets_ordered_policy: "build_policy lib args = Inr policy \<Longrightarrow> targets_ordered policy"
proof -
  assume "build_policy lib args = Inr policy"
  then obtain d where d: "targets_entry lib (py_get args ''targets'' VNone) = Inr d"
    "map_of policy ''target_profiles'' = map_of d ''target_profiles''"
    by (rule policy_lookup [of _ _ _ "''target_profiles''"]) (simp add: policy_parts_def)
  have "sorted_wrt (\<lambda>a b. profile_priority b \<le> profile_priority a) (sort_key (\<lambda>p. - profile_priority p) rs)" for rs
    using sorted_sort_key [of "\<lambda>p. - profile_priority p" rs] by (simp add: sorted_map)
  with d show ?thesis
    by (auto simp: targets_ordered_def targets_entry_def build_target_profiles_def py_bind_eq_Inr py_guard_eq_Inr split: pyval.splits)
qed

definition policy_ok :: "pydict \<Rightarrow> bool" where
  "policy_ok p \<longleftrightarrow> ppm_deep p \<and> targets_ordered p \<and> validate_target_observability p = Inr ()"

lemma policy_ok_built: "build_policy lib args = Inr policy \<Longrightarrow> policy_ok policy"
  using ppm_deep_policy targets_ordered_policy by (auto simp: policy_ok_def build_policy_def py_bind_eq_Inr)

section \<open>The registry\<close>

inductive registry_step :: "PyLib \<Rightarrow> Registry \<Rightarrow> Registry \<Rightarrow> bool" for lib where
  register: "registry_step lib r (snd (register_policy lib name args r))"
| load: "registry_step lib r (snd (load_policies lib files path r))"
| unregister: "registry_step lib r (snd (unregister_policy name r))"
| clear_all: "registry_step lib r (clear_policies r)"
| set_thread: "registry_step lib r (set_thread_policy n r)"

definition registry_inv :: "Registry \<Rightarrow> bool" where
  "registry_inv r \<longleftrightarrow> distinct (map fst (pr_policies r)) \<and> (\<forall>n p. get_policy n r = Some p \<longrightarrow> n \<noteq> [] \<and> policy_ok p)"

lemma get_policy_sel [simp]:
  "get_policy n (r\<lparr>pr_policies := AList.update name p ps\<rparr>) = (if n = name then Some p else map_of ps n)"
  "get_policy n (r\<lparr>pr_policies := AList.delete name ps\<rparr>) = (if n = name then None else map_of ps n)"
  "get_policy n (r\<lparr>pr_thread_policy := t\<rparr>) = get_policy n r"
  by (simp_all add: get_policy_def update_conv delete_conv)

lemma register_policy_inv: "registry_inv r \<Longrightarrow> registry_inv (snd (register_policy lib name args r))"
  by (auto simp: register_policy_def registry_inv_def distinct_update policy_ok_built simp flip: get_policy_def split: sum.split if_splits)

lemma register_all_inv: "registry_inv r \<Longrightarrow> registry_inv (snd (register_all lib items n r))"
proof (induction items arbitrary: n r)
  case (Cons kv items)
  obtain k v where kv: "kv = (k, v)" by (cases kv)
  show ?case
  proof (cases "\<exists>name cfg. k = VStr name \<and> v = VDict cfg")
    case True
    then obtain name cfg where "k = VStr name" "v = VDict cfg" by blast
    with Cons register_policy_inv [OF Cons.prems] show ?thesis
      by (auto simp: kv split: prod.split sum.split) (metis snd_conv)+
  next
    case False
    with Cons.prems show ?thesis by (cases k; cases v) (simp_all add: kv)
  qed
qed simp

lemma registry_step_inv: "registry_step lib r r' \<Longrightarrow> registry_inv r \<Longrightarrow> registry_inv r'"
proof (induction rule: registry_step.induct)
  case (load r files path)
  then show ?case using register_all_inv by (auto simp: load_policies_def split: sum.split)
next
  case (unregister r name)
  then show ?case by (auto simp: registry_inv_def unregister_policy_def distinct_delete simp flip: get_policy_def split: if_splits)
next
  case (register r name args)
  then show ?case by (rule register_policy_inv)
qed (simp_all add: registry_inv_def clear_policies_def set_thread_policy_def get_policy_def [of _ "r\<lparr>pr_policies := []\<rparr>" for r])

text \<open>C19. Every registered policy is well formed: whatever sequence of registrations, loads of files, removals and
  context changes, successful or not, the registry goes through, a policy found in it has a name,
  all its probabilities lie between zero and a million parts per million, at the top and inside its
  profiles, its target rules stand in order of falling priority, and at least one of them can be
  observed by each kind of effect the policy has.\<close>

theorem registered_policies_well_formed:
  assumes "(registry_step lib)\<^sup>*\<^sup>* \<lparr>pr_policies = [], pr_thread_policy = t\<rparr> r" "get_policy name r = Some p"
  shows "name \<noteq> [] \<and> ppm_deep p \<and> targets_ordered p \<and> validate_target_observability p = Inr ()"
proof -
  have "registry_inv r" using assms(1)
  proof (induction rule: rtranclp_induct)
    case base
    then show ?case by (simp add: registry_inv_def get_policy_def)
  qed (rule registry_step_inv)
  with assms(2) show ?thesis by (auto simp: registry_inv_def policy_ok_def)
qed

lemmas build_policy_eval = build_policy_def concat_entries_Cons set_scalar_policy_values_def build_optional_mapping_profiles_def
  opt_entry_def mapping_entry_def as_mapping_def timeout_entry_def coerce_timeout_pair_def duration_or_zero_def dns_entry_def
  targets_entry_def py_get_def validate_target_observability_def iter_policy_target_rules_def

definition plain_lib :: PyLib where
  "plain_lib = \<lparr>pl_idna = (\<lambda>_. None), pl_ip_address = (\<lambda>_. None), pl_ip_network = (\<lambda>_. None)\<rparr>"

definition empty_registry :: Registry where
  "empty_registry = \<lparr>pr_policies = [], pr_thread_policy = None\<rparr>"

theorem registered_policies_well_formed_witness:
  "\<exists>p. get_policy ''slow'' (snd (register_policy plain_lib ''slow'' [(''latency'', VStr ''50ms''), (''packet_loss'', VStr ''5%'')] empty_registry))
       = Some p \<and> map_of p ''packet_loss_ppm'' = Some (VInt 50000) \<and> ppm_deep p \<and> targets_ordered p
       \<and> validate_target_observability p = Inr ()"
proof -
  let ?args = "[(''latency'', VStr ''50ms''), (''packet_loss'', VStr ''5%'')]"
  let ?p = "[(''latency'', VInt 50), (''packet_loss_ppm'', VInt 50000)]"
  have "parse_duration (VStr ''50ms'') = Inr 50" "parse_packet_loss (VStr ''5%'') = Inr 50000" by (simp_all add: parse_eval)
  then have "build_policy plain_lib ?args = Inr ?p" by (simp add: build_policy_eval)
  then have g: "get_policy ''slow'' (snd (register_policy plain_lib ''slow'' ?args empty_registry)) = Some ?p"
    by (simp add: register_policy_def REGISTERABLE_FIELDS_def)
  have "(registry_step plain_lib)\<^sup>*\<^sup>* \<lparr>pr_policies = [], pr_thread_policy = None\<rparr> (snd (register_policy plain_lib ''slow'' ?args empty_registry))"
    unfolding empty_registry_def by (rule r_into_rtranclp, rule registry_step.register)
  from registered_policies_well_formed [OF this g] g show ?thesis by simp
qed

end
