(* ===== verification/Row_Cells.thy ===== *)
theory Row_Cells
  imports Shm_Writer
begin

text \<open>
  Where a row keeps its fields: the offsets of \<open>shm_writer.py\<close> point at the fields that the layout of
  \<open>FaultcoreConfig\<close> puts there, so storing eight bytes at such an offset updates that field of the row
  and nothing else (\<open>field_setters\<close>, \<open>blob_setters\<close>).
\<close>

section \<open>The offsets\<close>

lemmas offset_defs =
  OFFSET_MAGIC_def OFFSET_LATENCY_NS_def OFFSET_JITTER_NS_def OFFSET_PACKET_LOSS_PPM_def
  OFFSET_BURST_LOSS_LEN_def OFFSET_BANDWIDTH_BPS_def OFFSET_CONNECT_TIMEOUT_MS_def OFFSET_RECV_TIMEOUT_MS_def
  OFFSET_UPLINK_LATENCY_NS_def OFFSET_UPLINK_JITTER_NS_def OFFSET_UPLINK_PACKET_LOSS_PPM_def OFFSET_UPLINK_BURST_LOSS_LEN_def
  OFFSET_UPLINK_BANDWIDTH_BPS_def OFFSET_DOWNLINK_LATENCY_NS_def OFFSET_DOWNLINK_JITTER_NS_def OFFSET_DOWNLINK_PACKET_LOSS_PPM_def
  OFFSET_DOWNLINK_BURST_LOSS_LEN_def OFFSET_DOWNLINK_BANDWIDTH_BPS_def OFFSET_GE_ENABLED_def OFFSET_GE_P_GOOD_TO_BAD_PPM_def
  OFFSET_GE_P_BAD_TO_GOOD_PPM_def OFFSET_GE_LOSS_GOOD_PPM_def OFFSET_GE_LOSS_BAD_PPM_def OFFSET_CONN_ERR_KIND_def
  OFFSET_CONN_ERR_PROB_PPM_def OFFSET_HALF_OPEN_AFTER_BYTES_def OFFSET_HALF_OPEN_ERR_KIND_def OFFSET_DUP_PROB_PPM_def
  OFFSET_DUP_MAX_EXTRA_def OFFSET_REORDER_PROB_PPM_def OFFSET_REORDER_MAX_DELAY_NS_def OFFSET_REORDER_WINDOW_def
  OFFSET_DNS_DELAY_NS_def OFFSET_DNS_TIMEOUT_MS_def OFFSET_DNS_NXDOMAIN_PPM_def OFFSET_TARGET_ENABLED_def
  OFFSET_TARGET_KIND_def OFFSET_TARGET_IPV4_def OFFSET_TARGET_PREFIX_LEN_def OFFSET_TARGET_PORT_def
  OFFSET_TARGET_PROTOCOL_def OFFSET_SCHEDULE_TYPE_def OFFSET_SCHEDULE_PARAM_A_def OFFSET_SCHEDULE_PARAM_B_def
  OFFSET_SCHEDULE_PARAM_C_def OFFSET_SCHEDULE_STARTED_MONOTONIC_NS_def OFFSET_RULESET_GENERATION_def OFFSET_TARGET_ADDRESS_FAMILY_def
  OFFSET_TARGET_ADDR_def OFFSET_TARGET_HOSTNAME_def OFFSET_TARGET_SNI_def OFFSET_SESSION_BUDGET_ENABLED_def
  OFFSET_SESSION_MAX_BYTES_TX_def OFFSET_SESSION_MAX_BYTES_RX_def OFFSET_SESSION_MAX_OPS_def OFFSET_SESSION_MAX_DURATION_MS_def
  OFFSET_SESSION_ACTION_def OFFSET_SESSION_BUDGET_TIMEOUT_MS_def OFFSET_SESSION_ERROR_KIND_def OFFSET_POLICY_SEED_def
  OFFSET_PAYLOAD_MUTATION_ENABLED_def OFFSET_PAYLOAD_MUTATION_PROB_PPM_def OFFSET_PAYLOAD_MUTATION_TYPE_def OFFSET_PAYLOAD_MUTATION_TARGET_def
  OFFSET_PAYLOAD_MUTATION_TRUNCATE_SIZE_def OFFSET_PAYLOAD_MUTATION_CORRUPT_COUNT_def OFFSET_PAYLOAD_MUTATION_CORRUPT_SEED_def OFFSET_PAYLOAD_MUTATION_INJECT_POSITION_def
  OFFSET_PAYLOAD_MUTATION_INJECT_DATA_def OFFSET_PAYLOAD_MUTATION_INJECT_LEN_def OFFSET_PAYLOAD_MUTATION_REPLACE_FIND_def OFFSET_PAYLOAD_MUTATION_REPLACE_FIND_LEN_def
  OFFSET_PAYLOAD_MUTATION_REPLACE_WITH_def OFFSET_PAYLOAD_MUTATION_REPLACE_WITH_LEN_def OFFSET_PAYLOAD_MUTATION_SWAP_POS1_def OFFSET_PAYLOAD_MUTATION_SWAP_POS2_def
  OFFSET_PAYLOAD_MUTATION_MIN_SIZE_def OFFSET_PAYLOAD_MUTATION_MAX_SIZE_def OFFSET_PAYLOAD_MUTATION_EVERY_N_PACKETS_def OFFSET_PAYLOAD_MUTATION_DRY_RUN_def
  OFFSET_PAYLOAD_MUTATION_MAX_BUFFER_SIZE_def

text \<open>A row as a function of what is read at the offsets of its 64-bit cells and of its other fields.\<close>

definition row_spans :: "(nat \<times> nat) list" where
  "row_spans = [
     (0, 4), (4, 8), (12, 8), (20, 8), (28, 8), (36, 8), (44, 8), (52, 8), (60, 8), (68, 8), (76, 8), (84, 8),
     (92, 8), (100, 8), (108, 8), (116, 8), (124, 8), (132, 8), (140, 8), (148, 8), (156, 8), (164, 8), (172, 8),
     (180, 8), (188, 8), (196, 8), (204, 8), (212, 8), (220, 8), (228, 8), (236, 8), (244, 8), (252, 8), (260, 8),
     (268, 8), (276, 8), (284, 8), (292, 8), (300, 8), (308, 8), (316, 8), (324, 8), (332, 8), (340, 8), (348, 8),
     (356, 8), (364, 8), (372, 4), (376, 8), (384, 8), (392, 16), (408, 32), (440, 32), (472, 8), (480, 8), (488, 8),
     (496, 8), (504, 8), (512, 8), (520, 8), (528, 8), (536, 8), (544, 8), (552, 8), (560, 8), (568, 8), (576, 8),
     (584, 8), (592, 8), (600, 8), (608, 64), (672, 8), (680, 32), (712, 8), (720, 32), (752, 8), (760, 8), (768, 8),
     (776, 8), (784, 8), (792, 8), (800, 8), (808, 8), (816, 8), (824, 8), (832, 8), (840, 8), (848, 8), (856, 8),
     (864, 8), (872, 8)]"

definition cell_offsets :: "nat list" where
  "cell_offsets = map fst (filter (\<lambda>(p, n). n = 8) row_spans)"

definition blob_offsets :: "(nat \<times> nat) list" where
  "blob_offsets = filter (\<lambda>(p, n). n \<noteq> 8) row_spans"

definition config_of :: "(nat \<Rightarrow> u64) \<Rightarrow> (nat \<Rightarrow> nat \<Rightarrow> bytes) \<Rightarrow> FaultcoreConfig" where
  "config_of f g = \<lparr>
     latency_ns = f 12, jitter_ns = f 20, packet_loss_ppm = f 28, burst_loss_len = f 36, bandwidth_bps = f 44,
     connect_timeout_ms = f 52, recv_timeout_ms = f 60, uplink_latency_ns = f 68, uplink_jitter_ns = f 76,
     uplink_packet_loss_ppm = f 84, uplink_burst_loss_len = f 92, uplink_bandwidth_bps = f 100,
     downlink_latency_ns = f 108, downlink_jitter_ns = f 116, downlink_packet_loss_ppm = f 124,
     downlink_burst_loss_len = f 132, downlink_bandwidth_bps = f 140, ge_enabled = f 148,
     ge_p_good_to_bad_ppm = f 156, ge_p_bad_to_good_ppm = f 164, ge_loss_good_ppm = f 172, ge_loss_bad_ppm = f 180,
     conn_err_kind = f 188, conn_err_prob_ppm = f 196, half_open_after_bytes = f 204, half_open_err_kind = f 212,
     dup_prob_ppm = f 220, dup_max_extra = f 228, reorder_prob_ppm = f 236, reorder_max_delay_ns = f 244,
     reorder_window = f 252, dns_delay_ns = f 260, dns_timeout_ms = f 268, dns_nxdomain_ppm = f 276,
     target_enabled = f 284, target_kind = f 292, target_ipv4 = f 300, target_prefix_len = f 308, target_port = f 316,
     target_protocol = f 324, target_address_family = f 384, target_addr = g 392 16, target_hostname = g 408 32,
     target_sni = g 440 32, session_budget_enabled = f 472, session_max_bytes_tx = f 480,
     session_max_bytes_rx = f 488, session_max_ops = f 496, session_max_duration_ms = f 504, session_action = f 512,
     session_budget_timeout_ms = f 520, session_error_kind = f 528, policy_seed = f 536,
     payload_mutation_enabled = f 544, payload_mutation_prob_ppm = f 552, payload_mutation_type = f 560,
     payload_mutation_target = f 568, payload_mutation_truncate_size = f 576, payload_mutation_corrupt_count = f 584,
     payload_mutation_corrupt_seed = f 592, payload_mutation_inject_position = f 600,
     payload_mutation_inject_data = g 608 64, payload_mutation_inject_len = f 672,
     payload_mutation_replace_find = g 680 32, payload_mutation_replace_find_len = f 712,
     payload_mutation_replace_with = g 720 32, payload_mutation_replace_with_len = f 752,
     payload_mutation_swap_pos1 = f 760, payload_mutation_swap_pos2 = f 768, payload_mutation_min_size = f 776,
     payload_mutation_max_size = f 784, payload_mutation_every_n_packets = f 792, payload_mutation_dry_run = f 800,
     payload_mutation_max_buffer_size = f 808, ruleset_generation = f 376, schedule_type = f 332,
     schedule_param_a_ns = f 340, schedule_param_b_ns = f 348, schedule_param_c_ns = f 356,
     schedule_started_monotonic_ns = f 364, magic = of_nat (le_nat (g 0 4)), version = f 4,
     reserved = of_nat (le_nat (g 372 4)), payload_mutation_reserved = map (\<lambda>i. f (816 + 8 * i)) [0..<8]\<rparr>"

lemma config_at_of: "config_at m base = config_of (\<lambda>p. u64_at m (base + p)) (\<lambda>p n. peek m (base + p) n)"
  by (simp add: config_at_def config_of_def Let_def u32_at_def add.assoc)

lemma cell_offsets_eq: "cell_offsets = [
     4, 12, 20, 28, 36, 44, 52, 60, 68, 76, 84, 92, 100, 108, 116, 124, 132, 140, 148, 156, 164, 172, 180, 188, 196,
     204, 212, 220, 228, 236, 244, 252, 260, 268, 276, 284, 292, 300, 308, 316, 324, 332, 340, 348, 356, 364, 376,
     384, 472, 480, 488, 496, 504, 512, 520, 528, 536, 544, 552, 560, 568, 576, 584, 592, 600, 672, 712, 752, 760,
     768, 776, 784, 792, 800, 808, 816, 824, 832, 840, 848, 856, 864, 872]"
  by (simp add: cell_offsets_def row_spans_def)

lemma blob_offsets_eq: "blob_offsets = [(0, 4), (372, 4), (392, 16), (408, 32), (440, 32), (608, 64), (680, 32), (720, 32)]"
  by (simp add: blob_offsets_def row_spans_def)

lemma config_of_cong:
  assumes "\<And>p. p \<in> set cell_offsets \<Longrightarrow> f p = f' p" "\<And>p n. (p, n) \<in> set blob_offsets \<Longrightarrow> g p n = g' p n"
  shows "config_of f g = config_of f' g'"
proof -
  have "list_all (\<lambda>p. f p = f' p) cell_offsets" "list_all (\<lambda>(p, n). g p n = g' p n) blob_offsets"
    using assms by (auto simp: list_all_iff)
  then show ?thesis
    unfolding cell_offsets_eq blob_offsets_eq list.pred_inject prod.case config_of_def
    by (simp add: upt_rec numeral_eq_Suc)
qed

lemma sorted_wrt_apart: "sorted_wrt P xs \<Longrightarrow> x \<in> set xs \<Longrightarrow> y \<in> set xs \<Longrightarrow> x \<noteq> y \<Longrightarrow> P x y \<or> P y x"
  by (induction xs) auto

definition span_before :: "nat \<times> nat \<Rightarrow> nat \<times> nat \<Rightarrow> bool" where
  "span_before s t \<longleftrightarrow> fst s + snd s \<le> fst t"

lemma spans_sorted: "sorted_wrt span_before row_spans"
proof -
  have "successively span_before row_spans" by (simp add: row_spans_def span_before_def)
  then show ?thesis by (subst (asm) successively_iff_sorted_wrt_strong) (auto simp: span_before_def)
qed

lemma cells_apart: "p \<in> set cell_offsets \<Longrightarrow> q \<in> set cell_offsets \<Longrightarrow> p \<noteq> q \<Longrightarrow> p + 8 \<le> q \<or> q + 8 \<le> p"
  using sorted_wrt_apart [OF spans_sorted, of "(p, 8)" "(q, 8)"] by (auto simp: cell_offsets_def span_before_def)

lemma blobs_apart:
  "s \<in> set row_spans \<Longrightarrow> (q, n) \<in> set row_spans \<Longrightarrow> s \<noteq> (q, n) \<Longrightarrow> fst s + snd s \<le> q \<or> q + n \<le> fst s"
  using sorted_wrt_apart [OF spans_sorted, of s "(q, n)"] by (auto simp: span_before_def)

lemma cell_span: "p \<in> set cell_offsets \<longleftrightarrow> (p, 8) \<in> set row_spans"
  by (force simp: cell_offsets_def)

lemma config_at_cell:
  assumes "p \<in> set cell_offsets"
  shows "config_at (poke (base + p) (le_bytes 8 (unat v)) m) base =
    config_of ((\<lambda>p. u64_at m (base + p))(p := v)) (\<lambda>p n. peek m (base + p) n)"
  unfolding config_at_of
proof (rule config_of_cong)
  fix q assume "q \<in> set cell_offsets"
  with cells_apart [OF assms, of q] unat_bound [of v]
  show "u64_at (poke (base + p) (le_bytes 8 (unat v)) m) (base + q) = ((\<lambda>p. u64_at m (base + p))(p := v)) q"
    by (auto simp: u64_at_poke_apart)
next
  fix q n assume "(q, n) \<in> set blob_offsets"
  then have "p + 8 \<le> q \<or> q + n \<le> p"
    using blobs_apart [of "(p, 8)" q n] assms by (auto simp: blob_offsets_def cell_span)
  then show "peek (poke (base + p) (le_bytes 8 (unat v)) m) (base + q) n = peek m (base + q) n"
    by (auto simp: peek_poke_apart)
qed

text \<open>Which field of the row an offset names.\<close>

definition field_setters :: "(nat \<times> (u64 \<Rightarrow> FaultcoreConfig \<Rightarrow> FaultcoreConfig)) list" where
  "field_setters = [
     (OFFSET_LATENCY_NS, \<lambda>v. latency_ns_update (\<lambda>_. v)),
     (OFFSET_JITTER_NS, \<lambda>v. jitter_ns_update (\<lambda>_. v)),
     (OFFSET_PACKET_LOSS_PPM, \<lambda>v. packet_loss_ppm_update (\<lambda>_. v)),
     (OFFSET_BURST_LOSS_LEN, \<lambda>v. burst_loss_len_update (\<lambda>_. v)),
     (OFFSET_BANDWIDTH_BPS, \<lambda>v. bandwidth_bps_update (\<lambda>_. v)),
     (OFFSET_CONNECT_TIMEOUT_MS, \<lambda>v. connect_timeout_ms_update (\<lambda>_. v)),
     (OFFSET_RECV_TIMEOUT_MS, \<lambda>v. recv_timeout_ms_update (\<lambda>_. v)),
     (OFFSET_UPLINK_LATENCY_NS, \<lambda>v. uplink_latency_ns_update (\<lambda>_. v)),
     (OFFSET_UPLINK_JITTER_NS, \<lambda>v. uplink_jitter_ns_update (\<lambda>_. v)),
     (OFFSET_UPLINK_PACKET_LOSS_PPM, \<lambda>v. uplink_packet_loss_ppm_update (\<lambda>_. v)),
     (OFFSET_UPLINK_BURST_LOSS_LEN, \<lambda>v. uplink_burst_loss_len_update (\<lambda>_. v)),
     (OFFSET_UPLINK_BANDWIDTH_BPS, \<lambda>v. uplink_bandwidth_bps_update (\<lambda>_. v)),
     (OFFSET_DOWNLINK_LATENCY_NS, \<lambda>v. downlink_latency_ns_update (\<lambda>_. v)),
     (OFFSET_DOWNLINK_JITTER_NS, \<lambda>v. downlink_jitter_ns_update (\<lambda>_. v)),
     (OFFSET_DOWNLINK_PACKET_LOSS_PPM, \<lambda>v. downlink_packet_loss_ppm_update (\<lambda>_. v)),
     (OFFSET_DOWNLINK_BURST_LOSS_LEN, \<lambda>v. downlink_burst_loss_len_update (\<lambda>_. v)),
     (OFFSET_DOWNLINK_BANDWIDTH_BPS, \<lambda>v. downlink_bandwidth_bps_update (\<lambda>_. v)),
     (OFFSET_GE_ENABLED, \<lambda>v. ge_enabled_update (\<lambda>_. v)),
     (OFFSET_GE_P_GOOD_TO_BAD_PPM, \<lambda>v. ge_p_good_to_bad_ppm_update (\<lambda>_. v)),
     (OFFSET_GE_P_BAD_TO_GOOD_PPM, \<lambda>v. ge_p_bad_to_good_ppm_update (\<lambda>_. v)),
     (OFFSET_GE_LOSS_GOOD_PPM, \<lambda>v. ge_loss_good_ppm_update (\<lambda>_. v)),
     (OFFSET_GE_LOSS_BAD_PPM, \<lambda>v. ge_loss_bad_ppm_update (\<lambda>_. v)),
     (OFFSET_CONN_ERR_KIND, \<lambda>v. conn_err_kind_update (\<lambda>_. v)),
     (OFFSET_CONN_ERR_PROB_PPM, \<lambda>v. conn_err_prob_ppm_update (\<lambda>_. v)),
     (OFFSET_HALF_OPEN_AFTER_BYTES, \<lambda>v. half_open_after_bytes_update (\<lambda>_. v)),
     (OFFSET_HALF_OPEN_ERR_KIND, \<lambda>v. half_open_err_kind_update (\<lambda>_. v)),
     (OFFSET_DUP_PROB_PPM, \<lambda>v. dup_prob_ppm_update (\<lambda>_. v)),
     (OFFSET_DUP_MAX_EXTRA, \<lambda>v. dup_max_extra_update (\<lambda>_. v)),
     (OFFSET_REORDER_PROB_PPM, \<lambda>v. reorder_prob_ppm_update (\<lambda>_. v)),
     (OFFSET_REORDER_MAX_DELAY_NS, \<lambda>v. reorder_max_delay_ns_update (\<lambda>_. v)),
     (OFFSET_REORDER_WINDOW, \<lambda>v. reorder_window_update (\<lambda>_. v)),
     (OFFSET_DNS_DELAY_NS, \<lambda>v. dns_delay_ns_update (\<lambda>_. v)),
     (OFFSET_DNS_TIMEOUT_MS, \<lambda>v. dns_timeout_ms_update (\<lambda>_. v)),
     (OFFSET_DNS_NXDOMAIN_PPM, \<lambda>v. dns_nxdomain_ppm_update (\<lambda>_. v)),
     (OFFSET_TARGET_ENABLED, \<lambda>v. target_enabled_update (\<lambda>_. v)),
     (OFFSET_TARGET_KIND, \<lambda>v. target_kind_update (\<lambda>_. v)),
     (OFFSET_TARGET_IPV4, \<lambda>v. target_ipv4_update (\<lambda>_. v)),
     (OFFSET_TARGET_PREFIX_LEN, \<lambda>v. target_prefix_len_update (\<lambda>_. v)),
     (OFFSET_TARGET_PORT, \<lambda>v. target_port_update (\<lambda>_. v)),
     (OFFSET_TARGET_PROTOCOL, \<lambda>v. target_protocol_update (\<lambda>_. v)),
     (OFFSET_SCHEDULE_TYPE, \<lambda>v. schedule_type_update (\<lambda>_. v)),
     (OFFSET_SCHEDULE_PARAM_A, \<lambda>v. schedule_param_a_ns_update (\<lambda>_. v)),
     (OFFSET_SCHEDULE_PARAM_B, \<lambda>v. schedule_param_b_ns_update (\<lambda>_. v)),
     (OFFSET_SCHEDULE_PARAM_C, \<lambda>v. schedule_param_c_ns_update (\<lambda>_. v)),
     (OFFSET_SCHEDULE_STARTED_MONOTONIC_NS, \<lambda>v. schedule_started_monotonic_ns_update (\<lambda>_. v)),
     (OFFSET_TARGET_ADDRESS_FAMILY, \<lambda>v. target_address_family_update (\<lambda>_. v)),
     (OFFSET_SESSION_BUDGET_ENABLED, \<lambda>v. session_budget_enabled_update (\<lambda>_. v)),
     (OFFSET_SESSION_MAX_BYTES_TX, \<lambda>v. session_max_bytes_tx_update (\<lambda>_. v)),
     (OFFSET_SESSION_MAX_BYTES_RX, \<lambda>v. session_max_bytes_rx_update (\<lambda>_. v)),
     (OFFSET_SESSION_MAX_OPS, \<lambda>v. session_max_ops_update (\<lambda>_. v)),
     (OFFSET_SESSION_MAX_DURATION_MS, \<lambda>v. session_max_duration_ms_update (\<lambda>_. v)),
     (OFFSET_SESSION_ACTION, \<lambda>v. session_action_update (\<lambda>_. v)),
     (OFFSET_SESSION_BUDGET_TIMEOUT_MS, \<lambda>v. session_budget_timeout_ms_update (\<lambda>_. v)),
     (OFFSET_SESSION_ERROR_KIND, \<lambda>v. session_error_kind_update (\<lambda>_. v)),
     (OFFSET_POLICY_SEED, \<lambda>v. policy_seed_update (\<lambda>_. v)),
     (OFFSET_PAYLOAD_MUTATION_ENABLED, \<lambda>v. payload_mutation_enabled_update (\<lambda>_. v)),
     (OFFSET_PAYLOAD_MUTATION_PROB_PPM, \<lambda>v. payload_mutation_prob_ppm_update (\<lambda>_. v)),
     (OFFSET_PAYLOAD_MUTATION_TYPE, \<lambda>v. payload_mutation_type_update (\<lambda>_. v)),
     (OFFSET_PAYLOAD_MUTATION_TARGET, \<lambda>v. payload_mutation_target_update (\<lambda>_. v)),
     (OFFSET_PAYLOAD_MUTATION_TRUNCATE_SIZE, \<lambda>v. payload_mutation_truncate_size_update (\<lambda>_. v)),
     (OFFSET_PAYLOAD_MUTATION_CORRUPT_COUNT, \<lambda>v. payload_mutation_corrupt_count_update (\<lambda>_. v)),
     (OFFSET_PAYLOAD_MUTATION_CORRUPT_SEED, \<lambda>v. payload_mutation_corrupt_seed_update (\<lambda>_. v)),
     (OFFSET_PAYLOAD_MUTATION_INJECT_POSITION, \<lambda>v. payload_mutation_inject_position_update (\<lambda>_. v)),
     (OFFSET_PAYLOAD_MUTATION_INJECT_LEN, \<lambda>v. payload_mutation_inject_len_update (\<lambda>_. v)),
     (OFFSET_PAYLOAD_MUTATION_REPLACE_FIND_LEN, \<lambda>v. payload_mutation_replace_find_len_update (\<lambda>_. v)),
     (OFFSET_PAYLOAD_MUTATION_REPLACE_WITH_LEN, \<lambda>v. payload_mutation_replace_with_len_update (\<lambda>_. v)),
     (OFFSET_PAYLOAD_MUTATION_SWAP_POS1, \<lambda>v. payload_mutation_swap_pos1_update (\<lambda>_. v)),
     (OFFSET_PAYLOAD_MUTATION_SWAP_POS2, \<lambda>v. payload_mutation_swap_pos2_update (\<lambda>_. v)),
     (OFFSET_PAYLOAD_MUTATION_MIN_SIZE, \<lambda>v. payload_mutation_min_size_update (\<lambda>_. v)),
     (OFFSET_PAYLOAD_MUTATION_MAX_SIZE, \<lambda>v. payload_mutation_max_size_update (\<lambda>_. v)),
     (OFFSET_PAYLOAD_MUTATION_EVERY_N_PACKETS, \<lambda>v. payload_mutation_every_n_packets_update (\<lambda>_. v)),
     (OFFSET_PAYLOAD_MUTATION_DRY_RUN, \<lambda>v. payload_mutation_dry_run_update (\<lambda>_. v)),
     (OFFSET_PAYLOAD_MUTATION_MAX_BUFFER_SIZE, \<lambda>v. payload_mutation_max_buffer_size_update (\<lambda>_. v))]"

lemma field_setters_cells: "list_all (\<lambda>(off, set_field). off \<in> set cell_offsets) field_setters"
  unfolding field_setters_def list.pred_inject prod.case cell_offsets_eq offset_defs by simp

lemma field_setters_update:
  "list_all (\<lambda>(off, set_field). \<forall>f g v. config_of (f(off := v)) g = set_field v (config_of f g)) field_setters"
  unfolding field_setters_def list.pred_inject prod.case config_of_def offset_defs
  by simp

text \<open>Byte arrays, and the magic number.\<close>

lemma config_at_blob:
  assumes "(p, length bs) \<in> set blob_offsets"
  shows "config_at (poke (base + p) bs m) base =
    config_of (\<lambda>p. u64_at m (base + p)) (\<lambda>q n. if q = p then bs else peek m (base + q) n)"
  unfolding config_at_of
proof (rule config_of_cong)
  fix q assume "q \<in> set cell_offsets"
  then have "p + length bs \<le> q \<or> q + 8 \<le> p"
    using blobs_apart [of "(p, length bs)" q 8] assms by (auto simp: blob_offsets_def cell_span)
  then show "u64_at (poke (base + p) bs m) (base + q) = u64_at m (base + q)" by (auto simp: u64_at_poke_apart)
next
  fix q n assume q: "(q, n) \<in> set blob_offsets"
  show "peek (poke (base + p) bs m) (base + q) n = (if q = p then bs else peek m (base + q) n)"
  proof (cases "(q, n) = (p, length bs)")
    case False
    with q assms blobs_apart [of "(p, length bs)" q n] have "p + length bs \<le> q \<or> q + n \<le> p"
      by (auto simp: blob_offsets_def)
    moreover have "0 < n \<and> 0 < length bs" using q assms by (auto simp: blob_offsets_eq)
    ultimately show ?thesis by (auto simp: peek_poke_apart)
  qed simp
qed

definition blob_setters :: "(nat \<times> nat \<times> (bytes \<Rightarrow> FaultcoreConfig \<Rightarrow> FaultcoreConfig)) list" where
  "blob_setters =
     [(OFFSET_TARGET_ADDR, 16, \<lambda>v. target_addr_update (\<lambda>_. v)), (OFFSET_TARGET_HOSTNAME, 32, \<lambda>v. target_hostname_update (\<lambda>_. v)),
      (OFFSET_TARGET_SNI, 32, \<lambda>v. target_sni_update (\<lambda>_. v)),
      (OFFSET_PAYLOAD_MUTATION_INJECT_DATA, 64, \<lambda>v. payload_mutation_inject_data_update (\<lambda>_. v)),
      (OFFSET_PAYLOAD_MUTATION_REPLACE_FIND, 32, \<lambda>v. payload_mutation_replace_find_update (\<lambda>_. v)),
      (OFFSET_PAYLOAD_MUTATION_REPLACE_WITH, 32, \<lambda>v. payload_mutation_replace_with_update (\<lambda>_. v))]"

lemma blob_setters_write:
  "list_all (\<lambda>(off, k, set_field). \<forall>m base bs. length bs = k \<longrightarrow>
     config_at (poke (base + off) bs m) base = set_field bs (config_at m base)) blob_setters"
  unfolding blob_setters_def list.pred_inject prod.case
  by (simp add: config_at_blob blob_offsets_eq offset_defs) (simp add: config_at_of config_of_def)

lemma field_setter_write:
  assumes "(off, set_field) \<in> set field_setters"
  shows "config_at (poke (base + off) (le_bytes 8 (unat v)) m) base = set_field v (config_at m base)"
proof -
  have "off \<in> set cell_offsets" and upd: "config_of (f(off := v)) g = set_field v (config_of f g)" for f g
    using field_setters_cells field_setters_update assms by (auto simp: list_all_iff)
  then show ?thesis by (subst config_at_cell) (simp_all add: config_at_of)
qed

lemma blob_setter_write:
  "(off, length bs, set_field) \<in> set blob_setters \<Longrightarrow>
   config_at (poke (base + off) bs m) base = set_field bs (config_at m base)"
  using blob_setters_write by (auto simp: list_all_iff)

lemma generation_write:
  "config_at (poke (base + OFFSET_RULESET_GENERATION) (le_bytes 8 (unat v)) m) base =
     (config_at m base)\<lparr>ruleset_generation := v\<rparr>"
proof -
  have "config_at (poke (base + 376) (le_bytes 8 (unat v)) m) base =
      config_of ((\<lambda>p. u64_at m (base + p))(376 := v)) (\<lambda>p n. peek m (base + p) n)"
    by (rule config_at_cell) (simp add: cell_offsets_eq)
  also have "\<dots> = (config_at m base)\<lparr>ruleset_generation := v\<rparr>" by (simp add: config_at_of config_of_def)
  finally show ?thesis by (simp add: offset_defs)
qed

lemma magic_write:
  assumes "v < 2 ^ 32"
  shows "config_at (poke (base + OFFSET_MAGIC) (le_bytes 4 v) m) base = (config_at m base)\<lparr>magic := of_nat v\<rparr>"
proof -
  have "config_at (poke (base + 0) (le_bytes 4 v) m) base =
      config_of (\<lambda>p. u64_at m (base + p)) (\<lambda>q n. if q = 0 then le_bytes 4 v else peek m (base + q) n)"
    by (rule config_at_blob) (simp add: blob_offsets_eq)
  also have "\<dots> = (config_at m base)\<lparr>magic := of_nat v\<rparr>" using assms by (simp add: config_at_of config_of_def)
  finally show ?thesis by (simp add: offset_defs)
qed

lemma generation_at: "u64_at m (base + OFFSET_RULESET_GENERATION) = ruleset_generation (config_at m base)"
  by (simp add: config_at_of config_of_def offset_defs)

lemma le_nat_zeros: "le_nat (replicate n 0) = 0"
  by (induction n) simp_all

lemma config_at_zeros: "peek m base 880 = replicate 880 0 \<Longrightarrow> config_at m base = FaultcoreConfig_default"
proof -
  assume z: "peek m base 880 = replicate 880 0"
  have "m (base + i) = 0" if "i < 880" for i
    using arg_cong [OF z, of "\<lambda>xs. xs ! i"] that by (simp add: peek_def)
  then have p: "peek m (base + q) n = replicate n 0" if "q + n \<le> 880" for q n
    using that by (auto simp: peek_def intro!: nth_equalityI) (metis add.assoc add_less_cancel_left less_le_trans)
  have "u64_at m (base + q) = 0" if "q + 8 \<le> 880" for q using p [OF that] by (simp add: u64_at_def le_nat_zeros)
  moreover from this have "map (\<lambda>i. u64_at m (base + (816 + 8 * i))) [0..<8] = map (\<lambda>_. 0) [0..<8]"
    by (intro map_cong) simp_all
  ultimately show ?thesis using p [of 0 4]
    by (simp add: config_at_of config_of_def FaultcoreConfig_default_def p le_nat_zeros map_replicate_const)
qed

text \<open>No field setter touches the magic number or the generation.\<close>

lemma field_setters_magic: "list_all (\<lambda>(off, set_field). set_field v (c\<lparr>magic := x\<rparr>) = (set_field v c)\<lparr>magic := x\<rparr>) field_setters"
  by (cases c) (simp only: field_setters_def list.pred_inject prod.case, simp)

end
