(* ===== verification/Shm_Writer_Refinement.thy ===== *)
theory Shm_Writer_Refinement
  imports Row_Cells
begin

text \<open>
  The Python writer against the Rust table: both languages agree on the slot of a thread and on the
  place of every field, so that an update in Python is the update that \<open>update_config_for_tid\<close> would
  have made; what an exception in the middle of an update leaves behind; what \<open>clear\<close> leaves behind.
\<close>

section \<open>The slot of a thread\<close>

lemma slot_words:
  assumes "0 \<le> tid" "tid < 2 ^ 64"
  shows "py_tid_slot tid = int (tid_slot (word_of_int tid))"
proof -
  let ?w = "word_of_int tid :: u64"
  have t: "take_bit 64 tid = tid" using assms by (simp add: take_bit_int_eq_self_iff)
  have u: "uint ?w = tid" by (simp add: uint_word_of_int_eq t)
  have d: "uint (drop_bit 16 ?w) = drop_bit 16 tid" by (simp add: unsigned_drop_bit_eq u t)
  have "int (tid_slot ?w) = take_bit 16 (uint (((?w XOR drop_bit 16 ?w) * 0x45d9f3b) XOR drop_bit 16 ?w))"
    by (simp add: tid_slot_def Let_def MAX_TIDS_def take_bit_eq_mod zmod_int)
  also have "\<dots> = take_bit 16 (uint ((?w XOR drop_bit 16 ?w) * 0x45d9f3b)) XOR take_bit 16 (drop_bit 16 tid)"
    by (simp only: unsigned_xor_eq d take_bit_xor)
  also have "take_bit 16 (uint ((?w XOR drop_bit 16 ?w) * 0x45d9f3b)) = take_bit 16 ((tid XOR drop_bit 16 tid) * 0x45d9f3b)"
  proof -
    have "uint ((?w XOR drop_bit 16 ?w) * 0x45d9f3b) = take_bit 64 ((tid XOR drop_bit 16 tid) * 0x45d9f3b)"
      by (simp add: uint_word_arith_bintrs(3) unsigned_xor_eq d u)
    then show ?thesis by simp
  qed
  also have "\<dots> XOR take_bit 16 (drop_bit 16 tid) = take_bit 16 (((tid XOR drop_bit 16 tid) * 0x45d9f3b) XOR drop_bit 16 tid)"
    by (simp only: take_bit_xor)
  also have "\<dots> = py_tid_slot tid"
    by (simp add: py_tid_slot_def Let_def PY_MAX_TIDS_def take_bit_eq_mod)
  finally show ?thesis by simp
qed

lemma get_offset_ptr:
  assumes "0 \<le> tid" "tid < 2 ^ 64"
  shows "get_offset tid = config_ptr (MAX_FDS + tid_slot (word_of_int tid))"
  by (simp add: get_offset_def slot_words [OF assms] PY_MAX_FDS_def CONFIG_SIZE_def pointers MAX_FDS_def nat_mult_distrib
      nat_add_distrib)

section \<open>Packing\<close>

definition u64_value :: "pyval \<Rightarrow> u64 option" where
  "u64_value v =
     (case v of
        VInt i \<Rightarrow> if 0 \<le> i \<and> i < 2 ^ 64 then Some (word_of_int i) else None
      | VBool b \<Rightarrow> Some (if b then 1 else 0)
      | _ \<Rightarrow> None)"

lemma unat_word_of_int_u64: "0 \<le> i \<Longrightarrow> i < 2 ^ 64 \<Longrightarrow> unat (word_of_int i :: u64) = nat i"
  by (simp add: unat_eq_nat_uint uint_word_of_int)

lemma pack_q_value:
  "pack_q a v m = (case u64_value v of Some w \<Rightarrow> (Inr (), poke a (le_bytes 8 (unat w)) m) | None \<Rightarrow> (Inl StructError, m))"
  by (cases v) (auto simp: pack_q_def pack_uint_def u64_value_def unat_word_of_int_u64)

lemma pack_q_word: "pack_q a (VInt (uint w)) m = (Inr (), poke a (le_bytes 8 (unat w)) m)" for w :: u64
  using uint_lt2p [of w] by (simp add: pack_q_value u64_value_def)

definition put_field :: "nat \<times> pyval \<Rightarrow> FaultcoreConfig \<Rightarrow> FaultcoreConfig" where
  "put_field fv c =
     (case (map_of field_setters (fst fv), u64_value (snd fv)) of (Some set_field, Some w) \<Rightarrow> set_field w c | _ \<Rightarrow> c)"

definition put_fields :: "(nat \<times> pyval) list \<Rightarrow> FaultcoreConfig \<Rightarrow> FaultcoreConfig" where
  "put_fields fs c = fold put_field fs c"

definition offsets_known :: "(nat \<times> pyval) list \<Rightarrow> bool" where
  "offsets_known fs \<longleftrightarrow> (\<forall>(off, v) \<in> set fs. off \<in> fst ` set field_setters)"

lemma known_setter: "off \<in> fst ` set field_setters \<Longrightarrow> \<exists>s. map_of field_setters off = Some s \<and> (off, s) \<in> set field_setters"
  by (metis map_of_SomeD map_of_eq_None_iff not_None_eq)

lemma field_offset_bound: "off \<in> fst ` set field_setters \<Longrightarrow> off + 8 \<le> 376 \<or> 384 \<le> off \<and> off + 8 \<le> 880"
proof -
  have "list_all (\<lambda>(off, s). off + 8 \<le> 376 \<or> 384 \<le> off \<and> off + 8 \<le> 880) field_setters"
    unfolding field_setters_def list.pred_inject prod.case offset_defs by simp
  then show "off \<in> fst ` set field_setters \<Longrightarrow> off + 8 \<le> 376 \<or> 384 \<le> off \<and> off + 8 \<le> 880"
    by (auto simp: list_all_iff)
qed

lemma put_field_magic: "put_field fv (c\<lparr>magic := x\<rparr>) = (put_field fv c)\<lparr>magic := x\<rparr>"
  using field_setters_magic [where c = c and x = x] map_of_SomeD [of field_setters "fst fv"]
  by (fastforce simp: put_field_def list_all_iff split: option.splits)

lemma put_fields_magic: "put_fields fs (c\<lparr>magic := x\<rparr>) = (put_fields fs c)\<lparr>magic := x\<rparr>"
  unfolding put_fields_def by (induction fs arbitrary: c) (simp_all add: put_field_magic)

section \<open>What an update may do to a row\<close>

text \<open>The contract of the closures that \<open>_write_with_generation_publish\<close> runs between the two stores of
  the generation: they stay within the row, do not touch the generation, and when they return
  normally have changed the row as \<open>mutate\<close> says.\<close>

definition table :: "memory \<Rightarrow> ShmState" where
  "table m = \<lparr>shm_pointer = Some (shm_of m), shm_is_open = True\<rparr>"

lemma start_generation_int: "uint (g :: u64) OR 1 = uint (g OR 1)"
  by (simp add: unsigned_or_eq)

lemma published_generation_int:
  fixes s :: u64
  assumes "s \<noteq> - 1"
  shows "(uint s + 1) AND NOT 1 = uint ((s + 1) AND NOT 1)"
proof -
  have "uint s \<noteq> uint (- 1 :: u64)" using assms word_uint_eq_iff by blast
  then have "uint s + 1 < 2 ^ 64" using uint_lt2p [of s] by (simp add: unsigned_minus_1_eq_mask mask_eq_exp_minus_1)
  then have "uint (s + 1) = uint s + 1" by (simp add: uint_word_ariths)
  moreover have "uint x AND NOT 1 = uint (x AND NOT 1)" for x :: u64
    by (rule bit_eqI) (auto simp: bit_and_iff bit_not_iff bit_uint_iff bit_1_iff)
  ultimately show ?thesis by metis
qed

lemma pack_published:
  "s \<noteq> - 1 \<Longrightarrow> pack_q a (VInt ((uint s + 1) AND NOT 1)) m = (Inr (), poke a (le_bytes 8 (unat ((s + 1) AND NOT 1))) m)"
  for s :: u64
  by (simp only: published_generation_int pack_q_word not_False_eq_True)

lemma pack_magic: "pack_uint 4 a (VInt PY_FAULTCORE_MAGIC) m = (Inr (), poke a (le_bytes 4 (unat FAULTCORE_MAGIC)) m)"
  by (simp add: pack_uint_def PY_FAULTCORE_MAGIC_def FAULTCORE_MAGIC_def)

text \<open>The memory that the closure finds, and what becomes of the one it leaves.\<close>

definition opened :: "nat \<Rightarrow> memory \<Rightarrow> memory" where
  "opened base m = poke (base + OFFSET_MAGIC) (le_bytes 4 (unat FAULTCORE_MAGIC))
     (poke (base + OFFSET_RULESET_GENERATION) (le_bytes 8 (unat (ruleset_generation (config_at m base) OR 1))) m)"

definition sealed :: "nat \<Rightarrow> memory \<Rightarrow> memory \<Rightarrow> memory" where
  "sealed base m m' = poke (base + OFFSET_RULESET_GENERATION)
     (le_bytes 8 (unat (((ruleset_generation (config_at m base) OR 1) + 1) AND NOT 1))) m'"

lemma opened_row: "config_at (opened base m) base =
    (config_at m base)\<lparr>ruleset_generation := ruleset_generation (config_at m base) OR 1, magic := FAULTCORE_MAGIC\<rparr>"
proof -
  have "unat FAULTCORE_MAGIC < 2 ^ 32" by (simp add: FAULTCORE_MAGIC_def)
  then show ?thesis by (simp add: opened_def magic_write generation_write)
qed

lemma opened_outside: "same_outside base 880 m (opened base m)"
  unfolding opened_def by (rule same_outside_trans; rule same_outside_poke) (simp_all add: offset_defs)

lemma sealed_row: "config_at (sealed base m m') base =
    (config_at m' base)\<lparr>ruleset_generation := ((ruleset_generation (config_at m base) OR 1) + 1) AND NOT 1\<rparr>"
  by (simp only: sealed_def generation_write)

lemma sealed_outside: "same_outside base 880 m' (sealed base m m')"
  unfolding sealed_def by (rule same_outside_poke) (simp_all add: offset_defs)

lemma publish_seq:
  assumes "ruleset_generation (config_at m base) OR 1 \<noteq> - 1" "writer base (opened base m) = (Inr (), m')"
  shows "publish base writer m = (Inr (), sealed base m m')"
  using assms unfolding publish_def Let_def generation_at start_generation_int
  by (simp only: upd_then_def pack_q_word pack_published pack_magic prod.case sum.case opened_def [symmetric] sealed_def [symmetric]
      not_False_eq_True)

locale row_writer =
  fixes writer :: "nat \<Rightarrow> update" and mutate :: "FaultcoreConfig \<Rightarrow> FaultcoreConfig"
  assumes within: "same_outside base 880 m (snd (writer base m))"
    and row: "fst (writer base m) = Inr () \<Longrightarrow> config_at (snd (writer base m)) base = mutate (config_at m base)"
    and keeps_generation: "ruleset_generation (config_at (snd (writer base m)) base) = ruleset_generation (config_at m base)"
    and mutate_magic: "mutate (c\<lparr>magic := x\<rparr>) = (mutate c)\<lparr>magic := x\<rparr>"
begin

lemma publish_steps:
  "publish base writer m =
      (case writer base (opened base m) of
         (Inl e, m3) \<Rightarrow> (Inl e, m3)
       | (Inr u, m3) \<Rightarrow>
           pack_q (base + OFFSET_RULESET_GENERATION) (VInt ((uint (ruleset_generation (config_at m base) OR 1) + 1) AND NOT 1)) m3)"
  by (simp add: publish_def upd_then_def generation_at start_generation_int pack_q_word pack_magic opened_def split: prod.split sum.split)

text \<open>An update that returns is the publication of the Rust side.\<close>

lemma publish_row:
  fixes m base
  assumes "fst (publish base writer m) = Inr ()" "ruleset_generation (config_at m base) OR 1 \<noteq> - 1"
  shows "config_at (snd (publish base writer m)) base =
      write_config_with_generation_publish (\<lambda>c. (mutate c)\<lparr>magic := FAULTCORE_MAGIC\<rparr>) (config_at m base)"
    and "same_outside base 880 m (snd (publish base writer m))"
proof -
  obtain r m3 where w: "writer base (opened base m) = (r, m3)" by fastforce
  have r: "r = Inr ()" using assms(1) w by (auto simp: publish_steps split: sum.splits)
  have p: "publish base writer m = (Inr (), sealed base m m3)" using publish_seq [where writer = writer, OF assms(2)] w r by simp
  have "config_at m3 base = mutate (config_at (opened base m) base)" using row [of base "opened base m"] w r by simp
  then show "config_at (snd (publish base writer m)) base =
      write_config_with_generation_publish (\<lambda>c. (mutate c)\<lparr>magic := FAULTCORE_MAGIC\<rparr>) (config_at m base)"
    by (simp add: p sealed_row opened_row write_config_with_generation_publish_def Let_def mutate_magic)
  have "same_outside base 880 m m3" using same_outside_trans [OF opened_outside within [of base "opened base m"]] w by simp
  then show "same_outside base 880 m (snd (publish base writer m))"
    unfolding p snd_conv by (rule same_outside_trans [OF _ sealed_outside])
qed

lemma publish_returns:
  fixes m base
  assumes "\<And>m'. fst (writer base m') = Inr ()" "ruleset_generation (config_at m base) OR 1 \<noteq> - 1"
  shows "fst (publish base writer m) = Inr ()"
  using publish_seq [OF assms(2), of writer "snd (writer base (opened base m))"] assms(1) by (metis fst_conv prod.collapse)

text \<open>An exception leaves the generation odd.\<close>

lemma publish_raises:
  fixes m base
  assumes "fst (writer base (opened base m)) = Inl e"
  shows "fst (publish base writer m) = Inl e"
    and "ruleset_generation (config_at (snd (publish base writer m)) base) = ruleset_generation (config_at m base) OR 1"
    and "same_outside base 880 m (snd (publish base writer m))"
proof -
  obtain m3 where w: "writer base (opened base m) = (Inl e, m3)" using assms by (metis prod.collapse)
  then have p: "publish base writer m = (Inl e, m3)" by (simp add: publish_steps)
  then show "fst (publish base writer m) = Inl e" by simp
  show "ruleset_generation (config_at (snd (publish base writer m)) base) = ruleset_generation (config_at m base) OR 1"
    using keeps_generation [of base "opened base m"] w p opened_row by simp
  show "same_outside base 880 m (snd (publish base writer m))"
    using same_outside_trans [OF opened_outside within [of base "opened base m"]] w p by simp
qed

end

section \<open>Field lists\<close>

lemma pack_field_row:
  assumes "off \<in> fst ` set field_setters"
  shows "same_outside base 880 m (snd (pack_q (base + off) v m))"
    and "config_at (snd (pack_q (base + off) v m)) base = put_field (off, v) (config_at m base)"
    and "ruleset_generation (put_field (off, v) c) = ruleset_generation c"
proof -
  obtain s where s: "map_of field_setters off = Some s" "(off, s) \<in> set field_setters" using known_setter [OF assms] by blast
  show "same_outside base 880 m (snd (pack_q (base + off) v m))"
    using field_offset_bound [OF assms] by (auto simp: pack_q_value intro!: same_outside_poke split: option.split)
  show "config_at (snd (pack_q (base + off) v m)) base = put_field (off, v) (config_at m base)"
    using s by (auto simp: pack_q_value put_field_def field_setter_write split: option.split)
  have "list_all (\<lambda>(off, s). \<forall>w. ruleset_generation (s w c) = ruleset_generation c) field_setters"
    unfolding field_setters_def list.pred_inject prod.case by simp
  with s show "ruleset_generation (put_field (off, v) c) = ruleset_generation c"
    by (auto simp: put_field_def list_all_iff split: option.split)
qed

definition packable :: "(nat \<times> pyval) list \<Rightarrow> bool" where
  "packable fs \<longleftrightarrow> (\<forall>(off, v) \<in> set fs. u64_value v \<noteq> None)"

lemma pack_fields_row:
  assumes "offsets_known fs"
  shows "same_outside base 880 m (snd (pack_u64_fields base fs m))
    \<and> ruleset_generation (config_at (snd (pack_u64_fields base fs m)) base) = ruleset_generation (config_at m base)
    \<and> fst (pack_u64_fields base fs m) = (if packable fs then Inr () else Inl StructError)
    \<and> (packable fs \<longrightarrow> config_at (snd (pack_u64_fields base fs m)) base = put_fields fs (config_at m base))"
  using assms
proof (induction fs arbitrary: m)
  case (Cons fv fs)
  obtain off v where fv: "fv = (off, v)" by (cases fv)
  then have off: "off \<in> fst ` set field_setters" and fs: "offsets_known fs"
    using Cons.prems by (auto simp: offsets_known_def)
  note h = pack_field_row(1,2) [OF off, where v = v and base = base and m = m] pack_field_row(3) [OF off]
  let ?m = "snd (pack_q (base + off) v m)"
  have step: "pack_u64_fields base (fv # fs) m =
      (if u64_value v = None then (Inl StructError, m) else pack_u64_fields base fs ?m)"
    by (auto simp: fv upd_then_def pack_q_value split: option.split)
  have pk: "packable (fv # fs) \<longleftrightarrow> u64_value v \<noteq> None \<and> packable fs" by (simp add: fv packable_def)
  show ?case
  proof (cases "u64_value v = None")
    case True
    then show ?thesis unfolding step pk by simp
  next
    case False
    with Cons.IH [OF fs, where m = ?m] same_outside_trans [OF h(1)] show ?thesis
      unfolding step pk by (simp only: h(2,3) fv put_fields_def fold_simps o_apply not_False_eq_True if_False simp_thms) blast
  qed
qed (simp_all add: upd_ok_def packable_def put_fields_def)

lemma field_list_writer: "offsets_known fs \<Longrightarrow> row_writer (\<lambda>base. pack_u64_fields base fs) (put_fields fs)"
  by unfold_locales (simp_all add: pack_fields_row put_fields_magic split: if_splits)

lemma optional_fields: "write_optional_u64_fields base fs = pack_u64_fields base (filter (\<lambda>(off, v). v \<noteq> VNone) fs)"
  by (induction fs) auto

lemma known_field [simp]: "off \<in> set (map fst field_setters) \<Longrightarrow> off \<in> fst ` set field_setters"
  by simp

interpretation latency: row_writer "\<lambda>base. pack_u64_fields base [(OFFSET_LATENCY_NS, v)]" "put_fields [(OFFSET_LATENCY_NS, v)]" for v
  by (rule field_list_writer) (simp add: offsets_known_def field_setters_def)

section \<open>Rows of the table\<close>

definition row_index :: "int \<Rightarrow> nat" where
  "row_index tid = MAX_FDS + tid_slot (word_of_int tid)"

definition row_of :: "int \<Rightarrow> memory \<Rightarrow> FaultcoreConfig" where
  "row_of tid m = config_at m (config_ptr (row_index tid))"

lemma row_index_less: "row_index tid < MAX_FDS + MAX_TIDS"
  by (simp add: row_index_def tid_slot_less)

lemma row_in_table: "sh_configs (shm_of m) (row_index tid) = row_of tid m"
  using row_index_less [of tid] by (simp add: shm_of_def row_of_def)

lemma with_mapped: "sw_mmap w = Some m \<Longrightarrow> with_mmap os u w = (fst (u m), w\<lparr>sw_mmap := Some (snd (u m))\<rparr>)"
  by (simp add: with_mmap_def ensure_mapped_def case_prod_beta)

lemma config_read:
  "fst (get_config_for_tid ros (word_of_int tid) (table m)) = read_stable_config (settled (row_of tid m))"
  by (simp add: get_config_for_tid_def table_def get_config_ptr_def config_index_def read_row_def row_in_table
      flip: row_index_def)

lemma odd_row_unreadable: "ruleset_generation row mod 2 \<noteq> 0 \<Longrightarrow> read_stable_config (settled row) = None"
  by (simp add: read_stable_config_def settled_def numeral_eq_Suc)

definition generation_room :: "int \<Rightarrow> memory \<Rightarrow> bool" where
  "generation_room tid m \<longleftrightarrow> ruleset_generation (row_of tid m) OR 1 \<noteq> - 1"

lemma publish_table:
  assumes "row_writer wr mutate" "0 \<le> tid" "tid < 2 ^ 64" "fst (publish (get_offset tid) wr m) = Inr ()" "generation_room tid m"
  shows "update_config_for_tid (word_of_int tid) mutate (table m) = (True, table (snd (publish (get_offset tid) wr m)))"
proof -
  have off: "get_offset tid = config_ptr (row_index tid)" by (simp add: get_offset_ptr [OF assms(2,3)] row_index_def)
  let ?m = "snd (publish (config_ptr (row_index tid)) wr m)"
  note p = row_writer.publish_row [OF assms(1) assms(4) [unfolded off] assms(5) [unfolded generation_room_def row_of_def]]
  have "shm_of ?m = (shm_of m)\<lparr>sh_configs := (sh_configs (shm_of m))(row_index tid := config_at ?m (config_ptr (row_index tid)))\<rparr>"
    by (rule shm_of_row_write [OF p(2) row_index_less])
  also have "\<dots> = write_row (row_index tid) (\<lambda>c. (mutate c)\<lparr>magic := FAULTCORE_MAGIC\<rparr>) (shm_of m)"
    by (simp add: write_row_def p(1) row_in_table row_of_def)
  finally show ?thesis
    by (simp add: off update_config_for_tid_def table_def get_config_ptr_def config_index_def on_shm_def flip: row_index_def)
qed

lemma write_fields_table:
  assumes "sw_mmap w = Some m" "0 \<le> tid" "tid < 2 ^ 64" "offsets_known fs" "packable fs" "generation_room tid m"
  shows "\<exists>m'. write_fields os tid fs w = (Inr (), w\<lparr>sw_mmap := Some m'\<rparr>)
    \<and> update_config_for_tid (word_of_int tid) (put_fields fs) (table m) = (True, table m')
    \<and> shm_of m' = write_row (row_index tid) (\<lambda>c. (put_fields fs c)\<lparr>magic := FAULTCORE_MAGIC\<rparr>) (shm_of m)"
proof -
  let ?wr = "\<lambda>base. pack_u64_fields base fs"
  have wr: "row_writer ?wr (put_fields fs)" by (rule field_list_writer [OF assms(4)])
  have off: "get_offset tid = config_ptr (row_index tid)" by (simp add: get_offset_ptr [OF assms(2,3)] row_index_def)
  have ok: "fst (publish (get_offset tid) ?wr m) = Inr ()"
    unfolding off by (rule row_writer.publish_returns [OF wr])
      (use assms(5,6) pack_fields_row [OF assms(4)] in \<open>simp_all add: generation_room_def row_of_def\<close>)
  from publish_table [OF wr assms(2,3) ok assms(6)] ok show ?thesis
    by (auto simp: write_fields_def write_with_generation_publish_def with_mapped [OF assms(1)] update_config_for_tid_def
        table_def get_config_ptr_def config_index_def on_shm_def simp flip: row_index_def)
qed

text \<open>C6. The Python writer and the Rust writer are the same writer: when the segment is mapped and every
  value is a 64-bit integer, \<open>_write_fields\<close> for a thread returns normally, and the bytes it leaves stand for exactly
  the table that \<open>update_config_for_tid\<close> leaves when it assigns those fields of that thread's row: the
  same row, the same fields, the same generation, nothing else.\<close>

theorem python_update_is_rust_update:
  assumes "sw_mmap w = Some m" "0 \<le> tid" "tid < 2 ^ 64" "offsets_known fs" "packable fs" "generation_room tid m"
  shows "\<exists>m'. write_fields os tid fs w = (Inr (), w\<lparr>sw_mmap := Some m'\<rparr>)
    \<and> update_config_for_tid (word_of_int tid) (put_fields fs) (table m) = (True, table m')"
  using write_fields_table [OF assms] by blast

definition plain_py_os :: PyOs where
  "plain_py_os = \<lparr>po_env = (\<lambda>_. None), po_default_name = ''/faultcore_1_config'', po_open = (\<lambda>_ _. None),
     po_ftruncate_ok = True, po_mmap = (\<lambda>_. Inl OSError)\<rparr>"

definition zero_writer :: SHMWriter where
  "zero_writer = \<lparr>sw_raw_name = None, sw_fd = Some 3, sw_mmap = Some (\<lambda>_. 0)\<rparr>"

lemma zero_room: "generation_room tid (\<lambda>_. 0)"
  by (simp add: generation_room_def row_of_def config_at_zeros peek_def map_replicate_const FaultcoreConfig_default_def)

theorem python_update_is_rust_update_witness:
  "\<exists>m'. write_fields plain_py_os 42 [(OFFSET_LATENCY_NS, VInt 5000000), (OFFSET_POLICY_SEED, VInt 7)] zero_writer =
       (Inr (), zero_writer\<lparr>sw_mmap := Some m'\<rparr>)
     \<and> update_config_for_tid 42 (put_fields [(OFFSET_LATENCY_NS, VInt 5000000), (OFFSET_POLICY_SEED, VInt 7)]) (table (\<lambda>_. 0)) =
       (True, table m')"
proof -
  let ?fs = "[(OFFSET_LATENCY_NS, VInt 5000000), (OFFSET_POLICY_SEED, VInt 7)]"
  have "offsets_known ?fs" "packable ?fs"
    by (simp_all add: offsets_known_def field_setters_def packable_def u64_value_def)
  from python_update_is_rust_update [OF _ _ _ this zero_room, of zero_writer 42 plain_py_os]
  show ?thesis by (simp add: zero_writer_def)
qed



section \<open>Clearing\<close>

lemma rule_at_zeros: "peek m base 152 = replicate 152 0 \<Longrightarrow> rule_at m base = TargetRule_default"
proof -
  assume z: "peek m base 152 = replicate 152 0"
  have "m (base + i) = 0" if "i < 152" for i
    using arg_cong [OF z, of "\<lambda>xs. xs ! i"] that by (simp add: peek_def)
  then have p: "peek m (base + q) n = replicate n 0" if "q + n \<le> 152" for q n
    using that by (auto simp: peek_def intro!: nth_equalityI) (metis add.assoc add_less_cancel_left less_le_trans)
  have u: "u64_at m (base + q) = 0" if "q + 8 \<le> 152" for q using p [OF that] by (simp add: u64_at_def le_nat_zeros)
  show ?thesis using u [of 0] by (simp add: rule_at_def Let_def TargetRule_default_def p u)
qed

definition rules_cleared :: "nat \<Rightarrow> Shm \<Rightarrow> Shm" where
  "rules_cleared slot t = t\<lparr>sh_rules := (\<lambda>i. if slot * 8 \<le> i \<and> i < slot * 8 + 8 then TargetRule_default else sh_rules t i)\<rparr>"

lemma rules_offset_ptr:
  assumes "0 \<le> tid" "tid < 2 ^ 64"
  shows "target_rules_offset_for_slot (py_tid_slot tid) = target_rules_base_ptr (tid_slot (word_of_int tid) * 8)"
  by (simp add: target_rules_offset_for_slot_def slot_words [OF assms] PY_TARGET_RULES_REGION_def PY_POLICY_REGION_def
      PY_MAX_FDS_def PY_MAX_TIDS_def PY_MAX_POLICIES_def CONFIG_SIZE_def POLICY_STATE_SIZE_def PY_TARGET_RULES_REGION_SIZE_def
      PY_MAX_TARGET_RULES_def TARGET_RULE_SIZE_def pointers nat_add_distrib nat_mult_distrib)

lemma clear_rules_table:
  fixes m
  assumes "0 \<le> tid" "tid < 2 ^ 64"
  defines "slot \<equiv> tid_slot (word_of_int tid)"
  defines "m' \<equiv> poke (target_rules_offset_for_slot (py_tid_slot tid)) (replicate PY_TARGET_RULES_REGION_SIZE 0) m"
  shows "clear_target_rules_table (py_tid_slot tid) m = (Inr (), m')"
    and "shm_of m' = rules_cleared slot (shm_of m)"
    and "same_outside (target_rules_base_ptr (slot * 8)) (8 * 152) m m'"
proof -
  have size: "PY_TARGET_RULES_REGION_SIZE = 1216"
    by (simp add: PY_TARGET_RULES_REGION_SIZE_def PY_MAX_TARGET_RULES_def TARGET_RULE_SIZE_def)
  have off: "target_rules_offset_for_slot (py_tid_slot tid) = target_rules_base_ptr (slot * 8)"
    using rules_offset_ptr [OF assms(1,2)] by (simp add: slot_def)
  show "clear_target_rules_table (py_tid_slot tid) m = (Inr (), m')"
    by (simp add: clear_target_rules_table_def store_bytes_def m'_def)
  show out: "same_outside (target_rules_base_ptr (slot * 8)) (8 * 152) m m'"
    unfolding m'_def off by (rule same_outside_poke) (simp_all add: size)
  have "rule_at m' (target_rules_base_ptr i) = TargetRule_default" if i: "slot * 8 \<le> i" "i < slot * 8 + 8" for i
  proof (rule rule_at_zeros)
    have "m' (target_rules_base_ptr i + k) = 0" if "k < 152" for k
    proof -
      have "i * 152 + k < slot * 8 * 152 + 1216" using i(2) that by simp
      then show ?thesis using i(1) by (simp add: m'_def off poke_def size pointers)
    qed
    then show "peek m' (target_rules_base_ptr i) 152 = replicate 152 0"
      by (auto simp: peek_def intro!: nth_equalityI)
  qed
  then show "shm_of m' = rules_cleared slot (shm_of m)"
    using shm_of_rules_write [OF out tid_slot_less [of "word_of_int tid", folded slot_def]]
    by (simp add: rules_cleared_def cong: if_cong)
qed

lemma rules_outside_rows:
  assumes "same_outside (target_rules_base_ptr k) n m m'" "i < MAX_FDS + MAX_TIDS"
  shows "config_at m' (config_ptr i) = config_at m (config_ptr i)"
  by (rule config_at_cong, rule same_outside_peek [OF assms(1)])
     (use assms(2) in \<open>simp add: pointers MAX_FDS_def MAX_TIDS_def\<close>)

text \<open>\<open>clear\<close> publishes an empty row and empties the rules of the thread.\<close>

lemma clear_table:
  assumes "sw_mmap w = Some m" "0 \<le> tid" "tid < 2 ^ 64" "generation_room tid m"
  shows "\<exists>m'. clear os tid w = (Inr (), w\<lparr>sw_mmap := Some m'\<rparr>)
    \<and> shm_of m' = write_row (row_index tid) (\<lambda>_. FaultcoreConfig_default) (rules_cleared (tid_slot (word_of_int tid)) (shm_of m))"
proof -
  let ?b = "config_ptr (row_index tid)"
  define m2 where "m2 = poke ?b (replicate 880 0) (opened ?b m)"
  define m3 where "m3 = poke (target_rules_offset_for_slot (py_tid_slot tid)) (replicate PY_TARGET_RULES_REGION_SIZE 0) m2"
  let ?wr = "\<lambda>offset. upd_then (store_bytes offset (replicate (nat CONFIG_SIZE) 0)) (clear_target_rules_table (py_tid_slot tid))"
  have off: "get_offset tid = ?b" by (simp add: get_offset_ptr [OF assms(2,3)] row_index_def)
  note rules = clear_rules_table [OF assms(2,3), where m = m2, folded m3_def]
  have "?wr ?b (opened ?b m) = (Inr (), m3)"
    using rules(1) by (simp add: upd_then_def store_bytes_def CONFIG_SIZE_def m2_def)
  with assms(4) have pub: "publish ?b ?wr m = (Inr (), sealed ?b m m3)"
    by (intro publish_seq) (simp_all add: generation_room_def row_of_def)
  have "same_outside ?b 880 m m2" unfolding m2_def
    by (rule same_outside_trans [OF opened_outside], rule same_outside_poke) simp_all
  then have s2: "shm_of m2 = (shm_of m)\<lparr>sh_configs := (sh_configs (shm_of m))(row_index tid := FaultcoreConfig_default)\<rparr>"
    using shm_of_row_write [OF _ row_index_less] config_at_zeros [of m2 ?b] by (simp add: m2_def)
  have "config_at m3 ?b = FaultcoreConfig_default"
    using rules_outside_rows [OF rules(3) row_index_less] config_at_zeros [of m2 ?b] by (simp add: m2_def)
  with shm_of_row_write [OF sealed_outside row_index_less, of tid m m3] have "shm_of (sealed ?b m m3) =
      (shm_of m3)\<lparr>sh_configs := (sh_configs (shm_of m3))(row_index tid :=
        FaultcoreConfig_default\<lparr>ruleset_generation := ((ruleset_generation (row_of tid m) OR 1) + 1) AND NOT 1\<rparr>)\<rparr>"
    by (simp only: sealed_row row_of_def)
  also have "\<dots> = write_row (row_index tid) (\<lambda>_. FaultcoreConfig_default) (rules_cleared (tid_slot (word_of_int tid)) (shm_of m))"
    unfolding rules(2) s2 by (simp add: write_row_def rules_cleared_def write_config_with_generation_publish_def Let_def
        row_in_table cong: if_cong)
  finally show ?thesis using pub
    by (intro exI [of _ "sealed ?b m m3"]) (simp add: clear_def write_with_generation_publish_def with_mapped [OF assms(1)] off)
qed

end
