(* ===== verification/Decorator_Properties.thy ===== *)
theory Decorator_Properties
  imports Fault_Decorator Policy_Properties Shm_Writer_Refinement Shm_Seqlock
begin

text \<open>
  What a decorated call does to the shared table: the policy that the interceptor sees while the
  function runs, what is left after it, and the profiles that can never be applied.
\<close>

section \<open>One scalar after the other\<close>

text \<open>A row that holds \<open>c\<close> and was published with generation \<open>g\<close>.\<close>

definition holds_row :: "int \<Rightarrow> memory \<Rightarrow> FaultcoreConfig \<Rightarrow> u64 \<Rightarrow> bool" where
  "holds_row tid m c g \<longleftrightarrow> even g \<and> row_of tid m = c\<lparr>ruleset_generation := g\<rparr>"

definition field_step :: "PyOs \<Rightarrow> int \<Rightarrow> nat \<times> pyval \<Rightarrow> writer_step" where
  "field_step os tid fv w = (if snd fv = VNone then (Inr (), w) else write_fields os tid [fv] w)"

definition given :: "(nat \<times> pyval) list \<Rightarrow> (nat \<times> pyval) list" where
  "given fs = filter (\<lambda>fv. snd fv \<noteq> VNone) fs"

lemma generation_room_even:
  fixes g :: u64
  assumes "even g" "unat g + 2 < 2 ^ 64"
  shows "g OR 1 \<noteq> - 1" "unat (g + 2) = unat g + 2"
proof -
  show "unat (g + 2) = unat g + 2" using assms(2) by (simp add: unat_word_ariths)
  have "unat (g + 1) = unat g + 1" using assms(2) by (simp add: unat_word_ariths)
  then have "unat (g + 1) \<noteq> unat (- 1 :: u64)"
    using assms(2) by (simp add: unsigned_minus_1_eq_mask mask_eq_exp_minus_1)
  moreover have "g OR 1 = g + 1" using assms(1) by (simp add: or_one_eq)
  ultimately show "g OR 1 \<noteq> - 1" by metis
qed

lemma put_field_generation: "offsets_known [fv] \<Longrightarrow> put_field fv (c\<lparr>ruleset_generation := g\<rparr>) = (put_field fv c)\<lparr>ruleset_generation := g\<rparr>"
proof -
  assume "offsets_known [fv]"
  then obtain s where s: "map_of field_setters (fst fv) = Some s" "(fst fv, s) \<in> set field_setters"
    using known_setter [of "fst fv"] by (cases fv) (fastforce simp: offsets_known_def)
  have "list_all (\<lambda>(off, s). \<forall>w. s w (c\<lparr>ruleset_generation := g\<rparr>) = (s w c)\<lparr>ruleset_generation := g\<rparr>) field_setters"
    unfolding field_setters_def list.pred_inject prod.case by simp
  with s show ?thesis by (auto simp: put_field_def list_all_iff split: option.split)
qed

text \<open>One field: the row is republished with it, two generations later.\<close>

lemma write_field_holds:
  assumes "sw_mmap w = Some m" "0 \<le> tid" "tid < 2 ^ 64" "offsets_known [fv]" "packable [fv]"
    and "holds_row tid m c g" "unat g + 2 < 2 ^ 64"
  shows "\<exists>m'. write_fields os tid [fv] w = (Inr (), w\<lparr>sw_mmap := Some m'\<rparr>)
    \<and> holds_row tid m' ((put_field fv c)\<lparr>magic := FAULTCORE_MAGIC\<rparr>) (g + 2) \<and> unat (g + 2) = unat g + 2"
proof -
  have g: "even g" and row: "row_of tid m = c\<lparr>ruleset_generation := g\<rparr>" using assms(6) by (simp_all add: holds_row_def)
  note room = generation_room_even [OF g assms(7)]
  have "generation_room tid m" using room(1) by (simp add: generation_room_def row)
  from write_fields_table [OF assms(1-5) this, where os = os] obtain m' where
    w: "write_fields os tid [fv] w = (Inr (), w\<lparr>sw_mmap := Some m'\<rparr>)"
    and t: "shm_of m' = write_row (row_index tid) (\<lambda>c. (put_fields [fv] c)\<lparr>magic := FAULTCORE_MAGIC\<rparr>) (shm_of m)"
    by blast
  have "row_of tid m' = write_config_with_generation_publish (\<lambda>c. (put_fields [fv] c)\<lparr>magic := FAULTCORE_MAGIC\<rparr>) (row_of tid m)"
    unfolding row_in_table [symmetric] t by (simp add: write_row_def)
  also have "\<dots> = ((put_field fv c)\<lparr>magic := FAULTCORE_MAGIC\<rparr>)\<lparr>ruleset_generation := g + 2\<rparr>"
    using generation_steps [OF g] unfolding start_generation_def published_generation_def
    by (simp add: write_config_with_generation_publish_def row Let_def put_fields_def put_field_generation [OF assms(4)])
  finally show ?thesis using w g room(2) by (auto simp: holds_row_def)
qed

lemma put_fields_Cons: "put_fields [] c = c" "put_fields (fv # fs) c = put_fields fs (put_field fv c)"
  by (simp_all add: put_fields_def)

lemma field_steps_hold:
  assumes "sw_mmap w = Some m" "0 \<le> tid" "tid < 2 ^ 64" "offsets_known fs" "packable (given fs)"
    and "holds_row tid m c g" "unat g + 2 * length fs < 2 ^ 64"
  shows "\<exists>m' g'. run_writer_steps (map (field_step os tid) fs) w = (Inr (), w\<lparr>sw_mmap := Some m'\<rparr>)
    \<and> holds_row tid m' (if given fs = [] then c else (put_fields (given fs) c)\<lparr>magic := FAULTCORE_MAGIC\<rparr>) g'"
  using assms
proof (induction fs arbitrary: w m c g)
  case Nil
  then show ?case by (auto simp: given_def intro!: exI [of _ m])
next
  case (Cons fv fs)
  then have fs: "offsets_known fs" "packable (given fs)" and fv: "offsets_known [fv]"
    by (auto simp: offsets_known_def packable_def given_def)
  show ?case
  proof (cases "snd fv = VNone")
    case True
    then have skip: "run_writer_steps (map (field_step os tid) (fv # fs)) w = run_writer_steps (map (field_step os tid) fs) w"
      "given (fv # fs) = given fs"
      by (simp_all add: field_step_def given_def)
    have "unat g + 2 * length fs < 2 ^ 64" using Cons.prems(7) by simp
    from Cons.IH [OF Cons.prems(1-3) fs Cons.prems(6) this] show ?thesis unfolding skip .
  next
    case False
    then have pk: "packable [fv]" using Cons.prems(5) by (simp add: packable_def given_def)
    have "unat g + 2 < 2 ^ 64" using Cons.prems(7) by simp
    from write_field_holds [OF Cons.prems(1-3) fv pk Cons.prems(6) this, where os = os] obtain m1 where
      m1: "write_fields os tid [fv] w = (Inr (), w\<lparr>sw_mmap := Some m1\<rparr>)"
      "holds_row tid m1 ((put_field fv c)\<lparr>magic := FAULTCORE_MAGIC\<rparr>) (g + 2)" "unat (g + 2) = unat g + 2" by blast
    have "unat (g + 2) + 2 * length fs < 2 ^ 64" using m1(3) Cons.prems(7) by simp
    from Cons.IH [OF _ Cons.prems(2,3) fs m1(2) this, of "w\<lparr>sw_mmap := Some m1\<rparr>"] obtain m' g' where
      r: "run_writer_steps (map (field_step os tid) fs) (w\<lparr>sw_mmap := Some m1\<rparr>) = (Inr (), w\<lparr>sw_mmap := Some m'\<rparr>)"
      and h: "holds_row tid m' (if given fs = [] then (put_field fv c)\<lparr>magic := FAULTCORE_MAGIC\<rparr>
         else (put_fields (given fs) ((put_field fv c)\<lparr>magic := FAULTCORE_MAGIC\<rparr>))\<lparr>magic := FAULTCORE_MAGIC\<rparr>) g'"
      by auto
    from h have "holds_row tid m' ((put_fields (given (fv # fs)) c)\<lparr>magic := FAULTCORE_MAGIC\<rparr>) g'"
      using False by (simp add: given_def put_fields_magic put_fields_Cons split: if_splits)
    moreover have "field_step os tid fv w = (Inr (), w\<lparr>sw_mmap := Some m1\<rparr>)" "given (fv # fs) \<noteq> []"
      using m1(1) False by (simp_all add: field_step_def given_def)
    ultimately show ?thesis using r by auto
  qed
qed

section \<open>Scalar policies\<close>

definition opt_int :: "string \<Rightarrow> int option \<Rightarrow> pydict" where
  "opt_int key x = (case x of Some i \<Rightarrow> [(key, VInt i)] | None \<Rightarrow> [])"

definition scalar_policy :: "int option \<Rightarrow> int option \<Rightarrow> int option \<Rightarrow> int option \<Rightarrow> int option \<Rightarrow> int option \<Rightarrow> pydict" where
  "scalar_policy seed lat jit loss burst bps =
     opt_int ''seed'' seed @ opt_int ''latency'' lat @ opt_int ''jitter'' jit @ opt_int ''packet_loss_ppm'' loss
     @ opt_int ''burst_loss'' burst @ opt_int ''rate'' bps"

definition opt_value :: "int \<Rightarrow> int option \<Rightarrow> pyval" where
  "opt_value k x = (case x of Some i \<Rightarrow> VInt (i * k) | None \<Rightarrow> VNone)"

lemma scalar_policy_get:
  "py_get (scalar_policy s l j p b r) ''seed'' VNone = opt_value 1 s"
  "py_get (scalar_policy s l j p b r) ''latency'' VNone = opt_value 1 l"
  "py_get (scalar_policy s l j p b r) ''jitter'' VNone = opt_value 1 j"
  "py_get (scalar_policy s l j p b r) ''packet_loss_ppm'' VNone = opt_value 1 p"
  "py_get (scalar_policy s l j p b r) ''burst_loss'' VNone = opt_value 1 b"
  "py_get (scalar_policy s l j p b r) ''rate'' VNone = opt_value 1 r"
  by (simp_all add: py_get_def scalar_policy_def opt_int_def opt_value_def split: option.split)

lemma scalar_policy_rest:
  assumes "k \<notin> {''seed'', ''latency'', ''jitter'', ''packet_loss_ppm'', ''burst_loss'', ''rate''}"
  shows "py_get (scalar_policy s l j p b r) k VNone = VNone"
  using assms by (auto simp: py_get_def scalar_policy_def opt_int_def split: option.split)

definition scalar_fields :: "int option \<Rightarrow> int option \<Rightarrow> int option \<Rightarrow> int option \<Rightarrow> int option \<Rightarrow> int option \<Rightarrow> (nat \<times> pyval) list" where
  "scalar_fields s l j p b r =
     [(OFFSET_POLICY_SEED, opt_value 1 s), (OFFSET_LATENCY_NS, opt_value 1000000 l), (OFFSET_JITTER_NS, opt_value 1000000 j),
      (OFFSET_PACKET_LOSS_PPM, opt_value 1 p), (OFFSET_BURST_LOSS_LEN, opt_value 1 b), (OFFSET_BANDWIDTH_BPS, opt_value 1 r)]"

lemma scalar_steps_fields:
  assumes "\<forall>i. s = Some i \<longrightarrow> 0 \<le> i"
  shows "scalar_steps os tid (scalar_policy s l j p b r) = map (field_step os tid) (scalar_fields s l j p b r)"
  unfolding scalar_steps_def scalar_fields_def list.map list.inject fun_eq_iff on_given_def field_step_def scalar_policy_get Let_def
  using assms
  by (simp add: opt_value_def write_policy_seed_def write_latency_def write_jitter_def write_ms_field_def ms_to_ns_def
      write_packet_loss_def write_burst_loss_def write_bandwidth_def split: option.split)

lemma run_writer_steps_append:
  "run_writer_steps (xs @ ys) w = (case run_writer_steps xs w of (Inl e, w1) \<Rightarrow> (Inl e, w1) | (Inr u, w1) \<Rightarrow> run_writer_steps ys w1)"
  by (induction xs arbitrary: w) (auto split: prod.split sum.split)

lemma run_writer_steps_idle: "list_all (\<lambda>s. \<forall>w. s w = (Inr (), w)) ss \<Longrightarrow> run_writer_steps ss w = (Inr (), w)"
  by (induction ss) simp_all

lemma on_mapping_absent: "py_get profiles k VNone = VNone \<Longrightarrow> on_mapping profiles k f w = (Inr (), w)"
  by (simp add: on_mapping_def)

lemma apply_scalar_policy:
  "apply_fault_profiles os ext tid (scalar_policy s l j p b r) now w = run_writer_steps (scalar_steps os tid (scalar_policy s l j p b r)) w"
proof -
  have "list_all (\<lambda>s. \<forall>w. s w = (Inr (), w))
      ([timeouts_step os tid (scalar_policy s l j p b r)]
        @ map (\<lambda>(field, wr). on_mapping (scalar_policy s l j p b r) field (write_directional_profile os tid wr)) DIRECTIONAL_WRITERS
        @ map (\<lambda>(field, wr, defaults). on_mapping (scalar_policy s l j p b r) field (write_profile_with_defaults os tid wr defaults))
            PROFILE_WRITERS
        @ [targets_step os ext tid (scalar_policy s l j p b r), schedule_step os tid (scalar_policy s l j p b r) now,
           budget_step os tid (scalar_policy s l j p b r)])"
    by (simp add: DIRECTIONAL_WRITERS_def PROFILE_WRITERS_def timeouts_step_def targets_step_def schedule_step_def budget_step_def
        on_mapping_absent scalar_policy_rest)
  from run_writer_steps_idle [OF this] show ?thesis
    by (auto simp: apply_fault_profiles_def run_writer_steps_append [of "scalar_steps os tid (scalar_policy s l j p b r)"]
        split: prod.split sum.split)
qed

text \<open>The row that the values stand for, and the limits of the interceptor.\<close>

definition word_or_zero :: "int \<Rightarrow> int option \<Rightarrow> u64" where
  "word_or_zero k x = (case x of Some i \<Rightarrow> word_of_int (i * k) | None \<Rightarrow> 0)"

definition scalar_row :: "int option \<Rightarrow> int option \<Rightarrow> int option \<Rightarrow> int option \<Rightarrow> int option \<Rightarrow> int option \<Rightarrow> FaultcoreConfig" where
  "scalar_row s l j p b r =
     FaultcoreConfig_default\<lparr>magic := FAULTCORE_MAGIC, policy_seed := word_or_zero 1 s, latency_ns := word_or_zero 1000000 l,
       jitter_ns := word_or_zero 1000000 j, packet_loss_ppm := word_or_zero 1 p, burst_loss_len := word_or_zero 1 b,
       bandwidth_bps := word_or_zero 1 r\<rparr>"

definition opt_within :: "int \<Rightarrow> int option \<Rightarrow> bool" where
  "opt_within n x = (case x of Some i \<Rightarrow> 0 \<le> i \<and> i \<le> n | None \<Rightarrow> True)"

lemma opt_value_packable:
  "opt_value k x \<noteq> VNone \<Longrightarrow> opt_within n x \<Longrightarrow> n * k < 2 ^ 64 \<Longrightarrow> 0 < k \<Longrightarrow> u64_value (opt_value k x) = Some (word_or_zero k x)"
proof (cases x)
  case (Some i)
  assume "opt_within n x" "n * k < 2 ^ 64" "0 < k"
  then have "0 \<le> i * k" "i * k \<le> n * k" by (simp_all add: opt_within_def Some mult_right_mono)
  with \<open>n * k < 2 ^ 64\<close> show ?thesis by (simp add: opt_value_def u64_value_def word_or_zero_def Some)
qed (simp add: opt_value_def)

definition put_given :: "nat \<times> pyval \<Rightarrow> FaultcoreConfig \<Rightarrow> FaultcoreConfig" where
  "put_given fv c = (if snd fv = VNone then c else put_field fv c)"

lemma put_fields_given: "put_fields (given fs) c = fold put_given fs c"
  by (induction fs arbitrary: c) (simp_all add: given_def put_fields_Cons put_given_def)

lemma scalar_setters:
  "map_of field_setters OFFSET_POLICY_SEED = Some (\<lambda>x. policy_seed_update (\<lambda>_. x))"
  "map_of field_setters OFFSET_LATENCY_NS = Some (\<lambda>x. latency_ns_update (\<lambda>_. x))"
  "map_of field_setters OFFSET_JITTER_NS = Some (\<lambda>x. jitter_ns_update (\<lambda>_. x))"
  "map_of field_setters OFFSET_PACKET_LOSS_PPM = Some (\<lambda>x. packet_loss_ppm_update (\<lambda>_. x))"
  "map_of field_setters OFFSET_BURST_LOSS_LEN = Some (\<lambda>x. burst_loss_len_update (\<lambda>_. x))"
  "map_of field_setters OFFSET_BANDWIDTH_BPS = Some (\<lambda>x. bandwidth_bps_update (\<lambda>_. x))"
  by (simp_all add: field_setters_def offset_defs)

lemma put_given_scalar:
  assumes "map_of field_setters off = Some (\<lambda>x. upd (\<lambda>_. x))" "upd (\<lambda>_. 0) c = c"
    and "opt_within n x" "n * k < 2 ^ 64" "0 < k"
  shows "put_given (off, opt_value k x) c = upd (\<lambda>_. word_or_zero k x) c"
proof (cases "opt_value k x = VNone")
  case True
  then have "word_or_zero k x = 0" by (simp add: opt_value_def word_or_zero_def split: option.splits)
  with True assms(2) show ?thesis by (simp add: put_given_def)
next
  case False
  with opt_value_packable [OF this assms(3-5)] assms(1) show ?thesis by (simp add: put_given_def put_field_def)
qed

lemma scalar_fields_row:
  assumes "opt_within (2 ^ 64 - 1) s" "opt_within 18446744073709 l" "opt_within 18446744073709 j" "opt_within (2 ^ 64 - 1) p"
    "opt_within (2 ^ 64 - 1) b" "opt_within (2 ^ 64 - 1) r"
  shows "packable (given (scalar_fields s l j p b r))" "offsets_known (scalar_fields s l j p b r)"
    and "put_fields (given (scalar_fields s l j p b r)) FaultcoreConfig_default = (scalar_row s l j p b r)\<lparr>magic := 0\<rparr>"
proof -
  have u: "\<exists>y. u64_value (opt_value k x) = Some y" if "opt_value k x \<noteq> VNone" "opt_within n x" "n * k < 2 ^ 64" "0 < k" for k n x
    using opt_value_packable [OF that] by blast
  show "packable (given (scalar_fields s l j p b r))"
    using u [of 1 s] u [of 1000000 l] u [of 1000000 j] u [of 1 p] u [of 1 b] u [of 1 r] assms
    by (fastforce simp: packable_def given_def scalar_fields_def)
  show "offsets_known (scalar_fields s l j p b r)"
    by (simp add: offsets_known_def scalar_fields_def field_setters_def)
  note put = put_given_scalar [OF scalar_setters(1) _ assms(1)] put_given_scalar [OF scalar_setters(2) _ assms(2)]
    put_given_scalar [OF scalar_setters(3) _ assms(3)] put_given_scalar [OF scalar_setters(4) _ assms(4)]
    put_given_scalar [OF scalar_setters(5) _ assms(5)] put_given_scalar [OF scalar_setters(6) _ assms(6)]
  show "put_fields (given (scalar_fields s l j p b r)) FaultcoreConfig_default = (scalar_row s l j p b r)\<lparr>magic := 0\<rparr>"
    by (simp add: put_fields_given scalar_fields_def put FaultcoreConfig_default_def scalar_row_def)
qed

lemma word_or_zero_le:
  assumes "opt_within n x" "n * k < 2 ^ 64" "0 < k" "0 \<le> c" "c * k < 2 ^ 64"
  shows "word_or_zero k x \<le> word_of_int (c * k) \<longleftrightarrow> opt_within c x"
proof (cases x)
  case (Some i)
  then have i: "0 \<le> i" "i * k \<le> n * k" using assms(1,3) by (simp_all add: opt_within_def mult_right_mono)
  have u: "uint (word_of_int y :: u64) = y" if "0 \<le> y" "y < 2 ^ 64" for y using that by (simp add: uint_word_of_int)
  have "i * k < 2 ^ 64" using i(2) assms(2) by (rule le_less_trans)
  then have "uint (word_of_int (i * k) :: u64) = i * k" using i(1) assms(3) by (intro u) simp_all
  moreover have "uint (word_of_int (c * k) :: u64) = c * k" using assms(3-5) by (intro u) simp_all
  ultimately have "word_or_zero k x \<le> word_of_int (c * k) \<longleftrightarrow> i * k \<le> c * k"
    unfolding word_or_zero_def Some option.case word_le_def by simp
  then show ?thesis using assms(3) i(1) by (simp add: opt_within_def Some)
qed (simp add: word_or_zero_def opt_within_def)

definition within_limits :: "int option \<Rightarrow> int option \<Rightarrow> int option \<Rightarrow> int option \<Rightarrow> int option \<Rightarrow> bool" where
  "within_limits l j p b r \<longleftrightarrow>
     opt_within 60000 l \<and> opt_within 60000 j \<and> opt_within 1000000 p \<and> opt_within 1000000 b \<and> opt_within 100000000000 r"

lemma scalar_row_valid:
  assumes "opt_within 18446744073709 l" "opt_within 18446744073709 j" "opt_within (2 ^ 64 - 1) p"
    "opt_within (2 ^ 64 - 1) b" "opt_within (2 ^ 64 - 1) r"
  shows "is_valid (scalar_row s l j p b r) \<longleftrightarrow> within_limits l j p b r"
proof -
  note le = word_or_zero_le [OF assms(1), of 1000000 60000] word_or_zero_le [OF assms(2), of 1000000 60000]
    word_or_zero_le [OF assms(3), of 1 1000000] word_or_zero_le [OF assms(4), of 1 1000000]
    word_or_zero_le [OF assms(5), of 1 100000000000]
  show ?thesis using le
    by (simp add: is_valid_def scalar_row_def FaultcoreConfig_default_def MAX_LATENCY_NS_def MAX_BANDWIDTH_BPS_def
        MAX_TARGET_RULES_PER_TID_def within_limits_def)
qed

lemma scalar_policy_applied:
  assumes "sw_mmap w = Some m" "0 \<le> tid" "tid < 2 ^ 64"
    and "row_of tid m = FaultcoreConfig_default\<lparr>ruleset_generation := g\<rparr>" "even g" "unat g + 12 < 2 ^ 64"
    and "opt_within (2 ^ 64 - 1) s" "opt_within 18446744073709 l" "opt_within 18446744073709 j" "opt_within (2 ^ 64 - 1) p"
    "opt_within (2 ^ 64 - 1) b" "opt_within (2 ^ 64 - 1) r" "scalar_policy s l j p b r \<noteq> []"
  shows "\<exists>m' g'. apply_fault_profiles os ext tid (scalar_policy s l j p b r) now w = (Inr (), w\<lparr>sw_mmap := Some m'\<rparr>)
    \<and> row_of tid m' = (scalar_row s l j p b r)\<lparr>ruleset_generation := g'\<rparr> \<and> even g'"
proof -
  let ?fs = "scalar_fields s l j p b r"
  note f = scalar_fields_row [OF assms(7-12)]
  have h: "holds_row tid m FaultcoreConfig_default g" using assms(4,5) by (simp add: holds_row_def)
  have "unat g + 2 * length ?fs < 2 ^ 64" using assms(6) by (simp add: scalar_fields_def)
  from field_steps_hold [OF assms(1-3) f(2,1) h this, of os] obtain m' g' where
    run: "run_writer_steps (map (field_step os tid) ?fs) w = (Inr (), w\<lparr>sw_mmap := Some m'\<rparr>)"
    and row: "holds_row tid m' (if given ?fs = [] then FaultcoreConfig_default else (put_fields (given ?fs) FaultcoreConfig_default)\<lparr>magic := FAULTCORE_MAGIC\<rparr>) g'"
    by blast
  have "given ?fs \<noteq> []"
    using assms(13) by (auto simp: scalar_policy_def scalar_fields_def given_def opt_int_def opt_value_def split: option.splits)
  with row have "row_of tid m' = (scalar_row s l j p b r)\<lparr>ruleset_generation := g'\<rparr> \<and> even g'"
    by (simp add: f(3) holds_row_def) (simp add: scalar_row_def)
  moreover have "\<forall>i. s = Some i \<longrightarrow> 0 \<le> i" using assms(7) by (auto simp: opt_within_def)
  ultimately show ?thesis using run by (auto simp: apply_scalar_policy scalar_steps_fields)
qed

lemma scalar_row_read:
  assumes "row_of tid m = (scalar_row s l j p b r)\<lparr>ruleset_generation := g\<rparr>" "even g"
    and "opt_within 18446744073709 l" "opt_within 18446744073709 j" "opt_within (2 ^ 64 - 1) p"
    "opt_within (2 ^ 64 - 1) b" "opt_within (2 ^ 64 - 1) r"
  shows "fst (get_config_for_tid ros (word_of_int tid) (table m)) =
    (if within_limits l j p b r then Some ((scalar_row s l j p b r)\<lparr>ruleset_generation := g\<rparr>) else None)"
  using assms(2) unfolding config_read assms(1)
  by (subst read_stable_settled) (simp_all add: scalar_row_valid [OF assms(3-7)] even_iff_mod_2_eq_zero)

text \<open>C7. A policy of scalars reaches the interceptor: on a thread whose row is clear, a function
  decorated with any choice of a seed, a latency and a jitter in milliseconds, a loss in parts per million, a burst
  length and a rate runs, and while it runs the interceptor reads for its thread exactly those values, in the
  units of the row, and no other fault. Unless one of them exceeds the interceptor's own limit (one
  minute, a million, 100 gigabits per second), which the Python side never checks: then the interceptor
  reads no policy at all, and the whole policy is silently without effect.\<close>

theorem scalar_policy_reaches_interceptor:
  assumes "sw_mmap (pw_shm q) = Some m" "tid = pe_native_id env" "0 \<le> tid" "tid < 2 ^ 64"
    and "row_of tid m = FaultcoreConfig_default\<lparr>ruleset_generation := g\<rparr>" "even g" "unat g + 12 < 2 ^ 64"
    and "opt_within (2 ^ 64 - 1) s" "opt_within 18446744073709 l" "opt_within 18446744073709 j" "opt_within (2 ^ 64 - 1) p"
    "opt_within (2 ^ 64 - 1) b" "opt_within (2 ^ 64 - 1) r" "scalar_policy s l j p b r \<noteq> []"
  shows "\<exists>q' m' g'. apply_then_call env (scalar_policy s l j p b r) func q = func q' \<and> sw_mmap (pw_shm q') = Some m'
    \<and> fst (get_config_for_tid ros (word_of_int tid) (table m')) =
        (if within_limits l j p b r then Some ((scalar_row s l j p b r)\<lparr>ruleset_generation := g'\<rparr>) else None)"
proof -
  from scalar_policy_applied [OF assms(1,3-14), of "pe_os env" "pl_idna (pe_lib env)" "pe_monotonic_ns env"] obtain m' g' where
    run: "apply_fault_profiles (pe_os env) (pl_idna (pe_lib env)) tid (scalar_policy s l j p b r) (pe_monotonic_ns env) (pw_shm q) =
      (Inr (), (pw_shm q)\<lparr>sw_mmap := Some m'\<rparr>)"
    and r: "row_of tid m' = (scalar_row s l j p b r)\<lparr>ruleset_generation := g'\<rparr>" "even g'" by blast
  have "apply_then_call env (scalar_policy s l j p b r) func q = func (q\<lparr>pw_shm := (pw_shm q)\<lparr>sw_mmap := Some m'\<rparr>\<rparr>)"
    using run by (simp add: apply_then_call_def on_shm_writer_def flip: assms(2))
  then show ?thesis using scalar_row_read [OF r assms(9-13)]
    by (intro exI [of _ "q\<lparr>pw_shm := (pw_shm q)\<lparr>sw_mmap := Some m'\<rparr>\<rparr>"]) auto
qed

definition plain_env :: PyEnv where
  "plain_env = \<lparr>pe_os = plain_py_os, pe_lib = plain_lib, pe_native_id = 42, pe_monotonic_ns = 1000\<rparr>"

definition zero_world :: PyWorld where
  "zero_world = \<lparr>pw_shm = zero_writer, pw_registry = empty_registry\<rparr>"

lemma zero_row: "row_of tid (\<lambda>_. 0) = FaultcoreConfig_default\<lparr>ruleset_generation := 0\<rparr>"
  by (simp add: row_of_def config_at_zeros peek_def map_replicate_const FaultcoreConfig_default_def)

theorem scalar_policy_reaches_interceptor_witness:
  "\<exists>q' m' g'. apply_then_call plain_env (scalar_policy None (Some 50) None (Some 1000) None None) (\<lambda>q. (Inr (Value ()), q)) zero_world =
       (Inr (Value ()), q') \<and> sw_mmap (pw_shm q') = Some m'
     \<and> fst (get_config_for_tid plain_os 42 (table m')) =
         Some (FaultcoreConfig_default\<lparr>magic := FAULTCORE_MAGIC, latency_ns := 50000000, packet_loss_ppm := 1000, ruleset_generation := g'\<rparr>)"
proof -
  have "within_limits (Some 50) None (Some 1000) None None" by (simp add: within_limits_def opt_within_def)
  moreover have "(scalar_row None (Some 50) None (Some 1000) None None)\<lparr>ruleset_generation := g'\<rparr> =
      FaultcoreConfig_default\<lparr>magic := FAULTCORE_MAGIC, latency_ns := 50000000, packet_loss_ppm := 1000, ruleset_generation := g'\<rparr>" for g'
    by (simp add: scalar_row_def word_or_zero_def FaultcoreConfig_default_def)
  ultimately show ?thesis
    using scalar_policy_reaches_interceptor [OF _ _ _ _ zero_row, of zero_world 42 plain_env None "Some 50" None "Some 1000" None None
        "\<lambda>q. (Inr (Value ()), q)" plain_os]
    by (simp add: zero_world_def zero_writer_def plain_env_def opt_within_def scalar_policy_def opt_int_def)
qed

section \<open>After the call\<close>

lemma default_row_unreadable: "read_stable_config (settled (write_config_with_generation_publish (\<lambda>_. FaultcoreConfig_default) row)) = None"
proof -
  have "\<not> is_valid (write_config_with_generation_publish (\<lambda>_. FaultcoreConfig_default) row)"
    by (simp add: is_valid_def write_config_with_generation_publish_def Let_def FaultcoreConfig_default_def FAULTCORE_MAGIC_def)
  then show ?thesis by (simp add: read_stable_settled write_publish_sel)
qed

definition settled_world :: "int \<Rightarrow> PyWorld \<Rightarrow> memory \<Rightarrow> bool" where
  "settled_world tid q m \<longleftrightarrow> sw_mmap (pw_shm q) = Some m \<and> generation_room tid m"

text \<open>What the table says of a thread without a policy, everything else as in \<open>t\<close>.\<close>

definition thread_cleared :: "int \<Rightarrow> Shm \<Rightarrow> Shm" where
  "thread_cleared tid t =
     write_row (row_index tid) (\<lambda>_. FaultcoreConfig_default) (rules_cleared (tid_slot (word_of_int tid)) t)"

lemma finally_clear_table:
  assumes "settled_world tid q m" "0 \<le> tid" "tid < 2 ^ 64"
  shows "\<exists>m'. finally_clear env tid (r, q) = (r, q\<lparr>pw_shm := (pw_shm q)\<lparr>sw_mmap := Some m'\<rparr>\<rparr>)
    \<and> shm_of m' = thread_cleared tid (shm_of m)
    \<and> fst (get_config_for_tid ros (word_of_int tid) (table m')) = None
    \<and> fst (get_target_rules_for_tid_slot ros (tid_slot (word_of_int tid)) (table m')) = Some (replicate 8 TargetRule_default)"
proof -
  from clear_table [OF _ assms(2,3), of "pw_shm q" m "pe_os env"] assms(1) obtain m' where
    c: "clear (pe_os env) tid (pw_shm q) = (Inr (), (pw_shm q)\<lparr>sw_mmap := Some m'\<rparr>)" and t: "shm_of m' = thread_cleared tid (shm_of m)"
    by (auto simp: settled_world_def thread_cleared_def)
  have "row_of tid m' = write_config_with_generation_publish (\<lambda>_. FaultcoreConfig_default) (row_of tid m)"
    unfolding row_in_table [symmetric] t by (simp add: thread_cleared_def write_row_def rules_cleared_def)
  then have "fst (get_config_for_tid ros (word_of_int tid) (table m')) = None"
    by (simp add: config_read default_row_unreadable)
  moreover have "fst (get_target_rules_for_tid_slot ros (tid_slot (word_of_int tid)) (table m')) = Some (replicate 8 TargetRule_default)"
    using tid_slot_less [of "word_of_int tid"]
    by (simp add: get_target_rules_for_tid_slot_def table_def t thread_cleared_def write_row_def rules_cleared_def
        MAX_TARGET_RULES_PER_TID_def upt_rec [of 0 8] upt_rec numeral_eq_Suc)
  ultimately show ?thesis using c t by (auto simp: finally_clear_def on_shm_writer_def)
qed

text \<open>A function that returns an awaitable keeps the policy until the awaitable has run.\<close>

lemma awaited_call_cleans_up:
  assumes "policy_name_step env name q = (Inr (), q0)" "apply_then_call env profiles func q0 = (Inr (Awaitable k), q1)"
    and "tid = pe_native_id env" "0 \<le> tid" "tid < 2 ^ 64" "settled_world tid (snd (k q2)) m"
  shows "\<exists>k' m'. FaultWrapper_call env name profiles func q = (Inr (Awaitable k'), q1)
    \<and> k' q2 = (fst (k q2), (snd (k q2))\<lparr>pw_shm := (pw_shm (snd (k q2)))\<lparr>sw_mmap := Some m'\<rparr>\<rparr>)
    \<and> shm_of m' = thread_cleared tid (shm_of m)
    \<and> fst (get_config_for_tid ros (word_of_int tid) (table m')) = None"
  using finally_clear_table [OF assms(6,4,5), of env "fst (k q2)" ros] assms(1-3)
  by (auto simp: FaultWrapper_call_def run_async_def)


section \<open>Profiles that cannot be applied\<close>

lemma absent_steps:
  "py_get profiles k VNone = VNone \<Longrightarrow> on_given profiles k f w = (Inr (), w)"
  by (simp add: on_given_def)

lemma timeouts_tuple_raises:
  "apply_fault_profiles os ext tid [(''timeouts'', VTuple [VInt c, VInt r])] now w = (Inl AttributeError, w)"
  by (simp add: apply_fault_profiles_def scalar_steps_def on_given_def py_get_def timeouts_step_def on_mapping_def)


lemma policy_profiles_lookup: "k \<in> set POLICY_FIELDS \<Longrightarrow> map_of (policy_profiles policy) k = map_of policy k"
proof -
  have "map_of (concat (map (\<lambda>field. case map_of policy field of Some v \<Rightarrow> [(field, v)] | None \<Rightarrow> []) fs)) k =
      (if k \<in> set fs then map_of policy k else None)" for fs
    by (induction fs) (auto simp: map_add_def split: option.split)
  then show "k \<in> set POLICY_FIELDS \<Longrightarrow> map_of (policy_profiles policy) k = map_of policy k" by (simp add: policy_profiles_def)
qed

lemma run_writer_steps_raises:
  assumes "s \<in> set ss" "\<And>w. \<exists>e. fst (s w) = Inl e"
  shows "\<exists>e. fst (run_writer_steps ss w) = Inl e"
  using assms(1)
proof (induction ss arbitrary: w)
  case (Cons t ss)
  then show ?case using assms(2) [of w] by (cases "t w"; cases "fst (t w)") auto
qed simp

lemma directional_rejected: "write_directional_profile os tid wr d w = (Inl TypeError, w)" if "wr \<in> {WriteUplink, WriteDownlink}"
  using that by (auto simp: write_directional_profile_def call_writer_def accepts_keywords_def DIRECTIONAL_FIELDS_def)

lemma half_open_rejected:
  "write_profile_with_defaults os tid WriteHalfOpen [(''after'', VInt 0), (''err_kind'', VInt 0)] d w = (Inl TypeError, w)"
  by (simp add: write_profile_with_defaults_def call_writer_def accepts_keywords_def)

definition unappliable :: "pydict \<Rightarrow> bool" where
  "unappliable profiles \<longleftrightarrow>
     (\<exists>c r. map_of profiles ''timeouts'' = Some (VTuple [VInt c, VInt r]))
     \<or> (\<exists>k d. k \<in> {''uplink_profile'', ''downlink_profile'', ''half_open_profile''} \<and> map_of profiles k = Some (VDict d) \<and> d \<noteq> [])"

lemma unappliable_raises:
  assumes "unappliable profiles"
  shows "\<exists>e. fst (apply_fault_profiles os ext tid profiles now w) = Inl e"
proof -
  have step: "\<exists>e. fst (apply_fault_profiles os ext tid profiles now w) = Inl e"
    if "s \<in> set (scalar_steps os tid profiles
        @ [timeouts_step os tid profiles]
        @ map (\<lambda>(field, wr). on_mapping profiles field (write_directional_profile os tid wr)) DIRECTIONAL_WRITERS
        @ map (\<lambda>(field, wr, defaults). on_mapping profiles field (write_profile_with_defaults os tid wr defaults)) PROFILE_WRITERS
        @ [targets_step os ext tid profiles, schedule_step os tid profiles now, budget_step os tid profiles])"
      "\<And>w. \<exists>e. fst (s w) = Inl e" for s
    unfolding apply_fault_profiles_def by (rule run_writer_steps_raises [OF that])
  consider c r where "map_of profiles ''timeouts'' = Some (VTuple [VInt c, VInt r])"
    | k wr d where "(k, wr) \<in> set DIRECTIONAL_WRITERS" "wr \<in> {WriteUplink, WriteDownlink}" "map_of profiles k = Some (VDict d)" "d \<noteq> []"
    | d where "map_of profiles ''half_open_profile'' = Some (VDict d)" "d \<noteq> []"
    using assms unfolding unappliable_def DIRECTIONAL_WRITERS_def by simp blast
  then show ?thesis
  proof cases
    case 1
    then have "\<exists>e. fst (timeouts_step os tid profiles w') = Inl e" for w'
      by (simp add: timeouts_step_def on_mapping_def py_get_def)
    then show ?thesis by (intro step [of "timeouts_step os tid profiles"]) simp_all
  next
    case 2
    then have "\<exists>e. fst (on_mapping profiles k (write_directional_profile os tid wr) w') = Inl e" for w'
      by (simp add: on_mapping_def py_get_def directional_rejected)
    with 2(1) show ?thesis by (intro step [of "on_mapping profiles k (write_directional_profile os tid wr)"]) force+
  next
    case 3
    let ?s = "on_mapping profiles ''half_open_profile''
      (write_profile_with_defaults os tid WriteHalfOpen [(''after'', VInt 0), (''err_kind'', VInt 0)])"
    from 3 have "\<exists>e. fst (?s w') = Inl e" for w'
      by (simp add: on_mapping_def py_get_def half_open_rejected)
    then show ?thesis by (intro step [of ?s]) (simp_all add: PROFILE_WRITERS_def)
  qed
qed

text \<open>C37. Some accepted policies can never be applied: a policy registered with a timeout, with a
  half-open fault, or with an uplink or downlink profile that sets anything is accepted by \<open>register_policy\<close>, but every call
  of a function decorated with it raises while the policy is being applied, and the function is
  never called.\<close>

theorem accepted_policy_never_runs:
  assumes "build_policy lib args = Inr policy"
    and "py_get args ''timeout'' VNone \<noteq> VNone \<or> py_get args ''half_open'' VNone \<noteq> VNone
       \<or> has_direction (py_get args ''uplink'' VNone) \<or> has_direction (py_get args ''downlink'' VNone)"
  shows "\<exists>e q'. \<forall>func. apply_then_call env (policy_profiles policy) func q = (Inl e, q')"
proof -
  have "unappliable (policy_profiles policy)"
    using policy_timeouts [OF assms(1)] policy_half_open [OF assms(1)] policy_direction [OF assms(1)] assms(2)
    by (auto simp: unappliable_def policy_profiles_lookup POLICY_FIELDS_def)
  then obtain e where "fst (apply_fault_profiles (pe_os env) (pl_idna (pe_lib env)) (pe_native_id env) (policy_profiles policy)
      (pe_monotonic_ns env) (pw_shm q)) = Inl e" using unappliable_raises by blast
  then show ?thesis by (auto simp: apply_then_call_def on_shm_writer_def split: prod.split)
qed

theorem accepted_policy_never_runs_witness:
  "\<exists>policy e q'. build_policy plain_lib [(''uplink'', VDict [(''latency'', VStr ''50ms'')])] = Inr policy
     \<and> apply_then_call plain_env (policy_profiles policy) (\<lambda>q. (Inr (Value ()), q)) zero_world = (Inl e, q')"
proof -
  let ?args = "[(''uplink'', VDict [(''latency'', VStr ''50ms'')])]"
  have "parse_duration (VStr ''50ms'') = Inr 50" by (simp add: parse_eval)
  then have b: "build_policy plain_lib ?args = Inr [(''uplink_profile'', VDict [(''latency'', VInt 50)])]"
    by (simp add: build_policy_eval build_direction_policy_def build_direction_profile_def)
  have "has_direction (py_get ?args ''uplink'' VNone)" by (simp add: py_get_def has_direction_def py_has_def)
  then show ?thesis using accepted_policy_never_runs [OF b, of plain_env zero_world] b by blast
qed

section \<open>Policy contexts\<close>

lemma get_thread_policy_sel [simp]: "get_thread_policy (set_thread_policy t r) = t"
  by (simp add: get_thread_policy_def set_thread_policy_def)

lemma get_policy_set_thread [simp]: "get_policy n (set_thread_policy t r) = get_policy n r"
  by (simp add: get_policy_def set_thread_policy_def)

lemma unregister_absent: "get_policy n r = None \<Longrightarrow> snd (unregister_policy n r) = r"
  by (cases r) (simp add: unregister_policy_def get_policy_def map_of_eq_None_iff delete_notin_dom)

lemma register_policy_cases:
  assumes "register_policy lib n args r = (res, r')"
  shows "(\<exists>e. res = Inl e \<and> r' = r)
    \<or> (\<exists>policy. res = Inr () \<and> build_policy lib args = Inr policy \<and> r' = r\<lparr>pr_policies := AList.update n policy (pr_policies r)\<rparr>)"
  using assms by (auto simp: register_policy_def split: if_splits sum.splits)

text \<open>C20. A policy context with keyword arguments is scoped: either the arguments are refused, then entering raises
  and the registry is exactly as before; or the body runs with the built policy registered under the
  temporary name and selected, so that functions decorated with \<open>fault()\<close> run under it, and afterwards,
  whatever the body did and however it ended, the previously selected policy is selected again, the temporary
  policy is gone, and every other policy is as the body left it.\<close>

theorem policy_context_scoped:
  assumes "pc_policy_name c = None" "pc_policy_kwargs c \<noteq> []" "get_policy (temporary_name uuid) r = None"
  shows "(\<exists>e. with_policy_context lib uuid c body r = (Inl e, r))
    \<or> (\<exists>policy r1 r2.
         build_policy lib (pc_policy_kwargs c) = Inr policy
       \<and> get_thread_policy r1 = Some (temporary_name uuid) \<and> get_policy (temporary_name uuid) r1 = Some policy
       \<and> (\<forall>env func p. pw_registry p = r1 \<and> policy \<noteq> [] \<longrightarrow>
            fault env ''auto'' func p = FaultWrapper_call env (Some (temporary_name uuid)) (policy_profiles policy) func p)
       \<and> with_policy_context lib uuid c body r = (fst (body r1), r2)
       \<and> get_thread_policy r2 = get_thread_policy r \<and> get_policy (temporary_name uuid) r2 = None
       \<and> (\<forall>n. n \<noteq> temporary_name uuid \<longrightarrow> get_policy n r2 = get_policy n (snd (body r1))))"
proof -
  obtain res r' where reg: "register_policy lib (temporary_name uuid) (pc_policy_kwargs c) r = (res, r')" by fastforce
  from register_policy_cases [OF reg] show ?thesis
  proof (elim disjE exE conjE)
    fix e assume e: "res = Inl e" "r' = r"
    have "set_thread_policy (get_thread_policy r) r = r" by (simp add: set_thread_policy_def get_thread_policy_def)
    then have "with_policy_context lib uuid c body r = (Inl e, r)"
      using reg e assms(1,2) unregister_absent [OF assms(3)]
      by (simp add: with_policy_context_def context_enter_def resolve_policy_name_def Let_def context_exit_def)
    then show ?thesis by blast
  next
    fix policy assume b: "res = Inr ()" "build_policy lib (pc_policy_kwargs c) = Inr policy"
      and r': "r' = r\<lparr>pr_policies := AList.update (temporary_name uuid) policy (pr_policies r)\<rparr>"
    define r1 where "r1 = set_thread_policy (Some (temporary_name uuid)) r'"
    have g: "get_policy (temporary_name uuid) r1 = Some policy" "get_thread_policy r1 = Some (temporary_name uuid)"
      by (simp_all add: r1_def r')
    define r2 where "r2 = snd (unregister_policy (temporary_name uuid) (set_thread_policy (get_thread_policy r) (snd (body r1))))"
    have w: "with_policy_context lib uuid c body r = (fst (body r1), r2)"
      using reg b(1) assms(1,2)
      by (simp add: with_policy_context_def context_enter_def resolve_policy_name_def Let_def context_exit_def r1_def r2_def case_prod_beta)
    have "fault env ''auto'' func p = FaultWrapper_call env (Some (temporary_name uuid)) (policy_profiles policy) func p"
      if "pw_registry p = r1" "policy \<noteq> []" for env and func :: "'b callee" and p
      using g that by (simp add: fault_def Let_def get_policy_for_apply_def flip: get_policy_def) (simp add: temporary_name_def)
    moreover have "get_thread_policy r2 = get_thread_policy r" "get_policy (temporary_name uuid) r2 = None"
      "\<forall>n. n \<noteq> temporary_name uuid \<longrightarrow> get_policy n r2 = get_policy n (snd (body r1))"
      by (simp_all add: r2_def unregister_policy_def get_thread_policy_def set_thread_policy_def get_policy_def delete_conv)
    ultimately show ?thesis using g w b(2) by blast
  qed
qed

theorem policy_context_scoped_witness:
  "\<exists>c policy r1 r2. policy_context_init None [(''latency'', VStr ''50ms'')] = Inr c
     \<and> get_policy (temporary_name ''0a'') r1 = Some policy \<and> map_of policy ''latency'' = Some (VInt 50)
     \<and> with_policy_context plain_lib ''0a'' c (\<lambda>r. (Inr (get_thread_policy r), clear_policies r)) empty_registry =
         (Inr (Some (temporary_name ''0a'')), r2)
     \<and> get_thread_policy r2 = None \<and> get_policy (temporary_name ''0a'') r2 = None"
proof -
  define c where "c = \<lparr>pc_policy_name = None, pc_policy_kwargs = [(''latency'', VStr ''50ms'')], pc_previous = None, pc_temporary_policy = None\<rparr>"
  have i: "policy_context_init None [(''latency'', VStr ''50ms'')] = Inr c" by (simp add: policy_context_init_def c_def)
  have "parse_duration (VStr ''50ms'') = Inr 50" by (simp add: parse_eval)
  then have b: "build_policy plain_lib (pc_policy_kwargs c) = Inr [(''latency'', VInt 50)]" by (simp add: c_def build_policy_eval)
  have "pc_policy_name c = None" "pc_policy_kwargs c \<noteq> []" "get_policy (temporary_name ''0a'') empty_registry = None"
    by (simp_all add: c_def empty_registry_def get_policy_def)
  note scoped = policy_context_scoped [OF this, of plain_lib "\<lambda>r. (Inr (get_thread_policy r), clear_policies r)"]
  have "\<not> (\<exists>e. with_policy_context plain_lib ''0a'' c (\<lambda>r. (Inr (get_thread_policy r), clear_policies r)) empty_registry = (Inl e, empty_registry))"
    using b by (simp add: with_policy_context_def context_enter_def resolve_policy_name_def register_policy_def REGISTERABLE_FIELDS_def
        temporary_name_def c_def Let_def)
  with scoped have "\<exists>policy r1 r2. build_policy plain_lib (pc_policy_kwargs c) = Inr policy
       \<and> get_thread_policy r1 = Some (temporary_name ''0a'') \<and> get_policy (temporary_name ''0a'') r1 = Some policy
       \<and> with_policy_context plain_lib ''0a'' c (\<lambda>r. (Inr (get_thread_policy r), clear_policies r)) empty_registry = (Inr (get_thread_policy r1), r2)
       \<and> get_thread_policy r2 = get_thread_policy empty_registry \<and> get_policy (temporary_name ''0a'') r2 = None" by auto
  with b i show ?thesis by (auto simp: empty_registry_def get_thread_policy_def)
qed

end
