(* ===== verification/Unit_Parsing.thy ===== *)
theory Unit_Parsing
  imports Profile_Parsers
begin

text \<open>
  Reading numbers with units: decimal numerals of natural numbers are read back exactly, by every parser of
  a scalar and up to the integers that a float holds.
\<close>

section \<open>Decimal numerals\<close>

definition digit_char :: "nat \<Rightarrow> char" where
  "digit_char d = char_of (48 + d)"

fun decimal :: "nat \<Rightarrow> string" where
  "decimal n = (if n < 10 then [digit_char n] else decimal (n div 10) @ [digit_char (n mod 10)])"

declare decimal.simps [simp del]

lemma code_point_digit: "d < 10 \<Longrightarrow> code_point (digit_char d) = 48 + d"
  by (simp add: code_point_def digit_char_def)

lemma is_digit_char: "d < 10 \<Longrightarrow> is_digit (digit_char d)"
  by (simp add: is_digit_def code_point_digit)

lemma decimal_digits: "list_all is_digit (decimal n) \<and> decimal n \<noteq> []"
proof (induction n rule: decimal.induct)
  case (1 n)
  then show ?case by (subst (1 2) decimal.simps) (auto simp: is_digit_char)
qed

lemma decimal_value_snoc: "decimal_value (s @ [c]) = 10 * decimal_value s + (code_point c - 48)"
  by (simp add: decimal_value_def)

lemma decimal_value_decimal [simp]: "decimal_value (decimal n) = n"
proof (induction n rule: decimal.induct)
  case (1 n)
  show ?case
  proof (cases "n < 10")
    case True
    then show ?thesis by (subst decimal.simps) (simp add: decimal_value_def code_point_digit)
  next
    case False
    with 1 have "decimal_value (decimal (n div 10)) = n div 10" by simp
    with False show ?thesis by (subst decimal.simps) (simp add: decimal_value_snoc code_point_digit)
  qed
qed

text \<open>A digit is no space, no sign, no underscore, no point, no letter, and is its own lower case.\<close>

lemma digit_facts:
  assumes "is_digit c"
  shows "\<not> py_space c" "py_lower_char c = c" "c \<noteq> CHR ''_''" "c \<noteq> CHR ''-''" "c \<noteq> CHR ''+''" "c \<noteq> CHR ''i''" "c \<noteq> CHR ''n''" "c \<noteq> CHR ''m''"
    "c \<noteq> CHR ''.''" "c \<noteq> CHR ''e''" "c \<noteq> CHR ''E''"
  using assms by (auto simp: is_digit_def py_space_def py_lower_char_def code_point_def Let_def)

lemma digits_filter: "list_all is_digit s \<Longrightarrow> filter (\<lambda>c. c \<noteq> CHR ''_'') s = s"
  by (induction s) (auto simp: digit_facts)

lemma digits_underscores: "list_all is_digit s \<Longrightarrow> underscores_ok b s"
  by (induction s arbitrary: b) (auto simp: digit_facts)

lemma digits_lower: "list_all is_digit s \<Longrightarrow> py_lower s = s"
  by (induction s) (auto simp: py_lower_def digit_facts)

lemma strip_fixed: "s \<noteq> [] \<Longrightarrow> \<not> py_space (hd s) \<Longrightarrow> \<not> py_space (last s) \<Longrightarrow> py_strip s = s"
proof -
  assume "s \<noteq> []" "\<not> py_space (hd s)" "\<not> py_space (last s)"
  then have "dropWhile py_space s = s" "dropWhile py_space (rev s) = rev s" by (simp_all add: dropWhile_eq_self_iff hd_rev)
  then show "py_strip s = s" by (simp only: py_strip_def rev_rev_ident)
qed

lemma digits_strip: "list_all is_digit s \<Longrightarrow> s \<noteq> [] \<Longrightarrow> py_strip s = s"
  by (intro strip_fixed) (auto simp: list_all_iff digit_facts)

lemma float_decimal: "n \<le> 2 ^ 53 \<Longrightarrow> py_float (decimal n) = Inr (Fin (of_nat n))"
proof -
  assume n: "n \<le> 2 ^ 53"
  have d: "list_all is_digit (decimal n)" "decimal n \<noteq> []" using decimal_digits by simp_all
  then obtain c s where cs: "decimal n = c # s" "is_digit c" by (cases "decimal n") simp_all
  have sign: "split_sign (decimal n) = (False, decimal n)" using cs digit_facts [OF cs(2)] by (simp add: split_sign_def)
  have word: "decimal n \<noteq> ''inf''" "decimal n \<noteq> ''infinity''" "decimal n \<noteq> ''nan''"
    using cs digit_facts [OF cs(2)] by simp_all
  have t: "takeWhile is_digit (decimal n) = decimal n" "dropWhile is_digit (decimal n) = []"
    using d(1) by (simp_all add: list_all_iff)
  have "float_literal (decimal n) = Some (to_f64 (of_nat n))"
    using d word
    by (simp add: float_literal_def digits_strip digits_filter digits_underscores digits_lower sign t Let_def exponent_value_def)
  then show ?thesis using to_f64_of_nat [OF n] by (simp add: py_float_def)
qed

lemma decimal_length: "n < 10 ^ Suc k \<Longrightarrow> length (decimal n) \<le> Suc k"
proof (induction k arbitrary: n)
  case 0
  then show ?case by (subst decimal.simps) simp
next
  case (Suc k)
  then have "n div 10 < 10 ^ Suc k" by simp
  with Suc.IH show ?case by (subst decimal.simps) simp
qed

lemma digits_value_digits:
  "list_all is_digit s \<Longrightarrow> s \<noteq> [] \<or> seen \<Longrightarrow> digits_value 10 acc seen s = Some (fold (\<lambda>c n. 10 * n + (code_point c - 48)) s acc)"
proof (induction s arbitrary: acc seen)
  case (Cons c s)
  then have "digit_value 10 c = Some (code_point c - 48)" "c \<noteq> CHR ''_''"
    by (auto simp: digit_value_def is_digit_def Let_def digit_facts)
  with Cons show ?case by (simp add: mult.commute)
qed simp

lemma int_decimal: "n \<le> 2 ^ 53 \<Longrightarrow> int_literal 10 (decimal n) = Some (int n)"
proof -
  assume "n \<le> 2 ^ 53"
  then have len: "length (decimal n) \<le> 4300" using decimal_length [of n 15] by simp
  have d: "list_all is_digit (decimal n)" "decimal n \<noteq> []" using decimal_digits by simp_all
  then obtain c s where cs: "decimal n = c # s" "is_digit c" by (cases "decimal n") simp_all
  have sign: "split_sign (decimal n) = (False, decimal n)" using cs digit_facts [OF cs(2)] by (simp add: split_sign_def)
  have "digits_value 10 0 False (decimal n) = Some n"
    using d digits_value_digits [of "decimal n" False 0] decimal_value_decimal [of n] by (simp add: decimal_value_def)
  then show ?thesis using d len by (simp add: int_literal_def digits_strip digits_filter sign)
qed

section \<open>Units\<close>

definition with_unit :: "nat \<Rightarrow> string \<Rightarrow> pyval" where
  "with_unit n u = VStr (decimal n @ u)"

lemma normalized_with_unit:
  assumes "py_lower u = u" "u \<noteq> [] \<longrightarrow> \<not> py_space (last u)"
  shows "non_empty_normalized (with_unit n u) = Inr (decimal n @ u)"
proof -
  have d: "list_all is_digit (decimal n)" "decimal n \<noteq> []" using decimal_digits by simp_all
  then have "py_strip (decimal n @ u) = decimal n @ u"
    using assms by (intro strip_fixed) (auto simp: list_all_iff digit_facts last_append)
  moreover have "py_lower (decimal n @ u) = decimal n @ u"
    using digits_lower [OF d(1)] assms(1) by (simp add: py_lower_def)
  ultimately show ?thesis using d(2) by (simp add: non_empty_normalized_def stripped_def with_unit_def Let_def)
qed

text \<open>A suffix without digits is a suffix of the unit.\<close>

lemma endswith_unit:
  assumes "list_all (\<lambda>c. \<not> is_digit c) t"
  shows "py_endswith (decimal n @ u) t = py_endswith u t"
proof (cases "length t \<le> length u")
  case True
  then show ?thesis by (simp add: py_endswith_def)
next
  case False
  obtain s c where s: "decimal n = s @ [c]" "is_digit c"
    using decimal_digits [of n] by (metis append_butlast_last_id last_in_set list_all_iff)
  have "drop (length (decimal n @ u) - length t) (decimal n @ u) \<noteq> t"
  proof
    assume t: "drop (length (decimal n @ u) - length t) (decimal n @ u) = t"
    have "c \<in> set (drop (length (decimal n @ u) - length t) (decimal n @ u))"
      using False s(1) by auto
    with assms s(2) t show False by (auto simp: list_all_iff)
  qed
  with False show ?thesis by (auto simp: py_endswith_def)
qed

lemma match_unit:
  assumes "list_all (\<lambda>(t, k). list_all (\<lambda>c. \<not> is_digit c) t) tab"
  shows "match_suffix_multiplier (decimal n @ u) tab =
         map_option (\<lambda>(v, k). (decimal n @ v, k)) (match_suffix_multiplier u tab)"
  using assms
proof (induction tab)
  case (Cons e tab)
  obtain t k where e: "e = (t, k)" by (cases e)
  with Cons.prems have "py_endswith (decimal n @ u) t = py_endswith u t" by (intro endswith_unit) simp
  moreover have "py_drop_last (length t) (decimal n @ u) = decimal n @ py_drop_last (length t) u" if "py_endswith u t"
    using that by (auto simp: py_drop_last_def py_endswith_def)
  ultimately show ?case using Cons e by simp
qed simp

lemma drop_unit: "m = length u \<Longrightarrow> py_drop_last m (decimal n @ u) = decimal n"
  by (simp add: py_drop_last_def)

lemmas letter_eval = is_digit_def code_point_def py_lower_def py_lower_char_def py_space_def Let_def

lemma unit_suffixes:
  "py_endswith (decimal n @ ''ms'') ''ms''" "\<not> py_endswith (decimal n @ ''s'') ''ms''" "py_endswith (decimal n @ ''s'') ''s''"
  "py_endswith (decimal n @ ''%'') ''%''" "\<not> py_endswith (decimal n @ ''ppm'') ''%''" "py_endswith (decimal n @ ''ppm'') ''ppm''"
  by (subst endswith_unit; simp add: letter_eval py_endswith_def)+

lemma unit_normalized:
  "u \<in> {''ms'', ''s'', ''%'', ''ppm''} \<union> fst ` set SIZE_SUFFIX_MULTIPLIERS \<union> fst ` set RATE_SUFFIX_MULTIPLIERS \<Longrightarrow>
     non_empty_normalized (VStr (decimal n @ u)) = Inr (decimal n @ u)"
  by (rule normalized_with_unit [unfolded with_unit_def])
    (auto simp: letter_eval SIZE_SUFFIX_MULTIPLIERS_def RATE_SUFFIX_MULTIPLIERS_def)

lemma factor_le: "n * k \<le> m \<Longrightarrow> 0 < k \<Longrightarrow> n \<le> (m :: nat)"
  by (cases k) simp_all

lemma scaled: "n * k \<le> 2 ^ 53 \<Longrightarrow> py_int (VFloat (pf_mul (Fin (of_nat n)) (int k))) = Inr (int (n * k))"
proof -
  assume "n * k \<le> 2 ^ 53"
  then have "pf_mul (Fin (of_nat n)) (int k) = Fin (of_nat (n * k))" using to_f64_of_nat [of "n * k"] by simp
  then show ?thesis by (simp only: py_int.simps floor_of_nat of_nat_0_le_iff if_True)
qed

lemma match_sizes:
  assumes "(u, k) \<in> set SIZE_SUFFIX_MULTIPLIERS"
  shows "match_suffix_multiplier (decimal n @ u) SIZE_SUFFIX_MULTIPLIERS = Some (decimal n, k)"
proof -
  have "list_all (\<lambda>(u, k). match_suffix_multiplier u SIZE_SUFFIX_MULTIPLIERS = Some ([], k)) SIZE_SUFFIX_MULTIPLIERS"
    by (simp add: SIZE_SUFFIX_MULTIPLIERS_def py_endswith_def py_drop_last_def)
  with assms have "match_suffix_multiplier u SIZE_SUFFIX_MULTIPLIERS = Some ([], k)" by (auto simp: list_all_iff)
  then show ?thesis by (subst match_unit) (simp_all add: SIZE_SUFFIX_MULTIPLIERS_def letter_eval)
qed

lemma match_rates:
  assumes "(u, k) \<in> set RATE_SUFFIX_MULTIPLIERS"
  shows "match_suffix_multiplier (decimal n @ u) RATE_SUFFIX_MULTIPLIERS = Some (decimal n, k)"
proof -
  have "list_all (\<lambda>(u, k). match_suffix_multiplier u RATE_SUFFIX_MULTIPLIERS = Some ([], k)) RATE_SUFFIX_MULTIPLIERS"
    by (simp add: RATE_SUFFIX_MULTIPLIERS_def py_endswith_def py_drop_last_def)
  with assms have "match_suffix_multiplier u RATE_SUFFIX_MULTIPLIERS = Some ([], k)" by (auto simp: list_all_iff)
  then show ?thesis by (subst match_unit) (simp_all add: RATE_SUFFIX_MULTIPLIERS_def letter_eval)
qed

lemma duration_exact:
  assumes "(u, k) \<in> {(''ms'', 1), (''s'', 1000)}" "n * k \<le> 2 ^ 53"
  shows "parse_duration (with_unit n u) = Inr (int (n * k))"
proof -
  have "n \<le> 2 ^ 53" using assms by auto
  then show ?thesis
    using assms scaled [of n k] float_decimal [of n]
    by (auto simp: parse_duration_def with_unit_def unit_normalized unit_suffixes drop_unit ensure_range_def)
qed

lemma size_exact:
  assumes "(u, int k) \<in> set SIZE_SUFFIX_MULTIPLIERS" "n * k \<le> 2 ^ 53"
  shows "parse_size (with_unit n u) = Inr (int (n * k))"
proof -
  have "0 < k" using assms(1) by (auto simp: SIZE_SUFFIX_MULTIPLIERS_def)
  then have float: "py_float (decimal n) = Inr (Fin (of_nat n))" by (rule float_decimal [OF factor_le [OF assms(2)]])
  have "u \<in> fst ` set SIZE_SUFFIX_MULTIPLIERS" using assms(1) by (rule image_eqI [rotated]) simp
  then have norm: "non_empty_normalized (VStr (decimal n @ u)) = Inr (decimal n @ u)" by (intro unit_normalized) simp
  show ?thesis
    using scaled [OF assms(2)] by (simp add: parse_size_def with_unit_def ensure_range_def match_sizes [OF assms(1)] norm float del: py_int.simps)
qed

lemma rate_exact:
  assumes "(u, int k) \<in> set RATE_SUFFIX_MULTIPLIERS" "n * k \<le> 2 ^ 53"
  shows "parse_rate (with_unit n u) = Inr (int (n * k))"
proof -
  have "0 < k" using assms(1) by (auto simp: RATE_SUFFIX_MULTIPLIERS_def)
  then have float: "py_float (decimal n) = Inr (Fin (of_nat n))" by (rule float_decimal [OF factor_le [OF assms(2)]])
  have "u \<in> fst ` set RATE_SUFFIX_MULTIPLIERS" using assms(1) by (rule image_eqI [rotated]) simp
  then have norm: "non_empty_normalized (VStr (decimal n @ u)) = Inr (decimal n @ u)" by (intro unit_normalized) simp
  show ?thesis
    using scaled [OF assms(2)] by (simp add: parse_rate_def rate_to_bps_def with_unit_def match_rates [OF assms(1)] norm float del: py_int.simps)
qed

lemma loss_exact:
  assumes "(u, k) \<in> {(''%'', 10000), (''ppm'', 1)}" "n * k \<le> 2 ^ 53"
  shows "parse_packet_loss (with_unit n u) = (if n * k \<le> 1000000 then Inr (int (n * k)) else Inl ValueError)"
proof -
  have "n \<le> 2 ^ 53" using assms by auto
  then show ?thesis
    using assms scaled [of n k] float_decimal [of n]
    by (auto simp: parse_packet_loss_def with_unit_def unit_normalized unit_suffixes drop_unit ensure_range_def)
qed

lemma burst_exact: "n \<le> 2 ^ 53 \<Longrightarrow> parse_burst_loss (with_unit n []) = Inr (int n)"
  by (simp add: parse_burst_loss_def parse_int_value_def normalized_with_unit py_lower_def int_decimal)

text \<open>C27. Numbers with units are read exactly: for every natural number written in decimal with a unit of the tables, the
  parsers of durations, sizes, rates and bursts return the number times the multiplier of the unit, as long as
  the product fits the 53 bits of a float; a loss is returned in parts per million and refused above one
  million.\<close>

theorem units_read_exactly:
  assumes "n * k \<le> 2 ^ 53" "0 < k"
  shows "((u, k) \<in> {(''ms'', 1), (''s'', 1000)} \<longrightarrow> parse_duration (with_unit n u) = Inr (int (n * k)))
    \<and> ((u, int k) \<in> set SIZE_SUFFIX_MULTIPLIERS \<longrightarrow> parse_size (with_unit n u) = Inr (int (n * k)))
    \<and> ((u, int k) \<in> set RATE_SUFFIX_MULTIPLIERS \<longrightarrow> parse_rate (with_unit n u) = Inr (int (n * k)))
    \<and> ((u, k) \<in> {(''%'', 10000), (''ppm'', 1)} \<longrightarrow>
         parse_packet_loss (with_unit n u) = (if n * k \<le> 1000000 then Inr (int (n * k)) else Inl ValueError))
    \<and> parse_burst_loss (with_unit n []) = Inr (int n)"
proof (intro conjI impI)
  show "parse_burst_loss (with_unit n []) = Inr (int n)" using factor_le [OF assms] by (rule burst_exact)
qed (erule duration_exact size_exact rate_exact loss_exact; rule assms(1))+

theorem units_read_exactly_witness:
  "parse_duration (with_unit 5 ''s'') = Inr 5000 \<and> parse_size (with_unit 5 ''kb'') = Inr 5000
   \<and> parse_rate (with_unit 5 ''kbps'') = Inr 5000 \<and> parse_packet_loss (with_unit 101 ''%'') = Inl ValueError"
proof -
  have "(5 :: nat) * 1000 \<le> 2 ^ 53" "(101 :: nat) * 10000 \<le> 2 ^ 53" by simp_all
  then show ?thesis
    using units_read_exactly [of 5 1000 "''s''"] units_read_exactly [of 5 1000 "''kb''"]
      units_read_exactly [of 5 1000 "''kbps''"] units_read_exactly [of 101 10000 "''%''"]
    by (simp add: SIZE_SUFFIX_MULTIPLIERS_def RATE_SUFFIX_MULTIPLIERS_def)
qed

end
