(* ===== verification/Policy_Journey.thy ===== *)
theory Policy_Journey
  imports Decorator_Properties Unit_Parsing
begin

text \<open>
  The way of a policy through the Python package: the arguments of \<open>register_policy\<close>, written as text with
  units, become the policy of the registry; \<open>fault\<close> finds it, writes its name and its values, and runs the
  function with the row of its thread published.
\<close>

section \<open>Arguments\<close>

definition opt_arg :: "string \<Rightarrow> (nat \<Rightarrow> pyval) \<Rightarrow> nat option \<Rightarrow> pydict" where
  "opt_arg key text x = (case x of Some n \<Rightarrow> [(key, text n)] | None \<Rightarrow> [])"

definition scalar_arguments ::
  "nat option \<Rightarrow> nat option \<Rightarrow> nat option \<Rightarrow> nat option \<Rightarrow> nat option \<Rightarrow> nat option \<Rightarrow> pydict" where
  "scalar_arguments s l j p b r =
     opt_arg ''seed'' (\<lambda>n. VInt (int n)) s @ opt_arg ''latency'' (\<lambda>n. with_unit n ''ms'') l
     @ opt_arg ''jitter'' (\<lambda>n. with_unit n ''ms'') j @ opt_arg ''packet_loss'' (\<lambda>n. with_unit n ''ppm'') p
     @ opt_arg ''burst_loss'' (\<lambda>n. with_unit n []) b @ opt_arg ''rate'' (\<lambda>n. with_unit n ''bps'') r"

abbreviation int_option :: "nat option \<Rightarrow> int option" where
  "int_option \<equiv> map_option int"

lemma arguments_get:
  "py_get (scalar_arguments s l j p b r) ''seed'' VNone = (case s of Some n \<Rightarrow> VInt (int n) | None \<Rightarrow> VNone)"
  "py_get (scalar_arguments s l j p b r) ''latency'' VNone = (case l of Some n \<Rightarrow> with_unit n ''ms'' | None \<Rightarrow> VNone)"
  "py_get (scalar_arguments s l j p b r) ''jitter'' VNone = (case j of Some n \<Rightarrow> with_unit n ''ms'' | None \<Rightarrow> VNone)"
  "py_get (scalar_arguments s l j p b r) ''packet_loss'' VNone = (case p of Some n \<Rightarrow> with_unit n ''ppm'' | None \<Rightarrow> VNone)"
  "py_get (scalar_arguments s l j p b r) ''burst_loss'' VNone = (case b of Some n \<Rightarrow> with_unit n [] | None \<Rightarrow> VNone)"
  "py_get (scalar_arguments s l j p b r) ''rate'' VNone = (case r of Some n \<Rightarrow> with_unit n ''bps'' | None \<Rightarrow> VNone)"
  by (simp_all add: py_get_def scalar_arguments_def opt_arg_def split: option.split)

lemma arguments_rest:
  assumes "k \<notin> {''seed'', ''latency'', ''jitter'', ''packet_loss'', ''burst_loss'', ''rate''}"
  shows "py_get (scalar_arguments s l j p b r) k VNone = VNone"
  using assms by (auto simp: py_get_def scalar_arguments_def opt_arg_def split: option.split)

lemma opt_entry_parsed:
  assumes "\<And>n. x = Some n \<Longrightarrow> parse (text n) = Inr (int n) \<and> text n \<noteq> VNone"
  shows "opt_entry key parse (case x of Some n \<Rightarrow> text n | None \<Rightarrow> VNone) = Inr (opt_int key (int_option x))"
  using assms by (cases x) (simp_all add: opt_entry_def opt_int_def)

lemma scalar_values:
  assumes "within_limits (int_option l) (int_option j) (int_option p) (int_option b) (int_option r)"
  shows "set_scalar_policy_values (scalar_arguments s l j p b r) =
    Inr (scalar_policy (int_option s) (int_option l) (int_option j) (int_option p) (int_option b) (int_option r))"
proof -
  have lim: "\<forall>n. l = Some n \<longrightarrow> n \<le> 60000" "\<forall>n. j = Some n \<longrightarrow> n \<le> 60000" "\<forall>n. p = Some n \<longrightarrow> n \<le> 1000000"
    "\<forall>n. b = Some n \<longrightarrow> n \<le> 1000000" "\<forall>n. r = Some n \<longrightarrow> n \<le> 100000000000"
    using assms by (auto simp: within_limits_def opt_within_def)
  have "opt_entry ''seed'' parse_seed (case s of Some n \<Rightarrow> VInt (int n) | None \<Rightarrow> VNone) = Inr (opt_int ''seed'' (int_option s))"
    by (rule opt_entry_parsed) (simp add: parse_seed_def as_non_negative_int_def)
  moreover have "opt_entry key parse_duration (case x of Some n \<Rightarrow> with_unit n ''ms'' | None \<Rightarrow> VNone) = Inr (opt_int key (int_option x))"
    if "x = l \<or> x = j" for key x
    by (rule opt_entry_parsed) (use that lim(1,2) duration_exact [of "''ms''" 1] in \<open>auto simp: with_unit_def\<close>)
  moreover have "opt_entry ''packet_loss_ppm'' parse_packet_loss (case p of Some n \<Rightarrow> with_unit n ''ppm'' | None \<Rightarrow> VNone) =
      Inr (opt_int ''packet_loss_ppm'' (int_option p))"
    by (rule opt_entry_parsed) (use lim(3) loss_exact [of "''ppm''" 1] in \<open>auto simp: with_unit_def\<close>)
  moreover have "opt_entry ''burst_loss'' parse_burst_loss (case b of Some n \<Rightarrow> with_unit n [] | None \<Rightarrow> VNone) =
      Inr (opt_int ''burst_loss'' (int_option b))"
    by (rule opt_entry_parsed) (use lim(4) burst_exact in \<open>auto simp: with_unit_def\<close>)
  moreover have "opt_entry ''rate'' parse_rate (case r of Some n \<Rightarrow> with_unit n ''bps'' | None \<Rightarrow> VNone) =
      Inr (opt_int ''rate'' (int_option r))"
    by (rule opt_entry_parsed) (use lim(5) rate_exact [of "''bps''" 1] in \<open>auto simp: with_unit_def RATE_SUFFIX_MULTIPLIERS_def\<close>)
  ultimately show ?thesis
    by (simp add: set_scalar_policy_values_def arguments_get concat_entries_Cons scalar_policy_def)
qed

lemma scalar_policy_built:
  assumes "within_limits (int_option l) (int_option j) (int_option p) (int_option b) (int_option r)"
  shows "build_policy lib (scalar_arguments s l j p b r) =
    Inr (scalar_policy (int_option s) (int_option l) (int_option j) (int_option p) (int_option b) (int_option r))"
proof -
  let ?p = "scalar_policy (int_option s) (int_option l) (int_option j) (int_option p) (int_option b) (int_option r)"
  have "iter_policy_target_rules ?p = []" by (simp add: iter_policy_target_rules_def scalar_policy_rest)
  then have "validate_target_observability ?p = Inr ()" by (simp add: validate_target_observability_def)
  then show ?thesis
    by (simp add: build_policy_def scalar_values [OF assms] arguments_rest concat_entries_Cons timeout_entry_def mapping_entry_def
        as_mapping_def build_optional_mapping_profiles_def dns_entry_def targets_entry_def)
qed

lemma scalar_policy_registered:
  assumes "name \<noteq> []" "within_limits (int_option l) (int_option j) (int_option p) (int_option b) (int_option r)"
  shows "register_policy lib name (scalar_arguments s l j p b r) reg =
    (Inr (), reg\<lparr>pr_policies := AList.update name
       (scalar_policy (int_option s) (int_option l) (int_option j) (int_option p) (int_option b) (int_option r)) (pr_policies reg)\<rparr>)"
proof -
  have "list_all (\<lambda>(k, v). k \<in> set REGISTERABLE_FIELDS) (scalar_arguments s l j p b r)"
    by (simp add: scalar_arguments_def opt_arg_def REGISTERABLE_FIELDS_def split: option.split)
  then show ?thesis using assms(1) by (simp add: register_policy_def scalar_policy_built [OF assms(2)])
qed

section \<open>The decorated call\<close>

lemma scalar_policy_map:
  "map_of (scalar_policy s l j p b r) ''seed'' = map_option VInt s"
  "map_of (scalar_policy s l j p b r) ''latency'' = map_option VInt l"
  "map_of (scalar_policy s l j p b r) ''jitter'' = map_option VInt j"
  "map_of (scalar_policy s l j p b r) ''packet_loss_ppm'' = map_option VInt p"
  "map_of (scalar_policy s l j p b r) ''burst_loss'' = map_option VInt b"
  "map_of (scalar_policy s l j p b r) ''rate'' = map_option VInt r"
  "k \<notin> {''seed'', ''latency'', ''jitter'', ''packet_loss_ppm'', ''burst_loss'', ''rate''} \<Longrightarrow> map_of (scalar_policy s l j p b r) k = None"
  by (auto simp: scalar_policy_def opt_int_def split: option.split)

lemma scalar_profiles: "policy_profiles (scalar_policy s l j p b r) = scalar_policy s l j p b r"
proof -
  have e: "(case x of None \<Rightarrow> [] | Some i \<Rightarrow> ((\<lambda>v. [(key, v)]) \<circ> VInt) i) = opt_int key x" for key x
    by (simp add: opt_int_def split: option.split)
  show ?thesis by (simp add: policy_profiles_def POLICY_FIELDS_def scalar_policy_map e) (simp add: scalar_policy_def)
qed

text \<open>The name goes to the region of policies, behind every row.\<close>

lemma policy_name_written:
  assumes "sw_mmap (pw_shm q) = Some m" "name \<noteq> []"
  shows "\<exists>m0. policy_name_step env (Some name) q = (Inr (), q\<lparr>pw_shm := (pw_shm q)\<lparr>sw_mmap := Some m0\<rparr>\<rparr>) \<and> row_of tid m0 = row_of tid m"
proof -
  let ?a = "nat PY_POLICY_REGION + 4"
  let ?bs = "ljust 32 (take 32 (utf8_encode name))"
  have a: "(MAX_FDS + MAX_TIDS) * 880 \<le> ?a"
    by (simp add: PY_POLICY_REGION_def PY_MAX_FDS_def PY_MAX_TIDS_def CONFIG_SIZE_def MAX_FDS_def MAX_TIDS_def)
  have "row_index tid * 880 + 880 \<le> (MAX_FDS + MAX_TIDS) * 880" using row_index_less [of tid] by simp
  then have "config_at m (config_ptr (row_index tid)) = config_at (poke ?a ?bs m) (config_ptr (row_index tid))"
    using a by (intro config_at_cong, intro peek_cong) (auto simp: poke_def pointers)
  then have "row_of tid (poke ?a ?bs m) = row_of tid m" by (simp add: row_of_def)
  then show ?thesis using assms
    by (auto simp: policy_name_step_def on_shm_writer_def write_policy_name_def with_mapped store_bytes_def)
qed

definition row_cleared :: "int \<Rightarrow> PyWorld \<Rightarrow> bool" where
  "row_cleared tid q \<longleftrightarrow> (\<exists>m g. sw_mmap (pw_shm q) = Some m \<and> row_of tid m = FaultcoreConfig_default\<lparr>ruleset_generation := g\<rparr>
     \<and> even g \<and> unat g + 12 < 2 ^ 64)"

text \<open>Between the publication of the policy and the clearing of the row the function runs, in the world \<open>q'\<close>.\<close>

lemma decorated_scalar_call:
  assumes "name \<noteq> []" "name \<noteq> ''auto''"
    and lim: "within_limits (int_option l) (int_option j) (int_option p) (int_option b) (int_option r)"
    and "opt_within (2 ^ 64 - 1) (int_option s)" "scalar_arguments s l j p b r \<noteq> []"
    and "pw_registry q = snd (register_policy lib name (scalar_arguments s l j p b r) reg)"
    and "row_cleared tid q" "tid = pe_native_id env" "0 \<le> tid" "tid < 2 ^ 64"
  shows "\<exists>q' m' g. fault env name func q =
      (case func q' of (Inr (Awaitable k), q2) \<Rightarrow> (Inr (Awaitable (run_async env tid k)), q2) | rp \<Rightarrow> finally_clear env tid rp)
    \<and> pw_registry q' = pw_registry q \<and> sw_mmap (pw_shm q') = Some m' \<and> even g
    \<and> row_of tid m' = (scalar_row (int_option s) (int_option l) (int_option j) (int_option p) (int_option b) (int_option r))\<lparr>ruleset_generation := g\<rparr>"
proof -
  let ?p = "scalar_policy (int_option s) (int_option l) (int_option j) (int_option p) (int_option b) (int_option r)"
  have given: "?p \<noteq> []" using assms(5) by (auto simp: scalar_arguments_def scalar_policy_def opt_arg_def opt_int_def split: option.splits)
  have "get_policy_for_apply name (pw_registry q) = Some ?p"
    by (simp add: assms(6) scalar_policy_registered [OF assms(1) lim] get_policy_for_apply_def update_conv')
  then have f: "fault env name func q = FaultWrapper_call env (Some name) ?p func q"
    using assms(1,2) given by (simp add: fault_def scalar_profiles Let_def)
  obtain m g where m: "sw_mmap (pw_shm q) = Some m" "row_of tid m = FaultcoreConfig_default\<lparr>ruleset_generation := g\<rparr>" "even g" "unat g + 12 < 2 ^ 64"
    using assms(7) by (auto simp: row_cleared_def)
  obtain m0 where m0: "policy_name_step env (Some name) q = (Inr (), q\<lparr>pw_shm := (pw_shm q)\<lparr>sw_mmap := Some m0\<rparr>\<rparr>)" "row_of tid m0 = row_of tid m"
    using policy_name_written [OF m(1) assms(1)] by blast
  let ?w = "(pw_shm q)\<lparr>sw_mmap := Some m0\<rparr>"
  have w: "sw_mmap ?w = Some m0" by simp
  have big: "opt_within 18446744073709 (int_option l)" "opt_within 18446744073709 (int_option j)" "opt_within (2 ^ 64 - 1) (int_option p)"
    "opt_within (2 ^ 64 - 1) (int_option b)" "opt_within (2 ^ 64 - 1) (int_option r)"
    using lim by (auto simp: within_limits_def opt_within_def split: option.splits)
  from scalar_policy_applied [OF w assms(9,10) m(2) [folded m0(2)] m(3,4) assms(4) big given, of "pe_os env" "pl_idna (pe_lib env)" "pe_monotonic_ns env"]
  obtain m' g' where r: "apply_fault_profiles (pe_os env) (pl_idna (pe_lib env)) tid ?p (pe_monotonic_ns env) ?w = (Inr (), ?w\<lparr>sw_mmap := Some m'\<rparr>)"
    "row_of tid m' = (scalar_row (int_option s) (int_option l) (int_option j) (int_option p) (int_option b) (int_option r))\<lparr>ruleset_generation := g'\<rparr>"
    "even g'" by blast
  let ?q = "q\<lparr>pw_shm := (pw_shm q)\<lparr>sw_mmap := Some m'\<rparr>\<rparr>"
  have "apply_then_call env ?p func (q\<lparr>pw_shm := ?w\<rparr>) = func ?q"
    using r(1) by (simp add: apply_then_call_def on_shm_writer_def flip: assms(8))
  then have "fault env name func q =
      (case func ?q of (Inr (Awaitable k), q2) \<Rightarrow> (Inr (Awaitable (run_async env tid k)), q2) | rp \<Rightarrow> finally_clear env tid rp)"
    unfolding f FaultWrapper_call_def m0(1) assms(8) by simp
  with r(2,3) show ?thesis by (intro exI [of _ ?q] exI [of _ m'] exI [of _ g']) simp
qed

end
