(* ===== verification/Policy_In_Force.thy ===== *)
theory Policy_In_Force
  imports Policy_Journey Engine_Properties Bridge_Properties
begin

text \<open>
  From the text of a policy to the faults of a call: the policy that Python publishes for a thread is the
  configuration that the bridge finds for the descriptors of that thread, and the engine acts on it.
\<close>

section \<open>The row of a thread and the configuration of its descriptors\<close>

lemma config_of_slot:
  assumes "shm_pointer s = Some m" "shm_is_open s"
  shows "get_config_for_tid_slot os (tid_slot tid) s = (read_stable_config (settled (sh_configs m (MAX_FDS + tid_slot tid))), s)"
    and "get_config_for_tid os tid s = (read_stable_config (settled (sh_configs m (MAX_FDS + tid_slot tid))), s)"
  using assms tid_slot_less [of tid]
  by (simp_all add: get_config_for_tid_slot_def get_config_for_tid_def get_config_ptr_def config_index_def
      read_row_def Let_def not_le)

lemma into_network_config_generation:
  "into_network_config (c\<lparr>ruleset_generation := x\<rparr>) = (into_network_config c)\<lparr>ruleset_generation := x\<rparr>"
  "target_enabled (into_network_config c) = target_enabled c"
  by (simp_all add: into_network_config_def)

text \<open>A descriptor with an owner is governed by the row of its owner, when it has no target rules.\<close>

lemma owner_row_governs:
  assumes "shm_pointer (br_shm b) = Some m" "shm_is_open (br_shm b)" "covered_fd g"
    and "owner_slot os g (br_shm b) = Some (tid_slot owner)"
    and "read_stable_config (settled (sh_configs m (MAX_FDS + tid_slot owner))) = Some row" "target_enabled row = 0"
  shows "fst (runtime_config_for_fd os sos caller now1 now2 g b) = Some (apply_schedule (into_network_config row) now2)"
proof -
  have "get_tid_slot_for_fd os g (br_shm b) = (Some (tid_slot owner), br_shm b)"
    using assms(2-4) by (auto simp: owner_slot_def get_tid_slot_for_fd_def Let_def covered_fd_def)
  then have "base_config os caller g (br_shm b) = (Some (into_network_config row, tid_slot owner), br_shm b)"
    using assms(5) by (simp add: base_config_def config_of_slot [OF assms(1,2)])
  then show ?thesis using assms(6)
    by (simp add: runtime_config_for_fd_def resolve_runtime_config_for_endpoint_def case_prod_beta
        apply_multi_target_for_tid_def into_network_config_generation runtime_filtered_def matches_target_def Let_def)
qed

lemma configs_after_assign:
  assumes "shm_pointer s = Some m"
  shows "\<exists>m'. shm_pointer (assign_rule_to_fd f tid s) = Some m' \<and> sh_configs m' = sh_configs m"
  using assms by (auto simp: assign_rule_to_fd_def on_shm_def)

text \<open>A thread that runs under a published policy and opens a descriptor.\<close>

lemma opened_descriptor_config:
  assumes "br_shm b = table m" "covered_fd f" "even g" "row_of tid m = row\<lparr>ruleset_generation := g\<rparr>"
    and "is_valid row" "target_enabled row = 0"
  shows "fst (runtime_config_for_fd os sos caller now1 now2 f (bind_fd_to_current_thread (word_of_int tid) f b)) =
    Some (apply_schedule ((into_network_config row)\<lparr>ruleset_generation := g\<rparr>) now2)"
proof -
  let ?t = "word_of_int tid :: u64"
  let ?b = "bind_fd_to_current_thread ?t f b"
  have s: "br_shm ?b = assign_rule_to_fd f ?t (table m)"
    using assms(1,2) by (simp add: bind_fd_to_current_thread_def covered_fd_def)
  have t: "table_open (table m)" by (simp add: table_open_def table_def)
  have p: "shm_pointer (table m) = Some (shm_of m)" by (simp add: table_def)
  obtain m' where m': "shm_pointer (br_shm ?b) = Some m'" "sh_configs m' = sh_configs (shm_of m)"
    using configs_after_assign [OF p] unfolding s by blast
  have o: "shm_is_open (br_shm ?b)" using owners.inv_ops(1) [OF t, of f ?t] by (simp add: s table_open_def)
  have slot: "owner_slot os f (br_shm ?b) = Some (tid_slot ?t)"
    unfolding s using owners.lookup_assign [OF t assms(2), of os f ?t] by simp
  have "sh_configs m' (MAX_FDS + tid_slot ?t) = row\<lparr>ruleset_generation := g\<rparr>"
    using row_in_table [of m tid] assms(4) by (simp add: m'(2) row_index_def)
  then have "read_stable_config (settled (sh_configs m' (MAX_FDS + tid_slot ?t))) = Some (row\<lparr>ruleset_generation := g\<rparr>)"
    using assms(3,5) by (simp add: read_stable_settled even_iff_mod_2_eq_zero is_valid_def)
  from owner_row_governs [OF m'(1) o assms(2) slot this] assms(6) show ?thesis
    by (simp add: into_network_config_generation)
qed

section \<open>A certain loss\<close>

lemma certain_loss_drops:
  assumes "packet_loss_ppm (config (stream_ctx now f c n dir)) = 1000000" "ge_enabled (config (stream_ctx now f c n dir)) = 0"
    and "session_budget_enabled (config (stream_ctx now f c n dir)) = 0"
  shows "fst (evaluate_stream_pre clk now f c n dir e) = Drop"
proof -
  let ?ctx = "stream_ctx now f c n dir"
  have r1: "R1_process ?ctx m = (Continue, m)" for m
    using assms(3) by (simp add: R1_process_def precheck_def stream_ctx_def)
  have r2: "fst (R2_process ?ctx s) = Drop" for s
    using assms(1,2) by (simp add: R2_process_def correlated_loss_ppm_def R2_event_happens_certain Let_def split: option.split)
  have "R2_applies_to ?ctx" by (cases dir) (simp_all add: R2_applies_to_def is_dns_def stream_ctx_def stream_operation_def)
  then have "fst (process_pipeline clk ?ctx e') = Drop" for e'
    by (simp add: process_pipeline_spec pipeline_stages_def combine_decisions_def stage_answer_def case_prod_beta r2 Let_def)
  then show ?thesis by (simp add: evaluate_stream_pre_def r1 Let_def case_prod_beta)
qed

section \<open>From text to fault\<close>

text \<open>C5. End to end: a policy of scalar faults is registered as text with units; a function decorated with
  \<open>fault\<close> runs, on a thread with a clear row, between the publication of the policy and the clearing of the row;
  while it runs, every descriptor it opens is governed, whichever thread uses it, by a configuration that has
  exactly the values of the text, and with a loss of one million parts the engine drops every packet in
  either direction, whatever its state.\<close>

theorem registered_policy_in_force:
  assumes "name \<noteq> []" "name \<noteq> ''auto''"
    and "within_limits (int_option l) (int_option j) (int_option p) (int_option b) (int_option r)"
    and "opt_within (2 ^ 64 - 1) (int_option s)" "scalar_arguments s l j p b r \<noteq> []"
    and "pw_registry q = snd (register_policy lib name (scalar_arguments s l j p b r) reg)"
    and "row_cleared tid q" "tid = pe_native_id env" "0 \<le> tid" "tid < 2 ^ 64"
  shows "\<exists>q' m' g. fault env name func q =
      (case func q' of (Inr (Awaitable k), q2) \<Rightarrow> (Inr (Awaitable (run_async env tid k)), q2) | rp \<Rightarrow> finally_clear env tid rp)
    \<and> sw_mmap (pw_shm q') = Some m'
    \<and> (\<forall>br f os sos caller now1 now2. br_shm br = table m' \<and> covered_fd f \<longrightarrow> (\<exists>c.
         fst (runtime_config_for_fd os sos caller now1 now2 f (bind_fd_to_current_thread (word_of_int tid) f br)) = Some c
       \<and> c = (into_network_config (scalar_row (int_option s) (int_option l) (int_option j) (int_option p) (int_option b) (int_option r)))
               \<lparr>ruleset_generation := g\<rparr>
       \<and> (p = Some 1000000 \<longrightarrow> (\<forall>clk now n dir e. fst (evaluate_stream_pre clk now f c n dir e) = Drop))))"
proof -
  let ?row = "scalar_row (int_option s) (int_option l) (int_option j) (int_option p) (int_option b) (int_option r)"
  from decorated_scalar_call [OF assms, of func] obtain q' m' g where
    call: "fault env name func q =
      (case func q' of (Inr (Awaitable k), q2) \<Rightarrow> (Inr (Awaitable (run_async env tid k)), q2) | rp \<Rightarrow> finally_clear env tid rp)"
    "sw_mmap (pw_shm q') = Some m'" and row: "even g" "row_of tid m' = ?row\<lparr>ruleset_generation := g\<rparr>" by blast
  let ?c = "(into_network_config ?row)\<lparr>ruleset_generation := g\<rparr>"
  have v: "is_valid ?row"
    by (subst scalar_row_valid) (use assms(3) in \<open>auto simp: within_limits_def opt_within_def split: option.splits\<close>)
  have t: "target_enabled ?row = 0" "apply_schedule ?c now = ?c" for now
    by (simp_all add: scalar_row_def FaultcoreConfig_default_def apply_schedule_def into_network_config_def)
  have config: "fst (runtime_config_for_fd os sos caller now1 now2 f (bind_fd_to_current_thread (word_of_int tid) f br)) = Some ?c"
    if "br_shm br = table m'" "covered_fd f" for br f os sos caller now1 now2
    using opened_descriptor_config [OF that row v t(1)] by (simp add: t(2))
  have "fst (evaluate_stream_pre clk now f ?c n dir e) = Drop" if "p = Some 1000000" for clk now f n dir e
    by (rule certain_loss_drops)
      (use that in \<open>simp_all add: stream_ctx_def effective_for_def effective_for_send_def effective_for_recv_def apply_direction_overrides_def override_if_pos_def
         into_network_config_def scalar_row_def FaultcoreConfig_default_def word_or_zero_def split: Direction.split\<close>)
  with call config show ?thesis by blast
qed

definition open_bridge :: Bridge where
  "open_bridge = \<lparr>br_shm = open_table, br_sni = (\<lambda>_. None), br_hostnames = [],
     br_reload = \<lparr>reload_applied_total = 0, reload_retry_total = 0\<rparr>, br_engine = idle_engine\<rparr>"

definition no_sockets :: SocketOs where
  "no_sockets = \<lparr>so_type = (\<lambda>_. None), so_peername = (\<lambda>_. None)\<rparr>"

theorem registered_policy_in_force_witness:
  "\<exists>q' m' c. fault plain_env ''lossy'' (\<lambda>q. (Inr (Value ()), q))
        (zero_world\<lparr>pw_registry := snd (register_policy plain_lib ''lossy'' (scalar_arguments None (Some 50) None (Some 1000000) None None) empty_registry)\<rparr>) =
      finally_clear plain_env 42 (Inr (Value ()), q')
    \<and> sw_mmap (pw_shm q') = Some m'
    \<and> fst (runtime_config_for_fd plain_os no_sockets 99 0 50 5 (bind_fd_to_current_thread 42 5 (open_bridge\<lparr>br_shm := table m'\<rparr>))) = Some c
    \<and> latency_ns c = 50000000 \<and> fst (evaluate_stream_pre (0, 0) 0 5 c 10 Uplink idle_engine) = Drop"
proof -
  let ?args = "scalar_arguments None (Some 50) None (Some 1000000) None None"
  let ?q = "zero_world\<lparr>pw_registry := snd (register_policy plain_lib ''lossy'' ?args empty_registry)\<rparr>"
  have lim: "within_limits (int_option (Some 50)) (int_option None) (int_option (Some 1000000)) (int_option None) (int_option None)"
    by (simp add: within_limits_def opt_within_def)
  have clear: "row_cleared 42 ?q"
    using zero_row [of 42] by (auto simp: row_cleared_def zero_world_def zero_writer_def)
  have args: "''lossy'' \<noteq> []" "''lossy'' \<noteq> ''auto''" "?args \<noteq> []" "opt_within (2 ^ 64 - 1) (int_option None)"
    by (simp_all add: scalar_arguments_def opt_arg_def opt_within_def)
  have env: "42 = pe_native_id plain_env" by (simp add: plain_env_def)
  have fd: "br_shm (open_bridge\<lparr>br_shm := table m'\<rparr>) = table m'" "covered_fd 5" for m' by (simp_all add: covered_fd_def MAX_FDS_def)
  from registered_policy_in_force [OF args(1,2) lim args(4,3) _ clear env, of plain_lib empty_registry "\<lambda>q. (Inr (Value ()), q)"]
  obtain q' m' g where "fault plain_env ''lossy'' (\<lambda>q. (Inr (Value ()), q)) ?q = finally_clear plain_env 42 (Inr (Value ()), q')"
    "sw_mmap (pw_shm q') = Some m'"
    and c: "\<forall>br f os sos caller now1 now2. br_shm br = table m' \<and> covered_fd f \<longrightarrow> (\<exists>c.
         fst (runtime_config_for_fd os sos caller now1 now2 f (bind_fd_to_current_thread 42 f br)) = Some c
       \<and> c = (into_network_config (scalar_row None (Some 50) None (Some 1000000) None None))\<lparr>ruleset_generation := g\<rparr>
       \<and> (\<forall>clk now n dir e. fst (evaluate_stream_pre clk now f c n dir e) = Drop))"
    by auto
  moreover have "latency_ns ((into_network_config (scalar_row None (Some 50) None (Some 1000000) None None))\<lparr>ruleset_generation := g\<rparr>) = 50000000"
    by (simp add: into_network_config_def scalar_row_def word_or_zero_def)
  moreover note c [rule_format, OF conjI [OF fd], of plain_os no_sockets 99 0 50]
  ultimately show ?thesis by metis
qed

end
