(* ===== verification/Target_Writer_Properties.thy ===== *)
theory Target_Writer_Properties
  imports Shm_Writer_Refinement
begin

text \<open>
  Target rules across the two languages: the rules that Python writes are the rules that the
  interceptor reads.
\<close>

section \<open>A rule as the interceptor should read it\<close>

definition rule_row :: "(string \<Rightarrow> string option) \<Rightarrow> pydict \<Rightarrow> TargetRule py" where
  "rule_row ext rule =
     py_bind (normalize_target_address rule) (\<lambda>(family, address).
     py_bind (resolve_port_range rule) (\<lambda>(first_port, last_port).
     py_bind (encode_target_name_bytes ext (py_get rule ''hostname'' VNone)) (\<lambda>host_bytes.
     py_bind (encode_target_name_bytes ext (py_get rule ''sni'' VNone)) (\<lambda>sni_bytes.
     py_bind (rule_int rule ''priority'' 100) (\<lambda>prio.
     py_bind (rule_int rule ''kind'' 0) (\<lambda>knd.
     py_bind (rule_int rule ''ipv4'' 0) (\<lambda>ip.
     py_bind (rule_int rule ''prefix_len'' 0) (\<lambda>plen.
     py_bind (rule_int rule ''protocol'' 0) (\<lambda>proto.
       Inr \<lparr>tr_enabled = (if py_truth (py_get rule ''enabled'' (VInt 0)) then 1 else 0), tr_priority = word_of_int prio,
            tr_kind = word_of_int knd, tr_ipv4 = word_of_int ip, tr_prefix_len = word_of_int plen,
            tr_port = word_of_int first_port, tr_protocol = word_of_int proto, tr_reserved = word_of_int last_port,
            tr_address_family = word_of_int family, tr_addr = address, tr_hostname = host_bytes, tr_sni = sni_bytes\<rparr>)))))))))"

lemma rule_int_py_int: "rule_int rule k d = Inr i \<longleftrightarrow> py_int (py_get rule k (VInt d)) = Inr i"
  by (auto simp: rule_int_def split: sum.split py_exc.split)

text \<open>What the validation of a rule guarantees.\<close>

lemma validated_rule:
  assumes "validate_target_rule ext rule = Inr ()"
  obtains prio knd ip plen proto family address host_bytes sni_bytes first_port last_port where
    "py_int (py_get rule ''priority'' (VInt 100)) = Inr prio" "0 \<le> prio" "prio < 2 ^ 64"
    "py_int (py_get rule ''kind'' (VInt 0)) = Inr knd" "knd \<in> {0, 1, 2}"
    "py_int (py_get rule ''ipv4'' (VInt 0)) = Inr ip" "0 \<le> ip" "ip < 2 ^ 32"
    "py_int (py_get rule ''prefix_len'' (VInt 0)) = Inr plen" "0 \<le> plen" "plen \<le> (if family = 2 then 128 else 32)"
    "py_int (py_get rule ''protocol'' (VInt 0)) = Inr proto" "proto \<in> {0, 1, 2}"
    "normalize_target_address rule = Inr (family, address)" "family \<in> {0, 1, 2}" "length address = 16"
    "encode_target_name_bytes ext (py_get rule ''hostname'' VNone) = Inr host_bytes" "length host_bytes = 32"
    "encode_target_name_bytes ext (py_get rule ''sni'' VNone) = Inr sni_bytes" "length sni_bytes = 32"
    "resolve_port_range rule = Inr (first_port, last_port)" "0 \<le> first_port" "first_port \<le> last_port" "last_port \<le> 65535"
proof -
  from assms obtain prio knd host_bytes sni_bytes fa plen proto ports where v:
    "rule_int rule ''priority'' 100 = Inr prio" "0 \<le> prio \<and> prio \<le> 0xFFFFFFFFFFFFFFFF"
    "rule_int rule ''kind'' 0 = Inr knd" "knd \<in> {0, 1, 2}"
    "encode_target_name_bytes ext (py_get rule ''hostname'' VNone) = Inr host_bytes"
    "encode_target_name_bytes ext (py_get rule ''sni'' VNone) = Inr sni_bytes"
    "normalize_target_address rule = Inr fa"
    "rule_int rule ''prefix_len'' 0 = Inr plen" "0 \<le> plen \<and> plen \<le> (if fst fa = 2 then 128 else 32)"
    "rule_int rule ''protocol'' 0 = Inr proto" "proto \<in> {0, 1, 2}" "resolve_port_range rule = Inr ports"
    unfolding validate_target_rule_def Let_def case_prod_beta py_bind_eq_Inr py_guard_eq_Inr by blast
  from v(7) obtain ip where ip: "rule_int rule ''ipv4'' 0 = Inr ip" "0 \<le> ip \<and> ip \<le> 0xFFFFFFFF"
    unfolding normalize_target_address_def py_bind_eq_Inr py_guard_eq_Inr by blast
  have "fst fa \<in> {0, 1, 2}" "length (snd fa) = 16" using normalize_target_address_shape [of rule "fst fa" "snd fa"] v(7) by simp_all
  with v ip resolve_port_range_bounds [of rule "fst ports" "snd ports"] length_encode_target_name [OF v(5)] length_encode_target_name [OF v(6)]
  show ?thesis by (intro that [of prio knd ip plen "fst fa" proto "snd fa" host_bytes sni_bytes "fst ports" "snd ports"])
      (simp_all add: rule_int_py_int)
qed

lemma pack_q_int: "0 \<le> i \<Longrightarrow> i < 2 ^ 64 \<Longrightarrow> pack_q a (VInt i) m = (Inr (), poke a (le_bytes 8 (nat i)) m)"
  by (simp add: pack_q_def pack_uint_def)

text \<open>The bytes of a rule, in the order they are stored.\<close>

definition rule_bytes :: "nat \<Rightarrow> int list \<Rightarrow> bytes \<Rightarrow> bytes \<Rightarrow> bytes \<Rightarrow> memory \<Rightarrow> memory" where
  "rule_bytes base vs address host_bytes sni_bytes m =
     poke (base + 120) sni_bytes (poke (base + 88) host_bytes (poke (base + 72) address
       (fold (\<lambda>(k, v). poke (base + k) (le_bytes 8 (nat v))) (zip [0, 8, 16, 24, 32, 40, 48, 56, 64] vs)
         (poke base (replicate 152 0) m))))"

lemma rule_bytes_read:
  assumes "length address = 16" "length host_bytes = 32" "length sni_bytes = 32"
    and "\<forall>v \<in> set [en, prio, knd, ip, plen, fp, proto, lp, family]. 0 \<le> v \<and> v < 2 ^ 64"
  shows "rule_at (rule_bytes base [en, prio, knd, ip, plen, fp, proto, lp, family] address host_bytes sni_bytes m) base =
      \<lparr>tr_enabled = word_of_int en, tr_priority = word_of_int prio, tr_kind = word_of_int knd, tr_ipv4 = word_of_int ip,
       tr_prefix_len = word_of_int plen, tr_port = word_of_int fp, tr_protocol = word_of_int proto, tr_reserved = word_of_int lp,
       tr_address_family = word_of_int family, tr_addr = address, tr_hostname = host_bytes, tr_sni = sni_bytes\<rparr>"
    and "same_outside base 152 m (rule_bytes base [en, prio, knd, ip, plen, fp, proto, lp, family] address host_bytes sni_bytes m)"
proof -
  let ?m = "rule_bytes base [en, prio, knd, ip, plen, fp, proto, lp, family] address host_bytes sni_bytes m"
  have w: "u64_at (poke a (le_bytes 8 (nat v)) m') a = word_of_int v" if "0 \<le> v" "v < 18446744073709551616" for v a m'
    using that by (subst u64_at_poke_same) (simp_all add: nat_less_iff)
  show "rule_at ?m base = \<lparr>tr_enabled = word_of_int en, tr_priority = word_of_int prio, tr_kind = word_of_int knd, tr_ipv4 = word_of_int ip,
       tr_prefix_len = word_of_int plen, tr_port = word_of_int fp, tr_protocol = word_of_int proto, tr_reserved = word_of_int lp,
       tr_address_family = word_of_int family, tr_addr = address, tr_hostname = host_bytes, tr_sni = sni_bytes\<rparr>"
    using assms by (simp add: rule_at_def Let_def rule_bytes_def poke_apart w)
  show "same_outside base 152 m ?m"
    unfolding rule_bytes_def using assms(1-3)
    by (simp, intro same_outside_trans [OF _ same_outside_poke] same_outside_poke) simp_all
qed

lemma write_rule_row_read:
  assumes "validate_target_rule ext rule = Inr ()"
  shows "\<exists>row. rule_row ext rule = Inr row \<and> (\<forall>off idx m. \<exists>m'. write_target_rule_row ext off idx rule m = (Inr (), m')
    \<and> rule_at m' (off + idx * 152) = row \<and> same_outside (off + idx * 152) 152 m m')"
proof -
  from validated_rule [OF assms] obtain prio knd ip plen proto family address host_bytes sni_bytes first_port last_port where v:
    "py_int (py_get rule ''priority'' (VInt 100)) = Inr prio" "0 \<le> prio" "prio < 2 ^ 64"
    "py_int (py_get rule ''kind'' (VInt 0)) = Inr knd" "knd \<in> {0, 1, 2}"
    "py_int (py_get rule ''ipv4'' (VInt 0)) = Inr ip" "0 \<le> ip" "ip < 2 ^ 32"
    "py_int (py_get rule ''prefix_len'' (VInt 0)) = Inr plen" "0 \<le> plen" "plen \<le> (if family = 2 then 128 else 32)"
    "py_int (py_get rule ''protocol'' (VInt 0)) = Inr proto" "proto \<in> {0, 1, 2}"
    "normalize_target_address rule = Inr (family, address)" "family \<in> {0, 1, 2}" "length address = 16"
    "encode_target_name_bytes ext (py_get rule ''hostname'' VNone) = Inr host_bytes" "length host_bytes = 32"
    "encode_target_name_bytes ext (py_get rule ''sni'' VNone) = Inr sni_bytes" "length sni_bytes = 32"
    "resolve_port_range rule = Inr (first_port, last_port)" "0 \<le> first_port" "first_port \<le> last_port" "last_port \<le> 65535" .
  define en :: int where "en = (if py_truth (py_get rule ''enabled'' (VInt 0)) then 1 else 0)"
  let ?vs = "[en, prio, knd, ip, plen, first_port, proto, last_port, family]"
  have r: "\<forall>x \<in> set ?vs. 0 \<le> x \<and> x < 2 ^ 64"
    using v by (auto simp: en_def split: if_splits)
  have "write_target_rule_row ext off idx rule m =
      (Inr (), rule_bytes (off + idx * 152) ?vs address host_bytes sni_bytes m)" for off idx m
    using r by (simp add: write_target_rule_row_def Let_def upd_then_def upd_with_def store_bytes_def v TARGET_RULE_SIZE_def pack_q_int
        upd_ok_def rule_bytes_def flip: en_def)
  moreover have "rule_row ext rule = Inr \<lparr>tr_enabled = word_of_int en, tr_priority = word_of_int prio, tr_kind = word_of_int knd,
       tr_ipv4 = word_of_int ip, tr_prefix_len = word_of_int plen, tr_port = word_of_int first_port, tr_protocol = word_of_int proto,
       tr_reserved = word_of_int last_port, tr_address_family = word_of_int family, tr_addr = address, tr_hostname = host_bytes,
       tr_sni = sni_bytes\<rparr>"
    using v by (simp add: rule_row_def rule_int_py_int [THEN iffD2] en_def)
  ultimately show ?thesis using rule_bytes_read [OF v(16,18,20) r] by auto
qed

section \<open>The table of a thread\<close>

lemma same_outside_mono: "same_outside a n m m' \<Longrightarrow> b \<le> a \<Longrightarrow> a + n \<le> b + k \<Longrightarrow> same_outside b k m m'"
  by (simp add: same_outside_def)

lemma rule_at_outside:
  assumes "same_outside a n m m'" "base + 152 \<le> a \<or> a + n \<le> base"
  shows "rule_at m' base = rule_at m base"
  by (rule rule_at_cong, rule same_outside_peek [OF assms(1)]) (use assms(2) in auto)

lemma write_rule_rows_read:
  assumes "list_all (\<lambda>rule. validate_target_rule ext rule = Inr ()) rules"
  shows "\<exists>rows. py_map (rule_row ext) rules = Inr rows \<and> (\<forall>idx m. \<exists>m'. write_rule_rows ext off idx rules m = (Inr (), m')
    \<and> same_outside (off + idx * 152) (length rules * 152) m m'
    \<and> (\<forall>j < length rules. rule_at m' (off + (idx + j) * 152) = rows ! j))"
  using assms
proof (induction rules)
  case (Cons rule rules)
  from Cons obtain rows where rows: "py_map (rule_row ext) rules = Inr rows"
    "\<And>idx m. \<exists>m'. write_rule_rows ext off idx rules m = (Inr (), m')
      \<and> same_outside (off + idx * 152) (length rules * 152) m m'
      \<and> (\<forall>j < length rules. rule_at m' (off + (idx + j) * 152) = rows ! j)" by auto
  from write_rule_row_read [of ext rule] Cons.prems obtain row where row: "rule_row ext rule = Inr row"
    "\<And>idx m. \<exists>m'. write_target_rule_row ext off idx rule m = (Inr (), m')
      \<and> rule_at m' (off + idx * 152) = row \<and> same_outside (off + idx * 152) 152 m m'" by auto
  have "\<exists>m'. write_rule_rows ext off idx (rule # rules) m = (Inr (), m')
      \<and> same_outside (off + idx * 152) (length (rule # rules) * 152) m m'
      \<and> (\<forall>j < length (rule # rules). rule_at m' (off + (idx + j) * 152) = (row # rows) ! j)" for idx m
  proof -
    obtain m1 where m1: "write_target_rule_row ext off idx rule m = (Inr (), m1)" "rule_at m1 (off + idx * 152) = row"
      "same_outside (off + idx * 152) 152 m m1" using row(2) by blast
    obtain m2 where m2: "write_rule_rows ext off (Suc idx) rules m1 = (Inr (), m2)"
      "same_outside (off + Suc idx * 152) (length rules * 152) m1 m2"
      "\<forall>j < length rules. rule_at m2 (off + (Suc idx + j) * 152) = rows ! j" using rows(2) by blast
    have "rule_at m2 (off + idx * 152) = row" using rule_at_outside [OF m2(2), of "off + idx * 152"] m1(2) by simp
    moreover have "rule_at m2 (off + (idx + j) * 152) = (row # rows) ! j" if "j < Suc (length rules)" "j \<noteq> 0" for j
      using m2(3) that by (cases j) auto
    ultimately have "\<forall>j < Suc (length rules). rule_at m2 (off + (idx + j) * 152) = (row # rows) ! j"
      by (metis add.right_neutral nth_Cons_0)
    moreover have "same_outside (off + idx * 152) (length (rule # rules) * 152) m m2"
      by (rule same_outside_trans [OF same_outside_mono [OF m1(3)] same_outside_mono [OF m2(2)]]) simp_all
    ultimately show ?thesis using m1(1) m2(1) by (auto simp: upd_then_def)
  qed
  then show ?case using rows(1) row(1) by (intro exI [of _ "row # rows"]) simp
qed (simp add: upd_ok_def)

lemma validate_rules_list:
  "validate_rules ext vs = Inr rules \<Longrightarrow> vs = map VDict rules \<and> list_all (\<lambda>rule. validate_target_rule ext rule = Inr ()) rules"
  by (induction vs arbitrary: rules) (auto simp: py_bind_eq_Inr split: pyval.splits)

section \<open>The row of a thread\<close>

definition target_columns :: "TargetRule \<Rightarrow> u64 \<Rightarrow> FaultcoreConfig \<Rightarrow> FaultcoreConfig" where
  "target_columns r p c =
     c\<lparr>target_kind := tr_kind r, target_ipv4 := tr_ipv4 r, target_prefix_len := tr_prefix_len r, target_port := p,
       target_protocol := tr_protocol r, target_address_family := tr_address_family r, target_addr := tr_addr r,
       target_hostname := tr_hostname r, target_sni := tr_sni r\<rparr>"

definition column_update :: "nat \<Rightarrow> int list \<Rightarrow> bytes \<Rightarrow> bytes \<Rightarrow> bytes \<Rightarrow> update" where
  "column_update base vs address host_bytes sni_bytes =
     upd_then (pack_u64_fields base (zip
       [OFFSET_TARGET_KIND, OFFSET_TARGET_IPV4, OFFSET_TARGET_PREFIX_LEN, OFFSET_TARGET_PORT, OFFSET_TARGET_PROTOCOL,
        OFFSET_TARGET_ADDRESS_FAMILY] (map VInt vs)))
    (upd_then (store_bytes (base + OFFSET_TARGET_ADDR) address)
    (upd_then (store_bytes (base + OFFSET_TARGET_HOSTNAME) host_bytes)
      (store_bytes (base + OFFSET_TARGET_SNI) sni_bytes)))"

lemma target_setters:
  "map_of field_setters OFFSET_TARGET_ENABLED = Some (\<lambda>x. target_enabled_update (\<lambda>_. x))"
  "map_of field_setters OFFSET_TARGET_KIND = Some (\<lambda>x. target_kind_update (\<lambda>_. x))"
  "map_of field_setters OFFSET_TARGET_IPV4 = Some (\<lambda>x. target_ipv4_update (\<lambda>_. x))"
  "map_of field_setters OFFSET_TARGET_PREFIX_LEN = Some (\<lambda>x. target_prefix_len_update (\<lambda>_. x))"
  "map_of field_setters OFFSET_TARGET_PORT = Some (\<lambda>x. target_port_update (\<lambda>_. x))"
  "map_of field_setters OFFSET_TARGET_PROTOCOL = Some (\<lambda>x. target_protocol_update (\<lambda>_. x))"
  "map_of field_setters OFFSET_TARGET_ADDRESS_FAMILY = Some (\<lambda>x. target_address_family_update (\<lambda>_. x))"
  by (simp_all add: field_setters_def offset_defs)

lemma offsets_known_targets: "offsets_known (zip
       [OFFSET_TARGET_KIND, OFFSET_TARGET_IPV4, OFFSET_TARGET_PREFIX_LEN, OFFSET_TARGET_PORT, OFFSET_TARGET_PROTOCOL,
        OFFSET_TARGET_ADDRESS_FAMILY] xs)"
proof -
  have "x \<in> fst ` set field_setters" if "x \<in> {OFFSET_TARGET_KIND, OFFSET_TARGET_IPV4, OFFSET_TARGET_PREFIX_LEN, OFFSET_TARGET_PORT,
      OFFSET_TARGET_PROTOCOL, OFFSET_TARGET_ADDRESS_FAMILY}" for x
    using that target_setters map_of_SomeD [of field_setters x] by (force simp: image_iff)
  then show ?thesis unfolding offsets_known_def by (auto dest!: set_zip_leftD)
qed

lemma target_blobs:
  "length bs = 16 \<Longrightarrow> config_at (poke (base + OFFSET_TARGET_ADDR) bs m) base = (config_at m base)\<lparr>target_addr := bs\<rparr>"
  "length bs = 32 \<Longrightarrow> config_at (poke (base + OFFSET_TARGET_HOSTNAME) bs m) base = (config_at m base)\<lparr>target_hostname := bs\<rparr>"
  "length bs = 32 \<Longrightarrow> config_at (poke (base + OFFSET_TARGET_SNI) bs m) base = (config_at m base)\<lparr>target_sni := bs\<rparr>"
  by (rule blob_setter_write; simp add: blob_setters_def)+

lemma upd_then_ok: "fst (a m) = Inr () \<Longrightarrow> upd_then a b m = b (snd (a m))"
  by (simp add: upd_then_def case_prod_beta)

lemma column_update_row:
  assumes "length address = 16" "length host_bytes = 32" "length sni_bytes = 32"
    and "\<forall>v \<in> set [knd, ip, plen, p, proto, family]. 0 \<le> v \<and> v < 2 ^ 64"
  shows "\<exists>m'. column_update base [knd, ip, plen, p, proto, family] address host_bytes sni_bytes m = (Inr (), m')
    \<and> same_outside base 880 m m'
    \<and> config_at m' base = (config_at m base)\<lparr>target_kind := word_of_int knd, target_ipv4 := word_of_int ip,
         target_prefix_len := word_of_int plen, target_port := word_of_int p, target_protocol := word_of_int proto,
         target_address_family := word_of_int family, target_addr := address, target_hostname := host_bytes, target_sni := sni_bytes\<rparr>"
proof -
  let ?fs = "zip [OFFSET_TARGET_KIND, OFFSET_TARGET_IPV4, OFFSET_TARGET_PREFIX_LEN, OFFSET_TARGET_PORT, OFFSET_TARGET_PROTOCOL,
        OFFSET_TARGET_ADDRESS_FAMILY] (map VInt [knd, ip, plen, p, proto, family])"
  let ?m1 = "snd (pack_u64_fields base ?fs m)"
  have "packable ?fs" using assms(4) by (simp add: packable_def u64_value_def)
  then have ok: "fst (pack_u64_fields base ?fs m) = Inr ()" and out: "same_outside base 880 m ?m1"
    and row: "config_at ?m1 base = put_fields ?fs (config_at m base)"
    using pack_fields_row [OF offsets_known_targets, of base m "map VInt [knd, ip, plen, p, proto, family]"] by simp_all
  define m' where "m' = poke (base + OFFSET_TARGET_SNI) sni_bytes (poke (base + OFFSET_TARGET_HOSTNAME) host_bytes
      (poke (base + OFFSET_TARGET_ADDR) address ?m1))"
  have run: "column_update base [knd, ip, plen, p, proto, family] address host_bytes sni_bytes m = (Inr (), m')"
    unfolding column_update_def by (subst upd_then_ok, rule ok) (simp only: upd_then_def store_bytes_def prod.case sum.case m'_def)
  have "same_outside base 880 m m'" unfolding m'_def using assms(1-3)
    by (intro same_outside_trans [OF _ same_outside_poke] out) (simp_all add: offset_defs)
  moreover have "config_at m' base = (put_fields ?fs (config_at m base))\<lparr>target_addr := address, target_hostname := host_bytes, target_sni := sni_bytes\<rparr>"
    unfolding m'_def by (simp only: target_blobs assms(1-3) row)
  ultimately show ?thesis using run assms(4)
    by (intro exI [of _ m']) (simp add: put_fields_def put_field_def target_setters u64_value_def)
qed

text \<open>The port in the row of a single rule: none when the rule has a range.\<close>

definition row_port :: "pydict \<Rightarrow> TargetRule \<Rightarrow> u64" where
  "row_port rule r = (if py_has rule ''port_start'' then 0 else tr_port r)"

lemma single_port:
  assumes "resolve_port_range rule = Inr (first_port, last_port)" "map_of rule ''port'' \<noteq> Some VNone"
  shows "py_int (py_get rule ''port'' (VInt 0)) = Inr (if py_has rule ''port_start'' then 0 else first_port)"
proof (cases "py_has rule ''port_start''")
  case True
  with assms(1) have "\<not> py_has rule ''port''" by (auto simp: resolve_port_range_def Let_def split: if_splits)
  with assms(2) have "map_of rule ''port'' = None" by (auto simp: py_has_def py_get_def split: option.splits)
  with True show ?thesis by (simp add: py_get_def)
next
  case False
  with assms(1) show ?thesis
    by (auto simp: resolve_port_range_def Let_def py_bind_eq_Inr py_guard_eq_Inr rule_int_py_int split: if_splits)
qed

lemma single_fields_row:
  assumes "validate_target_rule ext rule = Inr ()" "map_of rule ''port'' \<noteq> Some VNone" "rule_row ext rule = Inr r"
  shows "\<exists>m'. write_single_target_fields ext base rule m = (Inr (), m') \<and> same_outside base 880 m m'
    \<and> config_at m' base = target_columns r (row_port rule r) (config_at m base)"
proof -
  from validated_rule [OF assms(1)] obtain prio knd ip plen proto family address host_bytes sni_bytes first_port last_port where v:
    "py_int (py_get rule ''priority'' (VInt 100)) = Inr prio" "0 \<le> prio" "prio < 2 ^ 64"
    "py_int (py_get rule ''kind'' (VInt 0)) = Inr knd" "knd \<in> {0, 1, 2}"
    "py_int (py_get rule ''ipv4'' (VInt 0)) = Inr ip" "0 \<le> ip" "ip < 2 ^ 32"
    "py_int (py_get rule ''prefix_len'' (VInt 0)) = Inr plen" "0 \<le> plen" "plen \<le> (if family = 2 then 128 else 32)"
    "py_int (py_get rule ''protocol'' (VInt 0)) = Inr proto" "proto \<in> {0, 1, 2}"
    "normalize_target_address rule = Inr (family, address)" "family \<in> {0, 1, 2}" "length address = 16"
    "encode_target_name_bytes ext (py_get rule ''hostname'' VNone) = Inr host_bytes" "length host_bytes = 32"
    "encode_target_name_bytes ext (py_get rule ''sni'' VNone) = Inr sni_bytes" "length sni_bytes = 32"
    "resolve_port_range rule = Inr (first_port, last_port)" "0 \<le> first_port" "first_port \<le> last_port" "last_port \<le> 65535" .
  define p where "p = (if py_has rule ''port_start'' then 0 else first_port)"
  have p: "py_int (py_get rule ''port'' (VInt 0)) = Inr p" using single_port [OF v(21) assms(2)] by (simp add: p_def)
  have r: "r = \<lparr>tr_enabled = (if py_truth (py_get rule ''enabled'' (VInt 0)) then 1 else 0), tr_priority = word_of_int prio,
      tr_kind = word_of_int knd, tr_ipv4 = word_of_int ip, tr_prefix_len = word_of_int plen, tr_port = word_of_int first_port,
      tr_protocol = word_of_int proto, tr_reserved = word_of_int last_port, tr_address_family = word_of_int family, tr_addr = address,
      tr_hostname = host_bytes, tr_sni = sni_bytes\<rparr>"
    using assms(3) v by (simp add: rule_row_def rule_int_py_int [THEN iffD2])
  have "\<forall>x \<in> set [knd, ip, plen, p, proto, family]. 0 \<le> x \<and> x < 2 ^ 64"
    using v by (auto simp: p_def split: if_splits)
  from column_update_row [OF v(16,18,20) this, of base m] show ?thesis
    by (simp add: write_single_target_fields_def upd_with_def v p column_update_def r target_columns_def row_port_def)
       (auto simp: p_def)
qed

lemma cleared_fields_row:
  "\<exists>m'. clear_single_target_fields base m = (Inr (), m') \<and> same_outside base 880 m m'
    \<and> config_at m' base = target_columns TargetRule_default 0 (config_at m base)"
  using column_update_row [of "replicate 16 0" "replicate 32 0" "replicate 32 0" 0 0 0 0 0 0 base m]
  by (simp add: clear_single_target_fields_def column_update_def target_columns_def TargetRule_default_def)

section \<open>The whole update\<close>

text \<open>What the update does to the row, and to the eight rules of the thread.\<close>

definition target_mutation :: "pydict list \<Rightarrow> TargetRule list \<Rightarrow> FaultcoreConfig \<Rightarrow> FaultcoreConfig" where
  "target_mutation rules rows c =
     (let c1 = c\<lparr>target_enabled := of_nat (length rules)\<rparr> in
      if length rules = 1 then target_columns (hd rows) (row_port (hd rules) (hd rows)) c1 else target_columns TargetRule_default 0 c1)"

definition padded_rules :: "TargetRule list \<Rightarrow> TargetRule list" where
  "padded_rules rows = rows @ replicate (8 - length rows) TargetRule_default"

definition rules_installed :: "nat \<Rightarrow> TargetRule list \<Rightarrow> Shm \<Rightarrow> Shm" where
  "rules_installed slot rows t =
     t\<lparr>sh_rules := (\<lambda>i. if slot * 8 \<le> i \<and> i < slot * 8 + 8 then padded_rules rows ! (i - slot * 8) else sh_rules t i)\<rparr>"

lemma rules_part:
  assumes "0 \<le> tid" "tid < 2 ^ 64" "list_all (\<lambda>rule. validate_target_rule ext rule = Inr ()) rules" "length rules \<le> 8"
    and "py_map (rule_row ext) rules = Inr rows"
  shows "\<exists>m'. upd_then (clear_target_rules_table (py_tid_slot tid))
      (write_rule_rows ext (target_rules_offset_for_slot (py_tid_slot tid)) 0 rules) m = (Inr (), m')
    \<and> same_outside (target_rules_base_ptr (tid_slot (word_of_int tid) * 8)) (8 * 152) m m'
    \<and> shm_of m' = rules_installed (tid_slot (word_of_int tid)) rows (shm_of m)"
proof -
  let ?slot = "tid_slot (word_of_int tid)" and ?off = "target_rules_base_ptr (tid_slot (word_of_int tid) * 8)"
  define m1 where "m1 = poke (target_rules_offset_for_slot (py_tid_slot tid)) (replicate PY_TARGET_RULES_REGION_SIZE 0) m"
  note c = clear_rules_table [OF assms(1,2), where m = m, folded m1_def]
  have off: "target_rules_offset_for_slot (py_tid_slot tid) = ?off" by (rule rules_offset_ptr [OF assms(1,2)])
  from write_rule_rows_read [OF assms(3), of ?off] assms(5) obtain m2 where m2: "write_rule_rows ext ?off 0 rules m1 = (Inr (), m2)"
    "same_outside ?off (length rules * 152) m1 m2" "\<forall>j < length rules. rule_at m2 (?off + j * 152) = rows ! j" by fastforce
  have len: "length rows = length rules" using length_py_map [OF assms(5)] .
  have at: "target_rules_base_ptr (?slot * 8 + j) = ?off + j * 152" for j by (simp add: pointers)
  have out: "same_outside ?off (8 * 152) m m2"
    by (rule same_outside_trans [OF c(3) same_outside_mono [OF m2(2)]]) (use assms(4) in simp_all)
  have "rule_at m2 (?off + j * 152) = padded_rules rows ! j" if "j < 8" for j
  proof (cases "j < length rules")
    case True
    then show ?thesis using m2(3) len by (simp add: padded_rules_def nth_append)
  next
    case False
    then have "rule_at m2 (?off + j * 152) = rule_at m1 (target_rules_base_ptr (?slot * 8 + j))"
      unfolding at by (intro rule_at_outside [OF m2(2)]) simp
    also have "\<dots> = sh_rules (shm_of m1) (?slot * 8 + j)"
      using that tid_slot_less [of "word_of_int tid"] by (simp add: shm_of_def MAX_TARGET_RULES_PER_TID_def)
    also have "\<dots> = TargetRule_default" using that by (simp add: c(2) rules_cleared_def)
    finally show ?thesis using False len that by (simp add: padded_rules_def nth_append)
  qed
  then have "rule_at m2 (target_rules_base_ptr i) = padded_rules rows ! (i - ?slot * 8)" if "?slot * 8 \<le> i" "i < ?slot * 8 + 8" for i
    using that at [of "i - ?slot * 8"] by simp
  then have "shm_of m2 = rules_installed ?slot rows (shm_of m)"
    using shm_of_rules_write [OF out tid_slot_less] by (simp add: rules_installed_def cong: if_cong)
  with out m2(1) c(1) show ?thesis unfolding off by (auto simp: upd_then_def)
qed

lemma row_part:
  assumes "list_all (\<lambda>rule. validate_target_rule ext rule = Inr ()) rules" "length rules \<le> 8"
    and "py_map (rule_row ext) rules = Inr rows" "\<And>rule. rules = [rule] \<Longrightarrow> map_of rule ''port'' \<noteq> Some VNone"
  shows "\<exists>m'. upd_then (pack_q (base + OFFSET_TARGET_ENABLED) (VInt (int (length rules))))
       (if length rules = 1 then write_single_target_fields ext base (hd rules) else clear_single_target_fields base) m = (Inr (), m')
    \<and> same_outside base 880 m m' \<and> config_at m' base = target_mutation rules rows (config_at m base)"
proof -
  have known: "OFFSET_TARGET_ENABLED \<in> fst ` set field_setters"
    using map_of_SomeD [OF target_setters(1)] by (force simp: image_iff)
  have val: "u64_value (VInt (int (length rules))) = Some (of_nat (length rules))"
    using assms(2) by (simp add: u64_value_def)
  obtain m1 where m1: "pack_q (base + OFFSET_TARGET_ENABLED) (VInt (int (length rules))) m = (Inr (), m1)"
    using val by (simp add: pack_q_value)
  note e = pack_field_row(1,2) [OF known, where base = base and m = m and v = "VInt (int (length rules))", unfolded m1 snd_conv]
  have c1: "config_at m1 base = (config_at m base)\<lparr>target_enabled := of_nat (length rules)\<rparr>"
    using e(2) val by (simp add: put_field_def target_setters)
  show ?thesis
  proof (cases "length rules = 1")
    case True
    then obtain rule where rule: "rules = [rule]" by (metis One_nat_def length_0_conv length_Suc_conv)
    with assms(1,3) obtain r where r: "validate_target_rule ext rule = Inr ()" "rule_row ext rule = Inr r" "rows = [r]"
      by (auto simp: py_bind_eq_Inr)
    from single_fields_row [OF r(1) assms(4) [OF rule] r(2), of base m1] same_outside_trans [OF e(1)] show ?thesis
      using m1 by (auto simp: upd_then_def rule r(3) target_mutation_def c1 Let_def)
  next
    case False
    with cleared_fields_row [of base m1] same_outside_trans [OF e(1)] show ?thesis
      using m1 by (auto simp: upd_then_def target_mutation_def c1 Let_def)
  qed
qed

lemma upd_then_assoc: "upd_then (upd_then a b) c m = upd_then a (upd_then b c) m"
  by (simp add: upd_then_def split: prod.split sum.split)

lemma targets_written:
  assumes "sw_mmap w = Some m" "0 \<le> tid" "tid < 2 ^ 64" "generation_room tid m"
    and "validate_rules ext vs = Inr rules" "length vs \<le> 8" "\<And>rule. rules = [rule] \<Longrightarrow> map_of rule ''port'' \<noteq> Some VNone"
  shows "\<exists>m' rows. write_targets os ext tid vs w = (Inr (), w\<lparr>sw_mmap := Some m'\<rparr>) \<and> py_map (rule_row ext) rules = Inr rows
    \<and> shm_of m' = write_row (row_index tid) (\<lambda>c. (target_mutation rules rows c)\<lparr>magic := FAULTCORE_MAGIC\<rparr>)
        (rules_installed (tid_slot (word_of_int tid)) rows (shm_of m))"
proof -
  let ?b = "config_ptr (row_index tid)" and ?slot = "tid_slot (word_of_int tid)"
  have v: "vs = map VDict rules" "list_all (\<lambda>rule. validate_target_rule ext rule = Inr ()) rules"
    using validate_rules_list [OF assms(5)] by simp_all
  have len: "length rules \<le> 8" using v(1) assms(6) by simp
  obtain rows where rows: "py_map (rule_row ext) rules = Inr rows" using write_rule_rows_read [OF v(2)] by blast
  from rules_part [OF assms(2,3) v(2) len rows, of "opened ?b m"] obtain m1 where m1:
    "upd_then (clear_target_rules_table (py_tid_slot tid)) (write_rule_rows ext (target_rules_offset_for_slot (py_tid_slot tid)) 0 rules)
       (opened ?b m) = (Inr (), m1)"
    "same_outside (target_rules_base_ptr (?slot * 8)) (8 * 152) (opened ?b m) m1"
    "shm_of m1 = rules_installed ?slot rows (shm_of (opened ?b m))" by blast
  from row_part [OF v(2) len rows assms(7), of ?b m1] obtain m2 where m2:
    "upd_then (pack_q (?b + OFFSET_TARGET_ENABLED) (VInt (int (length rules))))
       (if length rules = 1 then write_single_target_fields ext ?b (hd rules) else clear_single_target_fields ?b) m1 = (Inr (), m2)"
    "same_outside ?b 880 m1 m2" "config_at m2 ?b = target_mutation rules rows (config_at m1 ?b)" by blast
  have "targets_writer ext (py_tid_slot tid) rules ?b (opened ?b m) = (Inr (), m2)"
  proof -
    have "targets_writer ext (py_tid_slot tid) rules ?b m' = upd_then (upd_then (clear_target_rules_table (py_tid_slot tid))
        (write_rule_rows ext (target_rules_offset_for_slot (py_tid_slot tid)) 0 rules))
      (upd_then (pack_q (?b + OFFSET_TARGET_ENABLED) (VInt (int (length rules))))
       (if length rules = 1 then write_single_target_fields ext ?b (hd rules) else clear_single_target_fields ?b)) m'" for m'
      by (simp only: targets_writer_def upd_then_assoc)
    then show ?thesis by (simp only: upd_then_ok [of "upd_then _ _"] m1(1) m2(1) fst_conv snd_conv)
  qed
  with assms(4) have pub: "publish ?b (targets_writer ext (py_tid_slot tid) rules) m = (Inr (), sealed ?b m m2)"
    by (intro publish_seq) (simp_all add: generation_room_def row_of_def)
  have "config_at m1 ?b = config_at (opened ?b m) ?b" using rules_outside_rows [OF m1(2) row_index_less] .
  then have row: "config_at (sealed ?b m m2) ?b =
      write_config_with_generation_publish (\<lambda>c. (target_mutation rules rows c)\<lparr>magic := FAULTCORE_MAGIC\<rparr>) (row_of tid m)"
    by (simp add: sealed_row m2(3) opened_row write_config_with_generation_publish_def row_of_def target_mutation_def target_columns_def Let_def)
  have "same_outside ?b 880 m1 (sealed ?b m m2)" by (rule same_outside_trans [OF m2(2) sealed_outside])
  from shm_of_row_write [OF this row_index_less] have "shm_of (sealed ?b m m2) =
      write_row (row_index tid) (\<lambda>c. (target_mutation rules rows c)\<lparr>magic := FAULTCORE_MAGIC\<rparr>) (rules_installed ?slot rows (shm_of m))"
    by (simp add: row m1(3) shm_of_row_write [OF opened_outside row_index_less] rules_installed_def write_row_def row_in_table
        cong: if_cong)
  moreover have "get_offset tid = ?b" by (simp add: get_offset_ptr [OF assms(2,3)] row_index_def)
  ultimately show ?thesis using pub rows assms(1,5,6) v(1)
    by (auto simp: write_targets_def ensure_mapped_def PY_MAX_TARGET_RULES_def write_with_generation_publish_def with_mapped)
qed

lemma rule_row_bounds:
  assumes "validate_target_rule ext rule = Inr ()" "rule_row ext rule = Inr r"
  shows "tr_kind r \<le> 2 \<and> tr_protocol r \<le> 2 \<and> tr_address_family r \<le> 2 \<and> tr_port r \<le> 65535
    \<and> tr_prefix_len r \<le> (if tr_address_family r = 2 then 128 else 32)"
proof -
  have le: "(word_of_int x :: u64) \<le> word_of_int n" if "0 \<le> x" "x \<le> n" "n < 2 ^ 64" for x n
    using that by (simp add: word_le_def uint_word_of_int)
  from validated_rule [OF assms(1)] obtain prio knd ip plen proto family address host_bytes sni_bytes first_port last_port where v:
    "py_int (py_get rule ''priority'' (VInt 100)) = Inr prio" "0 \<le> prio" "prio < 2 ^ 64"
    "py_int (py_get rule ''kind'' (VInt 0)) = Inr knd" "knd \<in> {0, 1, 2}"
    "py_int (py_get rule ''ipv4'' (VInt 0)) = Inr ip" "0 \<le> ip" "ip < 2 ^ 32"
    "py_int (py_get rule ''prefix_len'' (VInt 0)) = Inr plen" "0 \<le> plen" "plen \<le> (if family = 2 then 128 else 32)"
    "py_int (py_get rule ''protocol'' (VInt 0)) = Inr proto" "proto \<in> {0, 1, 2}"
    "normalize_target_address rule = Inr (family, address)" "family \<in> {0, 1, 2}" "length address = 16"
    "encode_target_name_bytes ext (py_get rule ''hostname'' VNone) = Inr host_bytes" "length host_bytes = 32"
    "encode_target_name_bytes ext (py_get rule ''sni'' VNone) = Inr sni_bytes" "length sni_bytes = 32"
    "resolve_port_range rule = Inr (first_port, last_port)" "0 \<le> first_port" "first_port \<le> last_port" "last_port \<le> 65535" .
  have r: "r = \<lparr>tr_enabled = (if py_truth (py_get rule ''enabled'' (VInt 0)) then 1 else 0), tr_priority = word_of_int prio,
      tr_kind = word_of_int knd, tr_ipv4 = word_of_int ip, tr_prefix_len = word_of_int plen, tr_port = word_of_int first_port,
      tr_protocol = word_of_int proto, tr_reserved = word_of_int last_port, tr_address_family = word_of_int family, tr_addr = address,
      tr_hostname = host_bytes, tr_sni = sni_bytes\<rparr>"
    using assms(2) by (simp add: rule_row_def rule_int_py_int [THEN iffD2] v(1,4,6,9,12,14,17,19,21))
  have "tr_kind r \<le> 2" "tr_protocol r \<le> 2" "tr_address_family r \<le> 2" using v(5,13,15) by (auto simp: r)
  moreover have "tr_port r \<le> 65535" using le [of first_port 65535] v(22-24) by (simp add: r)
  moreover have "tr_prefix_len r \<le> (if tr_address_family r = 2 then 128 else 32)"
    using le [of plen 128] le [of plen 32] v(10,11,15) by (auto simp: r)
  ultimately show ?thesis by simp
qed

lemma target_mutation_valid:
  assumes "list_all (\<lambda>rule. validate_target_rule ext rule = Inr ()) rules" "length rules \<le> 8" "py_map (rule_row ext) rules = Inr rows"
    and "is_valid c"
  shows "is_valid ((target_mutation rules rows c)\<lparr>magic := FAULTCORE_MAGIC\<rparr>)"
proof -
  have n: "(of_nat (length rules) :: u64) \<le> 8" using assms(2) by (simp add: word_le_nat_alt unat_of_nat_u64)
  show ?thesis
  proof (cases "length rules = 1")
    case True
    then obtain rule where rule: "rules = [rule]" by (metis One_nat_def length_0_conv length_Suc_conv)
    with assms(1,3) obtain r where r: "validate_target_rule ext rule = Inr ()" "rule_row ext rule = Inr r" "rows = [r]"
      by (auto simp: py_bind_eq_Inr)
    from rule_row_bounds [OF r(1,2)] assms(4) n show ?thesis
      by (simp add: is_valid_def target_mutation_def target_columns_def rule r(3) row_port_def MAX_TARGET_RULES_PER_TID_def
          split: if_splits)
  next
    case False
    with assms(4) n show ?thesis
      by (simp add: is_valid_def target_mutation_def target_columns_def TargetRule_default_def MAX_TARGET_RULES_PER_TID_def)
  qed
qed

text \<open>C11. Target rules survive the passage from Python to Rust: when up to eight rules pass the validation of
  \<open>write_targets\<close>, the call returns, and the interceptor then reads for the thread exactly those rules, in order,
  field by field, followed by empty ones; a thread that had a readable policy still has it, now
  with the number of rules; and nothing else in the table has changed. (A single rule must not carry an explicit
  \<open>None\<close> as its port.)\<close>

theorem written_targets_are_read:
  assumes "sw_mmap w = Some m" "0 \<le> tid" "tid < 2 ^ 64" "generation_room tid m"
    and "validate_rules ext vs = Inr rules" "length vs \<le> 8" "\<And>rule. rules = [rule] \<Longrightarrow> map_of rule ''port'' \<noteq> Some VNone"
  shows "\<exists>m' rows. write_targets os ext tid vs w = (Inr (), w\<lparr>sw_mmap := Some m'\<rparr>) \<and> py_map (rule_row ext) rules = Inr rows
    \<and> fst (get_target_rules_for_tid_slot ros (tid_slot (word_of_int tid)) (table m')) = Some (padded_rules rows)
    \<and> (is_valid (row_of tid m) \<longrightarrow> (\<exists>c. fst (get_config_for_tid ros (word_of_int tid) (table m')) = Some c
          \<and> target_enabled c = of_nat (length rules)))
    \<and> shm_of m' = write_row (row_index tid) (\<lambda>c. (target_mutation rules rows c)\<lparr>magic := FAULTCORE_MAGIC\<rparr>)
        (rules_installed (tid_slot (word_of_int tid)) rows (shm_of m))"
proof -
  let ?slot = "tid_slot (word_of_int tid)"
  from targets_written [OF assms, of os] obtain m' rows where
    w: "write_targets os ext tid vs w = (Inr (), w\<lparr>sw_mmap := Some m'\<rparr>)" and rows: "py_map (rule_row ext) rules = Inr rows"
    and t: "shm_of m' = write_row (row_index tid) (\<lambda>c. (target_mutation rules rows c)\<lparr>magic := FAULTCORE_MAGIC\<rparr>)
        (rules_installed ?slot rows (shm_of m))" by blast
  have v: "list_all (\<lambda>rule. validate_target_rule ext rule = Inr ()) rules" "length rules \<le> 8"
    using validate_rules_list [OF assms(5)] assms(6) by auto
  have len: "length (padded_rules rows) = 8" using length_py_map [OF rows] v(2) by (simp add: padded_rules_def)
  have rules_read: "fst (get_target_rules_for_tid_slot ros ?slot (table m')) = Some (padded_rules rows)"
    using tid_slot_less [of "word_of_int tid"] len
    by (auto simp: get_target_rules_for_tid_slot_def table_def t write_row_def rules_installed_def MAX_TARGET_RULES_PER_TID_def
        intro!: nth_equalityI)
  let ?row = "write_config_with_generation_publish (\<lambda>c. (target_mutation rules rows c)\<lparr>magic := FAULTCORE_MAGIC\<rparr>) (row_of tid m)"
  have row: "row_of tid m' = ?row"
    unfolding row_in_table [symmetric] t by (simp add: write_row_def rules_installed_def)
  have "fst (get_config_for_tid ros (word_of_int tid) (table m')) = Some ?row" if "is_valid (row_of tid m)"
  proof -
    have "is_valid ?row"
      using target_mutation_valid [OF v rows, of "(row_of tid m)\<lparr>ruleset_generation := ruleset_generation (row_of tid m) OR 1\<rparr>"] that
      by (simp add: write_config_with_generation_publish_def Let_def)
    then show ?thesis by (simp add: config_read row read_stable_settled write_publish_sel)
  qed
  moreover have "target_enabled ?row = of_nat (length rules)"
    by (simp add: write_config_with_generation_publish_def Let_def target_mutation_def target_columns_def)
  ultimately show ?thesis using w rows t rules_read by blast
qed

definition sample_rules :: "pydict list" where
  "sample_rules =
     [[(''enabled'', VInt 1), (''hostname'', VStr ''db.local''), (''port'', VInt 5432), (''priority'', VInt 7)],
      [(''enabled'', VInt 1), (''kind'', VInt 2), (''ipv4'', VInt 167772160), (''prefix_len'', VInt 8),
       (''port_start'', VInt 80), (''port_end'', VInt 90)]]"

lemma sample_rules_valid: "validate_rules (\<lambda>_. None) (map VDict sample_rules) = Inr sample_rules"
proof -
  have "encode_target_name_bytes (\<lambda>_. None) (VStr ''db.local'') = Inr (ljust 32 (ascii_bytes ''db.local''))"
    by (simp add: encode_target_name_bytes_def normalize_target_name_def py_string_eval py_count_def idna_encode_def is_ascii_def
        py_rstrip_def TARGET_NAME_MAX_BYTES_def Let_def)
  then show ?thesis
    by (simp add: sample_rules_def validate_target_rule_def rule_int_def py_get_def Let_def normalize_target_address_def
        resolve_port_range_def py_has_def valid_port_def)
       (simp add: encode_target_name_bytes_def ascii_bytes_def code_point_def ljust_def TARGET_NAME_MAX_BYTES_def list_ex_iff)
qed

theorem written_targets_are_read_witness:
  "\<exists>m' rows. write_targets plain_py_os (\<lambda>_. None) 42 (map VDict sample_rules) zero_writer = (Inr (), zero_writer\<lparr>sw_mmap := Some m'\<rparr>)
     \<and> py_map (rule_row (\<lambda>_. None)) sample_rules = Inr rows \<and> length rows = 2
     \<and> fst (get_target_rules_for_tid_slot plain_os (tid_slot 42) (table m')) = Some (padded_rules rows)"
proof -
  have "\<And>rule. sample_rules = [rule] \<Longrightarrow> map_of rule ''port'' \<noteq> Some VNone" "length (map VDict sample_rules) \<le> 8"
    by (simp_all add: sample_rules_def)
  from written_targets_are_read [OF _ _ _ zero_room sample_rules_valid this(2,1), of zero_writer 42 plain_py_os plain_os]
  obtain m' rows where "write_targets plain_py_os (\<lambda>_. None) 42 (map VDict sample_rules) zero_writer = (Inr (), zero_writer\<lparr>sw_mmap := Some m'\<rparr>)"
    "py_map (rule_row (\<lambda>_. None)) sample_rules = Inr rows"
    "fst (get_target_rules_for_tid_slot plain_os (tid_slot 42) (table m')) = Some (padded_rules rows)"
    by (auto simp: zero_writer_def)
  moreover from this(2) have "length rows = 2" using length_py_map by (fastforce simp: sample_rules_def)
  ultimately show ?thesis by blast
qed

end
