(* ===== verification/Target_Profile_Properties.thy ===== *)
theory Target_Profile_Properties
  imports Profile_Parsers
begin

text \<open>
  Target profiles between the parser and the writer: what \<open>build_target_profile\<close> accepts against what the
  validation at the time of writing accepts.
\<close>

section \<open>Names\<close>

definition plain_name :: "string \<Rightarrow> bool" where
  "plain_name s \<longleftrightarrow> (\<forall>c \<in> set s. 0 < code_point c \<and> code_point c < 128 \<and> \<not> py_space c)"

lemma code_point_inj: "code_point c = code_point d \<longleftrightarrow> c = d"
  by (simp add: code_point_def)

lemma code_point_lower:
  "code_point c < 128 \<Longrightarrow> code_point (py_lower_char c) = (if 65 \<le> code_point c \<and> code_point c \<le> 90 then code_point c + 32 else code_point c)"
  by (simp add: py_lower_char_def code_point_def Let_def)

lemma lower_char_eq_iff:
  assumes "code_point c < 128" "code_point d < 65"
  shows "py_lower_char c = d \<longleftrightarrow> c = d"
  unfolding code_point_inj [symmetric] code_point_lower [OF assms(1)] using assms(2) by auto

lemma lower_idem: "plain_name s \<Longrightarrow> py_lower (py_lower s) = py_lower s"
proof -
  have "py_lower_char (py_lower_char c) = py_lower_char c" if "code_point c < 128" for c
    using code_point_lower [OF that] code_point_lower [of "py_lower_char c"] that
    by (auto simp: code_point_inj [symmetric] split: if_splits)
  then show "plain_name s \<Longrightarrow> py_lower (py_lower s) = py_lower s" by (simp add: py_lower_def plain_name_def)
qed

lemma plain_lower: "plain_name s \<Longrightarrow> plain_name (py_lower s)"
  by (auto simp: plain_name_def py_lower_def py_space_def Let_def code_point_lower)

lemma plain_strip: "plain_name s \<Longrightarrow> py_strip s = s"
proof -
  have d: "dropWhile py_space t = t" if "\<forall>c \<in> set t. \<not> py_space c" for t
    using that by (cases t) simp_all
  show "plain_name s \<Longrightarrow> py_strip s = s" using d [of s] d [of "rev s"] by (simp add: py_strip_def plain_name_def)
qed

lemma plain_sub: "set t \<subseteq> set s \<Longrightarrow> plain_name s \<Longrightarrow> plain_name t"
  by (auto simp: plain_name_def)

section \<open>Labels\<close>

lemma py_split_nonempty [simp]: "py_split d s \<noteq> []"
  by (induction s) (auto split: list.split)

lemma py_split_snoc: "py_split d (s @ [d]) = py_split d s @ [[]]"
  by (induction s) (auto simp: neq_Nil_conv split: list.split)

lemma py_split_snoc_other: "c \<noteq> d \<Longrightarrow> py_split d (s @ [c]) = butlast (py_split d s) @ [last (py_split d s) @ [c]]"
  by (induction s) (auto simp: neq_Nil_conv split: list.split)

lemma py_split_last: "last (py_split d s) = [] \<longleftrightarrow> s = [] \<or> last s = d"
proof (induction s rule: rev_induct)
  case (snoc c s)
  then show ?case by (cases "c = d") (simp_all add: py_split_snoc py_split_snoc_other)
qed simp

lemma py_split_lower: "is_ascii s \<Longrightarrow> py_split (CHR ''.'') (py_lower s) = map py_lower (py_split (CHR ''.'') s)"
proof (induction s)
  case (Cons c s)
  then have "py_lower_char c = CHR ''.'' \<longleftrightarrow> c = CHR ''.''"
    by (intro lower_char_eq_iff) (simp_all add: is_ascii_def code_point_def)
  with Cons show ?case by (auto simp: py_lower_def is_ascii_def split: list.split)
qed (simp add: py_lower_def)

text \<open>The labels that the IDNA codec accepts: at most one empty label, the last.\<close>

definition labels_ok :: "string \<Rightarrow> bool" where
  "labels_ok s \<longleftrightarrow>
     (let labels = py_split (CHR ''.'') s in list_all (\<lambda>l. l \<noteq> [] \<and> length l < 64) (butlast labels) \<and> length (last labels) < 64)"

lemma labels_ok_rstrip:
  assumes "labels_ok s" "s \<noteq> []"
  shows "labels_ok (py_rstrip (CHR ''.'') s) \<and> (py_rstrip (CHR ''.'') s = s \<or> s = py_rstrip (CHR ''.'') s @ ''.'')
    \<and> py_rstrip (CHR ''.'') s \<noteq> [] \<and> last (py_rstrip (CHR ''.'') s) \<noteq> CHR ''.''"
proof -
  obtain t c where s: "s = t @ [c]" using assms(2) by (metis rev_exhaust)
  show ?thesis
  proof (cases "c = CHR ''.''")
    case False
    then show ?thesis using assms by (simp add: s py_rstrip_def)
  next
    case True
    then have labels: "py_split (CHR ''.'') s = py_split (CHR ''.'') t @ [[]]" by (simp add: s py_split_snoc)
    then have all: "list_all (\<lambda>l. l \<noteq> [] \<and> length l < 64) (py_split (CHR ''.'') t)"
      using assms(1) by (simp add: labels_ok_def)
    then have l: "last (py_split (CHR ''.'') t) \<noteq> []" "length (last (py_split (CHR ''.'') t)) < 64"
      by (simp_all add: list_all_iff)
    then have t: "t \<noteq> []" "last t \<noteq> CHR ''.''" by (simp_all add: py_split_last)
    then have "dropWhile (\<lambda>d. d = CHR ''.'') (rev t) = rev t" by (simp add: dropWhile_eq_self_iff hd_rev)
    then have r: "py_rstrip (CHR ''.'') s = t" using True by (simp add: s py_rstrip_def)
    have "labels_ok t" using all l(2) by (auto simp: labels_ok_def list_all_iff dest: in_set_butlastD)
    with r t True s show ?thesis by simp
  qed
qed

lemma labels_ok_lower: "is_ascii s \<Longrightarrow> labels_ok (py_lower s) \<longleftrightarrow> labels_ok s"
  by (simp add: labels_ok_def py_split_lower map_butlast [symmetric] last_map list_all_iff Let_def) (simp add: py_lower_def)

lemma idna_labels: "is_ascii s \<Longrightarrow> idna_encode ext s = (if labels_ok s then Some s else None)"
  by (simp add: idna_encode_def labels_ok_def Let_def)

lemma rstrip_fixed: "s \<noteq> [] \<Longrightarrow> last s \<noteq> c \<Longrightarrow> py_rstrip c s = s"
proof -
  assume "s \<noteq> []" "last s \<noteq> c"
  then have "dropWhile (\<lambda>d. d = c) (rev s) = rev s" by (simp add: dropWhile_eq_self_iff hd_rev)
  then show "py_rstrip c s = s" by (simp add: py_rstrip_def)
qed

lemma star_lower: "plain_name s \<Longrightarrow> CHR ''*'' \<in> set (py_lower s) \<longleftrightarrow> CHR ''*'' \<in> set s"
proof -
  assume "plain_name s"
  then have "py_lower_char c = CHR ''*'' \<longleftrightarrow> c = CHR ''*''" if "c \<in> set s" for c
    using that by (intro lower_char_eq_iff) (simp_all add: plain_name_def code_point_def)
  then show "CHR ''*'' \<in> set (py_lower s) \<longleftrightarrow> CHR ''*'' \<in> set s"
    unfolding py_lower_def set_map image_iff by metis
qed

lemma set_rstrip: "set (py_rstrip c s) \<subseteq> set s"
  unfolding py_rstrip_def by (metis set_dropWhileD set_rev subsetI)

text \<open>A normalized core without a star is a fixed point.\<close>

lemma core_fixed:
  assumes "plain_name core" "core \<noteq> []" "labels_ok core"
  defines "c \<equiv> py_rstrip (CHR ''.'') (py_lower core)"
  shows "plain_name c" "c \<noteq> []" "idna_encode ext c = Some c" "py_rstrip (CHR ''.'') (py_lower c) = c" "set c \<subseteq> set (py_lower core)"
proof -
  have a: "is_ascii core" "py_lower core \<noteq> []" using assms(1,2) by (simp_all add: is_ascii_def plain_name_def py_lower_def)
  note r = labels_ok_rstrip [of "py_lower core", folded c_def, unfolded labels_ok_lower [OF a(1)], OF assms(3) a(2)]
  show sub: "set c \<subseteq> set (py_lower core)" unfolding c_def by (rule set_rstrip)
  show p: "plain_name c" by (rule plain_sub [OF sub plain_lower [OF assms(1)]])
  show "c \<noteq> []" using r by simp
  have "is_ascii c" using p by (simp add: is_ascii_def plain_name_def)
  then show "idna_encode ext c = Some c" using r by (simp add: idna_labels)
  have "py_lower_char d = d" if "d \<in> set c" for d
  proof -
    from that sub obtain x where x: "x \<in> set core" "d = py_lower_char x" by (auto simp: py_lower_def)
    with lower_idem [OF assms(1)] show ?thesis by (simp add: py_lower_def)
  qed
  then have "py_lower c = c" unfolding py_lower_def by (rule map_idI)
  then show "py_rstrip (CHR ''.'') (py_lower c) = c" using r rstrip_fixed [of c] by simp
qed

lemma count_zero: "CHR ''*'' \<notin> set t \<Longrightarrow> py_count (CHR ''*'') t = 0"
  by (auto simp: py_count_def filter_empty_conv)

lemma no_wildcard: "CHR ''*'' \<notin> set t \<Longrightarrow> \<not> py_startswith t ''*.''"
  by (cases t) (auto simp: py_startswith_def)

lemma normalize_core:
  assumes "plain_name core" "core \<noteq> []" "labels_ok core" "CHR ''*'' \<notin> set core"
  defines "c \<equiv> py_rstrip (CHR ''.'') (py_lower core)"
  shows "length c \<le> 32 \<Longrightarrow> normalize_target_name ext c = Inr c"
    and "CHR ''.'' \<in> set c \<Longrightarrow> length c \<le> 30 \<Longrightarrow> normalize_target_name ext (''*.'' @ c) = Inr (''*.'' @ c)"
proof -
  note f = core_fixed [OF assms(1-3), folded c_def]
  have star: "CHR ''*'' \<notin> set c" using f(5) star_lower [OF assms(1)] assms(4) by auto
  show "length c \<le> 32 \<Longrightarrow> normalize_target_name ext c = Inr c"
    using f star by (simp add: normalize_target_name_def plain_strip no_wildcard count_zero TARGET_NAME_MAX_BYTES_def Let_def)
  have "plain_name (''*.'' @ c)" using f(1) by (simp add: plain_name_def code_point_def py_space_def)
  then have "py_strip (''*.'' @ c) = ''*.'' @ c" by (rule plain_strip)
  moreover have "py_count (CHR ''*'') (''*.'' @ c) = 1" using count_zero [OF star] by (simp add: py_count_def)
  ultimately show "CHR ''.'' \<in> set c \<Longrightarrow> length c \<le> 30 \<Longrightarrow> normalize_target_name ext (''*.'' @ c) = Inr (''*.'' @ c)"
    using f by (simp add: normalize_target_name_def py_startswith_def TARGET_NAME_MAX_BYTES_def Let_def)
qed

lemma normalize_target_name_fixed:
  assumes "plain_name s" "normalize_target_name ext s = Inr n"
  shows "normalize_target_name ext n = Inr n"
proof -
  have raw: "py_strip s = s" by (rule plain_strip [OF assms(1)])
  show ?thesis
  proof (cases "py_startswith s ''*.''")
    case True
    define core where "core = drop 2 s"
    have s: "s = ''*.'' @ core" using True by (metis append_take_drop_id core_def length_Cons list.size(3) numeral_2_eq_2 py_startswith_def)
    have core: "plain_name core" using assms(1) by (auto simp: core_def plain_name_def dest: in_set_dropD)
    then have ascii: "is_ascii core" by (simp add: plain_name_def is_ascii_def)
    have "core \<noteq> []" "py_count (CHR ''*'') s \<le> 1" "labels_ok core"
      and n: "CHR ''.'' \<in> set (py_rstrip (CHR ''.'') (py_lower core))" "n = ''*.'' @ py_rstrip (CHR ''.'') (py_lower core)" "length n \<le> 32"
      using assms(2) True
      by (auto simp: normalize_target_name_def raw Let_def idna_labels [OF ascii] TARGET_NAME_MAX_BYTES_def simp flip: core_def split: if_splits)
    moreover have "CHR ''*'' \<notin> set core" using \<open>py_count (CHR ''*'') s \<le> 1\<close> by (auto simp: s py_count_def filter_empty_conv)
    ultimately show ?thesis using normalize_core(2) [OF core] by simp
  next
    case False
    have ascii: "is_ascii s" using assms(1) by (simp add: plain_name_def is_ascii_def)
    have "s \<noteq> []" "CHR ''*'' \<notin> set s" "labels_ok s" "n = py_rstrip (CHR ''.'') (py_lower s)" "length n \<le> 32"
      using assms(2) False
      by (auto simp: normalize_target_name_def raw Let_def idna_labels [OF ascii] TARGET_NAME_MAX_BYTES_def split: if_splits)
    then show ?thesis using normalize_core(1) [OF assms(1)] by simp
  qed
qed

lemma normalized_plain:
  assumes "plain_name s" "normalize_target_name ext s = Inr n"
  shows "plain_name n"
proof -
  have raw: "py_strip s = s" by (rule plain_strip [OF assms(1)])
  have sub: "plain_name (py_rstrip (CHR ''.'') (py_lower t))" if "set t \<subseteq> set s" for t
    by (rule plain_sub [OF set_rstrip plain_lower [OF plain_sub [OF that assms(1)]]])
  have ascii: "is_ascii t" if "set t \<subseteq> set s" for t using assms(1) that by (auto simp: plain_name_def is_ascii_def)
  have stars: "plain_name (''*.'' @ t)" if "plain_name t" for t using that by (simp add: plain_name_def code_point_def py_space_def)
  have "set (drop 2 s) \<subseteq> set s" by (rule set_drop_subset)
  then show ?thesis using assms(2) sub [of s] sub [of "drop 2 s"] stars ascii [of s] ascii [of "drop 2 s"]
    by (auto simp: normalize_target_name_def raw Let_def idna_labels split: if_splits)
qed

lemma encode_plain:
  assumes "plain_name s" "normalize_target_name ext s = Inr n"
  shows "\<exists>bs. encode_target_name_bytes ext (VStr n) = Inr bs \<and> list_ex (\<lambda>b. b \<noteq> 0) bs"
proof -
  have n: "n \<noteq> []" using normalize_target_name_short [OF assms(2)] by simp
  then have "hd n \<in> set n" by simp
  then have "0 < code_point (hd n)" "code_point (hd n) < 128" using normalized_plain [OF assms] by (auto simp: plain_name_def)
  then have "(of_nat (code_point (hd n)) :: u8) \<noteq> 0" by (auto simp: word_of_nat_eq_0_iff dest: dvd_imp_le)
  with n have "list_ex (\<lambda>b. b \<noteq> 0) (ljust 32 (ascii_bytes n))" by (cases n) (simp_all add: ljust_def ascii_bytes_def)
  then show ?thesis
    using normalize_target_name_fixed [OF assms] by (simp add: encode_target_name_bytes_def TARGET_NAME_MAX_BYTES_def)
qed

section \<open>Profiles\<close>

text \<open>The rules that \<open>build_target_profile\<close> makes: by address or by name.\<close>

definition port_entries :: "int option \<Rightarrow> int option \<Rightarrow> pydict" where
  "port_entries a b = (case (a, b) of (Some x, Some y) \<Rightarrow> [(''port_start'', VInt x), (''port_end'', VInt y)] | _ \<Rightarrow> [])"

lemma apply_port_range_entries: "apply_port_range a b p = p @ port_entries a b"
  by (simp add: apply_port_range_def port_entries_def split: option.split)

lemma bytes_of_values: "py_map byte_of_value (map (\<lambda>b. VInt (uint b)) bs) = Inr bs"
  by (induction bs) (simp_all add: byte_of_value_def)

lemma resolve_built_port:
  assumes "py_get d ''port'' VNone = VInt p" "py_get d ''port'' (VInt 0) = VInt p" "valid_port p"
    and "py_has d ''port_start'' = r" "py_has d ''port_end'' = r"
  shows "resolve_port_range d = (if r then Inl ValueError else Inr (p, p))"
  using assms by (auto simp: resolve_port_range_def Let_def py_has_def [of d "''port''"] rule_int_def)

lemma validate_address_rule:
  fixes bs :: bytes
  assumes "k \<in> {1, 2}" "fam \<in> {1, 2}" "0 \<le> ip" "ip \<le> 0xFFFFFFFF" "0 \<le> plen" "plen \<le> (if fam = 2 then 128 else 32)"
    and "valid_port p" "proto \<in> {0, 1, 2}" "0 \<le> prio" "prio \<le> 65535" "length bs = 16"
  shows "validate_target_rule ext (target_profile_base k ip plen p proto prio fam (map (\<lambda>b. VInt (uint b)) bs) @ port_entries a b) =
      (if port_entries a b = [] then Inr () else Inl ValueError)"
proof -
  let ?d = "target_profile_base k ip plen p proto prio fam (map (\<lambda>b. VInt (uint b)) bs) @ port_entries a b"
  have g: "py_get ?d ''enabled'' v = VInt 1" "py_get ?d ''priority'' v = VInt prio" "py_get ?d ''kind'' v = VInt k"
    "py_get ?d ''hostname'' VNone = VNone" "py_get ?d ''sni'' VNone = VNone" "py_get ?d ''ipv4'' v = VInt ip"
    "py_get ?d ''address_family'' v = VInt fam" "py_get ?d ''addr'' v = VList (map (\<lambda>b. VInt (uint b)) bs)"
    "py_get ?d ''prefix_len'' v = VInt plen" "py_get ?d ''protocol'' v = VInt proto" "py_get ?d ''port'' v = VInt p" for v
    by (simp_all add: py_get_def target_profile_base_def port_entries_def split: option.split)
  have r: "py_has ?d ''port_start'' = (port_entries a b \<noteq> [])" "py_has ?d ''port_end'' = (port_entries a b \<noteq> [])"
    by (simp_all add: py_has_def py_get_def target_profile_base_def port_entries_def split: option.split)
  have ports: "resolve_port_range ?d = (if port_entries a b \<noteq> [] then Inl ValueError else Inr (p, p))"
    by (rule resolve_built_port [OF g(11) g(11) assms(7) r])
  have names: "encode_target_name_bytes ext VNone = Inr (replicate 32 0)" by (simp add: encode_target_name_bytes_def TARGET_NAME_MAX_BYTES_def)
  have "addr16_from_rule ?d = Inr bs" using assms(11) by (simp add: addr16_from_rule_def g addr16_of_values_def bytes_of_values)
  then have addr: "normalize_target_address ?d = Inr (fam, bs)"
    using assms(1-4) by (simp add: normalize_target_address_def rule_int_def g py_has_def) auto
  show ?thesis using assms
    unfolding validate_target_rule_def rule_int_def g py_int.simps sum.case py_bind_simps names addr ports
    by (auto simp: list_ex_iff Let_def py_guard_def)
qed

lemma validate_name_rule:
  assumes "normalize_target_name ext s = Inr n" "plain_name s" "key \<in> {''hostname'', ''sni''}"
    and "valid_port p" "proto \<in> {0, 1, 2}" "0 \<le> prio" "prio \<le> 65535"
  shows "validate_target_rule ext (target_profile_base 0 0 0 p proto prio 0 (replicate 16 (VInt 0)) @ (key, VStr n) # port_entries a b) =
      (if port_entries a b = [] then Inr () else Inl ValueError)"
proof -
  let ?d = "target_profile_base 0 0 0 p proto prio 0 (replicate 16 (VInt 0)) @ (key, VStr n) # port_entries a b"
  have g: "py_get ?d ''enabled'' v = VInt 1" "py_get ?d ''priority'' v = VInt prio" "py_get ?d ''kind'' v = VInt 0"
    "py_get ?d ''ipv4'' v = VInt 0" "py_get ?d ''address_family'' v = VInt 0"
    "py_get ?d ''prefix_len'' v = VInt 0" "py_get ?d ''protocol'' v = VInt proto" "py_get ?d ''port'' v = VInt p" for v
    by (simp_all add: py_get_def target_profile_base_def port_entries_def split: option.split)
  have h: "py_get ?d ''hostname'' VNone = (if key = ''hostname'' then VStr n else VNone)"
    "py_get ?d ''sni'' VNone = (if key = ''sni'' then VStr n else VNone)"
    using assms(3) by (auto simp: py_get_def target_profile_base_def port_entries_def split: option.split)
  have r: "py_has ?d ''port_start'' = (port_entries a b \<noteq> [])" "py_has ?d ''port_end'' = (port_entries a b \<noteq> [])"
    using assms(3) by (auto simp: py_has_def py_get_def target_profile_base_def port_entries_def split: option.split)
  have ports: "resolve_port_range ?d = (if port_entries a b \<noteq> [] then Inl ValueError else Inr (p, p))"
    by (rule resolve_built_port [OF g(8) g(8) assms(4) r])
  obtain bs where bs: "encode_target_name_bytes ext (VStr n) = Inr bs" "list_ex (\<lambda>b. b \<noteq> 0) bs"
    using encode_plain [OF assms(2,1)] by blast
  have none: "encode_target_name_bytes ext VNone = Inr (replicate 32 0)" by (simp add: encode_target_name_bytes_def TARGET_NAME_MAX_BYTES_def)
  have addr: "normalize_target_address ?d = Inr (0, replicate 16 0)"
    by (simp add: normalize_target_address_def rule_int_def g)
  show ?thesis using assms(3) bs(2) assms(5-7)
    unfolding validate_target_rule_def rule_int_def g h py_int.simps sum.case py_bind_simps addr ports
    by (auto simp: list_ex_iff Let_def py_guard_def bs(1) none)
qed

section \<open>What the parser produces\<close>

lemma parse_named_range: "parse_named tab v = Inr i \<Longrightarrow> i \<in> snd ` set tab"
proof -
  assume "parse_named tab v = Inr i"
  then obtain n where "map_of tab n = Some i" by (auto simp: parse_named_def py_bind_eq_Inr split: option.splits)
  then show ?thesis by (force dest: map_of_SomeD)
qed

lemma parse_target_protocol_range: "parse_target_protocol v = Inr i \<Longrightarrow> i \<in> {0, 1, 2}"
  by (auto simp: parse_target_protocol_def split: if_splits dest!: parse_named_range)

lemma parse_target_string_protocol:
  assumes "parse_target_string t pr po a b = Inr (pr', h, c, po')" "pr \<in> {0, 1, 2}"
  shows "pr' \<in> {0, 1, 2}"
proof -
  from assms(1) have "pr' = pr \<or> (\<exists>v. parse_target_protocol v = Inr pr')"
    by (auto simp: parse_target_string_def py_bind_eq_Inr py_guard_eq_Inr split: option.splits if_splits)
  then show ?thesis using assms(2) parse_target_protocol_range by blast
qed

lemma parse_priority_range: "parse_priority v = Inr i \<Longrightarrow> 0 \<le> i \<and> i \<le> 65535"
  by (auto simp: parse_priority_def py_bind_eq_Inr py_guard_eq_Inr split: if_splits)

lemma be_value_4: "length bs = 4 \<Longrightarrow> 0 \<le> be_value bs \<and> be_value bs \<le> 0xFFFFFFFF"
proof -
  assume "length bs = 4"
  then obtain a b c d where bs: "bs = [a, b, c, d]" by (auto simp: numeral_eq_Suc length_Suc_conv)
  have byte: "0 \<le> uint x \<and> uint x \<le> 255" for x :: u8 using uint_lt2p [of x] by simp
  show ?thesis using byte [of a] byte [of b] byte [of c] byte [of d] by (simp add: be_value_def bs)
qed

text \<open>What the \<open>ipaddress\<close> module returns: four or sixteen packed bytes.\<close>

definition lib_ok :: "PyLib \<Rightarrow> bool" where
  "lib_ok lib \<longleftrightarrow>
     (\<forall>v f bs. pl_ip_address lib v = Some (f, bs) \<longrightarrow> length bs = (if f then 4 else 16))
     \<and> (\<forall>v f bs n. pl_ip_network lib v = Some (f, bs, n) \<longrightarrow> length bs = (if f then 4 else 16))"

definition plain_names :: "pydict \<Rightarrow> bool" where
  "plain_names args \<longleftrightarrow>
     (\<forall>k s. k \<in> {''hostname'', ''sni''} \<and> py_get args k VNone = VStr s \<longrightarrow> plain_name s)"

lemma network_profile_validates:
  assumes "length packed = (if f then 4 else 16)" "n \<le> (if f then 32 else 128)" "k \<in> {1, 2}"
    and "valid_port p" "proto \<in> {0, 1, 2}" "0 \<le> prio" "prio \<le> 65535"
  shows "validate_target_rule ext (apply_port_range a b (network_target_profile (f, packed, n) k p proto prio)) =
      (if port_entries a b = [] then Inr () else Inl ValueError)"
proof -
  let ?bs = "packed @ replicate (16 - length packed) 0"
  have "validate_target_rule ext (target_profile_base k (if f then be_value packed else 0) (int n) p proto prio (if f then 1 else 2)
      (map (\<lambda>b. VInt (uint b)) ?bs) @ port_entries a b) = (if port_entries a b = [] then Inr () else Inl ValueError)"
    by (rule validate_address_rule) (use assms be_value_4 [of packed] in \<open>auto split: if_splits\<close>)
  then show ?thesis by (simp add: apply_port_range_entries network_target_profile_def)
qed

lemma name_profile_validates:
  assumes "optional_name lib v = Inr h" "optional_name lib v' = Inr s" "h \<noteq> None \<or> s \<noteq> None" "\<not> (h \<noteq> None \<and> s \<noteq> None)"
    and "\<And>x. v = VStr x \<Longrightarrow> plain_name x" "\<And>x. v' = VStr x \<Longrightarrow> plain_name x"
    and "valid_port p" "proto \<in> {0, 1, 2}" "0 \<le> prio" "prio \<le> 65535"
  shows "validate_target_rule (pl_idna lib) (apply_port_range a b (semantic_target_profile h s p proto prio)) =
      (if port_entries a b = [] then Inr () else Inl ValueError)"
proof -
  have norm: "\<exists>y. normalize_target_name (pl_idna lib) y = Inr x \<and> u = VStr y" if "optional_name lib u = Inr (Some x)" for u x
    using that by (auto simp: optional_name_def py_bind_eq_Inr split: pyval.splits)
  show ?thesis
  proof (cases h)
    case (Some n)
    with norm [of v n] assms(1) obtain y where "normalize_target_name (pl_idna lib) y = Inr n" "v = VStr y" by auto
    with validate_name_rule [of "pl_idna lib" y n "''hostname''"] Some assms show ?thesis
      by (simp add: apply_port_range_entries semantic_target_profile_def)
  next
    case None
    then obtain n where n: "s = Some n" using assms(3) by blast
    with norm [of v' n] assms(2) obtain y where "normalize_target_name (pl_idna lib) y = Inr n" "v' = VStr y" by auto
    with validate_name_rule [of "pl_idna lib" y n "''sni''"] None n assms show ?thesis
      by (simp add: apply_port_range_entries semantic_target_profile_def)
  qed
qed

text \<open>The three kinds of profile, for the parsed port, protocol and host.\<close>

lemma built_profile_cases:
  assumes "(if h \<noteq> None \<or> s \<noteq> None then Inr (apply_port_range a b (semantic_target_profile h s p proto prio))
      else if py_truth host
      then (case pl_ip_address lib host of None \<Rightarrow> Inl ValueError
        | Some (v4, packed) \<Rightarrow> Inr (apply_port_range a b (network_target_profile (v4, packed, if v4 then 32 else 128) 1 p proto prio)))
      else (case pl_ip_network lib cidr of None \<Rightarrow> Inl ValueError
        | Some (v4, packed, plen) \<Rightarrow> py_guard (plen \<le> (if v4 then 32 else 128)) ValueError
            (Inr (apply_port_range a b (network_target_profile (v4, packed, plen) 2 p proto prio))))) = Inr profile"
  shows "(h \<noteq> None \<or> s \<noteq> None) \<and> profile = apply_port_range a b (semantic_target_profile h s p proto prio)
     \<or> (\<exists>v f bs. pl_ip_address lib v = Some (f, bs)
          \<and> profile = apply_port_range a b (network_target_profile (f, bs, if f then 32 else 128) 1 p proto prio))
     \<or> (\<exists>v f bs n. pl_ip_network lib v = Some (f, bs, n) \<and> n \<le> (if f then 32 else 128)
          \<and> profile = apply_port_range a b (network_target_profile (f, bs, n) 2 p proto prio))"
proof (cases "h \<noteq> None \<or> s \<noteq> None")
  case True
  with assms show ?thesis by simp
next
  case names: False
  show ?thesis
  proof (cases "py_truth host")
    case True
    then obtain f bs where "pl_ip_address lib host = Some (f, bs)" using assms names by (cases "pl_ip_address lib host") auto
    with assms names True show ?thesis by (simp only: if_True if_False option.case prod.case sum.inject) blast
  next
    case False
    then obtain f bs n where "pl_ip_network lib cidr = Some (f, bs, n)" using assms names by (cases "pl_ip_network lib cidr") auto
    with assms names False show ?thesis by (simp only: if_True if_False option.case prod.case py_guard_eq_Inr sum.inject) blast
  qed
qed

lemma build_target_profile_parts:
  assumes "build_target_profile lib args = Inr profile"
  obtains p a b h s proto prio where "optional_name lib (py_get args ''hostname'' VNone) = Inr h"
    "optional_name lib (py_get args ''sni'' VNone) = Inr s" "valid_port p" "proto \<in> {0, 1, 2}" "0 \<le> prio \<and> prio \<le> 65535"
    "\<not> (h \<noteq> None \<and> s \<noteq> None)"
    "(h \<noteq> None \<or> s \<noteq> None) \<and> profile = apply_port_range a b (semantic_target_profile h s p proto prio)
     \<or> (\<exists>v f bs. pl_ip_address lib v = Some (f, bs)
          \<and> profile = apply_port_range a b (network_target_profile (f, bs, if f then 32 else 128) 1 p proto prio))
     \<or> (\<exists>v f bs n. pl_ip_network lib v = Some (f, bs, n) \<and> n \<le> (if f then 32 else 128)
          \<and> profile = apply_port_range a b (network_target_profile (f, bs, n) 2 p proto prio))"
proof -
  from assms obtain proto0 ports h s tgt prio where v:
    "parse_target_protocol (py_get args ''protocol'' VNone) = Inr proto0"
    "optional_name lib (py_get args ''hostname'' VNone) = Inr h" "optional_name lib (py_get args ''sni'' VNone) = Inr s"
    "(if py_get args ''target'' VNone \<noteq> VNone
      then py_bind (parse_target_string (py_get args ''target'' VNone) proto0 (fst ports) (fst (snd ports)) (snd (snd ports))) (\<lambda>(pr, h, c, po).
        Inr (pr, (case h of Some s \<Rightarrow> VStr s | None \<Rightarrow> py_get args ''host'' VNone),
          (case c of Some s \<Rightarrow> VStr s | None \<Rightarrow> py_get args ''cidr'' VNone), po))
      else Inr (proto0, py_get args ''host'' VNone, py_get args ''cidr'' VNone, fst ports)) = Inr tgt"
    "valid_port (snd (snd (snd tgt)))" "parse_priority (py_get args ''priority'' VNone) = Inr prio" "\<not> (h \<noteq> None \<and> s \<noteq> None)"
    "(if h \<noteq> None \<or> s \<noteq> None
      then Inr (apply_port_range (fst (snd ports)) (snd (snd ports)) (semantic_target_profile h s (snd (snd (snd tgt))) (fst tgt) prio))
      else if py_truth (fst (snd tgt))
      then (case pl_ip_address lib (fst (snd tgt)) of None \<Rightarrow> Inl ValueError
        | Some (v4, packed) \<Rightarrow> Inr (apply_port_range (fst (snd ports)) (snd (snd ports))
            (network_target_profile (v4, packed, if v4 then 32 else 128) 1 (snd (snd (snd tgt))) (fst tgt) prio)))
      else (case pl_ip_network lib (fst (snd (snd tgt))) of None \<Rightarrow> Inl ValueError
        | Some (v4, packed, plen) \<Rightarrow> py_guard (plen \<le> (if v4 then 32 else 128)) ValueError
            (Inr (apply_port_range (fst (snd ports)) (snd (snd ports)) (network_target_profile (v4, packed, plen) 2 (snd (snd (snd tgt))) (fst tgt) prio))))) = Inr profile"
    unfolding build_target_profile_def Let_def case_prod_beta py_bind_eq_Inr [of "parse_target_protocol _"]
      py_bind_eq_Inr [of "optional_name _ _"] py_bind_eq_Inr [of "parse_priority _"] py_bind_eq_Inr [of "if _ then _ else _"] py_guard_eq_Inr
    by blast
  have "fst tgt \<in> {0, 1, 2}"
    using v(4) parse_target_protocol_range [OF v(1)] by (auto simp: py_bind_eq_Inr dest!: parse_target_string_protocol split: if_splits)
  with v parse_priority_range [OF v(6)] built_profile_cases [OF v(8)] show ?thesis by (intro that) assumption+
qed

lemma port_start_entry:
  "map_of (apply_port_range a b (semantic_target_profile h s p proto prio)) ''port_start'' = None \<longleftrightarrow> port_entries a b = []"
  "map_of (apply_port_range a b (network_target_profile net k p proto prio)) ''port_start'' = None \<longleftrightarrow> port_entries a b = []"
  by (auto simp: apply_port_range_entries semantic_target_profile_def network_target_profile_def target_profile_base_def port_entries_def
      split: option.splits prod.splits)

text \<open>C38. Every target the parser accepts can be written, unless it has a port range: for names without white space,
  the rule that \<open>build_target_profile\<close> builds passes the validation of \<open>write_targets\<close> when it has a single
  port or none; with a range of ports it is always refused there, because the parser also gives the rule a port of
  zero and the validation forbids a port next to a range.\<close>

theorem built_targets_writable:
  assumes "build_target_profile lib args = Inr profile" "lib_ok lib" "plain_names args"
  shows "validate_target_rule (pl_idna lib) profile = (if map_of profile ''port_start'' = None then Inr () else Inl ValueError)"
proof -
  from build_target_profile_parts [OF assms(1)] obtain p a b h s proto prio where v:
    "optional_name lib (py_get args ''hostname'' VNone) = Inr h" "optional_name lib (py_get args ''sni'' VNone) = Inr s"
    "valid_port p" "proto \<in> {0, 1, 2}" "0 \<le> prio \<and> prio \<le> 65535" "\<not> (h \<noteq> None \<and> s \<noteq> None)"
    "(h \<noteq> None \<or> s \<noteq> None) \<and> profile = apply_port_range a b (semantic_target_profile h s p proto prio)
     \<or> (\<exists>v f bs. pl_ip_address lib v = Some (f, bs)
          \<and> profile = apply_port_range a b (network_target_profile (f, bs, if f then 32 else 128) 1 p proto prio))
     \<or> (\<exists>v f bs n. pl_ip_network lib v = Some (f, bs, n) \<and> n \<le> (if f then 32 else 128)
          \<and> profile = apply_port_range a b (network_target_profile (f, bs, n) 2 p proto prio))" .
  from v(7) consider (names) "h \<noteq> None \<or> s \<noteq> None" "profile = apply_port_range a b (semantic_target_profile h s p proto prio)"
    | (host) x f bs where "pl_ip_address lib x = Some (f, bs)"
        "profile = apply_port_range a b (network_target_profile (f, bs, if f then 32 else 128) 1 p proto prio)"
    | (cidr) x f bs n where "pl_ip_network lib x = Some (f, bs, n)" "n \<le> (if f then 32 else 128)"
        "profile = apply_port_range a b (network_target_profile (f, bs, n) 2 p proto prio)" by blast
  then show ?thesis
  proof cases
    case names
    show ?thesis unfolding names(2) port_start_entry
      by (rule name_profile_validates [OF v(1,2) names(1) v(6)]) (use v(3-5) assms(3) in \<open>auto simp: plain_names_def\<close>)
  next
    case host
    have "length bs = (if f then 4 else 16)" using host(1) assms(2) unfolding lib_ok_def by blast
    from network_profile_validates [OF this, of "if f then 32 else 128" 1] v(3-5) show ?thesis unfolding host(2) port_start_entry by simp
  next
    case cidr
    have "length bs = (if f then 4 else 16)" using cidr(1) assms(2) unfolding lib_ok_def by blast
    from network_profile_validates [OF this cidr(2), of 2] v(3-5) show ?thesis unfolding cidr(3) port_start_entry by simp
  qed
qed

definition sample_lib :: PyLib where
  "sample_lib = \<lparr>pl_idna = (\<lambda>_. None), pl_ip_address = (\<lambda>v. if v = VStr ''10.0.0.1'' then Some (True, [10, 0, 0, 1]) else None),
     pl_ip_network = (\<lambda>_. None)\<rparr>"

theorem built_targets_writable_witness:
  "(\<exists>profile. build_target_profile sample_lib [(''host'', VStr ''10.0.0.1''), (''port'', VStr ''80-90'')] = Inr profile
      \<and> validate_target_rule (pl_idna sample_lib) profile = Inl ValueError)
   \<and> (\<exists>profile. build_target_profile sample_lib [(''hostname'', VStr ''db.local''), (''port'', VInt 80)] = Inr profile
      \<and> validate_target_rule (pl_idna sample_lib) profile = Inr ())"
proof
  have lib: "lib_ok sample_lib" by (simp add: lib_ok_def sample_lib_def)
  let ?args = "[(''host'', VStr ''10.0.0.1''), (''port'', VStr ''80-90'')]"
  let ?p = "apply_port_range (Some 80) (Some 90) (network_target_profile (True, [10, 0, 0, 1], 32) 1 0 0 100)"
  have "parse_port (VStr ''80-90'') = Inr (0, Some 80, Some 90)"
    by (simp add: parse_port_def parse_eval parse_single_port_def valid_port_def)
  then have b: "build_target_profile sample_lib ?args = Inr ?p"
    by (simp add: build_target_profile_def py_get_def parse_target_protocol_def optional_name_def valid_port_def parse_priority_def
        sample_lib_def Let_def)
  have "plain_names ?args" by (simp add: plain_names_def py_get_def)
  from built_targets_writable [OF b lib this] have "validate_target_rule (pl_idna sample_lib) ?p = Inl ValueError"
    by (simp add: port_start_entry port_entries_def)
  with b show "\<exists>profile. build_target_profile sample_lib ?args = Inr profile \<and> validate_target_rule (pl_idna sample_lib) profile = Inl ValueError"
    by blast
  let ?args = "[(''hostname'', VStr ''db.local''), (''port'', VInt 80)]"
  let ?p = "apply_port_range None None (semantic_target_profile (Some ''db.local'') None 80 0 100)"
  have "normalize_target_name (\<lambda>_. None) ''db.local'' = Inr ''db.local''"
    by (simp add: normalize_target_name_def py_string_eval py_count_def idna_encode_def is_ascii_def py_rstrip_def TARGET_NAME_MAX_BYTES_def Let_def)
  then have b: "build_target_profile sample_lib ?args = Inr ?p"
    by (simp add: build_target_profile_def py_get_def parse_target_protocol_def optional_name_def valid_port_def parse_priority_def
        parse_port_def sample_lib_def Let_def)
  have "plain_names ?args" by (simp add: plain_names_def py_get_def plain_name_def code_point_def py_space_def)
  from built_targets_writable [OF b lib this] have "validate_target_rule (pl_idna sample_lib) ?p = Inr ()"
    by (simp add: port_start_entry port_entries_def)
  with b show "\<exists>profile. build_target_profile sample_lib ?args = Inr profile \<and> validate_target_rule (pl_idna sample_lib) profile = Inr ()"
    by blast
qed

end
