(* ===== verification/Target_Name_Agreement.thy ===== *)
theory Target_Name_Agreement
  imports Target_Profile_Properties Interceptor_Bridge
begin

text \<open>
  Names in the two languages: Python normalises the name of a target (\<open>normalize_target_name\<close>) and stores it in 32
  bytes, Rust normalises the names it observes (\<open>normalize_semantic_name\<close>) and compares them with what it reads of
  those bytes (\<open>rule_name\<close>). For names of printable ASCII characters the two agree.
\<close>

section \<open>The bytes of a name\<close>

definition canonical :: "string \<Rightarrow> string" where
  "canonical s = py_rstrip (CHR ''.'') (py_lower s)"

lemma code_point_less: "code_point c < 256"
  by (simp add: code_point_def)

lemma unat_code_point: "unat (of_nat (code_point c) :: u8) = code_point c"
  using code_point_less [of c] by (simp add: unat_of_nat)

lemma byte_eq_iff: "(of_nat (code_point c) :: u8) = of_nat (code_point d) \<longleftrightarrow> c = d"
  using unat_code_point [of c] unat_code_point [of d] by (metis code_point_inj)

lemma byte_dot: "(of_nat (code_point c) :: u8) = 0x2E \<longleftrightarrow> c = CHR ''.''"
  using byte_eq_iff [of c "CHR ''.''"] by (simp add: code_point_def)

lemma byte_star: "(of_nat (code_point c) :: u8) = 0x2A \<longleftrightarrow> c = CHR ''*''"
  using byte_eq_iff [of c "CHR ''*''"] by (simp add: code_point_def)

lemma ascii_bytes_simps [simp]: "ascii_bytes [] = []" "ascii_bytes (s @ t) = ascii_bytes s @ ascii_bytes t" "ascii_bytes (rev s) = rev (ascii_bytes s)"
  "ascii_bytes s = [] \<longleftrightarrow> s = []" "length (ascii_bytes s) = length s"
  by (simp_all add: ascii_bytes_def rev_map)

lemma ascii_bytes_eq_iff: "ascii_bytes s = ascii_bytes t \<longleftrightarrow> s = t"
  unfolding ascii_bytes_def by (rule inj_map_eq_map) (simp add: inj_on_def byte_eq_iff)

lemma lowercase_bytes: "is_ascii s \<Longrightarrow> to_ascii_lowercase (ascii_bytes s) = ascii_bytes (py_lower s)"
proof -
  have "ascii_lower (of_nat (code_point c)) = of_nat (code_point (py_lower_char c))" if "code_point c < 128" for c
  proof -
    have "(0x41 \<le> (of_nat (code_point c) :: u8)) = (65 \<le> code_point c)" "((of_nat (code_point c) :: u8) \<le> 0x5A) = (code_point c \<le> 90)"
      by (simp_all add: word_le_nat_alt unat_code_point)
    then show ?thesis by (simp add: ascii_lower_def code_point_lower [OF that])
  qed
  then show "is_ascii s \<Longrightarrow> to_ascii_lowercase (ascii_bytes s) = ascii_bytes (py_lower s)"
    by (simp add: to_ascii_lowercase_def ascii_bytes_def py_lower_def is_ascii_def)
qed

lemma trim_dots_bytes: "trim_end_dots (ascii_bytes s) = ascii_bytes (py_rstrip (CHR ''.'') s)"
proof -
  have "dropWhile (\<lambda>b. b = 0x2E) (ascii_bytes t) = ascii_bytes (dropWhile (\<lambda>d. d = CHR ''.'') t)" for t
    by (induction t) (simp_all add: ascii_bytes_def byte_dot)
  then show ?thesis by (simp add: trim_end_dots_def py_rstrip_def flip: ascii_bytes_simps(3))
qed

lemma rstrip_lower: "is_ascii s \<Longrightarrow> py_lower (py_rstrip (CHR ''.'') s) = canonical s"
proof -
  assume a: "is_ascii s"
  have "(py_lower_char c = CHR ''.'') = (c = CHR ''.'')" if "c \<in> set s" for c
    using a that by (intro lower_char_eq_iff) (simp_all add: is_ascii_def code_point_def)
  then have "dropWhile (\<lambda>d. d = CHR ''.'') (map py_lower_char t) = map py_lower_char (dropWhile (\<lambda>d. d = CHR ''.'') t)"
    if "set t \<subseteq> set s" for t
    using that by (induction t) auto
  from this [of "rev s"] show ?thesis by (simp add: canonical_def py_rstrip_def py_lower_def rev_map)
qed

section \<open>White space\<close>

lemma trim_front_fixed: "\<forall>w \<in> set ws. str_strip_prefix w s = None \<Longrightarrow> trim_front ws n s = s"
proof -
  assume "\<forall>w \<in> set ws. str_strip_prefix w s = None"
  then have "find (\<lambda>w. str_strip_prefix w s \<noteq> None) ws = None" by (simp add: find_None_iff)
  then show ?thesis by (cases n) simp_all
qed

lemma plain_bytes:
  assumes "plain_name s" "b \<in> set (ascii_bytes s)"
  shows "b \<noteq> 0" "b \<le> 0x7F" "b \<notin> {0x09, 0x0A, 0x0B, 0x0C, 0x0D, 0x20}"
proof -
  obtain c where c: "b = of_nat (code_point c)" "0 < code_point c" "code_point c < 128" "\<not> py_space c"
    using assms by (auto simp: plain_name_def ascii_bytes_def)
  have "unat b = code_point c" by (simp add: c(1) unat_code_point)
  then show "b \<noteq> 0" "b \<le> 0x7F" "b \<notin> {0x09, 0x0A, 0x0B, 0x0C, 0x0D, 0x20}"
    using c(2-4) by (auto simp: word_le_nat_alt py_space_def Let_def)
qed

lemma space_not_prefix:
  assumes "w \<noteq> []" "hd w \<in> {0x09, 0x0A, 0x0B, 0x0C, 0x0D, 0x20} \<or> 0x80 \<le> hd w"
    and "\<forall>b \<in> set s. b \<le> (0x7F :: u8) \<and> b \<notin> {0x09, 0x0A, 0x0B, 0x0C, 0x0D, 0x20}"
  shows "str_strip_prefix w s = None"
proof (rule ccontr)
  assume "str_strip_prefix w s \<noteq> None"
  then obtain r where "s = w @ r" by (auto simp: str_strip_prefix_Some)
  then have "hd w \<in> set s" using assms(1) by simp
  with assms(2,3) show False by (fastforce simp: word_le_nat_alt)
qed

lemma trim_plain: "plain_name s \<Longrightarrow> str_trim (ascii_bytes s) = ascii_bytes s"
proof -
  assume s: "plain_name s"
  have w: "\<forall>w \<in> set white_space. w \<noteq> [] \<and> (hd w \<in> {0x09, 0x0A, 0x0B, 0x0C, 0x0D, 0x20} \<or> 0x80 \<le> hd w)
      \<and> (hd (rev w) \<in> {0x09, 0x0A, 0x0B, 0x0C, 0x0D, 0x20} \<or> 0x80 \<le> hd (rev w))"
    by (simp add: white_space_def)
  have b: "\<forall>b \<in> set (ascii_bytes s). b \<le> 0x7F \<and> b \<notin> {0x09, 0x0A, 0x0B, 0x0C, 0x0D, 0x20}"
    using plain_bytes [OF s] by blast
  have "trim_front white_space n (ascii_bytes s) = ascii_bytes s" for n
    by (rule trim_front_fixed) (use w b space_not_prefix in blast)
  moreover have "trim_front (map rev white_space) n (rev (ascii_bytes s)) = rev (ascii_bytes s)" for n
  proof (rule trim_front_fixed, intro ballI)
    fix v assume "v \<in> set (map rev white_space)"
    then obtain w where "w \<in> set white_space" "v = rev w" by auto
    with w b show "str_strip_prefix v (rev (ascii_bytes s)) = None" by (intro space_not_prefix) auto
  qed
  ultimately show ?thesis by (simp add: str_trim_def Let_def)
qed

section \<open>The two normal forms\<close>

lemma plain_ascii: "plain_name s \<Longrightarrow> is_ascii s"
  by (simp add: plain_name_def is_ascii_def)

lemma observed_canonical:
  assumes "plain_name s"
  shows "normalize_semantic_name (ascii_bytes s) = (if canonical s = [] then None else Some (ascii_bytes (canonical s)))"
proof -
  have "is_ascii (py_rstrip (CHR ''.'') s)"
    using plain_ascii [OF assms] set_rstrip [of "CHR ''.''" s] by (auto simp: is_ascii_def)
  then show ?thesis
    using rstrip_lower [OF plain_ascii [OF assms]]
    by (simp add: normalize_semantic_name_def trim_plain [OF assms] trim_dots_bytes lowercase_bytes Let_def)
qed

lemma canonical_plain: "plain_name s \<Longrightarrow> plain_name (canonical s)"
  unfolding canonical_def by (rule plain_sub [OF set_rstrip plain_lower])

lemma stored_name:
  assumes "plain_name n" "n \<noteq> []"
  shows "rule_name (ljust 32 (ascii_bytes n)) = Some (ascii_bytes n)"
proof -
  have "takeWhile (\<lambda>b. b \<noteq> 0) (ljust 32 (ascii_bytes n)) = ascii_bytes n"
    unfolding ljust_def using plain_bytes(1) [OF assms(1)] by (subst takeWhile_append2) (auto simp: takeWhile_replicate)
  moreover have "utf8_valid (ascii_bytes n)" using plain_bytes(2) [OF assms(1)] by (intro utf8_valid_ascii) blast
  ultimately show ?thesis using assms(2) by (simp add: rule_name_def)
qed

lemma exact_name_stored:
  assumes "plain_name t" "CHR ''*'' \<notin> set t" "encode_target_name_bytes ext (VStr t) = Inr bs"
  shows "rule_name bs = Some (ascii_bytes (canonical t))" "canonical t \<noteq> []"
proof -
  have "\<not> py_startswith t ''*.''" using assms(2) by (auto simp: py_startswith_def dest: in_set_takeD) (metis in_set_takeD list.set_intros(1))
  then have n: "canonical t \<noteq> []" "bs = ljust 32 (ascii_bytes (canonical t))"
    using assms(2,3)
    by (auto simp: encode_target_name_bytes_def normalize_target_name_def plain_strip [OF assms(1)] Let_def idna_encode_def
        plain_ascii [OF assms(1)] TARGET_NAME_MAX_BYTES_def canonical_def py_bind_def split: if_splits sum.splits)
  show "rule_name bs = Some (ascii_bytes (canonical t))" unfolding n(2) by (rule stored_name [OF canonical_plain [OF assms(1)] n(1)])
  show "canonical t \<noteq> []" by (rule n(1))
qed

lemma wildcard_name_stored:
  assumes "plain_name t" "encode_target_name_bytes ext (VStr (''*.'' @ t)) = Inr bs"
  shows "rule_name bs = Some (0x2A # 0x2E # ascii_bytes (canonical t))"
proof -
  have p: "plain_name (''*.'' @ t)" using assms(1) by (auto simp: plain_name_def code_point_def py_space_def Let_def)
  have c: "bs = ljust 32 (ascii_bytes (''*.'' @ canonical t))"
    using assms(2)
    by (auto simp: encode_target_name_bytes_def normalize_target_name_def plain_strip [OF p, simplified] Let_def idna_encode_def
        plain_ascii [OF assms(1)] TARGET_NAME_MAX_BYTES_def canonical_def py_bind_def py_startswith_def split: if_splits sum.splits)
  have "plain_name (''*.'' @ canonical t)"
    using canonical_plain [OF assms(1)] by (auto simp: plain_name_def code_point_def py_space_def Let_def)
  from stored_name [OF this] show ?thesis unfolding c by (simp add: ascii_bytes_def code_point_def)
qed

section \<open>Matching\<close>

lemma exact_score:
  assumes "CHR ''*'' \<notin> set n" "n \<noteq> []"
  shows "match_name_score (ascii_bytes n) (if u = [] then None else Some (ascii_bytes u)) = (if u = n then Some 2 else None)"
proof -
  have "wildcard_suffix (ascii_bytes n) = None"
    using assms by (cases n) (auto simp: wildcard_suffix_def str_strip_prefix_def ascii_bytes_def byte_star)
  then show ?thesis using assms(2) by (auto simp: match_name_score_def ascii_bytes_eq_iff)
qed

lemma wildcard_score:
  "match_name_score (0x2A # 0x2E # ascii_bytes n) (if u = [] then None else Some (ascii_bytes u)) =
     (if \<exists>pre. u = pre @ CHR ''.'' # n then Some 1 else None)"
proof -
  have dot: "0x2E # ascii_bytes n = ascii_bytes (CHR ''.'' # n)" by (simp add: ascii_bytes_def code_point_def)
  have "wildcard_matches (ascii_bytes n) (ascii_bytes u) \<longleftrightarrow> (\<exists>r. ascii_bytes u = r @ 0x2E # ascii_bytes n)"
    by (auto simp: wildcard_matches_def str_ends_with_iff str_strip_suffix_Some split: option.split)
       (metis append.assoc append_Cons append_Nil option.distinct(1) str_strip_suffix_Some)
  also have "\<dots> \<longleftrightarrow> (\<exists>pre. u = pre @ CHR ''.'' # n)"
  proof
    assume "\<exists>r. ascii_bytes u = r @ 0x2E # ascii_bytes n"
    then obtain r where r: "ascii_bytes u = r @ ascii_bytes (CHR ''.'' # n)" by (auto simp: dot)
    then have len: "length r \<le> length u" by (metis ascii_bytes_simps(5) le_add1 length_append)
    have "ascii_bytes u = ascii_bytes (take (length r) u) @ ascii_bytes (drop (length r) u)"
      by (simp flip: ascii_bytes_simps(2))
    with r len have "ascii_bytes (drop (length r) u) = ascii_bytes (CHR ''.'' # n)" by simp
    then have "drop (length r) u = CHR ''.'' # n" by (simp only: ascii_bytes_eq_iff)
    then show "\<exists>pre. u = pre @ CHR ''.'' # n" by (metis append_take_drop_id)
  next
    assume "\<exists>pre. u = pre @ CHR ''.'' # n"
    then show "\<exists>r. ascii_bytes u = r @ 0x2E # ascii_bytes n" by (auto simp: dot)
  qed
  finally show ?thesis by (auto simp: match_name_score_def wildcard_suffix_def str_strip_prefix_def)
qed

text \<open>A rule by host name: enabled, without a server name, and without filters on protocol and port.\<close>

definition host_rule :: "TargetRule \<Rightarrow> bool" where
  "host_rule rule \<longleftrightarrow> tr_enabled rule \<noteq> 0 \<and> rule_name (tr_sni rule) = None \<and> tr_kind rule = 0
     \<and> tr_protocol rule = 0 \<and> tr_port rule = 0 \<and> tr_reserved rule = 0"

lemma host_rule_class:
  assumes "host_rule rule" "rule_name (tr_hostname rule) = Some n"
  shows "rule_match_class rule ep \<lparr>sem_hostname = c, sem_sni = x\<rparr> = map_option (\<lambda>score. score + 1) (match_name_score n c)"
  using assms by (simp add: rule_match_class_def host_rule_def Let_def)

text \<open>C12. Python and Rust agree on names: let a target name the host \<open>t\<close>, and let the program look up the host \<open>u\<close>, both of
  printable ASCII characters without blanks. The bytes that Python stores for \<open>t\<close> make the rule match in the interceptor exactly
  when the two names are equal up to case and trailing dots; the bytes for \<open>*.t\<close> make it match exactly when \<open>u\<close> is,
  in that sense, a name below \<open>t\<close>, at a boundary of labels and with the lower strength.\<close>

theorem names_agree:
  assumes "plain_name t" "plain_name u" "CHR ''*'' \<notin> set t" "host_rule rule"
  shows "(encode_target_name_bytes ext (VStr t) = Inr (tr_hostname rule) \<longrightarrow>
      rule_match_class rule ep \<lparr>sem_hostname = normalize_semantic_name (ascii_bytes u), sem_sni = x\<rparr> =
        (if canonical u = canonical t then Some 3 else None))
    \<and> (encode_target_name_bytes ext (VStr (''*.'' @ t)) = Inr (tr_hostname rule) \<longrightarrow>
      rule_match_class rule ep \<lparr>sem_hostname = normalize_semantic_name (ascii_bytes u), sem_sni = x\<rparr> =
        (if \<exists>pre. canonical u = pre @ CHR ''.'' # canonical t then Some 2 else None))"
proof (intro conjI impI)
  assume e: "encode_target_name_bytes ext (VStr t) = Inr (tr_hostname rule)"
  note n = exact_name_stored [OF assms(1,3) e]
  have "set (canonical t) \<subseteq> set (py_lower t)" unfolding canonical_def by (rule set_rstrip)
  then have star: "CHR ''*'' \<notin> set (canonical t)" using star_lower [OF assms(1)] assms(3) by blast
  show "rule_match_class rule ep \<lparr>sem_hostname = normalize_semantic_name (ascii_bytes u), sem_sni = x\<rparr> =
      (if canonical u = canonical t then Some 3 else None)"
    unfolding host_rule_class [OF assms(4) n(1)] observed_canonical [OF assms(2)] exact_score [OF star n(2)] by simp
next
  assume "encode_target_name_bytes ext (VStr (''*.'' @ t)) = Inr (tr_hostname rule)"
  note n = wildcard_name_stored [OF assms(1) this]
  show "rule_match_class rule ep \<lparr>sem_hostname = normalize_semantic_name (ascii_bytes u), sem_sni = x\<rparr> =
      (if \<exists>pre. canonical u = pre @ CHR ''.'' # canonical t then Some 2 else None)"
    unfolding host_rule_class [OF assms(4) n] observed_canonical [OF assms(2)] wildcard_score by simp
qed

definition name_rule :: "bytes \<Rightarrow> TargetRule" where
  "name_rule bs = TargetRule_default\<lparr>tr_enabled := 1, tr_hostname := bs\<rparr>"

theorem names_agree_witness:
  "\<exists>exact wild. encode_target_name_bytes (\<lambda>_. None) (VStr ''db.local'') = Inr exact
     \<and> encode_target_name_bytes (\<lambda>_. None) (VStr ''*.db.local'') = Inr wild
     \<and> rule_match_class (name_rule exact) None \<lparr>sem_hostname = normalize_semantic_name (ascii_bytes ''db.local.''), sem_sni = None\<rparr> = Some 3
     \<and> rule_match_class (name_rule wild) None \<lparr>sem_hostname = normalize_semantic_name (ascii_bytes ''a.db.local''), sem_sni = None\<rparr> = Some 2
     \<and> rule_match_class (name_rule wild) None \<lparr>sem_hostname = normalize_semantic_name (ascii_bytes ''db.local''), sem_sni = None\<rparr> = None"
proof -
  note names = normalize_target_name_def py_string_eval py_count_def idna_encode_def is_ascii_def py_rstrip_def TARGET_NAME_MAX_BYTES_def Let_def
  obtain exact wild where e: "encode_target_name_bytes (\<lambda>_. None) (VStr ''db.local'') = Inr exact"
    "encode_target_name_bytes (\<lambda>_. None) (VStr (''*.'' @ ''db.local'')) = Inr wild"
    by (simp add: encode_target_name_bytes_def names)
  have p: "plain_name ''db.local''" "plain_name ''db.local.''" "plain_name ''a.db.local''" "CHR ''*'' \<notin> set ''db.local''"
    by (simp_all add: plain_name_def code_point_def py_space_def)
  have r: "host_rule (name_rule bs)" for bs by (simp add: host_rule_def name_rule_def TargetRule_default_def rule_name_def)
  have c: "canonical ''db.local'' = ''db.local''" "canonical ''db.local.'' = ''db.local''" "canonical ''a.db.local'' = ''a.db.local''"
    by (simp_all add: canonical_def py_rstrip_def py_string_eval)
  have h: "tr_hostname (name_rule bs) = bs" for bs by (simp add: name_rule_def)
  have "\<exists>pre. ''a.db.local'' = pre @ CHR ''.'' # ''db.local''" by (rule exI [of _ "''a''"]) simp
  moreover have "\<not> (\<exists>pre. ''db.local'' = pre @ CHR ''.'' # ''db.local'')" by (auto dest: arg_cong [of _ _ length])
  ultimately show ?thesis
    using names_agree [OF p(1,2,4) r, of "\<lambda>_. None" exact None None] names_agree [OF p(1,3,4) r, of "\<lambda>_. None" wild None None]
      names_agree [OF p(1,1,4) r, of "\<lambda>_. None" wild None None] e
    by (auto simp only: h c simp_thms if_True if_False append.simps)
qed

end
