(* ===== verification/Spec2Isabelle.thy ===== *)
theory Spec2Isabelle
  imports Socket_Properties Shm_Seqlock Symbol_Lookup R3_Concurrency
    Policy_In_Force Target_Writer_Properties Target_Name_Agreement
begin

text \<open>
  A verification development for faultcore, a fault injector for network programs.

  \<^bold>\<open>The program.\<close> A Python package writes policies into a shared-memory table; a preloaded library
  (\<open>faultcore_interceptor\<close>) hooks the socket calls of the program under test and asks the crate
  \<open>faultcore_network\<close> what to do with each of them. For a call the bridge finds the row of the thread that owns the
  descriptor, selects a target rule, applies the schedule, and hands the resulting configuration to
  the engine; the engine runs its stages (R1 session guard, R2 loss and latency, R3 bandwidth, R4 jitter, R5
  transport errors, R6 resolver faults, R7 payload mutation, R8 duplication and reordering) and
  answers with a decision; the interceptor runtime turns the decision into an errno, a sleep, a staged datagram
  or the real call. Decisions can be recorded to a file and replayed.

  \<^bold>\<open>Theories and sources\<close> (under \<open>src/faultcore_network/src\<close> unless said otherwise).
  \<^item> \<open>Faultcore_Prelude\<close>: machine integers, saturating arithmetic, the first maximum of a list, shared lemmas.
  \<^item> \<open>F64_Rounding\<close>: the binary64 rounding behind every \<open>f64\<close> computation of the sources.
  \<^item> \<open>Net_Config\<close> (\<open>lib.rs\<close>): \<open>Config\<close>, direction overrides, target matching, schedules.
  \<^item> \<open>Layer_Types\<close> (\<open>layers/mod.rs\<close>): decisions, contexts, the interfaces \<open>pipeline_layer\<close> and \<open>fd_scoped\<close>.
  \<^item> \<open>Layer_Rng\<close>: the seeded and policy-seeded draws that R2, R4, R5 and R6 share.
  \<^item> \<open>R1_Session_Guard\<close> to \<open>R7_Payload_Transform\<close> (\<open>layers/r1_*.rs\<close> to \<open>layers/r7_*.rs\<close>): one stage each; \<open>R3_Concurrency\<close>: the
    token bucket of R3 at the granularity of its atomic accesses.
  \<^item> \<open>Observability\<close> (\<open>observability.rs\<close>): histogram, percentiles, fault counters, rule hits.
  \<^item> \<open>Chaos_Engine\<close>, \<open>Engine_Properties\<close> (\<open>chaos_engine.rs\<close>): the pipeline, its five evaluations, and what spans stages.
  \<^item> \<open>Interceptor_Runtime\<close> (\<open>runtime.rs\<close>): reorder queues, non-blocking delays, staged datagrams, directives.
  \<^item> \<open>Record_Replay\<close> (\<open>record_replay.rs\<close>): recording and replaying decisions.
  \<^item> \<open>Shm_Contract\<close>, \<open>Shm_Runtime\<close>, \<open>Shm_Seqlock\<close> (\<open>shm_contract.rs\<close>, \<open>shm_runtime.rs\<close>): the row and its validation, the
    table, and the generation protocol between processes.
  \<^item> \<open>Text_Bytes\<close>: Rust's \<open>str\<close> operations on UTF-8 bytes.
  \<^item> \<open>Socket_Runtime\<close> (\<open>socket_runtime.rs\<close>): endpoints of sockets and addresses.
  \<^item> \<open>Interceptor_Bridge\<close>, \<open>Bridge_Properties\<close> (\<open>interceptor_bridge.rs\<close>): observed names, target rules, the configuration of a call.
  \<^item> \<open>Setpriority_Compat\<close> (\<open>setpriority_compat.rs\<close>): the \<open>setpriority\<close> entry.
  \<^item> \<open>Tls_Sni\<close> (\<open>faultcore_interceptor/src/lib.rs\<close>): the ClientHello parser.
  \<^item> \<open>Global_Metrics\<close> (\<open>lib.rs\<close> and the exported \<open>faultcore_*\<close> symbols): the snapshot that crosses the C boundary, its reset.

  The rest models \<open>faultcore_interceptor/src/lib.rs\<close>.
  \<^item> \<open>Symbol_Lookup\<close>: how the wrapped originals are found.
  \<^item> \<open>Interceptor_Process\<close>, \<open>Process_Frames\<close>, \<open>Detached_Process\<close>: the process the hooks run in (guard, initialisation, recording, duplicates,
    OpenSSL tables), what its steps leave alone, and a process without a shared segment.
  \<^item> \<open>Uplink_Hooks\<close>, \<open>Uplink_Properties\<close>: \<open>handle_uplink_send\<close>, \<open>send\<close>, \<open>write\<close>, \<open>sendto\<close>, and the abstract step they refine.
  \<^item> \<open>Downlink_Hooks\<close>, \<open>Downlink_Properties\<close>: \<open>handle_downlink_recv\<close>, \<open>read\<close>, \<open>recv\<close>, \<open>recvfrom\<close>, likewise.
  \<^item> \<open>Socket_Hooks\<close>, \<open>Socket_Properties\<close>: the hooks on descriptors, names and OpenSSL handles, \<open>setpriority\<close>.
  \<^item> \<open>Hook_Transparency\<close>: all seventeen hooks as one interface; transparency and the guard.

  The Python package (\<open>src/faultcore\<close>), which fills the table:
  \<^item> \<open>Python_Values\<close>: the values, exceptions, strings, numerals and floats of Python that its modules use.
  \<^item> \<open>Shm_Layout\<close> (\<open>shm_contract.rs\<close>, \<open>shm_runtime.rs\<close>): the bytes of the segment and the table they stand for.
  \<^item> \<open>Target_Rule_Helpers\<close> (\<open>target_rule_helpers.py\<close>, \<open>target_name_helpers.py\<close>): names, addresses, port ranges of a rule.
  \<^item> \<open>Shm_Writer\<close>, \<open>Row_Cells\<close>, \<open>Shm_Writer_Refinement\<close> (\<open>shm_writer.py\<close>): the writer on bytes, that its offsets are those of the
    Rust structs, and that its updates are those of the Rust table.
  \<^item> \<open>Target_Writer_Properties\<close>: what the interceptor reads of the rules that were written.
  \<^item> \<open>Target_Name_Agreement\<close>: that the names Python stores match the names Rust observes.
  \<^item> \<open>Profile_Parsers\<close>, \<open>Unit_Parsing\<close>, \<open>Target_Profile_Properties\<close> (\<open>profile_parsers.py\<close>): the parsers, the exactness of units, and which
    built targets the writer accepts.
  \<^item> \<open>Policy_Registry\<close>, \<open>Policy_Properties\<close> (\<open>policy_registry.py\<close>): building and keeping policies, and the invariant of the registry.
  \<^item> \<open>Fault_Decorator\<close>, \<open>Decorator_Properties\<close> (\<open>decorator_helpers.py\<close>, \<open>decorator.py\<close>, \<open>policy_context.py\<close>): decorated calls and contexts, from
    the arguments of a policy to the configuration the interceptor reads, and what is left after the call.
  \<^item> \<open>Policy_Journey\<close>, \<open>Policy_In_Force\<close>: the whole way of a policy, from the text of \<open>register_policy\<close> through the decorated call to the
    configuration the bridge finds and the decision of the engine.

  \<^bold>\<open>Correspondence.\<close> Structs are records with the source's field names (prefixed where two structs share one), enums are
  datatypes, \<open>u8\<close> to \<open>u64\<close> are words, so wrapping and saturation are those of the code; each Rust function is a
  definition of the same name that takes the state it mutates and returns it. Locks make the guarded sections
  atomic, hence explicit state; where the code relies on less than a lock (the row generation, the
  two-step cleanup of the reorder table, the atomic counter of R3) the model is a step relation of single accesses. A panic is a
  value: \<^const>\<open>None\<close> in \<open>prefix_match\<close> and in the ClientHello parser, the predicate \<open>R4_panics\<close> in
  R4. Clock readings, thread ids and environment variables are arguments; \<open>rand\<close>, \<open>serde_json\<close>, the system calls and
  the file system are parameters, with the laws a theorem needs as its hypotheses. The hooks run over the record
  \<open>Process\<close>; libc, the kernel and OpenSSL are the parameter \<open>he_kernel\<close>, a function of the call and of their own
  state, and every call made is logged, so that what reaches the wire is a function of the log. The readings of the
  clock one hook takes are the fields of \<open>HookTimes\<close>; the memory a caller lends is a value passed in and out.
  On the Python side a dynamic value is a \<open>pyval\<close>, an exception the left part of a sum, and a method of the writer an update of the mapped
  bytes that keeps what an exception left behind; a decorated function is a step on the world of writer and registry. \<open>PyOs\<close> (opening and mapping
  the segment), \<open>PyLib\<close> (\<open>ipaddress\<close>, IDNA), \<open>PyFiles\<close> (JSON and YAML) and \<open>PyEnv\<close> (thread id, clock) are parameters.

  \<^bold>\<open>What is shown.\<close> Engine: the pipeline loop refines the combination of the stages' answers (first
  terminal decision, saturating sum of delays); every stage keeps descriptors apart, and so does the engine under any interleaving;
  outside the window of a schedule it is transparent; the counters are exact. Stages: byte
  budgets hold on every history, bursts drop exactly their length, the token bucket accounts for every
  bit (its retry loop ends under any interleaving and spends no token twice, but a concurrent refill can undo an acquisition), half-open connections fail exactly from their threshold, mutations have
  their exact shape, a policy seed reproduces its run. Tables: a
  published row is what its thread reads, never torn, never an invalid one. Bridge: rules match and are selected as their
  declarative reading says, from a single generation; observed names are found and expire. Runtime: the reorder queue loses and
  duplicates nothing, delays on non-blocking descriptors end, recorded runs replay. Hooks: the sending hooks refine
  \<open>uplink_step\<close> and the receiving hooks \<open>downlink_step\<close>, so that bytes are neither lost nor made up in either direction; where no
  policy can apply they are the original calls; the recursion guard is never leaked; a closed descriptor is forgotten (all but the
  loss state of R2); server names reach their descriptor; wrappers never find themselves; the exported metrics are those of
  the engine. Python: an update by the writer is the update of the Rust table, so a policy of scalar faults is what
  the interceptor reads while the function runs, in the units of the row, and target rules are read as they were written, with names that mean the same on both sides; afterwards the row reads as
  absent; the registry keeps its policies well formed; contexts are scoped; numbers with units are read exactly. Three kinds of
  policy are accepted and can never be applied, targets with a port range are refused when they are written, values above the limits of the row silence the whole policy,
  and a failed write hides the row: these are theorems too. The last section of this theory joins table, bridge and schedule.

  \<^bold>\<open>Interfaces.\<close> \<open>f64_rounding\<close> (interpreted by \<open>binary64\<close>), \<open>pipeline_layer\<close> (R2 to R6), \<open>fd_scoped\<close> (the
  descriptor tables of R1, R2, R5 and the engine), \<open>fifo_step\<close> (the reorder queue), \<open>binding_table\<close> (the owner table), \<open>uplink_calls\<close> (send, write, sendto), \<open>downlink_calls\<close>
  (read, recv, recvfrom), \<open>row_writer\<close> (what an update of the Python writer
  promises about the row; every list of fields is one).

  \<^bold>\<open>Bounds and fuel.\<close> The loops of the code with a literal bound (ten row readings, three rule-set rounds) carry
  that bound; every other loop is structural or has a measure. The row protocol assumes fewer than
  \<open>2\<^sup>6\<^sup>3\<close> publications, after which the generation wraps around; hit counts assume fewer than \<open>2\<^sup>6\<^sup>4\<close> hits. The Python writer
  computes the next generation on unbounded integers and \<open>struct.pack\<close> refuses one of 65 bits, so its theorems assume room for the generations they
  use (\<open>generation_room\<close>). Integers are read from floats exactly up to \<open>2\<^sup>5\<^sup>3\<close>.

  \<^bold>\<open>Not modelled.\<close> Two hooks of different threads interleave here only at the granularity of the step relations named above: within
  one hook of the model no other thread runs. \<open>SSL_get_fd\<close> is a function,
  not a stateful call; \<open>fcntl\<close> is a reading of the flags. A coroutine that is suspended is not interleaved with other
  code of its thread. Of the Python package the command line (\<open>cli.py\<close>), the report renderer (\<open>reporting\<close>) and the search for the native library
  (\<open>native.py\<close>), which start processes and handle files but touch neither table nor interceptor; tests, benchmarks and build files.
\<close>
section \<open>From the policy of a thread to the faults of a call\<close>

lemma configs_after_binding:
  assumes "shm_pointer s = Some m"
  shows "\<exists>m'. shm_pointer (clear_rule_for_fd f (clone_rule_for_fd f g (assign_rule_to_fd f tid s))) = Some m'
    \<and> sh_configs m' (MAX_FDS + i) = sh_configs m (MAX_FDS + i)"
  using assms by (auto simp: clear_rule_for_fd_def clone_rule_for_fd_def assign_rule_to_fd_def on_shm_def
      write_row_def fun_upd_def)

text \<open>C8. End to end: the faults of a connection are those of the thread that opened it. A thread
  publishes a valid policy without target rules, opens a descriptor, duplicates it and closes the
  original; whichever thread then uses the duplicate, and whatever its own policy is, the
  configuration that governs the call is the published one under its schedule.\<close>

theorem owner_policy_governs:
  assumes "table_open (br_shm b)" "covered_fd f" "covered_fd g" "f \<noteq> g"
    and "shm_pointer (br_shm b) = Some m" "update_config_for_tid owner mutate (br_shm b) = (ok, s)"
    and "row = written_row mutate (sh_configs m (MAX_FDS + tid_slot owner))"
    and "is_valid row" "target_enabled row = 0"
    and "b' = clear_fd_binding f (clone_fd_binding f g (bind_fd_to_current_thread owner f (b\<lparr>br_shm := s\<rparr>)))"
  shows "\<exists>gen. fst (runtime_config_for_fd os sos caller now1 now2 g b') =
    Some (apply_schedule ((into_network_config row)\<lparr>ruleset_generation := gen\<rparr>) now2)"
proof -
  have op: "shm_is_open (br_shm b)" using assms(1) by (simp add: table_open_def)
  from update_readback [OF assms(5) op assms(6,7), of os owner 0] obtain gen where
    own: "fst (get_config_for_tid os owner s) = Some (row\<lparr>ruleset_generation := gen\<rparr>)" using assms(8) by auto
  obtain m1 where s: "shm_pointer s = Some m1" "shm_is_open s"
    using assms(5,6) op by (auto simp: update_config_for_tid_def get_config_ptr_def on_shm_def split: option.splits)
  let ?s = "clear_rule_for_fd f (clone_rule_for_fd f g (assign_rule_to_fd f owner s))"
  have sh: "br_shm b' = ?s" using assms(2)
    by (simp add: assms(10) clear_fd_binding_def clone_fd_binding_def bind_fd_to_current_thread_def covered_fd_def)
  have t: "table_open s" using s by (simp add: table_open_def)
  note t' = owners.inv_ops(1) [OF t, of f owner]
  note t'' = owners.inv_ops(3) [OF t', of f g]
  have slot: "owner_slot os g ?s = Some (tid_slot owner)"
    using assms(2-4) by (simp add: owners.lookup_clear [OF t''] owners.lookup_clone [OF t'] owners.lookup_assign [OF t])
  have open': "table_open ?s" by (rule owners.inv_ops(2) [OF t''])
  then obtain m2 where m2: "shm_pointer ?s = Some m2" "shm_is_open ?s"
    "sh_configs m2 (MAX_FDS + tid_slot owner) = sh_configs m1 (MAX_FDS + tid_slot owner)"
    using configs_after_binding [OF s(1), of f g owner "tid_slot owner"] by (auto simp: table_open_def)
  have "read_stable_config (settled (sh_configs m2 (MAX_FDS + tid_slot owner))) = Some (row\<lparr>ruleset_generation := gen\<rparr>)"
    using own by (simp add: config_of_slot [OF s] m2(3))
  from owner_row_governs [OF m2(1,2) [folded sh] assms(3) slot [folded sh] this] assms(9) show ?thesis
    by (auto simp: into_network_config_generation)
qed

theorem owner_policy_governs_witness:
  "\<exists>c gen. fst (runtime_config_for_fd plain_os \<lparr>so_type = (\<lambda>_. None), so_peername = (\<lambda>_. None)\<rparr> 99 0 50 9
      (clear_fd_binding 5 (clone_fd_binding 5 9 (bind_fd_to_current_thread 42 5
        (open_bridge\<lparr>br_shm := snd (update_config_for_tid 42 (\<lambda>c. c\<lparr>latency_ns := 7\<rparr>) open_table)\<rparr>))))) =
     Some (c\<lparr>ruleset_generation := gen\<rparr>) \<and> latency_ns c = 7"
proof -
  let ?mut = "\<lambda>c. c\<lparr>latency_ns := 7\<rparr> :: FaultcoreConfig"
  let ?row = "written_row ?mut FaultcoreConfig_default"
  obtain ok s where u: "update_config_for_tid 42 ?mut (br_shm open_bridge) = (ok, s)" by (metis surj_pair)
  obtain m where m: "shm_pointer (br_shm open_bridge) = Some m" "sh_configs m = (\<lambda>_. FaultcoreConfig_default)"
    by (simp add: open_table_def open_bridge_def)
  have t: "table_open (br_shm open_bridge)" by (simp add: table_open_def open_table_def open_bridge_def)
  have v: "is_valid ?row" "target_enabled ?row = 0" "latency_ns ?row = 7" "schedule_type ?row = 0"
    by (simp_all add: is_valid_def written_row_def FaultcoreConfig_default_def MAX_LATENCY_NS_def
        MAX_BANDWIDTH_BPS_def MAX_TARGET_RULES_PER_TID_def)
  have fds: "covered_fd 5" "covered_fd 9" "(5 :: fd) \<noteq> 9" by (simp_all add: covered_fd_def MAX_FDS_def)
  have r: "?row = written_row ?mut (sh_configs m (MAX_FDS + tid_slot 42))" by (simp add: m(2))
  have sched: "apply_schedule ((into_network_config ?row)\<lparr>ruleset_generation := gen\<rparr>) 50 =
      (into_network_config ?row)\<lparr>ruleset_generation := gen\<rparr>" for gen
    using v(4) by (simp add: apply_schedule_def into_network_config_def)
  have l: "latency_ns (into_network_config ?row) = 7" using v(3) by (simp add: into_network_config_def)
  from owner_policy_governs [OF t fds m(1) u r v(1,2) refl,
      of plain_os "\<lparr>so_type = (\<lambda>_. None), so_peername = (\<lambda>_. None)\<rparr>" 99 0 50] u l
  show ?thesis unfolding sched by (auto simp: open_bridge_def)
qed

end
